(* ===== verification/Prelude.thy ===== *)
theory Prelude
  imports Main "HOL-Library.Word"
begin

text \<open>
  Shared vocabulary of the development: bytes and Go strings, the error values of the
  module (\<open>types/errors.go\<close> and the sentinel errors of the generated codec), results as
  sums, a state-and-error computation type for code that mutates the context and may
  return early, and the parts of Go's standard library the sources call
  (\<open>strings.Join\<close>, \<open>strings.Split\<close>, \<open>strings.Contains\<close>, \<open>copy\<close>, slices).
\<close>

named_theorems run_simps "equations that run a computation one step"
named_theorems frame "what an operation leaves unchanged"

section \<open>Bytes and strings\<close>

text \<open>
  A Go string is a sequence of bytes; HOL's \<open>string\<close> is a list of 8-bit characters, so the
  conversions \<open>[]byte(s)\<close> and \<open>string(b)\<close> are character-wise bijections.
\<close>

type_synonym byte = "8 word"
type_synonym bytes = "8 word list"
type_synonym u64 = "64 word"

definition byte_of_char :: "char \<Rightarrow> byte" where
  "byte_of_char c = word_of_nat (of_char c)"

definition char_of_byte :: "byte \<Rightarrow> char" where
  "char_of_byte b = char_of (unat b)"

definition bytes_of_string :: "string \<Rightarrow> bytes" where
  "bytes_of_string s = map byte_of_char s"

definition string_of_bytes :: "bytes \<Rightarrow> string" where
  "string_of_bytes b = map char_of_byte b"

lemma char_of_byte_of_char [simp]: "char_of_byte (byte_of_char c) = c"
proof -
  have "unat (word_of_nat (of_char c) :: byte) = of_char c"
    using nat_of_char_less_256 [of c] by (simp add: unat_of_nat)
  then show ?thesis by (simp add: char_of_byte_def byte_of_char_def)
qed

lemma byte_of_char_of_byte [simp]: "byte_of_char (char_of_byte b) = b"
proof -
  have "unat b < 256" using unsigned_less [of b] by simp
  then have "(of_char (char_of (unat b) :: char) :: nat) = unat b"
    by (simp only: of_char_of mod_less)
  then show ?thesis
    unfolding char_of_byte_def byte_of_char_def by (metis unsigned_word_eqI word_of_nat_eq_iff of_nat_unat ucast_id)
qed

lemma string_of_bytes_of_string [simp]: "string_of_bytes (bytes_of_string s) = s"
  by (simp add: string_of_bytes_def bytes_of_string_def comp_def)

lemma bytes_of_string_of_bytes [simp]: "bytes_of_string (string_of_bytes b) = b"
  by (simp add: string_of_bytes_def bytes_of_string_def comp_def)

lemma length_bytes_of_string [simp]: "length (bytes_of_string s) = length s"
  by (simp add: bytes_of_string_def)

lemma bytes_of_string_eq_iff [simp]: "bytes_of_string s = bytes_of_string t \<longleftrightarrow> s = t"
  by (metis string_of_bytes_of_string)

lemma bytes_of_string_Nil [simp]: "bytes_of_string [] = []"
  by (simp add: bytes_of_string_def)

lemma string_of_bytes_Nil [simp]: "string_of_bytes [] = []"
  by (simp add: string_of_bytes_def)

lemma bytes_of_string_append: "bytes_of_string (s @ t) = bytes_of_string s @ bytes_of_string t"
  by (simp add: bytes_of_string_def)

section \<open>Errors and results\<close>

text \<open>
  Errors are compared by identity in Go; \<open>errorsmod.Wrap\<close> keeps the identity of the wrapped
  sentinel, so a wrapped error is its sentinel here and the formatted text is dropped.
  The first group is \<open>types/errors.go\<close>; the second the Cosmos SDK sentinels the module
  returns itself; the third the errors of the generated protobuf code; \<open>ErrSDK\<close> stands
  for an error handed on from a call into the SDK, \<open>ErrText\<close> for a \<open>fmt.Errorf\<close> or
  \<open>errors.New\<close> value, and \<open>GoPanic\<close> for a run-time panic. \<open>ErrFuel\<close> is no error of
  the code: it marks an exhausted recursion bound, and is proved unreachable.
\<close>

datatype error =
    ErrDenomExists
  | ErrUnauthorized
  | ErrInvalidDenom
  | ErrInvalidCreator
  | ErrInvalidAuthorityMetadata
  | ErrInvalidGenesis
  | ErrSubdenomTooLong
  | ErrCreatorTooLong
  | ErrDenomDoesNotExist
  | ErrBurnFromModuleAccount
  | ErrTrackBeforeSendOutOfGas
  | ErrInvalidAddress
  | ErrInvalidCoins
  | ErrIntOverflow
  | ErrInvalidLength
  | ErrUnexpectedEndOfGroup
  | ErrUnexpectedEOF
  | ErrWrongWireType
  | ErrEndGroup
  | ErrIllegalTag
  | ErrIllegalWireType
  | ErrSDK string
  | ErrText string
  | GoPanic string
  | ErrFuel

text \<open>The ABCI codes under which \<open>types/errors.go\<close> registers the module's errors.\<close>

fun errorCode :: "error \<Rightarrow> nat option" where
  "errorCode ErrDenomExists = Some 2"
| "errorCode ErrUnauthorized = Some 3"
| "errorCode ErrInvalidDenom = Some 4"
| "errorCode ErrInvalidCreator = Some 5"
| "errorCode ErrInvalidAuthorityMetadata = Some 6"
| "errorCode ErrInvalidGenesis = Some 7"
| "errorCode ErrSubdenomTooLong = Some 8"
| "errorCode ErrCreatorTooLong = Some 9"
| "errorCode ErrDenomDoesNotExist = Some 10"
| "errorCode ErrBurnFromModuleAccount = Some 11"
| "errorCode ErrTrackBeforeSendOutOfGas = Some 12"
| "errorCode _ = None"

type_synonym 'a result = "error + 'a"

fun is_panic :: "error \<Rightarrow> bool" where
  "is_panic (GoPanic _) = True"
| "is_panic _ = False"

text \<open>\<open>if err != nil { return err }\<close> on pure results.\<close>

definition andThen :: "'a result \<Rightarrow> ('a \<Rightarrow> 'b result) \<Rightarrow> 'b result" where
  "andThen r f = (case r of Inl e \<Rightarrow> Inl e | Inr x \<Rightarrow> f x)"

lemma andThen_simps [simp, run_simps]:
  "andThen (Inl e) f = Inl e"
  "andThen (Inr x) f = f x"
  by (simp_all add: andThen_def)

lemma andThen_eq_Inr: "andThen r f = Inr y \<longleftrightarrow> (\<exists>x. r = Inr x \<and> f x = Inr y)"
  by (cases r) auto

lemma andThen_eq_Inl: "andThen r f = Inl e \<longleftrightarrow> r = Inl e \<or> (\<exists>x. r = Inr x \<and> f x = Inl e)"
  by (cases r) auto

lemma andThen_assoc: "andThen (andThen r f) g = andThen r (\<lambda>x. andThen (f x) g)"
  by (cases r) simp_all

lemma andThen_cong [fundef_cong]:
  "r = r' \<Longrightarrow> (\<And>x. r' = Inr x \<Longrightarrow> f x = g x) \<Longrightarrow> andThen r f = andThen r' g"
  by (cases r') auto

section \<open>Computations over a state\<close>

text \<open>
  Code that mutates the context and returns \<open>(value, error)\<close> is a function from the state
  to the result together with the state it leaves behind. An error keeps the effects made
  before it: undoing them is the business of the caller, as it is in the SDK.
\<close>

type_synonym ('s, 'a) action = "'s \<Rightarrow> 'a result \<times> 's"

definition retM :: "'a \<Rightarrow> ('s, 'a) action" where
  "retM x s = (Inr x, s)"

definition failM :: "error \<Rightarrow> ('s, 'a) action" where
  "failM e s = (Inl e, s)"

definition liftM :: "'a result \<Rightarrow> ('s, 'a) action" where
  "liftM r s = (r, s)"

definition getM :: "('s \<Rightarrow> 'a) \<Rightarrow> ('s, 'a) action" where
  "getM f s = (Inr (f s), s)"

definition modifyM :: "('s \<Rightarrow> 's) \<Rightarrow> ('s, unit) action" where
  "modifyM f s = (Inr (), f s)"

definition bindM :: "('s, 'a) action \<Rightarrow> ('a \<Rightarrow> ('s, 'b) action) \<Rightarrow> ('s, 'b) action" where
  "bindM m f s = (case m s of (Inl e, s') \<Rightarrow> (Inl e, s') | (Inr x, s') \<Rightarrow> f x s')"

definition guardM :: "bool \<Rightarrow> error \<Rightarrow> ('s, unit) action" where
  "guardM b e = (if b then retM () else failM e)"

lemma action_simps [run_simps]:
  "retM x s = (Inr x, s)"
  "failM e s = (Inl e, s)"
  "liftM r s = (r, s)"
  "getM f s = (Inr (f s), s)"
  "modifyM h s = (Inr (), h s)"
  by (simp_all add: retM_def failM_def liftM_def getM_def modifyM_def)

lemma bindM_runs [run_simps]:
  "m s = (Inr x, s') \<Longrightarrow> bindM m f s = f x s'"
  "m s = (Inl e, s') \<Longrightarrow> bindM m f s = (Inl e, s')"
  by (simp_all add: bindM_def)

lemma bindM_basic [run_simps]:
  "bindM (retM x) f s = f x s"
  "bindM (failM e) f s = (Inl e, s)"
  "bindM (getM h) f s = f (h s) s"
  "bindM (modifyM k) g s = g () (k s)"
  by (simp_all add: bindM_def action_simps)

lemma bindM_liftM [run_simps]:
  "bindM (liftM r) f s = (case r of Inl e \<Rightarrow> (Inl e, s) | Inr x \<Rightarrow> f x s)"
  by (simp add: bindM_def action_simps split: sum.split)

lemma bindM_guardM [run_simps]:
  "bindM (guardM b e) f s = (if b then f () s else (Inl e, s))"
  by (simp add: guardM_def bindM_basic)

lemma bindM_eq_Inr:
  "bindM m f s = (Inr y, t) \<longleftrightarrow> (\<exists>x s'. m s = (Inr x, s') \<and> f x s' = (Inr y, t))"
  by (auto simp: bindM_def split: prod.splits sum.splits)

lemma bindM_eq_Inl:
  "bindM m f s = (Inl e, t) \<longleftrightarrow>
    m s = (Inl e, t) \<or> (\<exists>x s'. m s = (Inr x, s') \<and> f x s' = (Inl e, t))"
  by (auto simp: bindM_def split: prod.splits sum.splits)

text \<open>A relation between the state before and after, kept by every computation built from parts
  that keep it.\<close>

definition keeps :: "('s \<Rightarrow> 's \<Rightarrow> bool) \<Rightarrow> ('s, 'a) action \<Rightarrow> bool" where
  "keeps R m \<longleftrightarrow> (\<forall>s. R s (snd (m s)))"

lemma keepsD: "keeps R m \<Longrightarrow> m s = (r, t) \<Longrightarrow> R s t"
  by (metis keeps_def snd_conv)

lemma keeps_bindM [frame]:
  assumes tr: "\<And>a b c. R a b \<Longrightarrow> R b c \<Longrightarrow> R a c"
    and m: "keeps R m" and f: "\<And>x. keeps R (f x)"
  shows "keeps R (bindM m f)"
  unfolding keeps_def
proof
  fix s
  obtain r t where mt: "m s = (r, t)" by (cases "m s")
  then have "R s t" using m by (rule keepsD [rotated])
  then show "R s (snd (bindM m f s))"
    using tr f mt by (cases r) (auto simp: bindM_def keeps_def)
qed

lemma keeps_basic [frame]:
  assumes "\<And>a. R a a"
  shows "keeps R (retM x)" and "keeps R (failM e)" and "keeps R (liftM r)" and "keeps R (getM h)"
    and "keeps R (guardM b e)"
  using assms by (simp_all add: keeps_def action_simps guardM_def)

lemma keeps_modifyM [frame]: "(\<And>a. R a (k a)) \<Longrightarrow> keeps R (modifyM k)"
  by (simp add: keeps_def action_simps)

section \<open>Go strings\<close>

text \<open>\<open>strings.Join(parts, sep)\<close> for a one-character separator.\<close>

fun strings_Join :: "string list \<Rightarrow> char \<Rightarrow> string" where
  "strings_Join [] sep = ''''"
| "strings_Join [s] sep = s"
| "strings_Join (s # t # ts) sep = s @ sep # strings_Join (t # ts) sep"

text \<open>\<open>strings.Split(s, sep)\<close> for a one-character separator: always at least one part.\<close>

fun strings_Split :: "string \<Rightarrow> char \<Rightarrow> string list" where
  "strings_Split [] sep = ['''']"
| "strings_Split (c # cs) sep =
    (if c = sep then '''' # strings_Split cs sep
     else (case strings_Split cs sep of [] \<Rightarrow> [[c]] | p # ps \<Rightarrow> (c # p) # ps))"

definition strings_Contains :: "string \<Rightarrow> char \<Rightarrow> bool" where
  "strings_Contains s c \<longleftrightarrow> c \<in> set s"

lemma strings_Split_not_Nil [simp]: "strings_Split s sep \<noteq> []"
  by (induction s) (auto split: list.split)

lemma strings_Split_no_sep: "sep \<notin> set s \<Longrightarrow> strings_Split s sep = [s]"
  by (induction s) auto

lemma strings_Split_append:
  "sep \<notin> set s \<Longrightarrow> strings_Split (s @ sep # t) sep = s # strings_Split t sep"
  by (induction s) (auto split: list.split)

lemma strings_Join_Split [simp]: "strings_Join (strings_Split s sep) sep = s"
proof (induction s)
  case Nil
  show ?case by simp
next
  case (Cons c s)
  obtain p ps where "strings_Split s sep = p # ps"
    by (cases "strings_Split s sep") auto
  with Cons show ?case by (cases ps) auto
qed

lemma strings_Split_Join:
  "ps \<noteq> [] \<Longrightarrow> (\<And>p. p \<in> set ps \<Longrightarrow> sep \<notin> set p) \<Longrightarrow> strings_Split (strings_Join ps sep) sep = ps"
proof (induction ps sep rule: strings_Join.induct)
  case (3 s t ts sep)
  then show ?case by (simp add: strings_Split_append)
qed (simp_all add: strings_Split_no_sep)

lemma strings_Split_parts: "p \<in> set (strings_Split s sep) \<Longrightarrow> sep \<notin> set p"
  by (induction s arbitrary: p) (auto split: list.splits if_splits)

lemma set_strings_Join:
  "set (strings_Join ps sep) \<subseteq> (\<Union>p \<in> set ps. set p) \<union> {sep}"
  by (induction ps sep rule: strings_Join.induct) auto

text \<open>Two strings with no separator that agree up to their first separator are equal.\<close>

lemma append_sep_eq_iff:
  assumes "sep \<notin> set s" and "sep \<notin> set t"
  shows "s @ sep # u = t @ sep # v \<longleftrightarrow> s = t \<and> u = v"
  using assms
proof (induction s arbitrary: t)
  case Nil
  then show ?case by (cases t) auto
next
  case (Cons c s)
  then show ?case by (cases t) auto
qed

end
