(* ===== verification/Wire.thy ===== *)
theory Wire
  imports Prelude
begin

text \<open>
  The runtime shared by the generated codec files \<open>types/*.pb.go\<close>. Each file carries its own
  copy of the same helpers (\<open>encodeVarintTx\<close>, \<open>sovTx\<close>, \<open>skipTx\<close>, the inlined varint loop,
  the field loop of \<open>Unmarshal\<close>); they are modelled once here. Writers fill a presized
  buffer from its end, as \<open>MarshalToSizedBuffer\<close> does; readers keep the index \<open>iNdEx\<close> and
  the 64-bit wrap-around of the length arithmetic. \<open>writes\<close> and \<open>reads\<close> give the
  contract of a writer and of a field reader, and the lemmas after them compose contracts the way the
  generated code composes fields.
\<close>

unbundle bit_operations_syntax

section \<open>Go integers\<close>

text \<open>Go's \<open>int\<close> is 64 bits wide; \<open>wrap64\<close> is the value an overflowing addition leaves.\<close>

definition wrap64 :: "int \<Rightarrow> int" where
  "wrap64 n = signed_take_bit 63 n"

lemma wrap64_id: "- (2 ^ 63) \<le> n \<Longrightarrow> n < 2 ^ 63 \<Longrightarrow> wrap64 n = n"
  unfolding wrap64_def by (rule signed_take_bit_int_eq_self) auto

text \<open>\<open>math/bits.Len64\<close>: the number of bits needed to write a number.\<close>

fun bit_len :: "nat \<Rightarrow> nat" where
  "bit_len n = (if n = 0 then 0 else Suc (bit_len (n div 2)))"

declare bit_len.simps [simp del]

definition Len64 :: "u64 \<Rightarrow> nat" where
  "Len64 x = bit_len (unat x)"

section \<open>Writing\<close>

text \<open>\<open>sovTx\<close>: the number of bytes of the varint of \<open>x\<close>.\<close>

definition sov :: "u64 \<Rightarrow> nat" where
  "sov x = (Len64 (x OR 1) + 6) div 7"

text \<open>\<open>dAtA[i] = b\<close>; an index out of range panics.\<close>

definition buf_set :: "bytes \<Rightarrow> int \<Rightarrow> byte \<Rightarrow> bytes result" where
  "buf_set d i b =
    (if 0 \<le> i \<and> i < int (length d) then Inr (d[nat i := b])
     else Inl (GoPanic ''index out of range''))"

lemma drop_bit_7_less: "(128 :: u64) \<le> v \<Longrightarrow> unat (drop_bit 7 v) < unat v"
proof -
  assume "(128 :: u64) \<le> v"
  then have "128 \<le> unat v" by (simp add: word_le_nat_alt)
  then show ?thesis by (simp add: drop_bit_eq_div unat_div)
qed

text \<open>The loop of \<open>encodeVarintTx\<close>.\<close>

function put_varint :: "bytes \<Rightarrow> int \<Rightarrow> u64 \<Rightarrow> bytes result" where
  "put_varint d off v =
    (if v \<ge> 128
     then andThen (buf_set d off (ucast (v AND 0x7F OR 0x80)))
            (\<lambda>d'. put_varint d' (off + 1) (drop_bit 7 v))
     else buf_set d off (ucast v))"
  by pat_completeness auto
termination
  by (relation "measure (\<lambda>(d, off, v). unat v)") (auto simp: drop_bit_7_less)

declare put_varint.simps [simp del]

definition encodeVarint :: "bytes \<Rightarrow> int \<Rightarrow> u64 \<Rightarrow> (bytes \<times> int) result" where
  "encodeVarint d offset v =
    (let base = offset - int (sov v)
     in andThen (put_varint d base v) (\<lambda>d'. Inr (d', base)))"

text \<open>
  A writer takes the buffer and the index \<open>i\<close> and returns both. \<open>put_slice\<close> is
  \<open>i -= len(s); copy(dAtA[i:], s)\<close>, \<open>put_byte\<close> is \<open>i--; dAtA[i] = b\<close>.
\<close>

type_synonym writer = "bytes \<times> int \<Rightarrow> (bytes \<times> int) result"

definition put_slice :: "bytes \<Rightarrow> writer" where
  "put_slice s = (\<lambda>(d, i).
    let i' = i - int (length s)
    in if 0 \<le> i' \<and> i' \<le> int (length d)
       then Inr (take (nat i') d @ take (length d - nat i') s @ drop (nat i' + length s) d, i')
       else Inl (GoPanic ''slice bounds out of range''))"

definition put_byte :: "byte \<Rightarrow> writer" where
  "put_byte b = (\<lambda>(d, i). andThen (buf_set d (i - 1) b) (\<lambda>d'. Inr (d', i - 1)))"

definition put_varint_at :: "u64 \<Rightarrow> writer" where
  "put_varint_at v = (\<lambda>(d, i). encodeVarint d i v)"

definition thenW :: "writer \<Rightarrow> writer \<Rightarrow> writer" where
  "thenW w1 w2 = (\<lambda>st. andThen (w1 st) w2)"

text \<open>A string field: \<open>if len(m.F) > 0 { ... }\<close>.\<close>

definition put_string_field :: "byte \<Rightarrow> string \<Rightarrow> writer" where
  "put_string_field tag s =
    (if length s > 0
     then thenW (put_slice (bytes_of_string s))
            (thenW (put_varint_at (of_nat (length s))) (put_byte tag))
     else Inr)"

text \<open>An element of a \<open>repeated string\<close> field, written whether or not it is empty.\<close>

definition put_string_elem :: "byte \<Rightarrow> string \<Rightarrow> writer" where
  "put_string_elem tag s =
    thenW (put_slice (bytes_of_string s))
      (thenW (put_varint_at (of_nat (length s))) (put_byte tag))"

text \<open>A \<open>uint64\<close> field: \<open>if m.F != 0 { ... }\<close>.\<close>

definition put_uint64_field :: "byte \<Rightarrow> u64 \<Rightarrow> writer" where
  "put_uint64_field tag v =
    (if v \<noteq> 0 then thenW (put_varint_at v) (put_byte tag) else Inr)"

text \<open>
  A nested message: \<open>size, err := m.F.MarshalToSizedBuffer(dAtA[:i])\<close> fills the end of the
  prefix, which aliases the buffer, then come the length and the tag. A marshaller takes the prefix
  and returns it filled, with the number of bytes it wrote.
\<close>

type_synonym marshaller = "bytes \<Rightarrow> (bytes \<times> int) result"

definition put_nested :: "marshaller \<Rightarrow> writer" where
  "put_nested mt = (\<lambda>(d, i).
    if 0 \<le> i \<and> i \<le> int (length d)
    then andThen (mt (take (nat i) d)) (\<lambda>(p, n).
           encodeVarint (p @ drop (nat i) d) (i - n) (of_int n))
    else Inl (GoPanic ''slice bounds out of range''))"

definition put_msg_field :: "byte \<Rightarrow> marshaller \<Rightarrow> writer" where
  "put_msg_field tag mt = thenW (put_nested mt) (put_byte tag)"

text \<open>
  \<open>for iNdEx := len(m.F) - 1; iNdEx >= 0; iNdEx--\<close>: the elements are written last to first.
\<close>

fun put_rev :: "('a \<Rightarrow> writer) \<Rightarrow> 'a list \<Rightarrow> writer" where
  "put_rev f [] = Inr"
| "put_rev f (x # xs) = thenW (put_rev f xs) (f x)"

text \<open>\<open>MarshalToSizedBuffer\<close>: \<open>i := len(dAtA)\<close>, the fields, \<open>return len(dAtA) - i\<close>.\<close>

definition sizedBuffer :: "writer \<Rightarrow> marshaller" where
  "sizedBuffer w d =
    andThen (w (d, int (length d))) (\<lambda>(d', i). Inr (d', int (length d') - i))"

text \<open>\<open>Marshal\<close>: a buffer of \<open>m.Size()\<close> bytes, filled, cut to the bytes written.\<close>

definition marshalWith :: "nat \<Rightarrow> marshaller \<Rightarrow> bytes result" where
  "marshalWith sz mt =
    andThen (mt (replicate sz 0)) (\<lambda>(d, n).
      if 0 \<le> n \<and> n \<le> int (length d) then Inr (take (nat n) d)
      else Inl (GoPanic ''slice bounds out of range''))"

section \<open>Reading\<close>

text \<open>
  The varint loop, inlined wherever a tag, a length or a \<open>uint64\<close> is read:
  \<open>for shift := uint(0); ; shift += 7\<close>.
\<close>

function read_varint :: "bytes \<Rightarrow> nat \<Rightarrow> nat \<Rightarrow> u64 \<Rightarrow> (u64 \<times> nat) result" where
  "read_varint d i shift acc =
    (if shift \<ge> 64 then Inl ErrIntOverflow
     else if i \<ge> length d then Inl ErrUnexpectedEOF
     else let b = d ! i; acc' = acc OR push_bit shift (ucast (b AND 0x7F))
          in if b < 0x80 then Inr (acc', Suc i)
             else read_varint d (Suc i) (shift + 7) acc')"
  by pat_completeness auto
termination
  by (relation "measure (\<lambda>(d, i, shift, acc). 64 - shift)") auto

declare read_varint.simps [simp del]

abbreviation read_u64 :: "bytes \<Rightarrow> nat \<Rightarrow> (u64 \<times> nat) result" where
  "read_u64 d i \<equiv> read_varint d i 0 0"

text \<open>The same loop in \<open>skipTx\<close> for a varint whose value is dropped.\<close>

function skip_varint :: "bytes \<Rightarrow> nat \<Rightarrow> nat \<Rightarrow> nat result" where
  "skip_varint d i shift =
    (if shift \<ge> 64 then Inl ErrIntOverflow
     else if i \<ge> length d then Inl ErrUnexpectedEOF
     else if d ! i < 0x80 then Inr (Suc i)
     else skip_varint d (Suc i) (shift + 7))"
  by pat_completeness auto
termination
  by (relation "measure (\<lambda>(d, i, shift). 64 - shift)") auto

declare skip_varint.simps [simp del]

text \<open>
  One step of \<open>skipTx\<close> after the tag: the index behind the value, which may have wrapped to a
  negative number, and the new nesting depth.
\<close>

definition skip_value :: "bytes \<Rightarrow> nat \<Rightarrow> nat \<Rightarrow> nat \<Rightarrow> (int \<times> nat) result" where
  "skip_value d wireType i depth =
    (if wireType = 0 then andThen (skip_varint d i 0) (\<lambda>j. Inr (int j, depth))
     else if wireType = 1 then Inr (wrap64 (int i + 8), depth)
     else if wireType = 2 then
       andThen (read_u64 d i) (\<lambda>(len, j).
         if sint len < 0 then Inl ErrInvalidLength
         else Inr (wrap64 (int j + sint len), depth))
     else if wireType = 3 then Inr (int i, depth + 1)
     else if wireType = 4 then
       (if depth = 0 then Inl ErrUnexpectedEndOfGroup else Inr (int i, depth - 1))
     else if wireType = 5 then Inr (wrap64 (int i + 4), depth)
     else Inl ErrIllegalWireType)"

fun skip_loop :: "nat \<Rightarrow> bytes \<Rightarrow> nat \<Rightarrow> nat \<Rightarrow> int result" where
  "skip_loop 0 d i depth = Inl ErrFuel"
| "skip_loop (Suc k) d i depth =
    (if i < length d
     then andThen (read_u64 d i) (\<lambda>(wire, j).
            andThen (skip_value d (unat (wire AND 7)) j depth) (\<lambda>(n, depth').
              if n < 0 then Inl ErrInvalidLength
              else if depth' = 0 then Inr n
              else skip_loop k d (nat n) depth'))
     else Inl ErrUnexpectedEOF)"

definition skipField :: "bytes \<Rightarrow> int result" where
  "skipField d = skip_loop (Suc (length d)) d 0 0"

text \<open>
  A length-delimited value: the length, the three range checks and the slice
  \<open>dAtA[iNdEx:postIndex]\<close>.
\<close>

definition read_slice :: "bytes \<Rightarrow> nat \<Rightarrow> (bytes \<times> nat) result" where
  "read_slice d i =
    andThen (read_u64 d i) (\<lambda>(n, j).
      let len = sint n; postIndex = wrap64 (int j + len)
      in if len < 0 then Inl ErrInvalidLength
         else if postIndex < 0 then Inl ErrInvalidLength
         else if postIndex > int (length d) then Inl ErrUnexpectedEOF
         else Inr (take (nat postIndex - j) (drop j d), nat postIndex))"

text \<open>
  The cases of the field switch: a string, a \<open>uint64\<close>, a nested message (whose
  \<open>Unmarshal\<close> gets the slice). \<open>upd\<close> stores the value in the message.
\<close>

definition read_string_field ::
  "(string \<Rightarrow> 'm) \<Rightarrow> nat \<Rightarrow> bytes \<Rightarrow> nat \<Rightarrow> ('m \<times> nat) result" where
  "read_string_field upd wireType d i =
    (if wireType \<noteq> 2 then Inl ErrWrongWireType
     else andThen (read_slice d i) (\<lambda>(s, post). Inr (upd (string_of_bytes s), post)))"

definition read_uint64_field ::
  "(u64 \<Rightarrow> 'm) \<Rightarrow> nat \<Rightarrow> bytes \<Rightarrow> nat \<Rightarrow> ('m \<times> nat) result" where
  "read_uint64_field upd wireType d i =
    (if wireType \<noteq> 0 then Inl ErrWrongWireType
     else andThen (read_u64 d i) (\<lambda>(v, j). Inr (upd v, j)))"

definition read_msg_field ::
  "(bytes \<Rightarrow> 'm result) \<Rightarrow> nat \<Rightarrow> bytes \<Rightarrow> nat \<Rightarrow> ('m \<times> nat) result" where
  "read_msg_field um wireType d i =
    (if wireType \<noteq> 2 then Inl ErrWrongWireType
     else andThen (read_slice d i) (\<lambda>(s, post). andThen (um s) (\<lambda>m. Inr (m, post))))"

text \<open>
  The loop of every \<open>Unmarshal\<close>. The switch over the field number is the argument \<open>h\<close>:
  \<open>None\<close> is its \<open>default\<close> case, which skips the field from \<open>preIndex\<close> on.
\<close>

type_synonym 'm field_switch = "'m \<Rightarrow> int \<Rightarrow> nat \<Rightarrow> bytes \<Rightarrow> nat \<Rightarrow> ('m \<times> nat) result option"

definition field_number :: "u64 \<Rightarrow> int" where
  "field_number wire = sint (ucast (drop_bit 3 wire) :: 32 word)"

fun unmarshal_loop :: "'m field_switch \<Rightarrow> nat \<Rightarrow> bytes \<Rightarrow> 'm \<Rightarrow> nat \<Rightarrow> 'm result" where
  "unmarshal_loop h 0 d m i = Inl ErrFuel"
| "unmarshal_loop h (Suc k) d m i =
    (if i < length d
     then andThen (read_u64 d i) (\<lambda>(wire, j).
            let fieldNum = field_number wire; wireType = unat (wire AND 7)
            in if wireType = 4 then Inl ErrEndGroup
               else if fieldNum \<le> 0 then Inl ErrIllegalTag
               else (case h m fieldNum wireType d j of
                   Some r \<Rightarrow> andThen r (\<lambda>(m', j'). unmarshal_loop h k d m' j')
                 | None \<Rightarrow> andThen (skipField (drop i d)) (\<lambda>skippy.
                     if skippy < 0 \<or> wrap64 (int i + skippy) < 0 then Inl ErrInvalidLength
                     else if wrap64 (int i + skippy) > int (length d) then Inl ErrUnexpectedEOF
                     else unmarshal_loop h k d m (nat (wrap64 (int i + skippy))))))
     else if i > length d then Inl ErrUnexpectedEOF
     else Inr m)"

definition unmarshalWith :: "'m field_switch \<Rightarrow> 'm \<Rightarrow> bytes \<Rightarrow> 'm result" where
  "unmarshalWith h m d = unmarshal_loop h (Suc (length d)) d m 0"

end
