(* ===== verification/WireWrite.thy ===== *)
theory WireWrite
  imports Wire
begin

text \<open>
  The writing half of the codec runtime: the length \<open>sov\<close> predicts is the length
  \<open>encodeVarint\<close> writes, and every writer of the generated code puts a fixed byte string
  right in front of the index it is given, leaves the rest of the buffer alone and never
  panics when the string fits. \<open>writes\<close> is that contract; the \<open>writes_*\<close> rules compose it
  field by field.
\<close>

named_theorems writes_intros "rules that compose writer contracts"

section \<open>The varint of a number\<close>

function varint :: "u64 \<Rightarrow> bytes" where
  "varint v =
    (if v \<ge> 128 then ucast (v AND 0x7F OR 0x80) # varint (drop_bit 7 v) else [ucast v])"
  by pat_completeness auto
termination
  by (relation "measure unat") (auto simp: drop_bit_7_less)

declare varint.simps [simp del]

lemma varint_not_Nil [simp]: "varint v \<noteq> []"
  by (subst varint.simps) simp

lemma varint_small: "v < 128 \<Longrightarrow> varint v = [ucast v]"
  by (subst varint.simps) (simp add: not_less [symmetric])

lemma varint_large:
  "128 \<le> v \<Longrightarrow> varint v = ucast (v AND 0x7F OR 0x80) # varint (drop_bit 7 v)"
  by (subst varint.simps) simp

lemma unat_drop_bit_7: "unat (drop_bit 7 v :: u64) = unat v div 128"
  by (simp add: drop_bit_eq_div unat_div)

section \<open>How long it is\<close>

lemma bit_len_0 [simp]: "bit_len 0 = 0"
  by (simp add: bit_len.simps)

lemma bit_len_pos: "0 < n \<Longrightarrow> bit_len n = Suc (bit_len (n div 2))"
  by (subst bit_len.simps) simp

lemma bit_len_div_128: "128 \<le> n \<Longrightarrow> bit_len n = 7 + bit_len (n div 128)"
  by (simp add: bit_len_pos div_mult2_eq [symmetric] flip: div_mult2_eq)

lemma bit_len_bound: "n < 2 ^ k \<Longrightarrow> bit_len n \<le> k"
proof (induction k arbitrary: n)
  case 0
  then show ?case by simp
next
  case (Suc k)
  show ?case
  proof (cases "n = 0")
    case False
    moreover from Suc.prems have "n div 2 < 2 ^ k" by auto
    ultimately show ?thesis using Suc.IH by (simp add: bit_len_pos)
  qed simp
qed

lemma Len64_or_1: "Len64 (x OR 1) = max 1 (Len64 x)"
proof -
  have "unat (x OR 1) = unat x OR unat (1 :: u64)"
    by (rule unsigned_or_eq)
  then have "unat (x OR 1) = (if even (unat x) then Suc (unat x) else unat x)"
    by (simp only: unsigned_1 or_one_eq) simp
  then show ?thesis
    by (cases "unat x = 0") (auto simp: Len64_def bit_len_pos elim!: evenE)
qed

lemma sov_eq: "sov x = (max 1 (Len64 x) + 6) div 7"
  by (simp only: sov_def Len64_or_1)

lemma length_varint: "length (varint v) = sov v"
proof (induction v rule: varint.induct)
  case (1 v)
  show ?case
  proof (cases "128 \<le> v")
    case True
    then have ge: "128 \<le> unat v" by (simp add: word_le_nat_alt)
    then have "Len64 v = 7 + Len64 (drop_bit 7 v)"
      by (simp add: Len64_def unat_drop_bit_7 bit_len_div_128)
    moreover from ge have "0 < Len64 (drop_bit 7 v)"
      by (simp add: Len64_def unat_drop_bit_7 bit_len_pos)
    ultimately show ?thesis
      using True "1.IH" by (simp add: varint_large sov_eq max_def)
  next
    case False
    then have "unat v < 2 ^ 7" by (simp add: word_less_nat_alt not_le)
    then have "Len64 v \<le> 7" unfolding Len64_def by (rule bit_len_bound)
    then have "1 \<le> Len64 v \<Longrightarrow> (Len64 v + 6) div 7 = 1" by (intro div_nat_eqI) auto
    with False show ?thesis by (simp add: varint_small sov_eq max_def)
  qed
qed

lemma sov_pos: "0 < sov v"
  using length_varint [of v] by (metis length_greater_0_conv varint_not_Nil)

lemma sov_le_10: "sov v \<le> 10"
proof -
  have "Len64 v \<le> 64"
    unfolding Len64_def by (rule bit_len_bound) (use unsigned_less [of v] in simp)
  then show ?thesis by (simp add: sov_eq)
qed

section \<open>Writer contracts\<close>

definition writes :: "writer \<Rightarrow> bytes \<Rightarrow> bool" where
  "writes w bs \<longleftrightarrow> (\<forall>d i. length bs \<le> i \<longrightarrow> i \<le> length d \<longrightarrow>
     w (d, int i) = Inr (take (i - length bs) d @ bs @ drop i d, int (i - length bs)))"

lemma writesD:
  "writes w bs \<Longrightarrow> length bs \<le> i \<Longrightarrow> i \<le> length d \<Longrightarrow>
    w (d, int i) = Inr (take (i - length bs) d @ bs @ drop i d, int (i - length bs))"
  by (simp add: writes_def)

lemma writes_Inr [writes_intros]: "writes Inr []"
  by (simp add: writes_def)

lemma writes_thenW [writes_intros]:
  assumes a: "writes w1 a" and b: "writes w2 b"
  shows "writes (thenW w1 w2) (b @ a)"
  unfolding writes_def
proof (intro allI impI)
  fix d :: bytes and i
  assume len: "length (b @ a) \<le> i" and i: "i \<le> length d"
  let ?d = "take (i - length a) d @ a @ drop i d"
  have 1: "w1 (d, int i) = Inr (?d, int (i - length a))"
    using len i by (intro writesD [OF a]) auto
  have "w2 (?d, int (i - length a)) =
      Inr (take (i - length a - length b) ?d @ b @ drop (i - length a) ?d,
        int (i - length a - length b))"
    using len i by (intro writesD [OF b]) auto
  also have "take (i - length a - length b) ?d = take (i - length (b @ a)) d"
    using len i by (simp add: min_def add.commute)
  also have "drop (i - length a) ?d = a @ drop i d"
    using len i by simp
  finally show "thenW w1 w2 (d, int i) =
      Inr (take (i - length (b @ a)) d @ (b @ a) @ drop i d, int (i - length (b @ a)))"
    using 1 by (simp add: thenW_def add.commute)
qed

lemma writes_put_slice [writes_intros]: "writes (put_slice s) s"
  unfolding writes_def
proof (intro allI impI)
  fix d :: bytes and i
  assume "length s \<le> i" and "i \<le> length d"
  then show "put_slice s (d, int i) =
      Inr (take (i - length s) d @ s @ drop i d, int (i - length s))"
    by (simp add: put_slice_def Let_def of_nat_diff [symmetric] del: of_nat_diff)
qed

lemma take_drop_update:
  "i < length d \<Longrightarrow> d[i := b] = take i d @ b # drop (Suc i) d"
  by (rule upd_conv_take_nth_drop)

lemma writes_put_byte [writes_intros]: "writes (put_byte b) [b]"
  unfolding writes_def
proof (intro allI impI)
  fix d :: bytes and i
  assume "length [b] \<le> i" and "i \<le> length d"
  then show "put_byte b (d, int i) =
      Inr (take (i - length [b]) d @ [b] @ drop i d, int (i - length [b]))"
    by (cases i) (auto simp: put_byte_def buf_set_def take_drop_update)
qed

lemma put_varint_eq:
  "off + length (varint v) \<le> length d \<Longrightarrow>
    put_varint d (int off) v = Inr (take off d @ varint v @ drop (off + length (varint v)) d)"
proof (induction v arbitrary: d off rule: varint.induct)
  case (1 v)
  show ?case
  proof (cases "128 \<le> v")
    case True
    let ?b = "ucast (v AND 0x7F OR 0x80) :: byte" and ?d = "d[off := ucast (v AND 0x7F OR 0x80)]"
    from True "1.prems" have len: "Suc off + length (varint (drop_bit 7 v)) \<le> length ?d"
      by (simp add: varint_large)
    have "put_varint d (int off) v = put_varint ?d (int (Suc off)) (drop_bit 7 v)"
      using True len by (subst put_varint.simps) (simp add: buf_set_def add.commute)
    also have "\<dots> = Inr (take (Suc off) ?d @ varint (drop_bit 7 v) @
        drop (Suc off + length (varint (drop_bit 7 v))) ?d)"
      using True len by (intro "1.IH")
    also have "take (Suc off) ?d = take off d @ [?b]"
      using len by (simp add: take_Suc_conv_app_nth)
    also have "drop (Suc off + length (varint (drop_bit 7 v))) ?d
        = drop (Suc off + length (varint (drop_bit 7 v))) d"
      by simp
    finally show ?thesis using True by (simp add: varint_large)
  next
    case False
    with "1.prems" show ?thesis
      by (subst put_varint.simps) (simp add: varint_small buf_set_def take_drop_update)
  qed
qed

lemma writes_put_varint [writes_intros]: "writes (put_varint_at v) (varint v)"
  unfolding writes_def
proof (intro allI impI)
  fix d :: bytes and i
  assume len: "length (varint v) \<le> i" and i: "i \<le> length d"
  then have base: "int i - int (sov v) = int (i - length (varint v))"
    by (simp add: length_varint)
  have "put_varint d (int (i - length (varint v))) v =
      Inr (take (i - length (varint v)) d @ varint v @
        drop (i - length (varint v) + length (varint v)) d)"
    using len i by (intro put_varint_eq) simp
  then show "put_varint_at v (d, int i) =
      Inr (take (i - length (varint v)) d @ varint v @ drop i d, int (i - length (varint v)))"
    using len by (simp add: put_varint_at_def encodeVarint_def Let_def base)
qed

section \<open>Fields\<close>

text \<open>The bytes of a length-delimited field with a given tag.\<close>

definition delimited :: "byte \<Rightarrow> bytes \<Rightarrow> bytes" where
  "delimited tag bs = tag # varint (of_nat (length bs)) @ bs"

definition string_field :: "byte \<Rightarrow> string \<Rightarrow> bytes" where
  "string_field tag s = (if s = '''' then [] else delimited tag (bytes_of_string s))"

definition uint64_field :: "byte \<Rightarrow> u64 \<Rightarrow> bytes" where
  "uint64_field tag v = (if v = 0 then [] else tag # varint v)"

lemma length_delimited:
  "length (delimited tag bs) = 1 + length bs + sov (of_nat (length bs))"
  by (simp add: delimited_def length_varint)

lemma writes_cong: "writes w bs \<Longrightarrow> bs = bs' \<Longrightarrow> writes w bs'"
  by simp

lemma writes_delimited:
  "writes w bs \<Longrightarrow>
    writes (thenW w (thenW (put_varint_at (of_nat (length bs))) (put_byte tag))) (delimited tag bs)"
  by (rule writes_cong, (rule writes_intros | assumption)+) (simp add: delimited_def)

lemma writes_put_string_elem [writes_intros]:
  "writes (put_string_elem tag s) (delimited tag (bytes_of_string s))"
  unfolding put_string_elem_def
  using writes_delimited [OF writes_put_slice [of "bytes_of_string s"]] by simp

lemma writes_put_string_field [writes_intros]:
  "writes (put_string_field tag s) (string_field tag s)"
  using writes_put_string_elem [of tag s] writes_Inr
  by (auto simp: put_string_field_def put_string_elem_def string_field_def)

lemma writes_put_uint64_field [writes_intros]:
  "writes (put_uint64_field tag v) (uint64_field tag v)"
proof (cases "v = 0")
  case False
  then show ?thesis
    using writes_thenW [OF writes_put_varint writes_put_byte, of v tag]
    by (simp add: put_uint64_field_def uint64_field_def)
qed (simp add: put_uint64_field_def uint64_field_def writes_Inr)

lemma writes_put_rev [writes_intros]:
  "(\<And>x. x \<in> set xs \<Longrightarrow> writes (f x) (g x)) \<Longrightarrow> writes (put_rev f xs) (concat (map g xs))"
  by (induction xs) (auto intro!: writes_Inr writes_thenW)

section \<open>Marshallers\<close>

text \<open>The contract of a \<open>MarshalToSizedBuffer\<close>: the bytes go to the end of the buffer.\<close>

definition marshals :: "marshaller \<Rightarrow> bytes \<Rightarrow> bool" where
  "marshals mt bs \<longleftrightarrow> (\<forall>d. length bs \<le> length d \<longrightarrow>
     mt d = Inr (take (length d - length bs) d @ bs, int (length bs)))"

lemma marshalsD:
  "marshals mt bs \<Longrightarrow> length bs \<le> length d \<Longrightarrow>
    mt d = Inr (take (length d - length bs) d @ bs, int (length bs))"
  by (simp add: marshals_def)

lemma marshals_sizedBuffer: "writes w bs \<Longrightarrow> marshals (sizedBuffer w) bs"
  by (simp add: marshals_def sizedBuffer_def writesD)

lemma marshalWith_eq: "marshals mt bs \<Longrightarrow> marshalWith (length bs) mt = Inr bs"
  by (simp add: marshalWith_def marshalsD)

lemma writes_put_nested:
  assumes m: "marshals mt bs"
  shows "writes (put_nested mt) (varint (of_nat (length bs)) @ bs)"
  unfolding writes_def
proof (intro allI impI)
  fix d :: bytes and i
  let ?v = "of_nat (length bs) :: u64"
  assume len: "length (varint ?v @ bs) \<le> i" and i: "i \<le> length d"
  have "mt (take i d) = Inr (take (i - length bs) d @ bs, int (length bs))"
    using marshalsD [OF m, of "take i d"] len i by (simp add: min_def)
  then have "put_nested mt (d, int i) =
      put_varint_at ?v ((take (i - length bs) d @ bs) @ drop i d, int (i - length bs))"
    using len i by (simp add: put_nested_def put_varint_at_def)
  also have "\<dots> = Inr (take (i - length bs - length (varint ?v)) (take (i - length bs) d @ bs @ drop i d)
      @ varint ?v @ drop (i - length bs) (take (i - length bs) d @ bs @ drop i d),
      int (i - length bs - length (varint ?v)))"
    using len i writesD [OF writes_put_varint, of ?v "i - length bs"] by simp
  finally show "put_nested mt (d, int i) =
      Inr (take (i - length (varint ?v @ bs)) d @ (varint ?v @ bs) @ drop i d,
        int (i - length (varint ?v @ bs)))"
    using len i by (simp add: min_def add.commute)
qed

lemma writes_put_msg_field [writes_intros]:
  assumes "marshals mt bs"
  shows "writes (put_msg_field tag mt) (delimited tag bs)"
  using writes_thenW [OF writes_put_nested [OF assms] writes_put_byte]
  by (simp add: put_msg_field_def delimited_def)

end
