(* ===== verification/WireRead.thy ===== *)
theory WireRead
  imports WireWrite
begin

text \<open>
  The reading half of the codec runtime. \<open>reads h bs m m'\<close> says that the field loop, standing
  in front of \<open>bs\<close> with message \<open>m\<close>, gets behind it with message \<open>m'\<close>; it composes over
  concatenation. The \<open>reads_*\<close> rules give it for the fields the writers of \<open>WireWrite\<close>
  produce and for fields the message does not know. The last section proves that the loops
  return on every input: they never exhaust their recursion bound.
\<close>

named_theorems reads_intros "rules that compose reader contracts"

section \<open>Reading a varint back\<close>

lemma drop_Suc_of_Cons: "drop i d = x # xs \<Longrightarrow> i < length d \<and> d ! i = x \<and> drop (Suc i) d = xs"
  by (metis drop_all drop_Suc hd_drop_conv_nth leI list.distinct(1) list.sel(1,3) tl_drop)

lemma bit_0x7F: "bit (0x7F :: int) n \<longleftrightarrow> n < 7"
proof -
  have "(0x7F :: int) = mask 7" by (simp add: mask_eq_exp_minus_1)
  then show ?thesis by (simp only: bit_mask_iff) simp
qed
lemma bit_0x80: "bit (0x80 :: int) n \<longleftrightarrow> n = 7"
proof -
  have "(0x80 :: int) = push_bit 7 1" by simp
  then show ?thesis by (simp only: bit_push_bit_iff bit_1_iff) auto
qed
lemma varint_byte_low:
  "ucast (ucast (v AND 0x7F OR 0x80 :: u64) AND 0x7F :: byte) = (v AND 0x7F :: u64)"
  by (rule bit_word_eqI) (auto simp: bit_simps bit_0x80 bit_0x7F)
lemma take_bit_small: "unat (w :: 'a::len word) < 2 ^ n \<Longrightarrow> take_bit n w = w"
  by (simp add: word_eq_iff_unsigned [where ?'a = nat] unsigned_take_bit_eq take_bit_nat_eq_self)
lemma unat_ucast_byte: "unat (ucast (v :: u64) :: byte) = unat v mod 256"
  by (simp add: unsigned_ucast_eq take_bit_eq_mod)
lemma unat_ucast_u64 : "unat (ucast (b :: byte) :: u64) = unat b"
proof -
  have "unat b < 2 ^ LENGTH(8)" by (rule unsigned_less)
  then show ?thesis by (simp add: unsigned_ucast_eq take_bit_eq_mod)
qed
lemma varint_byte_high: "\<not> (ucast (v AND 0x7F OR 0x80 :: u64) :: byte) < 0x80"
proof
  let ?b = "ucast (v AND 0x7F OR 0x80 :: u64) :: byte"
  assume "?b < 0x80"
  then have "unat ?b < 2 ^ 7" by (simp add: word_less_nat_alt)
  then have "take_bit 7 ?b = ?b" by (rule take_bit_small)
  moreover have "bit ?b 7" by (simp add: bit_simps bit_0x80)
  ultimately show False by (metis bit_take_bit_iff less_irrefl)
qed
lemma varint_last_byte:
  "(v :: u64) < 128 \<Longrightarrow> (ucast v :: byte) < 0x80 \<and> ucast (ucast v AND 0x7F :: byte) = v"
proof -
  assume v: "v < 128"
  then have u: "unat v < 2 ^ 7" by (simp add: word_less_nat_alt)
  then have 1: "(ucast v :: byte) < 0x80" by (simp add: word_less_nat_alt unat_ucast_byte)
  have "ucast (ucast v AND 0x7F :: byte) = take_bit 7 v"
    by (rule bit_word_eqI) (auto simp: bit_simps bit_0x7F)
  with 1 take_bit_small [OF u] show ?thesis by simp
qed
lemma varint_split: "push_bit 7 (drop_bit 7 v) OR (v AND 0x7F) = (v :: u64)"
  by (rule bit_word_eqI) (auto simp: bit_simps bit_0x7F)

lemma push_bit_varint_split:
  "push_bit s (v AND 0x7F) OR push_bit (s + 7) (drop_bit 7 v) = push_bit s (v :: u64)"
proof -
  have "push_bit s v = push_bit s (push_bit 7 (drop_bit 7 v) OR (v AND 0x7F))"
    by (simp only: varint_split)
  then show ?thesis by (simp add: push_bit_or or.commute add.commute)
qed

lemma read_varint_varint:
  assumes "drop i d = varint v @ rest" and "shift < 64" and "unat v < 2 ^ (64 - shift)"
  shows "read_varint d i shift acc = Inr (acc OR push_bit shift v, i + length (varint v))"
  using assms
proof (induction v arbitrary: i shift acc rule: varint.induct)
  case (1 v)
  show ?case
  proof (cases "128 \<le> v")
    case True
    let ?b = "ucast (v AND 0x7F OR 0x80) :: byte"
    from True "1.prems"(1) have "drop i d = ?b # varint (drop_bit 7 v) @ rest"
      by (simp add: varint_large)
    note b = drop_Suc_of_Cons [OF this]
    from True have "2 ^ 7 \<le> unat v" by (simp add: word_le_nat_alt)
    with "1.prems"(3) have "(2 :: nat) ^ 7 < 2 ^ (64 - shift)" by linarith
    then have lt: "7 < 64 - shift" by (simp only: power_strict_increasing_iff)
    then have "64 - shift = (64 - (shift + 7)) + 7" by simp
    then have "(2 :: nat) ^ (64 - shift) = 2 ^ ((64 - (shift + 7)) + 7)" by (rule arg_cong)
    then have pow: "(2 :: nat) ^ (64 - shift) = 2 ^ (64 - (shift + 7)) * 128"
      by (simp only: power_add) simp
    have "read_varint d i shift acc =
        read_varint d (Suc i) (shift + 7) (acc OR push_bit shift (v AND 0x7F))"
      using "1.prems"(2) b
      by (subst read_varint.simps) (simp add: varint_byte_low varint_byte_high)
    also have "\<dots> = Inr ((acc OR push_bit shift (v AND 0x7F)) OR push_bit (shift + 7) (drop_bit 7 v),
        Suc i + length (varint (drop_bit 7 v)))"
      using True b lt "1.prems"(3) pow
      by (intro "1.IH") (auto simp: unat_drop_bit_7 less_mult_imp_div_less)
    also have "(acc OR push_bit shift (v AND 0x7F)) OR push_bit (shift + 7) (drop_bit 7 v)
        = acc OR push_bit shift v"
      by (simp only: or.assoc push_bit_varint_split)
    finally show ?thesis using True by (simp add: varint_large)
  next
    case False
    then have small: "v < 128" by simp
    with "1.prems"(1) have "drop i d = ucast v # rest" by (simp add: varint_small)
    note b = drop_Suc_of_Cons [OF this]
    from "1.prems"(2) b varint_last_byte [OF small] small show ?thesis
      by (subst read_varint.simps) (simp add: varint_small)
  qed
qed

lemma read_u64_varint:
  "drop i d = varint v @ rest \<Longrightarrow> read_u64 d i = Inr (v, i + length (varint v))"
  using read_varint_varint [of i d v rest 0 0] unsigned_less [of v] by simp

lemma read_varint_bounds:
  "read_varint d i shift acc = Inr (v, j) \<Longrightarrow> i < j \<and> j \<le> length d"
proof (induction d i shift acc rule: read_varint.induct)
  case (1 d i shift acc)
  show ?case
  proof (cases "shift < 64 \<and> i < length d \<and> \<not> d ! i < 128")
    case True
    then have "read_varint d (Suc i) (shift + 7) (acc OR push_bit shift (ucast (d ! i AND 0x7F))) = Inr (v, j)"
      using "1.prems" by (simp add: read_varint.simps [of d i shift acc] Let_def)
    with True "1.IH" show ?thesis by fastforce
  next
    case False
    with "1.prems" show ?thesis
      by (simp add: read_varint.simps [of d i shift acc] Let_def split: if_splits)
  qed
qed
lemma read_varint_no_fuel: "read_varint d i shift acc \<noteq> Inl ErrFuel"
proof (induction d i shift acc rule: read_varint.induct)
  case (1 d i shift acc)
  then show ?case by (simp add: read_varint.simps [of d i shift acc] Let_def)
qed

section \<open>Slices\<close>

text \<open>A sum of two non-negative indices that has not turned negative has not wrapped.\<close>

lemma wrap64_nonneg:
  assumes "0 \<le> a" "a < 2 ^ 63" "0 \<le> b" "b < 2 ^ 63" and "0 \<le> wrap64 (a + b)"
  shows "wrap64 (a + b) = a + b"
proof (cases "a + b < 2 ^ 63")
  case True
  with assms show ?thesis by (intro wrap64_id) auto
next
  case False
  then have "wrap64 (a + b) \<le> a + b - 2 ^ 64"
    unfolding wrap64_def using signed_take_bit_int_less_eq [of 63 "a + b"] by simp
  with assms show ?thesis by simp
qed

lemma sint_of_nat_u64: "n < 2 ^ 63 \<Longrightarrow> sint (of_nat n :: u64) = int n"
proof -
  assume n: "n < 2 ^ 63"
  then have "signed_take_bit 63 (int n) = int n"
    by (intro signed_take_bit_int_eq_self) auto
  then show ?thesis by (simp add: signed_of_nat)
qed

lemma read_slice_ok:
  assumes "drop i d = varint (of_nat (length bs)) @ bs @ rest" and len: "length d < 2 ^ 63"
    and i: "i \<le> length d"
  shows "read_slice d i = Inr (bs, i + length (varint (of_nat (length bs))) + length bs)"
proof -
  let ?v = "of_nat (length bs) :: u64"
  let ?j = "i + length (varint ?v)"
  have read: "read_u64 d i = Inr (?v, ?j)"
    using assms(1) by (rule read_u64_varint)
  have "length (drop i d) = length (varint ?v) + length bs + length rest"
    using assms(1) by simp
  with i have total: "?j + length bs \<le> length d" by simp
  then have "length bs < 2 ^ 63" using len by linarith
  then have s: "sint ?v = int (length bs)" by (rule sint_of_nat_u64)
  have w: "wrap64 (int ?j + int (length bs)) = int (?j + length bs)"
    using total len by (subst wrap64_id) auto
  have "drop ?j d = bs @ rest"
    using assms(1) by (metis append_eq_conv_conj drop_drop add.commute)
  then show ?thesis
    using read s w total by (simp add: read_slice_def Let_def)
qed

lemma read_slice_bounds:
  assumes "read_slice d i = Inr (s, post)" and "length d < 2 ^ 63"
  shows "i < post" and "post \<le> length d" and "length s \<le> length d"
proof -
  from assms obtain n j where r: "read_u64 d i = Inr (n, j)" and n: "\<not> sint n < 0"
    and w: "\<not> wrap64 (int j + sint n) < 0" "\<not> wrap64 (int j + sint n) > int (length d)"
    and post: "post = nat (wrap64 (int j + sint n))"
    and s: "s = take (post - j) (drop j d)"
    by (auto simp: read_slice_def Let_def andThen_eq_Inr split: if_splits)
  from r have j: "i < j" "j \<le> length d" by (auto dest: read_varint_bounds)
  have up: "sint n < 2 ^ 63"
    using sint_lt [of n] by simp
  then have "int j \<le> wrap64 (int j + sint n)"
    using n w j assms(2) wrap64_nonneg [of "int j" "sint n"] by simp
  with j w post show "i < post" and "post \<le> length d" by auto
  from s show "length s \<le> length d" by simp
qed

lemma read_slice_no_fuel: "read_slice d i \<noteq> Inl ErrFuel"
  by (auto simp: read_slice_def Let_def andThen_eq_Inl read_varint_no_fuel split: if_splits)

section \<open>Reader contracts\<close>

definition reads :: "'m field_switch \<Rightarrow> bytes \<Rightarrow> 'm \<Rightarrow> 'm \<Rightarrow> bool" where
  "reads h bs m m' \<longleftrightarrow> (\<exists>n \<le> length bs. \<forall>d i rest k.
     drop i d = bs @ rest \<longrightarrow> i \<le> length d \<longrightarrow> length d < 2 ^ 63 \<longrightarrow>
     unmarshal_loop h (n + k) d m i = unmarshal_loop h k d m' (i + length bs))"

lemma reads_Nil [reads_intros]: "reads h [] m m"
  by (auto simp: reads_def)

lemma reads_append [reads_intros]:
  assumes "reads h a m m1" and "reads h b m1 m2"
  shows "reads h (a @ b) m m2"
proof -
  from assms(1) obtain n1 where n1: "n1 \<le> length a"
    and 1: "\<And>d i rest k. drop i d = a @ rest \<Longrightarrow> i \<le> length d \<Longrightarrow> length d < 2 ^ 63 \<Longrightarrow>
      unmarshal_loop h (n1 + k) d m i = unmarshal_loop h k d m1 (i + length a)"
    unfolding reads_def by blast
  from assms(2) obtain n2 where n2: "n2 \<le> length b"
    and 2: "\<And>d i rest k. drop i d = b @ rest \<Longrightarrow> i \<le> length d \<Longrightarrow> length d < 2 ^ 63 \<Longrightarrow>
      unmarshal_loop h (n2 + k) d m1 i = unmarshal_loop h k d m2 (i + length b)"
    unfolding reads_def by blast
  have "unmarshal_loop h (n1 + n2 + k) d m i = unmarshal_loop h k d m2 (i + length (a @ b))"
    if d: "drop i d = (a @ b) @ rest" and i: "i \<le> length d" and len: "length d < 2 ^ 63" for d i rest k
  proof -
    have d1: "drop (i + length a) d = b @ rest"
      using d by (metis append.assoc append_eq_conv_conj drop_drop add.commute)
    have "length (drop i d) = length a + length b + length rest" using d by simp
    then have i1: "i + length a \<le> length d" using i by simp
    show ?thesis
      using 1 [of i d "b @ rest" "n2 + k"] 2 [OF d1 i1 len, of k] d i len by (simp add: add.assoc)
  qed
  with n1 n2 show ?thesis
    unfolding reads_def by (intro exI [of _ "n1 + n2"]) auto
qed

lemma unmarshalWith_reads:
  assumes "reads h bs m m'" and "length bs < 2 ^ 63"
  shows "unmarshalWith h m bs = Inr m'"
proof -
  from assms(1) obtain n where n: "n \<le> length bs" and
    r: "\<And>k. unmarshal_loop h (n + k) bs m 0 = unmarshal_loop h k bs m' (length bs)"
    unfolding reads_def using assms(2)
    by (metis append_Nil2 drop0 le0 plus_nat.add_0)
  have "Suc (length bs) = n + Suc (length bs - n)" using n by simp
  then have "unmarshalWith h m bs = unmarshal_loop h (Suc (length bs - n)) bs m' (length bs)"
    unfolding unmarshalWith_def by (simp only: r)
  then show ?thesis by simp
qed

lemma varint_tag: "(tag :: byte) < 128 \<Longrightarrow> varint (ucast tag) = [tag]"
proof -
  assume "tag < 128"
  then have "unat tag < 128" by (simp add: word_less_nat_alt)
  then have "(ucast tag :: u64) < 128" by (simp add: word_less_nat_alt unat_ucast_u64)
  moreover have "ucast (ucast tag :: u64) = tag"
    by (rule bit_word_eqI) (simp add: bit_simps)
  ultimately show ?thesis by (simp add: varint_small)
qed

text \<open>One turn of the loop on a field with a one-byte tag.\<close>

lemma unmarshal_loop_field:
  assumes d: "drop i d = tag # rest" and tag: "tag < 128"
    and wt: "unat (ucast tag AND 7 :: u64) = w" "w \<noteq> 4"
    and fn: "field_number (ucast tag) = f" "0 < f"
    and h: "h m f w d (Suc i) = Some r"
  shows "unmarshal_loop h (Suc k) d m i = andThen r (\<lambda>(m', j'). unmarshal_loop h k d m' j')"
proof -
  from tag have "varint (ucast tag) = [tag]" by (rule varint_tag)
  then have "read_u64 d i = Inr (ucast tag, Suc i)"
    using read_u64_varint [of i d "ucast tag" rest] d by simp
  moreover have "i < length d" using drop_Suc_of_Cons [OF d] by simp
  ultimately show ?thesis using wt fn h by simp
qed

text \<open>The switch \<open>h\<close> hands field \<open>f\<close> with wire type \<open>w\<close> to the reader \<open>r\<close>.\<close>

definition routes :: "'m field_switch \<Rightarrow> 'm \<Rightarrow> byte \<Rightarrow> nat \<Rightarrow> (bytes \<Rightarrow> nat \<Rightarrow> ('m \<times> nat) result) \<Rightarrow> bool" where
  "routes h m tag w r \<longleftrightarrow> tag < 128 \<and> unat (ucast tag AND 7 :: u64) = w \<and> w \<noteq> 4 \<and>
     0 < field_number (ucast tag) \<and> h m (field_number (ucast tag)) w = (\<lambda>d i. Some (r d i))"

lemma reads_via:
  assumes "routes h m tag w r"
    and "\<And>d i rest. drop i d = bs @ rest \<Longrightarrow> i \<le> length d \<Longrightarrow> length d < 2 ^ 63 \<Longrightarrow>
      r d i = Inr (m', i + length bs)"
  shows "reads h (tag # bs) m m'"
  unfolding reads_def
proof (intro exI [of _ 1] conjI allI impI)
  fix d i rest k
  assume d: "drop i d = (tag # bs) @ rest" and i: "i \<le> length d" and len: "length d < 2 ^ 63"
  from d have step: "Suc i \<le> length d" "drop (Suc i) d = bs @ rest"
    using drop_Suc_of_Cons [of i d tag "bs @ rest"] by auto
  have "unmarshal_loop h (Suc k) d m i = andThen (r d (Suc i)) (\<lambda>(m', j'). unmarshal_loop h k d m' j')"
    using assms(1) d by (intro unmarshal_loop_field [where tag = tag]) (auto simp: routes_def)
  then show "unmarshal_loop h (1 + k) d m i = unmarshal_loop h k d m' (i + length (tag # bs))"
    using assms(2) [OF step(2,1) len] by simp
qed simp

lemma reads_string_elem [reads_intros]:
  assumes "routes h m tag 2 (read_string_field upd 2)"
  shows "reads h (delimited tag (bytes_of_string s)) m (upd s)"
  unfolding delimited_def using assms
  by (rule reads_via)
    (use read_slice_ok [where bs = "bytes_of_string s"] in \<open>simp add: read_string_field_def\<close>)

lemma reads_string_field [reads_intros]:
  assumes "routes h m tag 2 (read_string_field upd 2)" and "s = '''' \<Longrightarrow> upd '''' = m"
  shows "reads h (string_field tag s) m (upd s)"
  using reads_string_elem [OF assms(1)] assms(2) reads_Nil [of h m]
  by (auto simp: string_field_def)

lemma reads_uint64_field [reads_intros]:
  assumes "routes h m tag 0 (read_uint64_field upd 0)" and "v = 0 \<Longrightarrow> upd 0 = m"
  shows "reads h (uint64_field tag v) m (upd v)"
proof (cases "v = 0")
  case False
  have "reads h (tag # varint v) m (upd v)"
    using assms(1) by (rule reads_via) (simp add: read_uint64_field_def read_u64_varint)
  with False show ?thesis by (simp add: uint64_field_def)
qed (use assms(2) reads_Nil [of h m] in \<open>simp add: uint64_field_def\<close>)

lemma reads_msg_field [reads_intros]:
  assumes "routes h m tag 2 (read_msg_field um 2)" and "um bs = Inr m'"
  shows "reads h (delimited tag bs) m m'"
  unfolding delimited_def using assms(1)
  by (rule reads_via) (simp add: read_msg_field_def read_slice_ok assms(2))

lemma reads_concat:
  assumes "\<And>x m. x \<in> set xs \<Longrightarrow> P m \<Longrightarrow> reads h (g x) m (f x m)"
    and "\<And>x m. x \<in> set xs \<Longrightarrow> P m \<Longrightarrow> P (f x m)" and "P m"
  shows "reads h (concat (map g xs)) m (fold f xs m)"
  using assms
proof (induction xs arbitrary: m)
  case Nil
  show ?case by (simp add: reads_Nil)
next
  case (Cons x xs)
  have "reads h (g x) m (f x m)" and "P (f x m)" using Cons.prems by auto
  moreover have "reads h (concat (map g xs)) (f x m) (fold f xs (f x m))"
    using Cons.prems \<open>P (f x m)\<close> by (intro Cons.IH) auto
  ultimately show ?case by (auto intro: reads_append)
qed

section \<open>Unknown fields\<close>

lemma skipField_delimited:
  assumes "tag < 128" and "unat (ucast tag AND 7 :: u64) = 2"
    and "length (delimited tag bs @ rest) < 2 ^ 63"
  shows "skipField (delimited tag bs @ rest) = Inr (int (length (delimited tag bs)))"
proof -
  let ?v = "of_nat (length bs) :: u64" and ?d = "delimited tag bs @ rest"
  from assms(1) have "varint (ucast tag) = [tag]" by (rule varint_tag)
  then have tagr: "read_u64 ?d 0 = Inr (ucast tag, 1)"
    using read_u64_varint [of 0 ?d "ucast tag" "varint ?v @ bs @ rest"] by (simp add: delimited_def)
  have "read_u64 ?d 1 = Inr (?v, 1 + length (varint ?v))"
    by (rule read_u64_varint [where rest = "bs @ rest"]) (simp add: delimited_def)
  moreover have "sint ?v = int (length bs)"
    using assms(3) by (intro sint_of_nat_u64) (simp add: delimited_def)
  moreover have "wrap64 (int (1 + length (varint ?v)) + int (length bs)) = int (length (delimited tag bs))"
    using assms(3) by (subst wrap64_id) (auto simp: delimited_def)
  ultimately have "skip_value ?d 2 1 0 = Inr (int (length (delimited tag bs)), 0)"
    by (simp add: skip_value_def)
  then show ?thesis
    using tagr assms(2) by (simp add: skipField_def delimited_def)
qed

lemma reads_unknown:
  assumes tag: "tag < 128" "unat (ucast tag AND 7 :: u64) = 2" "0 < field_number (ucast tag)"
    and h: "\<And>d i. h m (field_number (ucast tag)) 2 d i = None"
  shows "reads h (delimited tag bs) m m"
  unfolding reads_def
proof (intro exI [of _ 1] conjI allI impI)
  fix d i rest k
  let ?f = "delimited tag bs"
  assume d: "drop i d = ?f @ rest" and i: "i \<le> length d" and len: "length d < 2 ^ 63"
  from tag(1) have "varint (ucast tag) = [tag]" by (rule varint_tag)
  then have r: "read_u64 d i = Inr (ucast tag, Suc i)"
    using read_u64_varint [of i d "ucast tag" "varint (of_nat (length bs)) @ bs @ rest"] d
    by (simp add: delimited_def)
  have il: "i < length d" using d by (auto simp: delimited_def dest: drop_Suc_of_Cons)
  have fl: "i + length ?f \<le> length d"
    using d il by (metis add_leD1 le_add_diff_inverse length_append length_drop less_imp_le nat_add_left_cancel_le le_add1)
  have "length (?f @ rest) < 2 ^ 63"
    using d len by (metis length_drop diff_le_self le_less_trans)
  then have s: "skipField (drop i d) = Inr (int (length ?f))"
    using tag unfolding d by (intro skipField_delimited) auto
  have w: "wrap64 (int i + int (length ?f)) = int (i + length ?f)"
    using fl len by (subst wrap64_id) auto
  show "unmarshal_loop h (1 + k) d m i = unmarshal_loop h k d m (i + length ?f)"
    using il r tag h s w fl by (simp add: nat_int_add)
qed (simp add: delimited_def)

section \<open>The loops return\<close>

lemma skip_varint_no_fuel: "skip_varint d i shift \<noteq> Inl ErrFuel"
proof (induction d i shift rule: skip_varint.induct)
  case (1 d i shift)
  then show ?case by (simp add: skip_varint.simps [of d i shift])
qed

lemma skip_varint_bounds: "skip_varint d i shift = Inr j \<Longrightarrow> i < j \<and> j \<le> length d"
proof (induction d i shift rule: skip_varint.induct)
  case (1 d i shift)
  show ?case
  proof (cases "shift < 64 \<and> i < length d \<and> \<not> d ! i < 128")
    case True
    then have "skip_varint d (Suc i) (shift + 7) = Inr j"
      using "1.prems" by (simp add: skip_varint.simps [of d i shift])
    with True "1.IH" show ?thesis by fastforce
  next
    case False
    with "1.prems" show ?thesis
      by (simp add: skip_varint.simps [of d i shift] split: if_splits)
  qed
qed

lemma skip_value_no_fuel: "skip_value d w i depth \<noteq> Inl ErrFuel"
  by (auto simp: skip_value_def andThen_eq_Inl skip_varint_no_fuel read_varint_no_fuel
      split: if_splits)

lemma skip_value_advances:
  assumes "skip_value d w i depth = Inr (n, depth')" and "0 \<le> n" and "i \<le> length d"
    and "length d < 2 ^ 63"
  shows "int i \<le> n"
proof (cases "w = 2")
  case True
  with assms(1) obtain len j where r: "read_u64 d i = Inr (len, j)" and "0 \<le> sint len"
    and n: "n = wrap64 (int j + sint len)"
    by (auto simp: skip_value_def andThen_eq_Inr split: if_splits)
  moreover from r have "i < j" "j \<le> length d" by (auto dest: read_varint_bounds)
  moreover have "sint len < 2 ^ 63" using sint_lt [of len] by simp
  ultimately show ?thesis
    using assms wrap64_nonneg [of "int j" "sint len"] by auto
next
  case False
  with assms show ?thesis
    using wrap64_nonneg [of "int i" 8] wrap64_nonneg [of "int i" 4]
    by (auto simp: skip_value_def andThen_eq_Inr split: if_splits dest: skip_varint_bounds)
qed

lemma skip_loop_no_fuel:
  assumes "length d < 2 ^ 63" and "length d < i + k" and "0 < k"
  shows "skip_loop k d i depth \<noteq> Inl ErrFuel"
  using assms(2,3)
proof (induction k arbitrary: i depth)
  case 0
  then show ?case by simp
next
  case (Suc k)
  have "skip_loop k d (nat n) depth' \<noteq> Inl ErrFuel"
    if "read_u64 d i = Inr (wire, j)" and "skip_value d w j depth = Inr (n, depth')" and "\<not> n < 0"
    for wire j n depth' w
  proof -
    from that(1) have "i < j" "j \<le> length d" by (auto dest: read_varint_bounds)
    moreover from this have "int j \<le> n"
      using skip_value_advances [OF that(2)] that(3) assms(1) by simp
    moreover have "0 < k" using Suc.prems(1) \<open>i < j\<close> \<open>j \<le> length d\<close> by simp
    ultimately show ?thesis using Suc by auto
  qed
  then show ?case
    by (auto simp: andThen_eq_Inl read_varint_no_fuel skip_value_no_fuel split: if_splits)
qed

lemma skipField_no_fuel: "length d < 2 ^ 63 \<Longrightarrow> skipField d \<noteq> Inl ErrFuel"
  unfolding skipField_def by (rule skip_loop_no_fuel) auto

lemma skip_loop_advances:
  assumes "length d < 2 ^ 63" and "skip_loop k d i depth = Inr n"
  shows "int i < n"
  using assms(2)
proof (induction k arbitrary: i depth)
  case 0
  then show ?case by simp
next
  case (Suc k)
  then obtain wire j n' depth' where r: "read_u64 d i = Inr (wire, j)"
    and v: "skip_value d (unat (wire AND 7)) j depth = Inr (n', depth')" and n': "\<not> n' < 0"
    and rest: "n = n' \<or> skip_loop k d (nat n') depth' = Inr n"
    by (auto simp: andThen_eq_Inr split: if_splits)
  from r have "i < j" "j \<le> length d" by (auto dest: read_varint_bounds)
  then have "int i < n'" using skip_value_advances [OF v] n' assms(1) by simp
  then show ?case using rest Suc.IH by fastforce
qed

lemma wrap64_less: "wrap64 n < 2 ^ 63"
  unfolding wrap64_def by (rule signed_take_bit_int_less_exp)

lemma skip_value_less:
  assumes "skip_value d w i depth = Inr (n, depth')" and "i \<le> length d" and "length d < 2 ^ 63"
  shows "n < 2 ^ 63"
  using assms wrap64_less
  by (auto simp: skip_value_def andThen_eq_Inr split: if_splits dest: skip_varint_bounds)

lemma skip_loop_less:
  "length d < 2 ^ 63 \<Longrightarrow> skip_loop k d i depth = Inr n \<Longrightarrow> n < 2 ^ 63"
proof (induction k arbitrary: i depth)
  case 0
  then show ?case by simp
next
  case (Suc k)
  then show ?case
    by (auto simp: andThen_eq_Inr split: if_splits dest!: read_varint_bounds dest: skip_value_less)
qed

text \<open>A switch that never goes backwards and never runs out of fuel itself.\<close>

definition progressing :: "'m field_switch \<Rightarrow> bool" where
  "progressing h \<longleftrightarrow> (\<forall>m f w d i r. h m f w d i = Some r \<longrightarrow> length d < 2 ^ 63 \<longrightarrow>
     r \<noteq> Inl ErrFuel \<and> (\<forall>m' j. r = Inr (m', j) \<longrightarrow> i \<le> j))"

lemma unmarshal_loop_no_fuel:
  assumes h: "progressing h" and len: "length d < 2 ^ 63" and "length d < i + k" and "0 < k"
  shows "unmarshal_loop h k d m i \<noteq> Inl ErrFuel"
  using assms(3,4)
proof (induction k arbitrary: m i)
  case 0
  then show ?case by simp
next
  case (Suc k)
  have known: "andThen r (\<lambda>(m', j'). unmarshal_loop h k d m' j') \<noteq> Inl ErrFuel"
    if "i < length d" and "read_u64 d i = Inr (wire, j)" and "h m f w d j = Some r" for wire j f w r
  proof -
    from that(2) have "i < j" by (auto dest: read_varint_bounds)
    moreover have "r \<noteq> Inl ErrFuel" and "\<And>m' j'. r = Inr (m', j') \<Longrightarrow> j \<le> j'"
      using h that(3) len by (auto simp: progressing_def)
    moreover have "0 < k" using Suc.prems(1) that(1) by simp
    ultimately show ?thesis
      using Suc by (fastforce simp: andThen_eq_Inl)
  qed
  have unknown: "unmarshal_loop h k d m (nat (wrap64 (int i + n))) \<noteq> Inl ErrFuel"
    if "skipField (drop i d) = Inr n" and "\<not> wrap64 (int i + n) < 0"
      and "\<not> wrap64 (int i + n) > int (length d)" and "i < length d" for n
  proof -
    have "0 < n" using skip_loop_advances [of "drop i d"] that(1) len
      unfolding skipField_def by fastforce
    moreover have "n < 2 ^ 63 \<Longrightarrow> wrap64 (int i + n) = int i + n"
      using wrap64_nonneg [of "int i" n] that len \<open>0 < n\<close> by simp
    moreover have "n < 2 ^ 63" using skip_loop_less [of "drop i d"] that(1) len
      unfolding skipField_def by fastforce
    ultimately show ?thesis using Suc that(4) by (auto simp: nat_int_add)
  qed
  show ?case
    using known unknown skipField_no_fuel [of "drop i d"] len
    by (auto simp: andThen_eq_Inl read_varint_no_fuel Let_def split: if_splits option.splits)
qed

lemma unmarshalWith_no_fuel:
  "progressing h \<Longrightarrow> length d < 2 ^ 63 \<Longrightarrow> unmarshalWith h m d \<noteq> Inl ErrFuel"
  unfolding unmarshalWith_def by (rule unmarshal_loop_no_fuel) auto

end
