(* ===== verification/Codec.thy ===== *)
theory Codec
  imports WireRead
begin

text \<open>
  The interface of a generated protobuf message: \<open>MarshalToSizedBuffer\<close>, \<open>Size\<close> and
  \<open>Unmarshal\<close>, with the contract they keep together. \<open>enc\<close> is the wire encoding of a
  message; \<open>norm\<close> is the message the decoder returns for it, which differs from the message
  only where Go tells a nil slice from an empty one. Every message of \<open>types/*.pb.go\<close> interprets
  the locale; the nested-message lemmas proved in it are what the enclosing messages use.
\<close>

named_theorems no_fuel "field readers return"
named_theorems advances "field readers do not move backwards"

locale proto_message =
  fixes mt :: "'m \<Rightarrow> marshaller"
    and sz :: "'m \<Rightarrow> nat"
    and um :: "'m \<Rightarrow> bytes \<Rightarrow> 'm result"
    and zero :: "'m"
    and enc :: "'m \<Rightarrow> bytes"
    and norm :: "'m \<Rightarrow> 'm"
  assumes marshals_enc: "marshals (mt m) (enc m)"
    and sz_enc: "sz m = length (enc m)"
    and um_enc: "length (enc m) < 2 ^ 63 \<Longrightarrow> um zero (enc m) = Inr (norm m)"
    and um_returns: "length d < 2 ^ 63 \<Longrightarrow> um m d \<noteq> Inl ErrFuel"
begin

lemma marshal_eq: "marshalWith (sz m) (mt m) = Inr (enc m)"
  unfolding sz_enc by (rule marshalWith_eq) (rule marshals_enc)

lemma roundtrip:
  "length (enc m) < 2 ^ 63 \<Longrightarrow> andThen (marshalWith (sz m) (mt m)) (um zero) = Inr (norm m)"
  by (simp add: marshal_eq um_enc)

lemma enc_inj:
  "enc m = enc m' \<Longrightarrow> length (enc m) < 2 ^ 63 \<Longrightarrow> norm m = norm m'"
  using um_enc [of m] um_enc [of m'] by simp

lemma writes_field: "writes (put_msg_field tag (mt m)) (delimited tag (enc m))"
  by (rule writes_put_msg_field) (rule marshals_enc)

lemma field_size: "1 + sz m + sov (of_nat (sz m)) = length (delimited tag (enc m))"
  by (simp add: sz_enc length_delimited)

lemma reads_field:
  assumes "routes h m0 tag 2 (read_msg_field (\<lambda>b. andThen (um zero b) (\<lambda>x. Inr (upd x))) 2)"
    and "length (enc m) < 2 ^ 63"
  shows "reads h (delimited tag (enc m)) m0 (upd (norm m))"
  using assms(1) by (rule reads_msg_field) (simp only: um_enc [OF assms(2)] andThen_simps)

end

section \<open>Sizes of fields\<close>

definition string_size :: "string \<Rightarrow> nat" where
  "string_size s = (let l = length s in if l > 0 then 1 + l + sov (of_nat l) else 0)"

definition string_elem_size :: "string \<Rightarrow> nat" where
  "string_elem_size s = (let l = length s in 1 + l + sov (of_nat l))"

definition uint64_size :: "u64 \<Rightarrow> nat" where
  "uint64_size v = (if v \<noteq> 0 then 1 + sov v else 0)"

definition msg_size :: "nat \<Rightarrow> nat" where
  "msg_size l = 1 + l + sov (of_nat l)"

lemma length_string_field: "length (string_field tag s) = string_size s"
  by (simp add: string_field_def string_size_def length_delimited Let_def)

lemma length_string_elem: "length (delimited tag (bytes_of_string s)) = string_elem_size s"
  by (simp add: string_elem_size_def length_delimited Let_def)

lemma length_uint64_field: "length (uint64_field tag v) = uint64_size v"
  by (simp add: uint64_field_def uint64_size_def length_varint)

lemma length_msg_field: "length (delimited tag bs) = msg_size (length bs)"
  by (simp add: length_delimited msg_size_def)

lemmas field_lengths = length_string_field length_string_elem length_uint64_field length_msg_field

lemma length_concat_map: "length (concat (map g xs)) = (\<Sum>x\<leftarrow>xs. length (g x))"
  by (simp add: length_concat comp_def)

section \<open>Progress of the field readers\<close>

lemma read_field_no_fuel [no_fuel]:
  "read_string_field upd w d i \<noteq> Inl ErrFuel"
  "read_uint64_field upd' w d i \<noteq> Inl ErrFuel"
  "length d < 2 ^ 63 \<Longrightarrow> (\<And>s. length s < 2 ^ 63 \<Longrightarrow> um s \<noteq> Inl ErrFuel) \<Longrightarrow>
    read_msg_field um w d i \<noteq> Inl ErrFuel"
  by (auto simp: read_string_field_def read_uint64_field_def read_msg_field_def andThen_eq_Inl
      read_slice_no_fuel read_varint_no_fuel split: if_splits dest: read_slice_bounds)

lemma read_string_field_advances [advances]:
  "read_string_field upd w d i = Inr (m, j) \<Longrightarrow> length d < 2 ^ 63 \<Longrightarrow> i \<le> j"
  by (auto simp: read_string_field_def andThen_eq_Inr split: if_splits dest: read_slice_bounds(1))

lemma read_uint64_field_advances [advances]:
  "read_uint64_field upd w d i = Inr (m, j) \<Longrightarrow> length d < 2 ^ 63 \<Longrightarrow> i \<le> j"
  by (auto simp: read_uint64_field_def andThen_eq_Inr split: if_splits dest: read_varint_bounds)

lemma read_msg_field_advances [advances]:
  "read_msg_field um w d i = Inr (m, j) \<Longrightarrow> length d < 2 ^ 63 \<Longrightarrow> i \<le> j"
  by (auto simp: read_msg_field_def andThen_eq_Inr split: if_splits dest: read_slice_bounds(1))

context proto_message
begin

lemma field_no_fuel:
  "length d < 2 ^ 63 \<Longrightarrow>
    read_msg_field (\<lambda>b. andThen (um m b) (\<lambda>x. Inr (f x))) w d i \<noteq> Inl ErrFuel"
  by (rule read_field_no_fuel(3)) (auto simp only: andThen_eq_Inl um_returns sum.distinct)

end

lemma progressingI:
  assumes "\<And>m f w d i r. h m f w d i = Some r \<Longrightarrow> length d < 2 ^ 63 \<Longrightarrow> r \<noteq> Inl ErrFuel"
    and "\<And>m f w d i m' j. h m f w d i = Some (Inr (m', j)) \<Longrightarrow> length d < 2 ^ 63 \<Longrightarrow> i \<le> j"
  shows "progressing h"
  using assms unfolding progressing_def by blast

section \<open>The tags of the generated code\<close>

lemma field_number_tags [simp]:
  "field_number 0x0a = 1" "field_number 0x10 = 2" "field_number 0x12 = 2"
  "field_number 0x1a = 3" "field_number 0x22 = 4"
  by (simp_all add: field_number_def)

lemma tag_small [simp]:
  "(0x0a :: byte) < 128" "(0x10 :: byte) < 128" "(0x12 :: byte) < 128" "(0x1a :: byte) < 128"
  "(0x22 :: byte) < 128"
  by simp_all

end
