(* ===== verification/Sdk.thy ===== *)
theory Sdk
  imports Codec "HOL-Library.List_Lexorder"
begin

text \<open>
  What the module takes from outside its repository: the data types of the Cosmos SDK it handles
  and the functions it calls, as the record \<open>sdk\<close> of parameters. \<open>types/expected_keepers.go\<close>
  declares the keeper interfaces; the rest are package functions (\<open>sdk.AccAddressFromBech32\<close>,
  \<open>sdk.ValidateDenom\<close>, \<open>prefix.NewStore\<close>, the parameter subspace, the gas meter). Nothing is
  assumed of them in the definitions. What a theorem relies on is a named predicate of the
  last section, each one documented behaviour of the SDK.
\<close>

section \<open>SDK data\<close>

record coin =
  coin_Denom :: string
  coin_Amount :: int

text \<open>\<open>sdk.Coins\<close> is a slice; the code tells \<open>nil\<close> (\<open>None\<close>) from an empty slice.\<close>

type_synonym Coins = "coin list option"

fun coins_list :: "Coins \<Rightarrow> coin list" where
  "coins_list None = []"
| "coins_list (Some cs) = cs"

record denom_unit =
  unit_Denom :: string
  unit_Exponent :: "32 word"
  unit_Aliases :: "string list"

record bank_metadata =
  meta_Description :: string
  meta_DenomUnits :: "denom_unit list"
  meta_Base :: string
  meta_Display :: string
  meta_Name :: string
  meta_Symbol :: string

text \<open>The zero value \<open>banktypes.Metadata{}\<close>.\<close>

definition bank_metadata_zero :: bank_metadata where
  "bank_metadata_zero = \<lparr>meta_Description = '''', meta_DenomUnits = [], meta_Base = '''',
     meta_Display = '''', meta_Name = '''', meta_Symbol = ''''\<rparr>"

text \<open>\<open>authtypes.AccountI\<close>, as far as the type assertion to \<open>ModuleAccountI\<close> sees it.\<close>

datatype account = ModuleAccountI | OtherAccountI

record event =
  event_Type :: string
  event_Attributes :: "(string \<times> string) list"

text \<open>The dynamic types a parameter value (\<open>interface{}\<close>) can have.\<close>

datatype param_value = PCoins Coins | PUint64 u64 | POther

record param_pair =
  pair_Key :: bytes
  pair_Value :: param_value
  pair_ValidatorFn :: "param_value \<Rightarrow> unit result"

text \<open>A message type with its generated codec.\<close>

record 'm codec =
  codec_MarshalToSizedBuffer :: "'m \<Rightarrow> marshaller"
  codec_Size :: "'m \<Rightarrow> nat"
  codec_Unmarshal :: "'m \<Rightarrow> bytes \<Rightarrow> 'm result"
  codec_zero :: "'m"

abbreviation codec_ok :: "'m codec \<Rightarrow> ('m \<Rightarrow> bytes) \<Rightarrow> bool" where
  "codec_ok C enc \<equiv> proto_message (codec_MarshalToSizedBuffer C) (codec_Size C)
    (codec_Unmarshal C) (codec_zero C) enc id"

section \<open>SDK functions\<close>

text \<open>
  \<open>'k\<close> is the module's own key-value store, \<open>'w\<close> the state of every other module and of the
  gas meter. A store is accessed through \<open>prefix.NewStore(store, p)\<close>, so the operations take the
  prefix \<open>p\<close> and a key below it; \<open>store_Iterator\<close> is the list an \<open>Iterator(nil, nil)\<close> of the
  prefix store runs through. Functions that may return an error or panic return a result, functions that
  may change state return the state as well.
\<close>

record ('k, 'w) sdk =
  AccAddressFromBech32 :: "string \<Rightarrow> bytes result"
  AccAddress_String :: "bytes \<Rightarrow> string"
  ValidateDenom :: "string \<Rightarrow> unit result"
  Coin_IsValid :: "coin \<Rightarrow> bool"
  Coin_String :: "coin \<Rightarrow> string"
  Coins_Validate :: "Coins \<Rightarrow> unit result"
  NewCoins :: "coin list \<Rightarrow> Coins result"
  Metadata_Validate :: "bank_metadata \<Rightarrow> unit result"
  Metadata_String :: "bank_metadata \<Rightarrow> string"
  store_Get :: "'k \<Rightarrow> bytes \<Rightarrow> bytes \<Rightarrow> bytes option"
  store_Set :: "'k \<Rightarrow> bytes \<Rightarrow> bytes \<Rightarrow> bytes \<Rightarrow> 'k"
  store_Iterator :: "'k \<Rightarrow> bytes \<Rightarrow> (bytes \<times> bytes) list"
  GetParamSet :: "'w \<Rightarrow> bytes list \<Rightarrow> param_value list result"
  SetParamSet :: "'w \<Rightarrow> param_pair list \<Rightarrow> unit result \<times> 'w"
  ConsumeGas :: "u64 \<Rightarrow> string \<Rightarrow> 'w \<Rightarrow> unit result \<times> 'w"
  GetDenomMetaData :: "'w \<Rightarrow> string \<Rightarrow> bank_metadata \<times> bool"
  SetDenomMetaData :: "bank_metadata \<Rightarrow> 'w \<Rightarrow> 'w"
  HasSupply :: "'w \<Rightarrow> string \<Rightarrow> bool"
  SendCoinsFromModuleToAccount :: "string \<Rightarrow> bytes \<Rightarrow> Coins \<Rightarrow> 'w \<Rightarrow> unit result \<times> 'w"
  SendCoinsFromAccountToModule :: "bytes \<Rightarrow> string \<Rightarrow> Coins \<Rightarrow> 'w \<Rightarrow> unit result \<times> 'w"
  MintCoins :: "string \<Rightarrow> Coins \<Rightarrow> 'w \<Rightarrow> unit result \<times> 'w"
  BurnCoins :: "string \<Rightarrow> Coins \<Rightarrow> 'w \<Rightarrow> unit result \<times> 'w"
  SendCoins :: "bytes \<Rightarrow> bytes \<Rightarrow> Coins \<Rightarrow> 'w \<Rightarrow> unit result \<times> 'w"
  SpendableCoins :: "'w \<Rightarrow> bytes \<Rightarrow> Coins"
  GetBalance :: "'w \<Rightarrow> bytes \<Rightarrow> string \<Rightarrow> coin"
  HasBalance :: "'w \<Rightarrow> bytes \<Rightarrow> coin \<Rightarrow> bool"
  GetAccount :: "'w \<Rightarrow> bytes \<Rightarrow> account option"
  GetModuleAccount :: "string \<Rightarrow> 'w \<Rightarrow> unit result \<times> 'w"
  FundCommunityPool :: "Coins \<Rightarrow> bytes \<Rightarrow> 'w \<Rightarrow> unit result \<times> 'w"

text \<open>\<open>BankHooks\<close>, an interface that no code of the repository implements or calls: sender, recipient and amount of a transfer that
  is about to happen.\<close>

record 'w BankHooks =
  TrackBeforeSend :: "bytes \<Rightarrow> bytes \<Rightarrow> Coins \<Rightarrow> 'w \<Rightarrow> 'w"
  BlockBeforeSend :: "bytes \<Rightarrow> bytes \<Rightarrow> Coins \<Rightarrow> 'w \<Rightarrow> unit result \<times> 'w"

section \<open>The context\<close>

text \<open>
  \<open>sdk.Context\<close> as the module uses it: its own store, the rest of the chain, and the events the
  module has emitted (those of other modules belong to the world).
\<close>

record ('k, 'w) ctx =
  store :: 'k
  world :: 'w
  emitted :: "event list"

type_synonym ('k, 'w, 'a) keeper = "('k, 'w) ctx \<Rightarrow> 'a result \<times> ('k, 'w) ctx"

definition worldM :: "('w \<Rightarrow> 'a result \<times> 'w) \<Rightarrow> ('k, 'w, 'a) keeper" where
  "worldM f c = (case f (world c) of (r, w) \<Rightarrow> (r, c\<lparr>world := w\<rparr>))"

definition EmitEvents :: "event list \<Rightarrow> ('k, 'w, unit) keeper" where
  "EmitEvents es = modifyM (\<lambda>c. c\<lparr>emitted := emitted c @ es\<rparr>)"

lemma worldM_runs [run_simps]: "f (world c) = (r, w) \<Longrightarrow> worldM f c = (r, c\<lparr>world := w\<rparr>)"
  by (simp add: worldM_def)

lemma worldM_eq: "worldM f c = (r, c') \<longleftrightarrow> (\<exists>w. f (world c) = (r, w) \<and> c' = c\<lparr>world := w\<rparr>)"
  by (auto simp: worldM_def split: prod.splits)

lemma EmitEvents_run [run_simps]: "EmitEvents es c = (Inr (), c\<lparr>emitted := emitted c @ es\<rparr>)"
  by (simp add: EmitEvents_def action_simps)

section \<open>What theorems may assume of the SDK\<close>

text \<open>A prefix store is the parent store at the concatenated key; an iterator runs through exactly the
  keys below the prefix, in ascending byte order.\<close>

definition store_laws :: "('k, 'w) sdk \<Rightarrow> bool" where
  "store_laws E \<longleftrightarrow>
    (\<forall>s p k v q j. store_Get E (store_Set E s p k v) q j =
       (if q @ j = p @ k then Some v else store_Get E s q j)) \<and>
    (\<forall>s p k q j. p @ k = q @ j \<longrightarrow> store_Get E s p k = store_Get E s q j) \<and>
    (\<forall>s p. set (store_Iterator E s p) = {(k, v). store_Get E s p k = Some v} \<and>
       sorted (map fst (store_Iterator E s p)) \<and> distinct (map fst (store_Iterator E s p)))"

text \<open>The empty string is no address; the text form of a decoded address decodes to it; the SDK
  decodes no text longer than 1023 characters; the characters of an address are those of bech32,
  and neither \<open>/\<close> nor \<open>|\<close> is one of them for the prefixes a chain uses.\<close>

definition bech32_laws :: "('k, 'w) sdk \<Rightarrow> bool" where
  "bech32_laws E \<longleftrightarrow>
    (\<exists>e. AccAddressFromBech32 E '''' = Inl e) \<and>
    (\<forall>s a. AccAddressFromBech32 E s = Inr a \<longrightarrow>
       AccAddressFromBech32 E (AccAddress_String E a) = Inr a \<and> length s \<le> 1023 \<and>
       CHR ''/'' \<notin> set s \<and> CHR ''|'' \<notin> set s \<and>
       CHR ''/'' \<notin> set (AccAddress_String E a) \<and> CHR ''|'' \<notin> set (AccAddress_String E a))"

text \<open>A valid denom has at most 128 characters, letters, digits and a few separators, of which
  \<open>|\<close> is none.\<close>

definition denom_laws :: "('k, 'w) sdk \<Rightarrow> bool" where
  "denom_laws E \<longleftrightarrow> (\<forall>d. ValidateDenom E d = Inr () \<longrightarrow>
     length d \<le> 128 \<and> CHR ''|'' \<notin> set d)"

text \<open>Denom metadata is a map by base denom that only \<open>SetDenomMetaData\<close> changes.\<close>

definition metadata_kept :: "('k, 'w) sdk \<Rightarrow> ('w \<Rightarrow> 'a result \<times> 'w) \<Rightarrow> bool" where
  "metadata_kept E f \<longleftrightarrow> (\<forall>w. GetDenomMetaData E (snd (f w)) = GetDenomMetaData E w)"

definition metadata_laws :: "('k, 'w) sdk \<Rightarrow> bool" where
  "metadata_laws E \<longleftrightarrow>
    (\<forall>m w d. GetDenomMetaData E (SetDenomMetaData E m w) d =
       (if d = meta_Base m then (m, True) else GetDenomMetaData E w d)) \<and>
    (\<forall>p. metadata_kept E (\<lambda>w. SetParamSet E w p)) \<and>
    (\<forall>g s. metadata_kept E (ConsumeGas E g s)) \<and>
    (\<forall>m a cs. metadata_kept E (SendCoinsFromModuleToAccount E m a cs)) \<and>
    (\<forall>a m cs. metadata_kept E (SendCoinsFromAccountToModule E a m cs)) \<and>
    (\<forall>m cs. metadata_kept E (MintCoins E m cs)) \<and>
    (\<forall>m cs. metadata_kept E (BurnCoins E m cs)) \<and>
    (\<forall>a b cs. metadata_kept E (SendCoins E a b cs)) \<and>
    (\<forall>m. metadata_kept E (GetModuleAccount E m)) \<and>
    (\<forall>cs a. metadata_kept E (FundCommunityPool E cs a))"

text \<open>Setting a parameter set whose values pass their validators succeeds, and the values are read back
  (a nil slice of coins may come back empty and an empty one nil: both are no coins). Setting denom
  metadata does not touch the parameters.\<close>

fun same_param :: "param_value \<Rightarrow> param_value \<Rightarrow> bool" where
  "same_param (PCoins cs) (PCoins cs') = (coins_list cs = coins_list cs')"
| "same_param v v' = (v = v')"

definition valid_pair :: "param_pair \<Rightarrow> bool" where
  "valid_pair p \<longleftrightarrow> pair_ValidatorFn p (pair_Value p) = Inr ()"

definition param_laws :: "('k, 'w) sdk \<Rightarrow> bool" where
  "param_laws E \<longleftrightarrow> (\<forall>w ps. list_all valid_pair ps \<longrightarrow> distinct (map pair_Key ps) \<longrightarrow>
     (\<exists>w' vs. SetParamSet E w ps = (Inr (), w') \<and>
        GetParamSet E w' (map pair_Key ps) = Inr vs \<and> list_all2 same_param (map pair_Value ps) vs)) \<and>
     (\<forall>m w ks. GetParamSet E (SetDenomMetaData E m w) ks = GetParamSet E w ks)"

text \<open>Coins: no coins are a valid, non-nil empty slice; validity does not depend on nil or empty; what
  \<open>NewCoins\<close> returns is valid, and holds the coin it was given (or nothing, for a zero coin).\<close>

definition amount_of :: "Coins \<Rightarrow> string \<Rightarrow> int" where
  "amount_of cs d = (\<Sum>c\<leftarrow>coins_list cs. if coin_Denom c = d then coin_Amount c else 0)"

definition coins_laws :: "('k, 'w) sdk \<Rightarrow> bool" where
  "coins_laws E \<longleftrightarrow> NewCoins E [] = Inr (Some []) \<and>
    (\<forall>cs cs'. coins_list cs = coins_list cs' \<longrightarrow> Coins_Validate E cs = Coins_Validate E cs') \<and>
    (\<forall>l cs. NewCoins E l = Inr cs \<longrightarrow> Coins_Validate E cs = Inr ()) \<and>
    (\<forall>c cs d. NewCoins E [c] = Inr cs \<longrightarrow>
       amount_of cs d = (if coin_Denom c = d then coin_Amount c else 0))"

text \<open>Bank transfers that succeed move exactly the coins they are given; \<open>modacc\<close> is the address
  of a module's account.\<close>

definition bal :: "('k, 'w) sdk \<Rightarrow> 'w \<Rightarrow> bytes \<Rightarrow> string \<Rightarrow> int" where
  "bal E w a d = coin_Amount (GetBalance E w a d)"

definition moves :: "('k, 'w) sdk \<Rightarrow> (bytes \<Rightarrow> string \<Rightarrow> int) \<Rightarrow> ('w \<Rightarrow> unit result \<times> 'w) \<Rightarrow> bool" where
  "moves E \<delta> f \<longleftrightarrow> (\<forall>w w' a d. f w = (Inr (), w') \<longrightarrow> bal E w' a d = bal E w a d + \<delta> a d)"

definition credit :: "bytes \<Rightarrow> Coins \<Rightarrow> bytes \<Rightarrow> string \<Rightarrow> int" where
  "credit a cs x d = (if x = a then amount_of cs d else 0)"

definition bank_laws :: "('k, 'w) sdk \<Rightarrow> (string \<Rightarrow> bytes) \<Rightarrow> bool" where
  "bank_laws E modacc \<longleftrightarrow>
    (\<forall>m cs. moves E (credit (modacc m) cs) (MintCoins E m cs)) \<and>
    (\<forall>m cs. moves E (\<lambda>x d. - credit (modacc m) cs x d) (BurnCoins E m cs)) \<and>
    (\<forall>a b cs. moves E (\<lambda>x d. credit b cs x d - credit a cs x d) (SendCoins E a b cs)) \<and>
    (\<forall>m b cs. moves E (\<lambda>x d. credit b cs x d - credit (modacc m) cs x d) (SendCoinsFromModuleToAccount E m b cs)) \<and>
    (\<forall>a m cs. moves E (\<lambda>x d. credit (modacc m) cs x d - credit a cs x d) (SendCoinsFromAccountToModule E a m cs)) \<and>
    (\<forall>w m a d. bal E (SetDenomMetaData E m w) a d = bal E w a d)"

section \<open>Working with the laws\<close>

lemma store_Get_Set:
  "store_laws E \<Longrightarrow> store_Get E (store_Set E s p k v) q j =
    (if q @ j = p @ k then Some v else store_Get E s q j)"
  by (simp add: store_laws_def)

lemma store_Get_split:
  "store_laws E \<Longrightarrow> p @ k = q @ j \<Longrightarrow> store_Get E s p k = store_Get E s q j"
  unfolding store_laws_def by blast

lemma set_store_Iterator:
  "store_laws E \<Longrightarrow> (k, v) \<in> set (store_Iterator E s p) \<longleftrightarrow> store_Get E s p k = Some v"
  unfolding store_laws_def by blast

lemma store_Iterator_sorted:
  "store_laws E \<Longrightarrow> sorted (map fst (store_Iterator E s p)) \<and> distinct (map fst (store_Iterator E s p))"
  unfolding store_laws_def by blast

lemma bech32_empty: "bech32_laws E \<Longrightarrow> AccAddressFromBech32 E '''' \<noteq> Inr a"
  by (auto simp: bech32_laws_def)

lemma bech32_again:
  "bech32_laws E \<Longrightarrow> AccAddressFromBech32 E s = Inr a \<Longrightarrow>
    AccAddressFromBech32 E (AccAddress_String E a) = Inr a"
  by (auto simp: bech32_laws_def)

lemma bech32_length:
  "bech32_laws E \<Longrightarrow> AccAddressFromBech32 E s = Inr a \<Longrightarrow> length s \<le> 1023"
  by (auto simp: bech32_laws_def)

lemma bech32_chars:
  assumes "bech32_laws E" and "AccAddressFromBech32 E s = Inr a"
  shows "CHR ''/'' \<notin> set s" and "CHR ''|'' \<notin> set s"
    and "CHR ''/'' \<notin> set (AccAddress_String E a)" and "CHR ''|'' \<notin> set (AccAddress_String E a)"
  using assms by (auto simp: bech32_laws_def)

lemma valid_denom_chars: "denom_laws E \<Longrightarrow> ValidateDenom E d = Inr () \<Longrightarrow> CHR ''|'' \<notin> set d"
  by (simp add: denom_laws_def)

lemma NewCoins_single:
  "coins_laws E \<Longrightarrow> NewCoins E [c] = Inr cs \<Longrightarrow>
    amount_of cs d = (if coin_Denom c = d then coin_Amount c else 0)"
  unfolding coins_laws_def by blast

lemma param_lawsD:
  assumes "param_laws E"
  shows "list_all valid_pair ps \<Longrightarrow> distinct (map pair_Key ps) \<Longrightarrow>
      \<exists>w' vs. SetParamSet E w ps = (Inr (), w') \<and>
        GetParamSet E w' (map pair_Key ps) = Inr vs \<and> list_all2 same_param (map pair_Value ps) vs"
    and "GetParamSet E (SetDenomMetaData E m w) ks = GetParamSet E w ks"
  using assms unfolding param_laws_def by blast+

lemma movesD: "moves E \<delta> f \<Longrightarrow> f w = (Inr (), w') \<Longrightarrow> bal E w' a d = bal E w a d + \<delta> a d"
  unfolding moves_def by blast

lemma bank_lawsD:
  assumes "bank_laws E modacc"
  shows "moves E (credit (modacc m) cs) (MintCoins E m cs)"
    and "moves E (\<lambda>x d. - credit (modacc m) cs x d) (BurnCoins E m cs)"
    and "moves E (\<lambda>x d. credit b cs x d - credit a cs x d) (SendCoins E a b cs)"
    and "moves E (\<lambda>x d. credit b cs x d - credit (modacc m) cs x d) (SendCoinsFromModuleToAccount E m b cs)"
    and "moves E (\<lambda>x d. credit (modacc m) cs x d - credit a cs x d) (SendCoinsFromAccountToModule E a m cs)"
    and "bal E (SetDenomMetaData E md w) x d = bal E w x d"
  using assms unfolding bank_laws_def by blast+

lemma GetDenomMetaData_Set:
  "metadata_laws E \<Longrightarrow> GetDenomMetaData E (SetDenomMetaData E m w) d =
    (if d = meta_Base m then (m, True) else GetDenomMetaData E w d)"
  by (simp add: metadata_laws_def)

lemma metadata_keptD:
  "metadata_kept E f \<Longrightarrow> f w = (r, w') \<Longrightarrow> GetDenomMetaData E w' = GetDenomMetaData E w"
  by (metis metadata_kept_def snd_conv)

lemma metadata_lawsD:
  assumes "metadata_laws E"
  shows "metadata_kept E (\<lambda>w. SetParamSet E w p)" and "metadata_kept E (ConsumeGas E g s)"
    and "metadata_kept E (SendCoinsFromModuleToAccount E m a cs)"
    and "metadata_kept E (SendCoinsFromAccountToModule E a m cs)"
    and "metadata_kept E (MintCoins E m cs)" and "metadata_kept E (BurnCoins E m cs)"
    and "metadata_kept E (SendCoins E a b cs)" and "metadata_kept E (GetModuleAccount E m)"
    and "metadata_kept E (FundCommunityPool E cs a)"
  using assms unfolding metadata_laws_def by blast+

end
