(* ===== verification/ParamsPb.thy ===== *)
theory ParamsPb
  imports Sdk
begin

text \<open>
  The generated codec of \<open>types/params.pb.go\<close>: the module's parameters, a \<open>repeated Coin\<close>
  field and a \<open>uint64\<close>. \<open>Unmarshal\<close> appends one coin per field, so an empty fee and a nil one
  have the same encoding and both decode to nil; \<open>Params_norm\<close> is that normal form.
\<close>

record Params =
  DenomCreationFee :: Coins
  DenomCreationGasConsume :: u64

definition Params_zero :: Params where
  "Params_zero = \<lparr>DenomCreationFee = None, DenomCreationGasConsume = 0\<rparr>"

definition Params_MarshalToSizedBuffer :: "coin codec \<Rightarrow> Params \<Rightarrow> marshaller" where
  "Params_MarshalToSizedBuffer CC m = sizedBuffer
    (thenW (put_uint64_field 0x10 (DenomCreationGasConsume m))
      (put_rev (\<lambda>c. put_msg_field 0x0a (codec_MarshalToSizedBuffer CC c))
        (coins_list (DenomCreationFee m))))"

definition Params_Size :: "coin codec \<Rightarrow> Params \<Rightarrow> nat" where
  "Params_Size CC m =
    (\<Sum>e\<leftarrow>coins_list (DenomCreationFee m). msg_size (codec_Size CC e))
    + uint64_size (DenomCreationGasConsume m)"

definition Params_Marshal :: "coin codec \<Rightarrow> Params \<Rightarrow> bytes result" where
  "Params_Marshal CC m = marshalWith (Params_Size CC m) (Params_MarshalToSizedBuffer CC m)"

definition Params_field :: "coin codec \<Rightarrow> Params field_switch" where
  "Params_field CC m fieldNum wireType d i =
    (if fieldNum = 1 then Some (read_msg_field (\<lambda>b. andThen (codec_Unmarshal CC (codec_zero CC) b)
        (\<lambda>x. Inr (m\<lparr>DenomCreationFee := Some (coins_list (DenomCreationFee m) @ [x])\<rparr>))) wireType d i)
     else if fieldNum = 2 then Some (read_uint64_field (\<lambda>v. m\<lparr>DenomCreationGasConsume := v\<rparr>) wireType d i)
     else None)"

definition Params_Unmarshal :: "coin codec \<Rightarrow> Params \<Rightarrow> bytes \<Rightarrow> Params result" where
  "Params_Unmarshal CC m d = unmarshalWith (Params_field CC) m d"

definition Params_bytes :: "(coin \<Rightarrow> bytes) \<Rightarrow> Params \<Rightarrow> bytes" where
  "Params_bytes cenc m =
    concat (map (\<lambda>c. delimited 0x0a (cenc c)) (coins_list (DenomCreationFee m)))
    @ uint64_field 0x10 (DenomCreationGasConsume m)"

definition Params_norm :: "Params \<Rightarrow> Params" where
  "Params_norm m = m\<lparr>DenomCreationFee :=
     (if coins_list (DenomCreationFee m) = [] then None else DenomCreationFee m)\<rparr>"

lemma Params_routes:
  "routes (Params_field CC) m 0x0a 2
    (read_msg_field (\<lambda>b. andThen (codec_Unmarshal CC (codec_zero CC) b)
      (\<lambda>x. Inr (m\<lparr>DenomCreationFee := Some (coins_list (DenomCreationFee m) @ [x])\<rparr>))) 2)"
  "routes (Params_field CC) m 0x10 0 (read_uint64_field (\<lambda>v. m\<lparr>DenomCreationGasConsume := v\<rparr>) 0)"
  by (simp_all add: routes_def Params_field_def fun_eq_iff)

lemma Params_progressing:
  assumes "codec_ok CC cenc"
  shows "progressing (Params_field CC)"
  by (rule progressingI)
    (auto simp: Params_field_def no_fuel proto_message.field_no_fuel [OF assms]
      split: if_splits dest: advances)

abbreviation append_fee :: "coin \<Rightarrow> Params \<Rightarrow> Params" where
  "append_fee x m \<equiv> m\<lparr>DenomCreationFee := Some (coins_list (DenomCreationFee m) @ [x])\<rparr>"

lemma fold_append_fee:
  "fold append_fee xs m =
    (if xs = [] then m else m\<lparr>DenomCreationFee := Some (coins_list (DenomCreationFee m) @ xs)\<rparr>)"
  by (induction xs arbitrary: m) simp_all

lemma Params_reads:
  assumes ok: "codec_ok CC cenc" and len: "length (Params_bytes cenc m) < 2 ^ 63"
  shows "reads (Params_field CC) (Params_bytes cenc m) Params_zero (Params_norm m)"
proof -
  let ?fees = "coins_list (DenomCreationFee m)"
  let ?m1 = "fold append_fee ?fees Params_zero"
  let ?m2 = "?m1\<lparr>DenomCreationGasConsume := DenomCreationGasConsume m\<rparr>"
  have small: "length (cenc c) < 2 ^ 63" if "c \<in> set ?fees" for c
  proof -
    have "length (delimited 0x0a (cenc c)) \<le> (\<Sum>c\<leftarrow>?fees. length (delimited 0x0a (cenc c)))"
      using that by (intro member_le_sum_list) auto
    with len show ?thesis
      by (simp add: Params_bytes_def length_concat_map length_delimited)
  qed
  have r1: "reads (Params_field CC) (concat (map (\<lambda>c. delimited 0x0a (cenc c)) ?fees)) Params_zero ?m1"
  proof (rule reads_concat [where P = "\<lambda>_. True"])
    fix c x
    assume "c \<in> set ?fees"
    then show "reads (Params_field CC) (delimited 0x0a (cenc c)) x (append_fee c x)"
      using proto_message.reads_field [OF ok Params_routes(1) small] by simp
  qed simp_all
  have "DenomCreationGasConsume ?m1 = 0"
    by (simp add: fold_append_fee Params_zero_def)
  then have r2: "reads (Params_field CC) (uint64_field 0x10 (DenomCreationGasConsume m)) ?m1 ?m2"
    by (intro reads_uint64_field [OF Params_routes(2)]) simp
  have eq: "?m2 = Params_norm m"
    by (cases m; cases "DenomCreationFee m")
      (simp_all add: fold_append_fee Params_zero_def Params_norm_def)
  show ?thesis
    using reads_append [OF r1 r2] unfolding eq Params_bytes_def .
qed

lemma Params_codec:
  assumes "codec_ok CC cenc"
  shows "proto_message (Params_MarshalToSizedBuffer CC) (Params_Size CC)
    (Params_Unmarshal CC) Params_zero (Params_bytes cenc) Params_norm"
proof unfold_locales
  fix m :: Params
  show "marshals (Params_MarshalToSizedBuffer CC m) (Params_bytes cenc m)"
    unfolding Params_MarshalToSizedBuffer_def Params_bytes_def
    by (rule marshals_sizedBuffer, rule writes_thenW, rule writes_put_uint64_field, rule writes_put_rev)
      (rule proto_message.writes_field [OF assms])
  show "Params_Size CC m = length (Params_bytes cenc m)"
    by (simp add: Params_Size_def Params_bytes_def field_lengths length_concat_map
        proto_message.sz_enc [OF assms])
  assume "length (Params_bytes cenc m) < 2 ^ 63"
  then show "Params_Unmarshal CC Params_zero (Params_bytes cenc m) = Inr (Params_norm m)"
    unfolding Params_Unmarshal_def
    by (intro unmarshalWith_reads Params_reads [OF assms])
next
  fix m :: Params and d :: bytes
  assume "length d < 2 ^ 63"
  then show "Params_Unmarshal CC m d \<noteq> Inl ErrFuel"
    unfolding Params_Unmarshal_def
    by (rule unmarshalWith_no_fuel [OF Params_progressing [OF assms]])
qed

end
