(* ===== verification/AuthorityPb.thy ===== *)
theory AuthorityPb
  imports Codec
begin

text \<open>
  The generated codec of \<open>types/authorityMetadata.pb.go\<close>: the message
  \<open>DenomAuthorityMetadata\<close> the keeper stores for each denom, its \<open>Marshal\<close>, \<open>Size\<close> and
  \<open>Unmarshal\<close>, and the \<open>XXX_\<close> entry points through which \<open>proto.Marshal\<close> and
  \<open>proto.Unmarshal\<close> reach them.
\<close>

record DenomAuthorityMetadata =
  Admin :: string

definition DenomAuthorityMetadata_zero :: DenomAuthorityMetadata where
  "DenomAuthorityMetadata_zero = \<lparr>Admin = ''''\<rparr>"

text \<open>The receiver may be a nil pointer.\<close>

definition GetAdmin :: "DenomAuthorityMetadata option \<Rightarrow> string" where
  "GetAdmin m = (case m of Some x \<Rightarrow> Admin x | None \<Rightarrow> '''')"

fun DenomAuthorityMetadata_Equal ::
  "DenomAuthorityMetadata option \<Rightarrow> DenomAuthorityMetadata option \<Rightarrow> bool" where
  "DenomAuthorityMetadata_Equal this None = (this = None)"
| "DenomAuthorityMetadata_Equal None (Some that) = False"
| "DenomAuthorityMetadata_Equal (Some this) (Some that) = (Admin this = Admin that)"

definition DenomAuthorityMetadata_MarshalToSizedBuffer :: "DenomAuthorityMetadata \<Rightarrow> marshaller" where
  "DenomAuthorityMetadata_MarshalToSizedBuffer m = sizedBuffer (put_string_field 0x0a (Admin m))"

definition DenomAuthorityMetadata_Size :: "DenomAuthorityMetadata \<Rightarrow> nat" where
  "DenomAuthorityMetadata_Size m = string_size (Admin m)"

definition DenomAuthorityMetadata_Marshal :: "DenomAuthorityMetadata \<Rightarrow> bytes result" where
  "DenomAuthorityMetadata_Marshal m =
    marshalWith (DenomAuthorityMetadata_Size m) (DenomAuthorityMetadata_MarshalToSizedBuffer m)"

definition DenomAuthorityMetadata_field :: "DenomAuthorityMetadata field_switch" where
  "DenomAuthorityMetadata_field m fieldNum wireType d i =
    (if fieldNum = 1 then Some (read_string_field (\<lambda>s. m\<lparr>Admin := s\<rparr>) wireType d i)
     else None)"

definition DenomAuthorityMetadata_Unmarshal ::
  "DenomAuthorityMetadata \<Rightarrow> bytes \<Rightarrow> DenomAuthorityMetadata result" where
  "DenomAuthorityMetadata_Unmarshal m d = unmarshalWith DenomAuthorityMetadata_field m d"

definition DenomAuthorityMetadata_bytes :: "DenomAuthorityMetadata \<Rightarrow> bytes" where
  "DenomAuthorityMetadata_bytes m = string_field 0x0a (Admin m)"

lemma DenomAuthorityMetadata_routes:
  "routes DenomAuthorityMetadata_field m 0x0a 2 (read_string_field (\<lambda>s. m\<lparr>Admin := s\<rparr>) 2)"
  by (simp add: routes_def DenomAuthorityMetadata_field_def fun_eq_iff)

lemma DenomAuthorityMetadata_progressing: "progressing DenomAuthorityMetadata_field"
  by (rule progressingI)
    (auto simp: DenomAuthorityMetadata_field_def no_fuel split: if_splits dest: advances)

interpretation DenomAuthorityMetadata_codec: proto_message
  DenomAuthorityMetadata_MarshalToSizedBuffer DenomAuthorityMetadata_Size
  DenomAuthorityMetadata_Unmarshal DenomAuthorityMetadata_zero DenomAuthorityMetadata_bytes id
proof unfold_locales
  fix m :: DenomAuthorityMetadata
  show "marshals (DenomAuthorityMetadata_MarshalToSizedBuffer m) (DenomAuthorityMetadata_bytes m)"
    unfolding DenomAuthorityMetadata_MarshalToSizedBuffer_def DenomAuthorityMetadata_bytes_def
    by (intro marshals_sizedBuffer writes_intros)
  show "DenomAuthorityMetadata_Size m = length (DenomAuthorityMetadata_bytes m)"
    by (simp add: DenomAuthorityMetadata_Size_def DenomAuthorityMetadata_bytes_def field_lengths)
  assume "length (DenomAuthorityMetadata_bytes m) < 2 ^ 63"
  then show "DenomAuthorityMetadata_Unmarshal DenomAuthorityMetadata_zero (DenomAuthorityMetadata_bytes m)
      = Inr (id m)"
    unfolding DenomAuthorityMetadata_Unmarshal_def
    using reads_string_field [OF DenomAuthorityMetadata_routes, of "Admin m" DenomAuthorityMetadata_zero]
    by (intro unmarshalWith_reads; cases m)
      (simp_all add: DenomAuthorityMetadata_bytes_def DenomAuthorityMetadata_zero_def)
next
  fix m :: DenomAuthorityMetadata and d :: bytes
  assume "length d < 2 ^ 63"
  then show "DenomAuthorityMetadata_Unmarshal m d \<noteq> Inl ErrFuel"
    unfolding DenomAuthorityMetadata_Unmarshal_def
    by (rule unmarshalWith_no_fuel [OF DenomAuthorityMetadata_progressing])
qed

section \<open>The entry points of the proto package\<close>

text \<open>\<open>XXX_Marshal(b, false)\<close> fills the capacity of \<open>b\<close>, which \<open>proto.Marshal\<close> makes
  \<open>XXX_Size()\<close> bytes; \<open>XXX_Unmarshal\<close> is \<open>Unmarshal\<close> on the reset message.\<close>

definition DenomAuthorityMetadata_XXX_Marshal :: "DenomAuthorityMetadata \<Rightarrow> nat \<Rightarrow> bytes result" where
  "DenomAuthorityMetadata_XXX_Marshal m cap =
    marshalWith cap (DenomAuthorityMetadata_MarshalToSizedBuffer m)"

definition DenomAuthorityMetadata_XXX_Size :: "DenomAuthorityMetadata \<Rightarrow> nat" where
  "DenomAuthorityMetadata_XXX_Size m = DenomAuthorityMetadata_Size m"

definition DenomAuthorityMetadata_XXX_Unmarshal ::
  "DenomAuthorityMetadata \<Rightarrow> bytes \<Rightarrow> DenomAuthorityMetadata result" where
  "DenomAuthorityMetadata_XXX_Unmarshal m b = DenomAuthorityMetadata_Unmarshal m b"

lemma XXX_Marshal_eq:
  "DenomAuthorityMetadata_XXX_Marshal m (DenomAuthorityMetadata_XXX_Size m)
    = Inr (DenomAuthorityMetadata_bytes m)"
  unfolding DenomAuthorityMetadata_XXX_Marshal_def DenomAuthorityMetadata_XXX_Size_def
  by (rule DenomAuthorityMetadata_codec.marshal_eq)

lemma XXX_Unmarshal_bytes:
  "length (DenomAuthorityMetadata_bytes m) < 2 ^ 63 \<Longrightarrow>
    DenomAuthorityMetadata_XXX_Unmarshal DenomAuthorityMetadata_zero (DenomAuthorityMetadata_bytes m)
    = Inr m"
  using DenomAuthorityMetadata_codec.um_enc [of m] by (simp add: DenomAuthorityMetadata_XXX_Unmarshal_def)

text \<open>No bytes at all, as for an absent store entry, decode to the zero message.\<close>

lemma XXX_Unmarshal_empty:
  "DenomAuthorityMetadata_XXX_Unmarshal DenomAuthorityMetadata_zero [] = Inr DenomAuthorityMetadata_zero"
  by (simp add: DenomAuthorityMetadata_XXX_Unmarshal_def DenomAuthorityMetadata_Unmarshal_def
      unmarshalWith_def)

end
