(* ===== verification/GenesisPb.thy ===== *)
theory GenesisPb
  imports ParamsPb AuthorityPb
begin

text \<open>
  The generated codec of \<open>types/genesis.pb.go\<close>: \<open>GenesisDenom\<close>, a denom with its authority
  metadata, and \<open>GenesisState\<close>, the parameters with the list of denoms.
\<close>

section \<open>GenesisDenom\<close>

record GenesisDenom =
  gd_Denom :: string
  gd_AuthorityMetadata :: DenomAuthorityMetadata

definition GenesisDenom_zero :: "GenesisDenom" where
  "GenesisDenom_zero = \<lparr>gd_Denom = '''', gd_AuthorityMetadata = DenomAuthorityMetadata_zero\<rparr>"

definition GenesisDenom_MarshalToSizedBuffer :: "GenesisDenom \<Rightarrow> marshaller" where
  "GenesisDenom_MarshalToSizedBuffer m = sizedBuffer
    (thenW (put_msg_field 0x12 (DenomAuthorityMetadata_MarshalToSizedBuffer (gd_AuthorityMetadata m)))
      (put_string_field 0x0a (gd_Denom m)))"

definition GenesisDenom_Size :: "GenesisDenom \<Rightarrow> nat" where
  "GenesisDenom_Size m = string_size (gd_Denom m) + msg_size (DenomAuthorityMetadata_Size (gd_AuthorityMetadata m))"

definition GenesisDenom_Marshal :: "GenesisDenom \<Rightarrow> bytes result" where
  "GenesisDenom_Marshal m = marshalWith (GenesisDenom_Size m) (GenesisDenom_MarshalToSizedBuffer m)"

definition GenesisDenom_field :: "GenesisDenom field_switch" where
  "GenesisDenom_field m fieldNum wireType d i =
    (if fieldNum = 1 then Some (read_string_field (\<lambda>s. m\<lparr>gd_Denom := s\<rparr>) wireType d i)
     else if fieldNum = 2 then Some (read_msg_field (\<lambda>b. andThen (DenomAuthorityMetadata_Unmarshal (gd_AuthorityMetadata m) b) (\<lambda>x. Inr (m\<lparr>gd_AuthorityMetadata := x\<rparr>))) wireType d i)
     else None)"

definition GenesisDenom_Unmarshal :: "GenesisDenom \<Rightarrow> bytes \<Rightarrow> GenesisDenom result" where
  "GenesisDenom_Unmarshal m d = unmarshalWith GenesisDenom_field m d"

definition GenesisDenom_bytes :: "GenesisDenom \<Rightarrow> bytes" where
  "GenesisDenom_bytes m = string_field 0x0a (gd_Denom m)
    @ delimited 0x12 (DenomAuthorityMetadata_bytes (gd_AuthorityMetadata m))"

lemma GenesisDenom_routes:
  "routes GenesisDenom_field m 0x0a 2 (read_string_field (\<lambda>s. m\<lparr>gd_Denom := s\<rparr>) 2)"
  "gd_AuthorityMetadata m = DenomAuthorityMetadata_zero \<Longrightarrow> routes GenesisDenom_field m 0x12 2
    (read_msg_field (\<lambda>b. andThen (DenomAuthorityMetadata_Unmarshal DenomAuthorityMetadata_zero b) (\<lambda>x. Inr (m\<lparr>gd_AuthorityMetadata := x\<rparr>))) 2)"
  by (simp_all add: routes_def GenesisDenom_field_def fun_eq_iff)

lemma GenesisDenom_progressing: "progressing GenesisDenom_field"
  by (rule progressingI)
    (auto simp: GenesisDenom_field_def no_fuel DenomAuthorityMetadata_codec.field_no_fuel split: if_splits dest: advances)

lemma GenesisDenom_reads:
  assumes "length (GenesisDenom_bytes m) < 2 ^ 63"
  shows "reads GenesisDenom_field (GenesisDenom_bytes m) GenesisDenom_zero m"
proof -
  let ?m0 = "GenesisDenom_zero"
  let ?m1 = "?m0\<lparr>gd_Denom := gd_Denom m\<rparr>"
  let ?m2 = "?m1\<lparr>gd_AuthorityMetadata := gd_AuthorityMetadata m\<rparr>"
  have r1: "reads GenesisDenom_field (string_field 0x0a (gd_Denom m)) ?m0 ?m1"
    by (rule reads_string_field [OF GenesisDenom_routes(1)]) (simp add: GenesisDenom_zero_def)
  have r2: "reads GenesisDenom_field (delimited 0x12 (DenomAuthorityMetadata_bytes (gd_AuthorityMetadata m))) ?m1 ?m2"
    by (rule DenomAuthorityMetadata_codec.reads_field [simplified], rule GenesisDenom_routes(2), simp add: GenesisDenom_zero_def)
      (use assms in \<open>simp add: GenesisDenom_bytes_def length_delimited\<close>)
  have eq: "?m2 = m" by (cases m) (simp add: GenesisDenom_zero_def)
  show ?thesis
    using reads_append [OF r1 r2] unfolding eq GenesisDenom_bytes_def .
qed

interpretation GenesisDenom_codec: proto_message
  GenesisDenom_MarshalToSizedBuffer GenesisDenom_Size GenesisDenom_Unmarshal GenesisDenom_zero GenesisDenom_bytes id
proof unfold_locales
  fix m :: GenesisDenom
  show "marshals (GenesisDenom_MarshalToSizedBuffer m) (GenesisDenom_bytes m)"
    unfolding GenesisDenom_MarshalToSizedBuffer_def GenesisDenom_bytes_def
    by (rule marshals_sizedBuffer, rule writes_cong, (rule writes_intros DenomAuthorityMetadata_codec.marshals_enc)+) simp
  show "GenesisDenom_Size m = length (GenesisDenom_bytes m)"
    by (simp add: GenesisDenom_Size_def GenesisDenom_bytes_def field_lengths  DenomAuthorityMetadata_codec.sz_enc)
  assume "length (GenesisDenom_bytes m) < 2 ^ 63"
  then show "GenesisDenom_Unmarshal GenesisDenom_zero (GenesisDenom_bytes m) = Inr (id m)"
    unfolding GenesisDenom_Unmarshal_def id_apply
    by (intro unmarshalWith_reads GenesisDenom_reads)
next
  fix m :: GenesisDenom and d :: bytes
  assume "length d < 2 ^ 63"
  then show "GenesisDenom_Unmarshal m d \<noteq> Inl ErrFuel"
    unfolding GenesisDenom_Unmarshal_def by (rule unmarshalWith_no_fuel [OF GenesisDenom_progressing])
qed

text \<open>The nil-safe getters and \<open>Equal\<close>.\<close>

definition GenesisDenom_GetDenom :: "GenesisDenom option \<Rightarrow> string" where
  "GenesisDenom_GetDenom m = (case m of Some x \<Rightarrow> gd_Denom x | None \<Rightarrow> '''')"

definition GenesisDenom_GetAuthorityMetadata :: "GenesisDenom option \<Rightarrow> DenomAuthorityMetadata" where
  "GenesisDenom_GetAuthorityMetadata m =
    (case m of Some x \<Rightarrow> gd_AuthorityMetadata x | None \<Rightarrow> DenomAuthorityMetadata_zero)"

fun GenesisDenom_Equal :: "GenesisDenom option \<Rightarrow> GenesisDenom option \<Rightarrow> bool" where
  "GenesisDenom_Equal this None = (this = None)"
| "GenesisDenom_Equal None (Some that) = False"
| "GenesisDenom_Equal (Some this) (Some that) =
    (if gd_Denom this \<noteq> gd_Denom that then False
     else if \<not> DenomAuthorityMetadata_Equal (Some (gd_AuthorityMetadata this))
                 (Some (gd_AuthorityMetadata that)) then False
     else True)"

section \<open>GenesisState\<close>

record GenesisState =
  gs_Params :: Params
  FactoryDenoms :: "GenesisDenom list"

definition GenesisState_zero :: GenesisState where
  "GenesisState_zero = \<lparr>gs_Params = Params_zero, FactoryDenoms = []\<rparr>"

definition GenesisState_GetFactoryDenoms :: "GenesisState option \<Rightarrow> GenesisDenom list" where
  "GenesisState_GetFactoryDenoms m = (case m of Some x \<Rightarrow> FactoryDenoms x | None \<Rightarrow> [])"

definition GenesisState_MarshalToSizedBuffer :: "coin codec \<Rightarrow> GenesisState \<Rightarrow> marshaller" where
  "GenesisState_MarshalToSizedBuffer CC m = sizedBuffer
    (thenW (put_rev (\<lambda>x. put_msg_field 0x12 (GenesisDenom_MarshalToSizedBuffer x)) (FactoryDenoms m))
      (put_msg_field 0x0a (Params_MarshalToSizedBuffer CC (gs_Params m))))"

definition GenesisState_Size :: "coin codec \<Rightarrow> GenesisState \<Rightarrow> nat" where
  "GenesisState_Size CC m = msg_size (Params_Size CC (gs_Params m))
    + (\<Sum>e\<leftarrow>FactoryDenoms m. msg_size (GenesisDenom_Size e))"

definition GenesisState_Marshal :: "coin codec \<Rightarrow> GenesisState \<Rightarrow> bytes result" where
  "GenesisState_Marshal CC m = marshalWith (GenesisState_Size CC m) (GenesisState_MarshalToSizedBuffer CC m)"

definition GenesisState_field :: "coin codec \<Rightarrow> GenesisState field_switch" where
  "GenesisState_field CC m fieldNum wireType d i =
    (if fieldNum = 1 then Some (read_msg_field (\<lambda>b. andThen (Params_Unmarshal CC (gs_Params m) b)
        (\<lambda>x. Inr (m\<lparr>gs_Params := x\<rparr>))) wireType d i)
     else if fieldNum = 2 then Some (read_msg_field (\<lambda>b. andThen (GenesisDenom_Unmarshal GenesisDenom_zero b)
        (\<lambda>x. Inr (m\<lparr>FactoryDenoms := FactoryDenoms m @ [x]\<rparr>))) wireType d i)
     else None)"

definition GenesisState_Unmarshal :: "coin codec \<Rightarrow> GenesisState \<Rightarrow> bytes \<Rightarrow> GenesisState result" where
  "GenesisState_Unmarshal CC m d = unmarshalWith (GenesisState_field CC) m d"

definition GenesisState_bytes :: "(coin \<Rightarrow> bytes) \<Rightarrow> GenesisState \<Rightarrow> bytes" where
  "GenesisState_bytes cenc m = delimited 0x0a (Params_bytes cenc (gs_Params m))
    @ concat (map (\<lambda>x. delimited 0x12 (GenesisDenom_bytes x)) (FactoryDenoms m))"

definition GenesisState_norm :: "GenesisState \<Rightarrow> GenesisState" where
  "GenesisState_norm m = m\<lparr>gs_Params := Params_norm (gs_Params m)\<rparr>"

lemma GenesisState_routes:
  "gs_Params m = Params_zero \<Longrightarrow> routes (GenesisState_field CC) m 0x0a 2
    (read_msg_field (\<lambda>b. andThen (Params_Unmarshal CC Params_zero b) (\<lambda>x. Inr (m\<lparr>gs_Params := x\<rparr>))) 2)"
  "routes (GenesisState_field CC) m 0x12 2
    (read_msg_field (\<lambda>b. andThen (GenesisDenom_Unmarshal GenesisDenom_zero b)
      (\<lambda>x. Inr (m\<lparr>FactoryDenoms := FactoryDenoms m @ [x]\<rparr>))) 2)"
  by (simp_all add: routes_def GenesisState_field_def fun_eq_iff)

lemma GenesisState_progressing:
  assumes "codec_ok CC cenc"
  shows "progressing (GenesisState_field CC)"
  by (rule progressingI)
    (auto simp: GenesisState_field_def no_fuel proto_message.field_no_fuel [OF Params_codec [OF assms]]
      GenesisDenom_codec.field_no_fuel split: if_splits dest: advances)

lemma fold_append_denom:
  "fold (\<lambda>x m. m\<lparr>FactoryDenoms := FactoryDenoms m @ [x]\<rparr>) xs m
    = m\<lparr>FactoryDenoms := FactoryDenoms m @ xs\<rparr>"
  by (induction xs arbitrary: m) simp_all

lemma GenesisState_reads:
  assumes ok: "codec_ok CC cenc" and len: "length (GenesisState_bytes cenc m) < 2 ^ 63"
  shows "reads (GenesisState_field CC) (GenesisState_bytes cenc m) GenesisState_zero (GenesisState_norm m)"
proof -
  let ?m1 = "GenesisState_zero\<lparr>gs_Params := Params_norm (gs_Params m)\<rparr>"
  let ?m2 = "fold (\<lambda>x m. m\<lparr>FactoryDenoms := FactoryDenoms m @ [x]\<rparr>) (FactoryDenoms m) ?m1"
  have small: "length (GenesisDenom_bytes x) < 2 ^ 63" if "x \<in> set (FactoryDenoms m)" for x
  proof -
    have "length (delimited 0x12 (GenesisDenom_bytes x))
        \<le> (\<Sum>x\<leftarrow>FactoryDenoms m. length (delimited 0x12 (GenesisDenom_bytes x)))"
      using that by (intro member_le_sum_list) auto
    with len show ?thesis
      by (simp add: GenesisState_bytes_def length_concat_map length_delimited)
  qed
  have r1: "reads (GenesisState_field CC) (delimited 0x0a (Params_bytes cenc (gs_Params m))) GenesisState_zero ?m1"
    by (rule proto_message.reads_field [OF Params_codec [OF ok]], rule GenesisState_routes(1),
        simp add: GenesisState_zero_def)
      (use len in \<open>simp add: GenesisState_bytes_def length_delimited\<close>)
  have r2: "reads (GenesisState_field CC)
      (concat (map (\<lambda>x. delimited 0x12 (GenesisDenom_bytes x)) (FactoryDenoms m))) ?m1 ?m2"
  proof (rule reads_concat [where P = "\<lambda>_. True"])
    fix x y
    assume "x \<in> set (FactoryDenoms m)"
    then show "reads (GenesisState_field CC) (delimited 0x12 (GenesisDenom_bytes x)) y
        (y\<lparr>FactoryDenoms := FactoryDenoms y @ [x]\<rparr>)"
      using GenesisDenom_codec.reads_field [OF GenesisState_routes(2) small] by simp
  qed simp_all
  have eq: "?m2 = GenesisState_norm m"
    by (cases m) (simp add: fold_append_denom GenesisState_zero_def GenesisState_norm_def)
  show ?thesis
    using reads_append [OF r1 r2] unfolding eq GenesisState_bytes_def .
qed

lemma GenesisState_codec:
  assumes "codec_ok CC cenc"
  shows "proto_message (GenesisState_MarshalToSizedBuffer CC) (GenesisState_Size CC)
    (GenesisState_Unmarshal CC) GenesisState_zero (GenesisState_bytes cenc) GenesisState_norm"
proof unfold_locales
  fix m :: GenesisState
  show "marshals (GenesisState_MarshalToSizedBuffer CC m) (GenesisState_bytes cenc m)"
    unfolding GenesisState_MarshalToSizedBuffer_def GenesisState_bytes_def
    by (rule marshals_sizedBuffer, rule writes_thenW, rule writes_put_rev,
        rule GenesisDenom_codec.writes_field)
      (rule proto_message.writes_field [OF Params_codec [OF assms]])
  show "GenesisState_Size CC m = length (GenesisState_bytes cenc m)"
    by (simp add: GenesisState_Size_def GenesisState_bytes_def field_lengths length_concat_map
        GenesisDenom_codec.sz_enc proto_message.sz_enc [OF Params_codec [OF assms]])
  assume "length (GenesisState_bytes cenc m) < 2 ^ 63"
  then show "GenesisState_Unmarshal CC GenesisState_zero (GenesisState_bytes cenc m)
      = Inr (GenesisState_norm m)"
    unfolding GenesisState_Unmarshal_def
    by (intro unmarshalWith_reads GenesisState_reads [OF assms])
next
  fix m :: GenesisState and d :: bytes
  assume "length d < 2 ^ 63"
  then show "GenesisState_Unmarshal CC m d \<noteq> Inl ErrFuel"
    unfolding GenesisState_Unmarshal_def
    by (rule unmarshalWith_no_fuel [OF GenesisState_progressing [OF assms]])
qed

end
