(* ===== verification/Keys.thy ===== *)
theory Keys
  imports Prelude
begin

text \<open>
  \<open>types/keys.go\<close>: the module's names and the layout of its store. A denom's authority metadata
  lies at \<open>denoms|{denom}|authoritymetadata\<close>, and the index of a creator's denoms at
  \<open>creator|{creator}|{denom}\<close>. The lemmas say which keys can coincide.
\<close>

definition ModuleName :: string where
  "ModuleName = ''tokenfactory''"

definition StoreKey :: string where
  "StoreKey = ModuleName"

definition RouterKey :: string where
  "RouterKey = ModuleName"

definition QuerierRoute :: string where
  "QuerierRoute = ModuleName"

definition MemStoreKey :: string where
  "MemStoreKey = ''mem_tokenfactory''"

definition KeySeparator :: char where
  "KeySeparator = CHR ''|''"

definition DenomAuthorityMetadataKey :: string where
  "DenomAuthorityMetadataKey = ''authoritymetadata''"

definition DenomsPrefixKey :: string where
  "DenomsPrefixKey = ''denoms''"

definition CreatorPrefixKey :: string where
  "CreatorPrefixKey = ''creator''"

definition AdminPrefixKey :: string where
  "AdminPrefixKey = ''admin''"

definition BeforeSendHookAddressPrefixKey :: string where
  "BeforeSendHookAddressPrefixKey = ''beforesendhook''"

definition GetDenomPrefixStore :: "string \<Rightarrow> bytes" where
  "GetDenomPrefixStore denom =
    bytes_of_string (strings_Join [DenomsPrefixKey, denom, ''''] KeySeparator)"

definition GetCreatorPrefix :: "string \<Rightarrow> bytes" where
  "GetCreatorPrefix creator =
    bytes_of_string (strings_Join [CreatorPrefixKey, creator, ''''] KeySeparator)"

definition GetCreatorsPrefix :: bytes where
  "GetCreatorsPrefix = bytes_of_string (strings_Join [CreatorPrefixKey, ''''] KeySeparator)"

section \<open>The key layout\<close>

text \<open>A key below a prefix, as the string whose bytes it is.\<close>

lemma denom_key:
  "GetDenomPrefixStore d @ bytes_of_string k = bytes_of_string (''denoms|'' @ d @ CHR ''|'' # k)"
  by (simp add: GetDenomPrefixStore_def DenomsPrefixKey_def KeySeparator_def bytes_of_string_def)

lemma creator_key:
  "GetCreatorPrefix c @ bytes_of_string k = bytes_of_string (''creator|'' @ c @ CHR ''|'' # k)"
  by (simp add: GetCreatorPrefix_def CreatorPrefixKey_def KeySeparator_def bytes_of_string_def)

lemma creators_key:
  "GetCreatorsPrefix @ bytes_of_string k = bytes_of_string (''creator|'' @ k)"
  by (simp add: GetCreatorsPrefix_def CreatorPrefixKey_def KeySeparator_def bytes_of_string_def)

text \<open>An entry of the creator index is an entry below the common prefix of all creators.\<close>

lemma creator_key_creators:
  "GetCreatorPrefix c @ bytes_of_string d = GetCreatorsPrefix @ bytes_of_string (c @ CHR ''|'' # d)"
  by (simp add: creator_key creators_key)

text \<open>Keys of the two regions differ, whatever the denom or creator is.\<close>

lemma denom_key_not_creator:
  "GetDenomPrefixStore d @ k \<noteq> GetCreatorPrefix c @ k'"
  "GetDenomPrefixStore d @ k \<noteq> GetCreatorsPrefix @ k'"
  using denom_key [of d "string_of_bytes k"] creator_key [of c "string_of_bytes k'"]
    creators_key [of "string_of_bytes k'"]
  by simp_all

text \<open>Two denoms never share their authority metadata, not even denoms that hold the separator.\<close>

lemma GetDenomPrefixStore_eq_iff [simp]: "GetDenomPrefixStore d = GetDenomPrefixStore d' \<longleftrightarrow> d = d'"
  using denom_key [of d "''''"] denom_key [of d' "''''"] by auto

text \<open>Without the separator in the creators, an index entry determines its creator and its denom.\<close>

lemma creator_key_eq_iff:
  assumes "CHR ''|'' \<notin> set c" and "CHR ''|'' \<notin> set c'"
  shows "GetCreatorPrefix c @ bytes_of_string d = GetCreatorPrefix c' @ bytes_of_string d'
    \<longleftrightarrow> c = c' \<and> d = d'"
  using assms by (simp add: creator_key append_sep_eq_iff)

text \<open>A denom prefix is a prefix of another denom's only if the denoms are equal.\<close>

lemma denom_prefix_eq_iff:
  assumes "CHR ''|'' \<notin> set d" and "CHR ''|'' \<notin> set d'"
  shows "GetDenomPrefixStore d @ bytes_of_string k = GetDenomPrefixStore d' @ bytes_of_string k'
    \<longleftrightarrow> d = d' \<and> k = k'"
  using assms by (simp add: denom_key append_sep_eq_iff)

end
