(* ===== verification/ParamTypes.thy ===== *)
theory ParamTypes
  imports ParamsPb Keys
begin

text \<open>
  \<open>types/params.go\<close>: the default parameters, their validation, and the pairs of key, value and
  validator through which the SDK's parameter store reads and writes them. A validator is given an
  \<open>interface{}\<close>; its dynamic type is the constructor of \<open>param_value\<close>.
\<close>

definition KeyDenomCreationFee :: bytes where
  "KeyDenomCreationFee = bytes_of_string ''DenomCreationFee''"

definition KeyDenomCreationGasConsume :: bytes where
  "KeyDenomCreationGasConsume = bytes_of_string ''DenomCreationGasConsume''"

definition DefaultCreationGasFee :: int where
  "DefaultCreationGasFee = 1000000"

text \<open>\<open>types/constants.go\<close>: a gas limit for a hook that no code of the module calls.\<close>

definition TrackBeforeSendGasLimit :: u64 where
  "TrackBeforeSendGasLimit = 100000"

definition NewParams :: "Coins \<Rightarrow> u64 \<Rightarrow> Params" where
  "NewParams denomCreationFee denomCreationGasConsume =
    \<lparr>DenomCreationFee = denomCreationFee, DenomCreationGasConsume = denomCreationGasConsume\<rparr>"

definition DefaultParams :: "('k, 'w) sdk \<Rightarrow> Params result" where
  "DefaultParams E = andThen (NewCoins E []) (\<lambda>fee.
    Inr \<lparr>DenomCreationFee = fee, DenomCreationGasConsume = word_of_int DefaultCreationGasFee\<rparr>)"

definition validateDenomCreationFee :: "('k, 'w) sdk \<Rightarrow> param_value \<Rightarrow> unit result" where
  "validateDenomCreationFee E i = (case i of
      PCoins v \<Rightarrow> (case Coins_Validate E v of
          Inl err \<Rightarrow> Inl (ErrText ''invalid denom creation fee'')
        | Inr _ \<Rightarrow> Inr ())
    | _ \<Rightarrow> Inl (ErrText ''invalid parameter type''))"

definition validateDenomCreationGasConsume :: "param_value \<Rightarrow> unit result" where
  "validateDenomCreationGasConsume i = (case i of
      PUint64 v \<Rightarrow> Inr ()
    | _ \<Rightarrow> Inl (ErrText ''invalid parameter type''))"

definition Params_Validate :: "('k, 'w) sdk \<Rightarrow> Params \<Rightarrow> unit result" where
  "Params_Validate E p = validateDenomCreationFee E (PCoins (DenomCreationFee p))"

definition ParamSetPairs :: "('k, 'w) sdk \<Rightarrow> Params \<Rightarrow> param_pair list" where
  "ParamSetPairs E p =
    [\<lparr>pair_Key = KeyDenomCreationFee, pair_Value = PCoins (DenomCreationFee p),
       pair_ValidatorFn = validateDenomCreationFee E\<rparr>,
     \<lparr>pair_Key = KeyDenomCreationGasConsume, pair_Value = PUint64 (DenomCreationGasConsume p),
       pair_ValidatorFn = validateDenomCreationGasConsume\<rparr>]"

text \<open>\<open>NewKeyTable().RegisterParamSet(&Params{})\<close>: the table of the pairs of the zero value.\<close>

definition ParamKeyTable :: "('k, 'w) sdk \<Rightarrow> param_pair list" where
  "ParamKeyTable E = ParamSetPairs E Params_zero"

section \<open>The parameter set\<close>

lemma param_keys:
  "map pair_Key (ParamSetPairs E p) = [KeyDenomCreationFee, KeyDenomCreationGasConsume]"
  by (simp add: ParamSetPairs_def)

lemma param_keys_distinct: "distinct (map pair_Key (ParamSetPairs E p))"
  by (simp add: param_keys KeyDenomCreationFee_def KeyDenomCreationGasConsume_def)

lemma Params_Validate_eq_Inr: "Params_Validate E p = Inr () \<longleftrightarrow> Coins_Validate E (DenomCreationFee p) = Inr ()"
  by (simp add: Params_Validate_def validateDenomCreationFee_def split: sum.split)

text \<open>Validation covers what the parameter store checks on writing.\<close>

lemma valid_pairs:
  "list_all valid_pair (ParamSetPairs E p) \<longleftrightarrow> Params_Validate E p = Inr ()"
  by (simp add: ParamSetPairs_def valid_pair_def Params_Validate_def validateDenomCreationGasConsume_def)

end
