(* ===== verification/Denoms.thy ===== *)
theory Denoms
  imports Sdk Keys
begin

text \<open>
  \<open>types/denoms.go\<close>: building the denom \<open>factory/{creator}/{subdenom}\<close> and taking it apart. The
  SDK's denom check and its bech32 decoder are parameters; the lemmas characterise both
  functions and their composition.
\<close>

definition ModuleDenomPrefix :: string where
  "ModuleDenomPrefix = ''factory''"

definition MaxSubdenomLength :: nat where
  "MaxSubdenomLength = 44"

definition MaxHrpLength :: nat where
  "MaxHrpLength = 16"

definition MaxCreatorLength :: nat where
  "MaxCreatorLength = 59 + MaxHrpLength"

definition GetTokenDenom :: "('k, 'w) sdk \<Rightarrow> string \<Rightarrow> string \<Rightarrow> string result" where
  "GetTokenDenom E creator subdenom =
    (if length subdenom > MaxSubdenomLength then Inl ErrSubdenomTooLong
     else if length creator > MaxCreatorLength then Inl ErrCreatorTooLong
     else if strings_Contains creator (CHR ''/'') then Inl ErrInvalidCreator
     else let denom = strings_Join [ModuleDenomPrefix, creator, subdenom] (CHR ''/'') in
       andThen (ValidateDenom E denom) (\<lambda>_. Inr denom))"

definition DeconstructDenom :: "('k, 'w) sdk \<Rightarrow> string \<Rightarrow> (string \<times> string) result" where
  "DeconstructDenom E denom = andThen (ValidateDenom E denom) (\<lambda>_.
    let strParts = strings_Split denom (CHR ''/'') in
    if length strParts < 3 then Inl ErrInvalidDenom
    else if strParts ! 0 \<noteq> ModuleDenomPrefix then Inl ErrInvalidDenom
    else case AccAddressFromBech32 E (strParts ! 1) of
        Inl err \<Rightarrow> Inl ErrInvalidDenom
      | Inr creatorAddr \<Rightarrow>
          let subdenom = strings_Join (drop 2 strParts) (CHR ''/'') in
          Inr (AccAddress_String E creatorAddr, subdenom))"

section \<open>What the two functions compute\<close>

lemma Join_denom:
  "strings_Join [ModuleDenomPrefix, creator, subdenom] (CHR ''/'') =
    ''factory/'' @ creator @ CHR ''/'' # subdenom"
  by (simp add: ModuleDenomPrefix_def)

lemma GetTokenDenom_eq_Inr:
  "GetTokenDenom E c s = Inr d \<longleftrightarrow>
    d = ''factory/'' @ c @ CHR ''/'' # s \<and> length s \<le> 44 \<and> length c \<le> 75 \<and>
    CHR ''/'' \<notin> set c \<and> ValidateDenom E d = Inr ()"
  unfolding GetTokenDenom_def Join_denom Let_def
  by (auto simp: MaxSubdenomLength_def MaxCreatorLength_def MaxHrpLength_def strings_Contains_def
      andThen_eq_Inr)

lemma strings_Split_factory:
  "CHR ''/'' \<notin> set c \<Longrightarrow> strings_Split (''factory/'' @ c @ CHR ''/'' # s) (CHR ''/'') =
    ''factory'' # c # strings_Split s (CHR ''/'')"
  using strings_Split_append [of "CHR ''/''" "''factory''" "c @ CHR ''/'' # s"]
  by (simp add: strings_Split_append)

lemma split_at_factory:
  assumes "length (strings_Split d (CHR ''/'')) \<ge> 3" and "strings_Split d (CHR ''/'') ! 0 = ''factory''"
  obtains c ps where "strings_Split d (CHR ''/'') = ''factory'' # c # ps" and "ps \<noteq> []"
    and "CHR ''/'' \<notin> set c" and "d = ''factory/'' @ c @ CHR ''/'' # strings_Join ps (CHR ''/'')"
proof -
  obtain a c ps where sp: "strings_Split d (CHR ''/'') = a # c # ps" and ps: "ps \<noteq> []"
    using assms(1) by (auto simp: Suc_le_length_iff numeral_3_eq_3)
  have a: "a = ''factory''" using assms(2) sp by simp
  have c: "CHR ''/'' \<notin> set c"
    using strings_Split_parts [of c d "CHR ''/''"] sp by simp
  have "d = strings_Join (a # c # ps) (CHR ''/'')"
    using strings_Join_Split [of d "CHR ''/''"] sp by simp
  also have "\<dots> = ''factory/'' @ c @ CHR ''/'' # strings_Join ps (CHR ''/'')"
    using ps a by (cases ps) simp_all
  finally show thesis using that sp ps a c by simp
qed

lemma DeconstructDenom_eq_Inr:
  "DeconstructDenom E d = Inr (c', s) \<longleftrightarrow> ValidateDenom E d = Inr () \<and>
    (\<exists>c a. d = ''factory/'' @ c @ CHR ''/'' # s \<and> CHR ''/'' \<notin> set c \<and>
      AccAddressFromBech32 E c = Inr a \<and> c' = AccAddress_String E a)"
proof
  assume "DeconstructDenom E d = Inr (c', s)"
  then have v: "ValidateDenom E d = Inr ()"
    and n: "length (strings_Split d (CHR ''/'')) \<ge> 3"
    and f: "strings_Split d (CHR ''/'') ! 0 = ''factory''"
    and r: "(case AccAddressFromBech32 E (strings_Split d (CHR ''/'') ! 1) of Inl e \<Rightarrow> Inl ErrInvalidDenom
      | Inr a \<Rightarrow> Inr (AccAddress_String E a, strings_Join (drop 2 (strings_Split d (CHR ''/''))) (CHR ''/'')))
        = Inr (c', s)"
    by (auto simp: DeconstructDenom_def andThen_eq_Inr ModuleDenomPrefix_def Let_def [abs_def]
        split: if_splits sum.splits)
  obtain c ps where "strings_Split d (CHR ''/'') = ''factory'' # c # ps" and "CHR ''/'' \<notin> set c"
    and "d = ''factory/'' @ c @ CHR ''/'' # strings_Join ps (CHR ''/'')"
    using n f by (rule split_at_factory)
  with r v show "ValidateDenom E d = Inr () \<and>
    (\<exists>c a. d = ''factory/'' @ c @ CHR ''/'' # s \<and> CHR ''/'' \<notin> set c \<and>
      AccAddressFromBech32 E c = Inr a \<and> c' = AccAddress_String E a)"
    by (auto split: sum.splits)
next
  assume "ValidateDenom E d = Inr () \<and>
    (\<exists>c a. d = ''factory/'' @ c @ CHR ''/'' # s \<and> CHR ''/'' \<notin> set c \<and>
      AccAddressFromBech32 E c = Inr a \<and> c' = AccAddress_String E a)"
  then obtain c a where v: "ValidateDenom E d = Inr ()" and "CHR ''/'' \<notin> set c"
    and d: "d = ''factory/'' @ c @ CHR ''/'' # s" and a: "AccAddressFromBech32 E c = Inr a"
    and c': "c' = AccAddress_String E a"
    by blast
  then have sp: "strings_Split d (CHR ''/'') = ''factory'' # c # strings_Split s (CHR ''/'')"
    using strings_Split_factory by blast
  have "0 < length (strings_Split s (CHR ''/''))" by simp
  then show "DeconstructDenom E d = Inr (c', s)"
    unfolding DeconstructDenom_def v andThen_simps sp Let_def
    by (simp add: ModuleDenomPrefix_def a c')
qed

text \<open>Every error of \<open>DeconstructDenom\<close> is the SDK's denom error or \<open>ErrInvalidDenom\<close>.\<close>

lemma DeconstructDenom_eq_Inl:
  assumes "DeconstructDenom E d = Inl e"
  shows "ValidateDenom E d = Inl e \<or> e = ErrInvalidDenom"
  using assms
  by (auto simp: DeconstructDenom_def andThen_eq_Inl Let_def split: if_splits sum.splits)

lemma DeconstructDenom_creator:
  assumes "bech32_laws E" and "DeconstructDenom E d = Inr (c, s)"
  shows "CHR ''|'' \<notin> set c" and "\<exists>a. AccAddressFromBech32 E c = Inr a" and "c \<noteq> ''''"
proof -
  obtain c0 a where a: "AccAddressFromBech32 E c0 = Inr a" and c: "c = AccAddress_String E a"
    using assms(2) unfolding DeconstructDenom_eq_Inr by blast
  show "CHR ''|'' \<notin> set c" using bech32_chars(4) [OF assms(1) a] c by simp
  show ex: "\<exists>a. AccAddressFromBech32 E c = Inr a" using bech32_again [OF assms(1) a] c by auto
  show "c \<noteq> ''''" using ex bech32_empty [OF assms(1)] by auto
qed

end
