(* ===== verification/GenesisTypes.thy ===== *)
theory GenesisTypes
  imports GenesisPb ParamTypes Denoms
begin

text \<open>
  \<open>types/genesis.go\<close> and \<open>types/authorityMetadata.go\<close>: validation of the authority metadata and of
  a whole genesis state. The loop over the denoms carries the set of denoms seen so far, which is
  the code's map \<open>seenDenoms\<close>.
\<close>

definition DefaultIndex :: u64 where
  "DefaultIndex = 1"

definition DenomAuthorityMetadata_Validate ::
  "('k, 'w) sdk \<Rightarrow> DenomAuthorityMetadata \<Rightarrow> unit result" where
  "DenomAuthorityMetadata_Validate E metadata =
    (if Admin metadata \<noteq> ''''
     then andThen (AccAddressFromBech32 E (Admin metadata)) (\<lambda>_. Inr ())
     else Inr ())"

definition DefaultGenesis :: "('k, 'w) sdk \<Rightarrow> GenesisState result" where
  "DefaultGenesis E = andThen (DefaultParams E) (\<lambda>p. Inr \<lparr>gs_Params = p, FactoryDenoms = []\<rparr>)"

fun validate_FactoryDenoms :: "('k, 'w) sdk \<Rightarrow> string list \<Rightarrow> GenesisDenom list \<Rightarrow> unit result" where
  "validate_FactoryDenoms E seenDenoms [] = Inr ()"
| "validate_FactoryDenoms E seenDenoms (denom # ds) =
    (if GenesisDenom_GetDenom (Some denom) \<in> set seenDenoms then Inl ErrInvalidGenesis
     else andThen (DeconstructDenom E (GenesisDenom_GetDenom (Some denom))) (\<lambda>_.
       if Admin (gd_AuthorityMetadata denom) \<noteq> '''' then
         (case AccAddressFromBech32 E (Admin (gd_AuthorityMetadata denom)) of
            Inl err \<Rightarrow> Inl ErrInvalidAuthorityMetadata
          | Inr a \<Rightarrow> validate_FactoryDenoms E (GenesisDenom_GetDenom (Some denom) # seenDenoms) ds)
       else validate_FactoryDenoms E (GenesisDenom_GetDenom (Some denom) # seenDenoms) ds))"

definition GenesisState_Validate :: "('k, 'w) sdk \<Rightarrow> GenesisState \<Rightarrow> unit result" where
  "GenesisState_Validate E gs = andThen (Params_Validate E (gs_Params gs)) (\<lambda>_.
    validate_FactoryDenoms E [] (GenesisState_GetFactoryDenoms (Some gs)))"

section \<open>What validation accepts\<close>

definition admin_ok :: "('k, 'w) sdk \<Rightarrow> string \<Rightarrow> bool" where
  "admin_ok E a \<longleftrightarrow> a = '''' \<or> (\<exists>addr. AccAddressFromBech32 E a = Inr addr)"

definition denom_ok :: "('k, 'w) sdk \<Rightarrow> string \<Rightarrow> bool" where
  "denom_ok E d \<longleftrightarrow> (\<exists>p. DeconstructDenom E d = Inr p)"

lemma metadata_Validate_eq_Inr:
  "DenomAuthorityMetadata_Validate E m = Inr () \<longleftrightarrow> admin_ok E (Admin m)"
  by (auto simp: DenomAuthorityMetadata_Validate_def admin_ok_def andThen_eq_Inr)

lemma validate_FactoryDenoms_Cons:
  "validate_FactoryDenoms E seen (d # ds) = Inr () \<longleftrightarrow>
    gd_Denom d \<notin> set seen \<and> denom_ok E (gd_Denom d) \<and> admin_ok E (Admin (gd_AuthorityMetadata d)) \<and>
    validate_FactoryDenoms E (gd_Denom d # seen) ds = Inr ()"
  by (auto simp: GenesisDenom_GetDenom_def andThen_eq_Inr denom_ok_def admin_ok_def
      split: if_splits sum.splits)

lemma validate_FactoryDenoms_eq_Inr:
  "validate_FactoryDenoms E seen ds = Inr () \<longleftrightarrow>
    distinct (map gd_Denom ds) \<and> set (map gd_Denom ds) \<inter> set seen = {} \<and>
    (\<forall>d \<in> set ds. denom_ok E (gd_Denom d) \<and> admin_ok E (Admin (gd_AuthorityMetadata d)))"
proof (induction ds arbitrary: seen)
  case (Cons d ds)
  show ?case unfolding validate_FactoryDenoms_Cons Cons.IH by auto
qed simp

lemma GenesisState_Validate_eq_Inr:
  "GenesisState_Validate E gs = Inr () \<longleftrightarrow>
    Coins_Validate E (DenomCreationFee (gs_Params gs)) = Inr () \<and>
    distinct (map gd_Denom (FactoryDenoms gs)) \<and>
    (\<forall>d \<in> set (FactoryDenoms gs). denom_ok E (gd_Denom d) \<and> admin_ok E (Admin (gd_AuthorityMetadata d)))"
  by (simp add: GenesisState_Validate_def andThen_eq_Inr Params_Validate_eq_Inr
      validate_FactoryDenoms_eq_Inr GenesisState_GetFactoryDenoms_def)

end
