(* ===== verification/Keeper.thy ===== *)
theory Keeper
  imports GenesisTypes
begin

text \<open>
  The keeper (\<open>keeper/keeper.go\<close>, \<open>admins.go\<close>, \<open>creators.go\<close>, \<open>params.go\<close>, \<open>createdenom.go\<close>,
  \<open>bankactions.go\<close>): the module's state and the operations on it. A keeper operation is an action
  over the context; a prefix store is its prefix, and \<open>Get\<close>, \<open>Set\<close> and \<open>Iterator\<close> on it go to the
  module's store through the SDK.
\<close>

section \<open>Stores (keeper.go)\<close>

type_synonym prefix_store = bytes

definition Keeper_GetDenomPrefixStore :: "string \<Rightarrow> prefix_store" where
  "Keeper_GetDenomPrefixStore denom = GetDenomPrefixStore denom"

definition Keeper_GetCreatorPrefixStore :: "string \<Rightarrow> prefix_store" where
  "Keeper_GetCreatorPrefixStore creator = GetCreatorPrefix creator"

definition Keeper_GetCreatorsPrefixStore :: prefix_store where
  "Keeper_GetCreatorsPrefixStore = GetCreatorsPrefix"

definition KVStore_Get :: "('k, 'w) sdk \<Rightarrow> prefix_store \<Rightarrow> string \<Rightarrow> ('k, 'w) ctx \<Rightarrow> bytes option" where
  "KVStore_Get E p k c = store_Get E (store c) p (bytes_of_string k)"

definition KVStore_Set :: "('k, 'w) sdk \<Rightarrow> prefix_store \<Rightarrow> string \<Rightarrow> bytes \<Rightarrow> ('k, 'w, unit) keeper" where
  "KVStore_Set E p k v = modifyM (\<lambda>c. c\<lparr>store := store_Set E (store c) p (bytes_of_string k) v\<rparr>)"

definition KVStore_Iterator :: "('k, 'w) sdk \<Rightarrow> prefix_store \<Rightarrow> ('k, 'w) ctx \<Rightarrow> (bytes \<times> bytes) list" where
  "KVStore_Iterator E p c = store_Iterator E (store c) p"

definition CreateModuleAccount :: "('k, 'w) sdk \<Rightarrow> ('k, 'w, unit) keeper" where
  "CreateModuleAccount E = worldM (GetModuleAccount E ModuleName)"

section \<open>Authority metadata (admins.go)\<close>

text \<open>A nil slice, which \<open>Get\<close> returns for an absent key, unmarshals like an empty one.\<close>

definition GetAuthorityMetadata ::
  "('k, 'w) sdk \<Rightarrow> string \<Rightarrow> ('k, 'w, DenomAuthorityMetadata) keeper" where
  "GetAuthorityMetadata E denom c =
    (let bz = (case KVStore_Get E (Keeper_GetDenomPrefixStore denom) DenomAuthorityMetadataKey c of
                 None \<Rightarrow> [] | Some b \<Rightarrow> b)
     in liftM (DenomAuthorityMetadata_XXX_Unmarshal DenomAuthorityMetadata_zero bz) c)"

definition setAuthorityMetadata ::
  "('k, 'w) sdk \<Rightarrow> string \<Rightarrow> DenomAuthorityMetadata \<Rightarrow> ('k, 'w, unit) keeper" where
  "setAuthorityMetadata E denom metadata =
    bindM (liftM (DenomAuthorityMetadata_Validate E metadata)) (\<lambda>_.
    bindM (liftM (DenomAuthorityMetadata_XXX_Marshal metadata (DenomAuthorityMetadata_XXX_Size metadata)))
      (\<lambda>bz. KVStore_Set E (Keeper_GetDenomPrefixStore denom) DenomAuthorityMetadataKey bz))"

definition setAdmin :: "('k, 'w) sdk \<Rightarrow> string \<Rightarrow> string \<Rightarrow> ('k, 'w, unit) keeper" where
  "setAdmin E denom admin =
    bindM (GetAuthorityMetadata E denom) (\<lambda>metadata.
      setAuthorityMetadata E denom (metadata\<lparr>Admin := admin\<rparr>))"

section \<open>The creator index (creators.go)\<close>

definition addDenomFromCreator :: "('k, 'w) sdk \<Rightarrow> string \<Rightarrow> string \<Rightarrow> ('k, 'w, unit) keeper" where
  "addDenomFromCreator E creator denom =
    KVStore_Set E (Keeper_GetCreatorPrefixStore creator) denom (bytes_of_string denom)"

definition getDenomsFromCreator :: "('k, 'w) sdk \<Rightarrow> string \<Rightarrow> ('k, 'w) ctx \<Rightarrow> string list" where
  "getDenomsFromCreator E creator c =
    map (\<lambda>(k, v). string_of_bytes k) (KVStore_Iterator E (Keeper_GetCreatorPrefixStore creator) c)"

definition GetAllDenomsIterator :: "('k, 'w) sdk \<Rightarrow> ('k, 'w) ctx \<Rightarrow> (bytes \<times> bytes) list" where
  "GetAllDenomsIterator E c = KVStore_Iterator E Keeper_GetCreatorsPrefixStore c"

section \<open>Parameters (params.go)\<close>

text \<open>\<open>GetParamSet\<close> fills the fields of the zero value in the order of its pairs; the fields have
  the types of the pairs.\<close>

fun read_params :: "param_value list \<Rightarrow> Params result" where
  "read_params [PCoins fee, PUint64 gas] = Inr \<lparr>DenomCreationFee = fee, DenomCreationGasConsume = gas\<rparr>"
| "read_params _ = Inl (GoPanic ''GetParamSet'')"

definition GetParams :: "('k, 'w) sdk \<Rightarrow> ('k, 'w, Params) keeper" where
  "GetParams E c = liftM (andThen
    (GetParamSet E (world c) (map pair_Key (ParamSetPairs E Params_zero))) read_params) c"

definition SetParams :: "('k, 'w) sdk \<Rightarrow> Params \<Rightarrow> ('k, 'w, unit) keeper" where
  "SetParams E params = worldM (\<lambda>w. SetParamSet E w (ParamSetPairs E params))"

section \<open>Creating denoms (createdenom.go)\<close>

definition createDenomAfterValidation :: "('k, 'w) sdk \<Rightarrow> string \<Rightarrow> string \<Rightarrow> ('k, 'w, unit) keeper" where
  "createDenomAfterValidation E creatorAddr denom =
    bindM (getM (\<lambda>c. snd (GetDenomMetaData E (world c) denom))) (\<lambda>exists.
    bindM (if \<not> exists
           then modifyM (\<lambda>c. c\<lparr>world := SetDenomMetaData E
             (bank_metadata_zero\<lparr>
                meta_DenomUnits := [\<lparr>unit_Denom = denom, unit_Exponent = 0, unit_Aliases = []\<rparr>],
                meta_Base := denom\<rparr>) (world c)\<rparr>)
           else retM ()) (\<lambda>_.
    bindM (setAuthorityMetadata E denom \<lparr>Admin = creatorAddr\<rparr>) (\<lambda>_.
      addDenomFromCreator E creatorAddr denom)))"

definition validateCreateDenom :: "('k, 'w) sdk \<Rightarrow> string \<Rightarrow> string \<Rightarrow> ('k, 'w, string) keeper" where
  "validateCreateDenom E creatorAddr subdenom =
    bindM (getM (\<lambda>c. HasSupply E (world c) subdenom)) (\<lambda>has_supply.
    bindM (guardM (\<not> has_supply) (ErrText ''temporary error until IBC bug is sorted out'')) (\<lambda>_.
    bindM (liftM (GetTokenDenom E creatorAddr subdenom)) (\<lambda>denom.
    bindM (getM (\<lambda>c. snd (GetDenomMetaData E (world c) denom))) (\<lambda>found.
    bindM (guardM (\<not> found) ErrDenomExists) (\<lambda>_.
      retM denom)))))"

definition chargeForCreateDenom :: "('k, 'w) sdk \<Rightarrow> string \<Rightarrow> ('k, 'w, unit) keeper" where
  "chargeForCreateDenom E creatorAddr =
    bindM (GetParams E) (\<lambda>params.
    bindM (if DenomCreationFee params \<noteq> None
           then bindM (liftM (AccAddressFromBech32 E creatorAddr)) (\<lambda>accAddr.
             worldM (FundCommunityPool E (DenomCreationFee params) accAddr))
           else retM ()) (\<lambda>_.
      if DenomCreationGasConsume params \<noteq> 0
      then worldM (ConsumeGas E (DenomCreationGasConsume params) ''consume denom creation gas'')
      else retM ()))"

definition CreateDenom :: "('k, 'w) sdk \<Rightarrow> string \<Rightarrow> string \<Rightarrow> ('k, 'w, string) keeper" where
  "CreateDenom E creatorAddr subdenom =
    bindM (validateCreateDenom E creatorAddr subdenom) (\<lambda>denom.
    bindM (chargeForCreateDenom E creatorAddr) (\<lambda>_.
    bindM (createDenomAfterValidation E creatorAddr denom) (\<lambda>_.
      retM denom)))"

section \<open>Bank actions (bankactions.go)\<close>

definition mintTo :: "('k, 'w) sdk \<Rightarrow> coin \<Rightarrow> string \<Rightarrow> ('k, 'w, unit) keeper" where
  "mintTo E amount mintTo' =
    bindM (liftM (DeconstructDenom E (coin_Denom amount))) (\<lambda>_.
    bindM (liftM (NewCoins E [amount])) (\<lambda>coins.
    bindM (worldM (MintCoins E ModuleName coins)) (\<lambda>_.
    bindM (liftM (AccAddressFromBech32 E mintTo')) (\<lambda>addr.
    bindM (liftM (NewCoins E [amount])) (\<lambda>coins.
      worldM (SendCoinsFromModuleToAccount E ModuleName addr coins))))))"

definition burnFrom :: "('k, 'w) sdk \<Rightarrow> coin \<Rightarrow> string \<Rightarrow> ('k, 'w, unit) keeper" where
  "burnFrom E amount burnFrom' =
    bindM (liftM (DeconstructDenom E (coin_Denom amount))) (\<lambda>_.
    bindM (liftM (AccAddressFromBech32 E burnFrom')) (\<lambda>addr.
    bindM (liftM (NewCoins E [amount])) (\<lambda>coins.
    bindM (worldM (SendCoinsFromAccountToModule E addr ModuleName coins)) (\<lambda>_.
    bindM (liftM (NewCoins E [amount])) (\<lambda>coins.
      worldM (BurnCoins E ModuleName coins))))))"

definition forceTransfer :: "('k, 'w) sdk \<Rightarrow> coin \<Rightarrow> string \<Rightarrow> string \<Rightarrow> ('k, 'w, unit) keeper" where
  "forceTransfer E amount fromAddr toAddr =
    bindM (liftM (DeconstructDenom E (coin_Denom amount))) (\<lambda>_.
    bindM (liftM (AccAddressFromBech32 E fromAddr)) (\<lambda>fromSdkAddr.
    bindM (liftM (AccAddressFromBech32 E toAddr)) (\<lambda>toSdkAddr.
    bindM (liftM (NewCoins E [amount])) (\<lambda>coins.
      worldM (SendCoins E fromSdkAddr toSdkAddr coins)))))"

end
