(* ===== verification/TxPb.thy ===== *)
theory TxPb
  imports Sdk
begin

text \<open>
  The generated codec of \<open>types/tx.pb.go\<close>: the six messages of the module's \<open>Msg\<close> service
  and their responses, each with its struct, \<open>MarshalToSizedBuffer\<close>, \<open>Size\<close>, \<open>Marshal\<close>,
  field switch and \<open>Unmarshal\<close>. The codecs of \<open>sdk.Coin\<close> and \<open>banktypes.Metadata\<close> are
  parameters (\<open>CC\<close>); the contract of a message that embeds one follows from the contract
  of the embedded codec. A message without them interprets the codec interface outright.
\<close>

section \<open>CreateDenom\<close>

record MsgCreateDenom =
  cd_Sender :: string
  cd_Subdenom :: string

definition MsgCreateDenom_zero :: "MsgCreateDenom" where
  "MsgCreateDenom_zero = \<lparr>cd_Sender = '''', cd_Subdenom = ''''\<rparr>"

definition MsgCreateDenom_MarshalToSizedBuffer :: "MsgCreateDenom \<Rightarrow> marshaller" where
  "MsgCreateDenom_MarshalToSizedBuffer m = sizedBuffer
    (thenW (put_string_field 0x12 (cd_Subdenom m))
      (put_string_field 0x0a (cd_Sender m)))"

definition MsgCreateDenom_Size :: "MsgCreateDenom \<Rightarrow> nat" where
  "MsgCreateDenom_Size m = string_size (cd_Sender m) + string_size (cd_Subdenom m)"

definition MsgCreateDenom_Marshal :: "MsgCreateDenom \<Rightarrow> bytes result" where
  "MsgCreateDenom_Marshal m = marshalWith (MsgCreateDenom_Size m) (MsgCreateDenom_MarshalToSizedBuffer m)"

definition MsgCreateDenom_field :: "MsgCreateDenom field_switch" where
  "MsgCreateDenom_field m fieldNum wireType d i =
    (if fieldNum = 1 then Some (read_string_field (\<lambda>s. m\<lparr>cd_Sender := s\<rparr>) wireType d i)
     else if fieldNum = 2 then Some (read_string_field (\<lambda>s. m\<lparr>cd_Subdenom := s\<rparr>) wireType d i)
     else None)"

definition MsgCreateDenom_Unmarshal :: "MsgCreateDenom \<Rightarrow> bytes \<Rightarrow> MsgCreateDenom result" where
  "MsgCreateDenom_Unmarshal m d = unmarshalWith MsgCreateDenom_field m d"

definition MsgCreateDenom_bytes :: "MsgCreateDenom \<Rightarrow> bytes" where
  "MsgCreateDenom_bytes m = string_field 0x0a (cd_Sender m)
    @ string_field 0x12 (cd_Subdenom m)"

lemma MsgCreateDenom_routes:
  "routes MsgCreateDenom_field m 0x0a 2 (read_string_field (\<lambda>s. m\<lparr>cd_Sender := s\<rparr>) 2)"
  "routes MsgCreateDenom_field m 0x12 2 (read_string_field (\<lambda>s. m\<lparr>cd_Subdenom := s\<rparr>) 2)"
  by (simp_all add: routes_def MsgCreateDenom_field_def fun_eq_iff)

lemma MsgCreateDenom_progressing: "progressing MsgCreateDenom_field"
  by (rule progressingI)
    (auto simp: MsgCreateDenom_field_def no_fuel split: if_splits dest: advances)

lemma MsgCreateDenom_reads:
  assumes "length (MsgCreateDenom_bytes m) < 2 ^ 63"
  shows "reads MsgCreateDenom_field (MsgCreateDenom_bytes m) MsgCreateDenom_zero m"
proof -
  let ?m0 = "MsgCreateDenom_zero"
  let ?m1 = "?m0\<lparr>cd_Sender := cd_Sender m\<rparr>"
  let ?m2 = "?m1\<lparr>cd_Subdenom := cd_Subdenom m\<rparr>"
  have r1: "reads MsgCreateDenom_field (string_field 0x0a (cd_Sender m)) ?m0 ?m1"
    by (rule reads_string_field [OF MsgCreateDenom_routes(1)]) (simp add: MsgCreateDenom_zero_def)
  have r2: "reads MsgCreateDenom_field (string_field 0x12 (cd_Subdenom m)) ?m1 ?m2"
    by (rule reads_string_field [OF MsgCreateDenom_routes(2)]) (simp add: MsgCreateDenom_zero_def)
  have eq: "?m2 = m" by (cases m) (simp add: MsgCreateDenom_zero_def)
  show ?thesis
    using reads_append [OF r1 r2] unfolding eq MsgCreateDenom_bytes_def .
qed

interpretation MsgCreateDenom_codec: proto_message
  MsgCreateDenom_MarshalToSizedBuffer MsgCreateDenom_Size MsgCreateDenom_Unmarshal MsgCreateDenom_zero MsgCreateDenom_bytes id
proof unfold_locales
  fix m :: MsgCreateDenom
  show "marshals (MsgCreateDenom_MarshalToSizedBuffer m) (MsgCreateDenom_bytes m)"
    unfolding MsgCreateDenom_MarshalToSizedBuffer_def MsgCreateDenom_bytes_def
    by (rule marshals_sizedBuffer, rule writes_cong, (rule writes_intros)+) simp
  show "MsgCreateDenom_Size m = length (MsgCreateDenom_bytes m)"
    by (simp add: MsgCreateDenom_Size_def MsgCreateDenom_bytes_def field_lengths )
  assume "length (MsgCreateDenom_bytes m) < 2 ^ 63"
  then show "MsgCreateDenom_Unmarshal MsgCreateDenom_zero (MsgCreateDenom_bytes m) = Inr (id m)"
    unfolding MsgCreateDenom_Unmarshal_def id_apply
    by (intro unmarshalWith_reads MsgCreateDenom_reads)
next
  fix m :: MsgCreateDenom and d :: bytes
  assume "length d < 2 ^ 63"
  then show "MsgCreateDenom_Unmarshal m d \<noteq> Inl ErrFuel"
    unfolding MsgCreateDenom_Unmarshal_def by (rule unmarshalWith_no_fuel [OF MsgCreateDenom_progressing])
qed

record MsgCreateDenomResponse =
  NewTokenDenom :: string

definition MsgCreateDenomResponse_zero :: "MsgCreateDenomResponse" where
  "MsgCreateDenomResponse_zero = \<lparr>NewTokenDenom = ''''\<rparr>"

definition MsgCreateDenomResponse_MarshalToSizedBuffer :: "MsgCreateDenomResponse \<Rightarrow> marshaller" where
  "MsgCreateDenomResponse_MarshalToSizedBuffer m = sizedBuffer
    (put_string_field 0x0a (NewTokenDenom m))"

definition MsgCreateDenomResponse_Size :: "MsgCreateDenomResponse \<Rightarrow> nat" where
  "MsgCreateDenomResponse_Size m = string_size (NewTokenDenom m)"

definition MsgCreateDenomResponse_Marshal :: "MsgCreateDenomResponse \<Rightarrow> bytes result" where
  "MsgCreateDenomResponse_Marshal m = marshalWith (MsgCreateDenomResponse_Size m) (MsgCreateDenomResponse_MarshalToSizedBuffer m)"

definition MsgCreateDenomResponse_field :: "MsgCreateDenomResponse field_switch" where
  "MsgCreateDenomResponse_field m fieldNum wireType d i =
    (if fieldNum = 1 then Some (read_string_field (\<lambda>s. m\<lparr>NewTokenDenom := s\<rparr>) wireType d i)
     else None)"

definition MsgCreateDenomResponse_Unmarshal :: "MsgCreateDenomResponse \<Rightarrow> bytes \<Rightarrow> MsgCreateDenomResponse result" where
  "MsgCreateDenomResponse_Unmarshal m d = unmarshalWith MsgCreateDenomResponse_field m d"

definition MsgCreateDenomResponse_bytes :: "MsgCreateDenomResponse \<Rightarrow> bytes" where
  "MsgCreateDenomResponse_bytes m = string_field 0x0a (NewTokenDenom m)"

lemma MsgCreateDenomResponse_routes:
  "routes MsgCreateDenomResponse_field m 0x0a 2 (read_string_field (\<lambda>s. m\<lparr>NewTokenDenom := s\<rparr>) 2)"
  by (simp_all add: routes_def MsgCreateDenomResponse_field_def fun_eq_iff)

lemma MsgCreateDenomResponse_progressing: "progressing MsgCreateDenomResponse_field"
  by (rule progressingI)
    (auto simp: MsgCreateDenomResponse_field_def no_fuel split: if_splits dest: advances)

lemma MsgCreateDenomResponse_reads:
  assumes "length (MsgCreateDenomResponse_bytes m) < 2 ^ 63"
  shows "reads MsgCreateDenomResponse_field (MsgCreateDenomResponse_bytes m) MsgCreateDenomResponse_zero m"
proof -
  let ?m0 = "MsgCreateDenomResponse_zero"
  let ?m1 = "?m0\<lparr>NewTokenDenom := NewTokenDenom m\<rparr>"
  have r1: "reads MsgCreateDenomResponse_field (string_field 0x0a (NewTokenDenom m)) ?m0 ?m1"
    by (rule reads_string_field [OF MsgCreateDenomResponse_routes]) (simp add: MsgCreateDenomResponse_zero_def)
  have eq: "?m1 = m" by (cases m) (simp add: MsgCreateDenomResponse_zero_def)
  show ?thesis
    using r1 unfolding eq MsgCreateDenomResponse_bytes_def .
qed

interpretation MsgCreateDenomResponse_codec: proto_message
  MsgCreateDenomResponse_MarshalToSizedBuffer MsgCreateDenomResponse_Size MsgCreateDenomResponse_Unmarshal MsgCreateDenomResponse_zero MsgCreateDenomResponse_bytes id
proof unfold_locales
  fix m :: MsgCreateDenomResponse
  show "marshals (MsgCreateDenomResponse_MarshalToSizedBuffer m) (MsgCreateDenomResponse_bytes m)"
    unfolding MsgCreateDenomResponse_MarshalToSizedBuffer_def MsgCreateDenomResponse_bytes_def
    by (rule marshals_sizedBuffer, (rule writes_intros)+)
  show "MsgCreateDenomResponse_Size m = length (MsgCreateDenomResponse_bytes m)"
    by (simp add: MsgCreateDenomResponse_Size_def MsgCreateDenomResponse_bytes_def field_lengths )
  assume "length (MsgCreateDenomResponse_bytes m) < 2 ^ 63"
  then show "MsgCreateDenomResponse_Unmarshal MsgCreateDenomResponse_zero (MsgCreateDenomResponse_bytes m) = Inr (id m)"
    unfolding MsgCreateDenomResponse_Unmarshal_def id_apply
    by (intro unmarshalWith_reads MsgCreateDenomResponse_reads)
next
  fix m :: MsgCreateDenomResponse and d :: bytes
  assume "length d < 2 ^ 63"
  then show "MsgCreateDenomResponse_Unmarshal m d \<noteq> Inl ErrFuel"
    unfolding MsgCreateDenomResponse_Unmarshal_def by (rule unmarshalWith_no_fuel [OF MsgCreateDenomResponse_progressing])
qed

section \<open>Mint\<close>

record MsgMint =
  mint_Sender :: string
  mint_Amount :: coin
  MintToAddress :: string

definition MsgMint_zero :: "coin codec \<Rightarrow> MsgMint" where
  "MsgMint_zero CC = \<lparr>mint_Sender = '''', mint_Amount = codec_zero CC, MintToAddress = ''''\<rparr>"

definition MsgMint_MarshalToSizedBuffer :: "coin codec \<Rightarrow> MsgMint \<Rightarrow> marshaller" where
  "MsgMint_MarshalToSizedBuffer CC m = sizedBuffer
    (thenW (put_string_field 0x1a (MintToAddress m))
      (thenW (put_msg_field 0x12 (codec_MarshalToSizedBuffer CC (mint_Amount m)))
        (put_string_field 0x0a (mint_Sender m))))"

definition MsgMint_Size :: "coin codec \<Rightarrow> MsgMint \<Rightarrow> nat" where
  "MsgMint_Size CC m = string_size (mint_Sender m) + msg_size (codec_Size CC (mint_Amount m)) + string_size (MintToAddress m)"

definition MsgMint_Marshal :: "coin codec \<Rightarrow> MsgMint \<Rightarrow> bytes result" where
  "MsgMint_Marshal CC m = marshalWith (MsgMint_Size CC m) (MsgMint_MarshalToSizedBuffer CC m)"

definition MsgMint_field :: "coin codec \<Rightarrow> MsgMint field_switch" where
  "MsgMint_field CC m fieldNum wireType d i =
    (if fieldNum = 1 then Some (read_string_field (\<lambda>s. m\<lparr>mint_Sender := s\<rparr>) wireType d i)
     else if fieldNum = 2 then Some (read_msg_field (\<lambda>b. andThen (codec_Unmarshal CC (mint_Amount m) b) (\<lambda>x. Inr (m\<lparr>mint_Amount := x\<rparr>))) wireType d i)
     else if fieldNum = 3 then Some (read_string_field (\<lambda>s. m\<lparr>MintToAddress := s\<rparr>) wireType d i)
     else None)"

definition MsgMint_Unmarshal :: "coin codec \<Rightarrow> MsgMint \<Rightarrow> bytes \<Rightarrow> MsgMint result" where
  "MsgMint_Unmarshal CC m d = unmarshalWith (MsgMint_field CC) m d"

definition MsgMint_bytes :: "(coin \<Rightarrow> bytes) \<Rightarrow> MsgMint \<Rightarrow> bytes" where
  "MsgMint_bytes cenc m = string_field 0x0a (mint_Sender m)
    @ delimited 0x12 (cenc (mint_Amount m))
    @ string_field 0x1a (MintToAddress m)"

lemma MsgMint_routes:
  "routes (MsgMint_field CC) m 0x0a 2 (read_string_field (\<lambda>s. m\<lparr>mint_Sender := s\<rparr>) 2)"
  "mint_Amount m = codec_zero CC \<Longrightarrow> routes (MsgMint_field CC) m 0x12 2
    (read_msg_field (\<lambda>b. andThen (codec_Unmarshal CC (codec_zero CC) b) (\<lambda>x. Inr (m\<lparr>mint_Amount := x\<rparr>))) 2)"
  "routes (MsgMint_field CC) m 0x1a 2 (read_string_field (\<lambda>s. m\<lparr>MintToAddress := s\<rparr>) 2)"
  by (simp_all add: routes_def MsgMint_field_def fun_eq_iff)

lemma MsgMint_progressing:
  assumes "codec_ok CC cenc"
  shows "progressing (MsgMint_field CC)"
  by (rule progressingI)
    (auto simp: MsgMint_field_def no_fuel proto_message.field_no_fuel [OF assms]
      split: if_splits dest: advances)

lemma MsgMint_reads:
  assumes "codec_ok CC cenc" and "length (MsgMint_bytes cenc m) < 2 ^ 63"
  shows "reads (MsgMint_field CC) (MsgMint_bytes cenc m) (MsgMint_zero CC) m"
proof -
  let ?m0 = "MsgMint_zero CC"
  let ?m1 = "?m0\<lparr>mint_Sender := mint_Sender m\<rparr>"
  let ?m2 = "?m1\<lparr>mint_Amount := mint_Amount m\<rparr>"
  let ?m3 = "?m2\<lparr>MintToAddress := MintToAddress m\<rparr>"
  have r1: "reads (MsgMint_field CC) (string_field 0x0a (mint_Sender m)) ?m0 ?m1"
    by (rule reads_string_field [OF MsgMint_routes(1)]) (simp add: MsgMint_zero_def)
  have r2: "reads (MsgMint_field CC) (delimited 0x12 (cenc (mint_Amount m))) ?m1 ?m2"
    by (rule proto_message.reads_field [OF assms(1), simplified], rule MsgMint_routes(2), simp add: MsgMint_zero_def)
      (use assms(2) in \<open>simp add: MsgMint_bytes_def length_delimited\<close>)
  have r3: "reads (MsgMint_field CC) (string_field 0x1a (MintToAddress m)) ?m2 ?m3"
    by (rule reads_string_field [OF MsgMint_routes(3)]) (simp add: MsgMint_zero_def)
  have eq: "?m3 = m" by (cases m) (simp add: MsgMint_zero_def)
  show ?thesis
    using reads_append [OF r1 reads_append [OF r2 r3]] unfolding eq MsgMint_bytes_def .
qed

lemma MsgMint_codec:
  assumes "codec_ok CC cenc"
  shows "proto_message (MsgMint_MarshalToSizedBuffer CC) (MsgMint_Size CC)
    (MsgMint_Unmarshal CC) (MsgMint_zero CC) (MsgMint_bytes cenc) id"
proof unfold_locales
  fix m :: MsgMint
  show "marshals (MsgMint_MarshalToSizedBuffer CC m) (MsgMint_bytes cenc m)"
    unfolding MsgMint_MarshalToSizedBuffer_def MsgMint_bytes_def
    by (rule marshals_sizedBuffer, rule writes_cong, (rule writes_intros proto_message.marshals_enc [OF assms])+) simp
  show "MsgMint_Size CC m = length (MsgMint_bytes cenc m)"
    by (simp add: MsgMint_Size_def MsgMint_bytes_def field_lengths  proto_message.sz_enc [OF assms])
  assume "length (MsgMint_bytes cenc m) < 2 ^ 63"
  then show "MsgMint_Unmarshal CC (MsgMint_zero CC) (MsgMint_bytes cenc m) = Inr (id m)"
    unfolding MsgMint_Unmarshal_def id_apply
    by (intro unmarshalWith_reads MsgMint_reads [OF assms])
next
  fix m :: MsgMint and d :: bytes
  assume "length d < 2 ^ 63"
  then show "MsgMint_Unmarshal CC m d \<noteq> Inl ErrFuel"
    unfolding MsgMint_Unmarshal_def by (rule unmarshalWith_no_fuel [OF MsgMint_progressing [OF assms]])
qed

datatype MsgMintResponse = MsgMintResponse

definition MsgMintResponse_zero :: MsgMintResponse where
  "MsgMintResponse_zero = MsgMintResponse"

definition MsgMintResponse_MarshalToSizedBuffer :: "MsgMintResponse \<Rightarrow> marshaller" where
  "MsgMintResponse_MarshalToSizedBuffer m = sizedBuffer
    (Inr)"

definition MsgMintResponse_Size :: "MsgMintResponse \<Rightarrow> nat" where
  "MsgMintResponse_Size m = 0"

definition MsgMintResponse_Marshal :: "MsgMintResponse \<Rightarrow> bytes result" where
  "MsgMintResponse_Marshal m = marshalWith (MsgMintResponse_Size m) (MsgMintResponse_MarshalToSizedBuffer m)"

definition MsgMintResponse_field :: "MsgMintResponse field_switch" where
  "MsgMintResponse_field m fieldNum wireType d i =
    None"

definition MsgMintResponse_Unmarshal :: "MsgMintResponse \<Rightarrow> bytes \<Rightarrow> MsgMintResponse result" where
  "MsgMintResponse_Unmarshal m d = unmarshalWith MsgMintResponse_field m d"

definition MsgMintResponse_bytes :: "MsgMintResponse \<Rightarrow> bytes" where
  "MsgMintResponse_bytes m = []"

lemma MsgMintResponse_progressing: "progressing MsgMintResponse_field"
  by (rule progressingI)
    (auto simp: MsgMintResponse_field_def no_fuel split: if_splits dest: advances)

interpretation MsgMintResponse_codec: proto_message
  MsgMintResponse_MarshalToSizedBuffer MsgMintResponse_Size MsgMintResponse_Unmarshal MsgMintResponse_zero MsgMintResponse_bytes id
proof unfold_locales
  fix m :: MsgMintResponse
  show "marshals (MsgMintResponse_MarshalToSizedBuffer m) (MsgMintResponse_bytes m)"
    unfolding MsgMintResponse_MarshalToSizedBuffer_def MsgMintResponse_bytes_def
    by (rule marshals_sizedBuffer, (rule writes_intros)+)
  show "MsgMintResponse_Size m = length (MsgMintResponse_bytes m)"
    by (simp add: MsgMintResponse_Size_def MsgMintResponse_bytes_def field_lengths )
  assume "length (MsgMintResponse_bytes m) < 2 ^ 63"
  then show "MsgMintResponse_Unmarshal MsgMintResponse_zero (MsgMintResponse_bytes m) = Inr (id m)"
    by (cases m) (simp add: MsgMintResponse_Unmarshal_def MsgMintResponse_bytes_def MsgMintResponse_zero_def unmarshalWith_def)
next
  fix m :: MsgMintResponse and d :: bytes
  assume "length d < 2 ^ 63"
  then show "MsgMintResponse_Unmarshal m d \<noteq> Inl ErrFuel"
    unfolding MsgMintResponse_Unmarshal_def by (rule unmarshalWith_no_fuel [OF MsgMintResponse_progressing])
qed

section \<open>Burn\<close>

record MsgBurn =
  burn_Sender :: string
  burn_Amount :: coin
  BurnFromAddress :: string

definition MsgBurn_zero :: "coin codec \<Rightarrow> MsgBurn" where
  "MsgBurn_zero CC = \<lparr>burn_Sender = '''', burn_Amount = codec_zero CC, BurnFromAddress = ''''\<rparr>"

definition MsgBurn_MarshalToSizedBuffer :: "coin codec \<Rightarrow> MsgBurn \<Rightarrow> marshaller" where
  "MsgBurn_MarshalToSizedBuffer CC m = sizedBuffer
    (thenW (put_string_field 0x1a (BurnFromAddress m))
      (thenW (put_msg_field 0x12 (codec_MarshalToSizedBuffer CC (burn_Amount m)))
        (put_string_field 0x0a (burn_Sender m))))"

definition MsgBurn_Size :: "coin codec \<Rightarrow> MsgBurn \<Rightarrow> nat" where
  "MsgBurn_Size CC m = string_size (burn_Sender m) + msg_size (codec_Size CC (burn_Amount m)) + string_size (BurnFromAddress m)"

definition MsgBurn_Marshal :: "coin codec \<Rightarrow> MsgBurn \<Rightarrow> bytes result" where
  "MsgBurn_Marshal CC m = marshalWith (MsgBurn_Size CC m) (MsgBurn_MarshalToSizedBuffer CC m)"

definition MsgBurn_field :: "coin codec \<Rightarrow> MsgBurn field_switch" where
  "MsgBurn_field CC m fieldNum wireType d i =
    (if fieldNum = 1 then Some (read_string_field (\<lambda>s. m\<lparr>burn_Sender := s\<rparr>) wireType d i)
     else if fieldNum = 2 then Some (read_msg_field (\<lambda>b. andThen (codec_Unmarshal CC (burn_Amount m) b) (\<lambda>x. Inr (m\<lparr>burn_Amount := x\<rparr>))) wireType d i)
     else if fieldNum = 3 then Some (read_string_field (\<lambda>s. m\<lparr>BurnFromAddress := s\<rparr>) wireType d i)
     else None)"

definition MsgBurn_Unmarshal :: "coin codec \<Rightarrow> MsgBurn \<Rightarrow> bytes \<Rightarrow> MsgBurn result" where
  "MsgBurn_Unmarshal CC m d = unmarshalWith (MsgBurn_field CC) m d"

definition MsgBurn_bytes :: "(coin \<Rightarrow> bytes) \<Rightarrow> MsgBurn \<Rightarrow> bytes" where
  "MsgBurn_bytes cenc m = string_field 0x0a (burn_Sender m)
    @ delimited 0x12 (cenc (burn_Amount m))
    @ string_field 0x1a (BurnFromAddress m)"

lemma MsgBurn_routes:
  "routes (MsgBurn_field CC) m 0x0a 2 (read_string_field (\<lambda>s. m\<lparr>burn_Sender := s\<rparr>) 2)"
  "burn_Amount m = codec_zero CC \<Longrightarrow> routes (MsgBurn_field CC) m 0x12 2
    (read_msg_field (\<lambda>b. andThen (codec_Unmarshal CC (codec_zero CC) b) (\<lambda>x. Inr (m\<lparr>burn_Amount := x\<rparr>))) 2)"
  "routes (MsgBurn_field CC) m 0x1a 2 (read_string_field (\<lambda>s. m\<lparr>BurnFromAddress := s\<rparr>) 2)"
  by (simp_all add: routes_def MsgBurn_field_def fun_eq_iff)

lemma MsgBurn_progressing:
  assumes "codec_ok CC cenc"
  shows "progressing (MsgBurn_field CC)"
  by (rule progressingI)
    (auto simp: MsgBurn_field_def no_fuel proto_message.field_no_fuel [OF assms]
      split: if_splits dest: advances)

lemma MsgBurn_reads:
  assumes "codec_ok CC cenc" and "length (MsgBurn_bytes cenc m) < 2 ^ 63"
  shows "reads (MsgBurn_field CC) (MsgBurn_bytes cenc m) (MsgBurn_zero CC) m"
proof -
  let ?m0 = "MsgBurn_zero CC"
  let ?m1 = "?m0\<lparr>burn_Sender := burn_Sender m\<rparr>"
  let ?m2 = "?m1\<lparr>burn_Amount := burn_Amount m\<rparr>"
  let ?m3 = "?m2\<lparr>BurnFromAddress := BurnFromAddress m\<rparr>"
  have r1: "reads (MsgBurn_field CC) (string_field 0x0a (burn_Sender m)) ?m0 ?m1"
    by (rule reads_string_field [OF MsgBurn_routes(1)]) (simp add: MsgBurn_zero_def)
  have r2: "reads (MsgBurn_field CC) (delimited 0x12 (cenc (burn_Amount m))) ?m1 ?m2"
    by (rule proto_message.reads_field [OF assms(1), simplified], rule MsgBurn_routes(2), simp add: MsgBurn_zero_def)
      (use assms(2) in \<open>simp add: MsgBurn_bytes_def length_delimited\<close>)
  have r3: "reads (MsgBurn_field CC) (string_field 0x1a (BurnFromAddress m)) ?m2 ?m3"
    by (rule reads_string_field [OF MsgBurn_routes(3)]) (simp add: MsgBurn_zero_def)
  have eq: "?m3 = m" by (cases m) (simp add: MsgBurn_zero_def)
  show ?thesis
    using reads_append [OF r1 reads_append [OF r2 r3]] unfolding eq MsgBurn_bytes_def .
qed

lemma MsgBurn_codec:
  assumes "codec_ok CC cenc"
  shows "proto_message (MsgBurn_MarshalToSizedBuffer CC) (MsgBurn_Size CC)
    (MsgBurn_Unmarshal CC) (MsgBurn_zero CC) (MsgBurn_bytes cenc) id"
proof unfold_locales
  fix m :: MsgBurn
  show "marshals (MsgBurn_MarshalToSizedBuffer CC m) (MsgBurn_bytes cenc m)"
    unfolding MsgBurn_MarshalToSizedBuffer_def MsgBurn_bytes_def
    by (rule marshals_sizedBuffer, rule writes_cong, (rule writes_intros proto_message.marshals_enc [OF assms])+) simp
  show "MsgBurn_Size CC m = length (MsgBurn_bytes cenc m)"
    by (simp add: MsgBurn_Size_def MsgBurn_bytes_def field_lengths  proto_message.sz_enc [OF assms])
  assume "length (MsgBurn_bytes cenc m) < 2 ^ 63"
  then show "MsgBurn_Unmarshal CC (MsgBurn_zero CC) (MsgBurn_bytes cenc m) = Inr (id m)"
    unfolding MsgBurn_Unmarshal_def id_apply
    by (intro unmarshalWith_reads MsgBurn_reads [OF assms])
next
  fix m :: MsgBurn and d :: bytes
  assume "length d < 2 ^ 63"
  then show "MsgBurn_Unmarshal CC m d \<noteq> Inl ErrFuel"
    unfolding MsgBurn_Unmarshal_def by (rule unmarshalWith_no_fuel [OF MsgBurn_progressing [OF assms]])
qed

datatype MsgBurnResponse = MsgBurnResponse

definition MsgBurnResponse_zero :: MsgBurnResponse where
  "MsgBurnResponse_zero = MsgBurnResponse"

definition MsgBurnResponse_MarshalToSizedBuffer :: "MsgBurnResponse \<Rightarrow> marshaller" where
  "MsgBurnResponse_MarshalToSizedBuffer m = sizedBuffer
    (Inr)"

definition MsgBurnResponse_Size :: "MsgBurnResponse \<Rightarrow> nat" where
  "MsgBurnResponse_Size m = 0"

definition MsgBurnResponse_Marshal :: "MsgBurnResponse \<Rightarrow> bytes result" where
  "MsgBurnResponse_Marshal m = marshalWith (MsgBurnResponse_Size m) (MsgBurnResponse_MarshalToSizedBuffer m)"

definition MsgBurnResponse_field :: "MsgBurnResponse field_switch" where
  "MsgBurnResponse_field m fieldNum wireType d i =
    None"

definition MsgBurnResponse_Unmarshal :: "MsgBurnResponse \<Rightarrow> bytes \<Rightarrow> MsgBurnResponse result" where
  "MsgBurnResponse_Unmarshal m d = unmarshalWith MsgBurnResponse_field m d"

definition MsgBurnResponse_bytes :: "MsgBurnResponse \<Rightarrow> bytes" where
  "MsgBurnResponse_bytes m = []"

lemma MsgBurnResponse_progressing: "progressing MsgBurnResponse_field"
  by (rule progressingI)
    (auto simp: MsgBurnResponse_field_def no_fuel split: if_splits dest: advances)

interpretation MsgBurnResponse_codec: proto_message
  MsgBurnResponse_MarshalToSizedBuffer MsgBurnResponse_Size MsgBurnResponse_Unmarshal MsgBurnResponse_zero MsgBurnResponse_bytes id
proof unfold_locales
  fix m :: MsgBurnResponse
  show "marshals (MsgBurnResponse_MarshalToSizedBuffer m) (MsgBurnResponse_bytes m)"
    unfolding MsgBurnResponse_MarshalToSizedBuffer_def MsgBurnResponse_bytes_def
    by (rule marshals_sizedBuffer, (rule writes_intros)+)
  show "MsgBurnResponse_Size m = length (MsgBurnResponse_bytes m)"
    by (simp add: MsgBurnResponse_Size_def MsgBurnResponse_bytes_def field_lengths )
  assume "length (MsgBurnResponse_bytes m) < 2 ^ 63"
  then show "MsgBurnResponse_Unmarshal MsgBurnResponse_zero (MsgBurnResponse_bytes m) = Inr (id m)"
    by (cases m) (simp add: MsgBurnResponse_Unmarshal_def MsgBurnResponse_bytes_def MsgBurnResponse_zero_def unmarshalWith_def)
next
  fix m :: MsgBurnResponse and d :: bytes
  assume "length d < 2 ^ 63"
  then show "MsgBurnResponse_Unmarshal m d \<noteq> Inl ErrFuel"
    unfolding MsgBurnResponse_Unmarshal_def by (rule unmarshalWith_no_fuel [OF MsgBurnResponse_progressing])
qed

section \<open>ChangeAdmin\<close>

record MsgChangeAdmin =
  ca_Sender :: string
  ca_Denom :: string
  NewAdmin :: string

definition MsgChangeAdmin_zero :: "MsgChangeAdmin" where
  "MsgChangeAdmin_zero = \<lparr>ca_Sender = '''', ca_Denom = '''', NewAdmin = ''''\<rparr>"

definition MsgChangeAdmin_MarshalToSizedBuffer :: "MsgChangeAdmin \<Rightarrow> marshaller" where
  "MsgChangeAdmin_MarshalToSizedBuffer m = sizedBuffer
    (thenW (put_string_field 0x1a (NewAdmin m))
      (thenW (put_string_field 0x12 (ca_Denom m))
        (put_string_field 0x0a (ca_Sender m))))"

definition MsgChangeAdmin_Size :: "MsgChangeAdmin \<Rightarrow> nat" where
  "MsgChangeAdmin_Size m = string_size (ca_Sender m) + string_size (ca_Denom m) + string_size (NewAdmin m)"

definition MsgChangeAdmin_Marshal :: "MsgChangeAdmin \<Rightarrow> bytes result" where
  "MsgChangeAdmin_Marshal m = marshalWith (MsgChangeAdmin_Size m) (MsgChangeAdmin_MarshalToSizedBuffer m)"

definition MsgChangeAdmin_field :: "MsgChangeAdmin field_switch" where
  "MsgChangeAdmin_field m fieldNum wireType d i =
    (if fieldNum = 1 then Some (read_string_field (\<lambda>s. m\<lparr>ca_Sender := s\<rparr>) wireType d i)
     else if fieldNum = 2 then Some (read_string_field (\<lambda>s. m\<lparr>ca_Denom := s\<rparr>) wireType d i)
     else if fieldNum = 3 then Some (read_string_field (\<lambda>s. m\<lparr>NewAdmin := s\<rparr>) wireType d i)
     else None)"

definition MsgChangeAdmin_Unmarshal :: "MsgChangeAdmin \<Rightarrow> bytes \<Rightarrow> MsgChangeAdmin result" where
  "MsgChangeAdmin_Unmarshal m d = unmarshalWith MsgChangeAdmin_field m d"

definition MsgChangeAdmin_bytes :: "MsgChangeAdmin \<Rightarrow> bytes" where
  "MsgChangeAdmin_bytes m = string_field 0x0a (ca_Sender m)
    @ string_field 0x12 (ca_Denom m)
    @ string_field 0x1a (NewAdmin m)"

lemma MsgChangeAdmin_routes:
  "routes MsgChangeAdmin_field m 0x0a 2 (read_string_field (\<lambda>s. m\<lparr>ca_Sender := s\<rparr>) 2)"
  "routes MsgChangeAdmin_field m 0x12 2 (read_string_field (\<lambda>s. m\<lparr>ca_Denom := s\<rparr>) 2)"
  "routes MsgChangeAdmin_field m 0x1a 2 (read_string_field (\<lambda>s. m\<lparr>NewAdmin := s\<rparr>) 2)"
  by (simp_all add: routes_def MsgChangeAdmin_field_def fun_eq_iff)

lemma MsgChangeAdmin_progressing: "progressing MsgChangeAdmin_field"
  by (rule progressingI)
    (auto simp: MsgChangeAdmin_field_def no_fuel split: if_splits dest: advances)

lemma MsgChangeAdmin_reads:
  assumes "length (MsgChangeAdmin_bytes m) < 2 ^ 63"
  shows "reads MsgChangeAdmin_field (MsgChangeAdmin_bytes m) MsgChangeAdmin_zero m"
proof -
  let ?m0 = "MsgChangeAdmin_zero"
  let ?m1 = "?m0\<lparr>ca_Sender := ca_Sender m\<rparr>"
  let ?m2 = "?m1\<lparr>ca_Denom := ca_Denom m\<rparr>"
  let ?m3 = "?m2\<lparr>NewAdmin := NewAdmin m\<rparr>"
  have r1: "reads MsgChangeAdmin_field (string_field 0x0a (ca_Sender m)) ?m0 ?m1"
    by (rule reads_string_field [OF MsgChangeAdmin_routes(1)]) (simp add: MsgChangeAdmin_zero_def)
  have r2: "reads MsgChangeAdmin_field (string_field 0x12 (ca_Denom m)) ?m1 ?m2"
    by (rule reads_string_field [OF MsgChangeAdmin_routes(2)]) (simp add: MsgChangeAdmin_zero_def)
  have r3: "reads MsgChangeAdmin_field (string_field 0x1a (NewAdmin m)) ?m2 ?m3"
    by (rule reads_string_field [OF MsgChangeAdmin_routes(3)]) (simp add: MsgChangeAdmin_zero_def)
  have eq: "?m3 = m" by (cases m) (simp add: MsgChangeAdmin_zero_def)
  show ?thesis
    using reads_append [OF r1 reads_append [OF r2 r3]] unfolding eq MsgChangeAdmin_bytes_def .
qed

interpretation MsgChangeAdmin_codec: proto_message
  MsgChangeAdmin_MarshalToSizedBuffer MsgChangeAdmin_Size MsgChangeAdmin_Unmarshal MsgChangeAdmin_zero MsgChangeAdmin_bytes id
proof unfold_locales
  fix m :: MsgChangeAdmin
  show "marshals (MsgChangeAdmin_MarshalToSizedBuffer m) (MsgChangeAdmin_bytes m)"
    unfolding MsgChangeAdmin_MarshalToSizedBuffer_def MsgChangeAdmin_bytes_def
    by (rule marshals_sizedBuffer, rule writes_cong, (rule writes_intros)+) simp
  show "MsgChangeAdmin_Size m = length (MsgChangeAdmin_bytes m)"
    by (simp add: MsgChangeAdmin_Size_def MsgChangeAdmin_bytes_def field_lengths )
  assume "length (MsgChangeAdmin_bytes m) < 2 ^ 63"
  then show "MsgChangeAdmin_Unmarshal MsgChangeAdmin_zero (MsgChangeAdmin_bytes m) = Inr (id m)"
    unfolding MsgChangeAdmin_Unmarshal_def id_apply
    by (intro unmarshalWith_reads MsgChangeAdmin_reads)
next
  fix m :: MsgChangeAdmin and d :: bytes
  assume "length d < 2 ^ 63"
  then show "MsgChangeAdmin_Unmarshal m d \<noteq> Inl ErrFuel"
    unfolding MsgChangeAdmin_Unmarshal_def by (rule unmarshalWith_no_fuel [OF MsgChangeAdmin_progressing])
qed

datatype MsgChangeAdminResponse = MsgChangeAdminResponse

definition MsgChangeAdminResponse_zero :: MsgChangeAdminResponse where
  "MsgChangeAdminResponse_zero = MsgChangeAdminResponse"

definition MsgChangeAdminResponse_MarshalToSizedBuffer :: "MsgChangeAdminResponse \<Rightarrow> marshaller" where
  "MsgChangeAdminResponse_MarshalToSizedBuffer m = sizedBuffer
    (Inr)"

definition MsgChangeAdminResponse_Size :: "MsgChangeAdminResponse \<Rightarrow> nat" where
  "MsgChangeAdminResponse_Size m = 0"

definition MsgChangeAdminResponse_Marshal :: "MsgChangeAdminResponse \<Rightarrow> bytes result" where
  "MsgChangeAdminResponse_Marshal m = marshalWith (MsgChangeAdminResponse_Size m) (MsgChangeAdminResponse_MarshalToSizedBuffer m)"

definition MsgChangeAdminResponse_field :: "MsgChangeAdminResponse field_switch" where
  "MsgChangeAdminResponse_field m fieldNum wireType d i =
    None"

definition MsgChangeAdminResponse_Unmarshal :: "MsgChangeAdminResponse \<Rightarrow> bytes \<Rightarrow> MsgChangeAdminResponse result" where
  "MsgChangeAdminResponse_Unmarshal m d = unmarshalWith MsgChangeAdminResponse_field m d"

definition MsgChangeAdminResponse_bytes :: "MsgChangeAdminResponse \<Rightarrow> bytes" where
  "MsgChangeAdminResponse_bytes m = []"

lemma MsgChangeAdminResponse_progressing: "progressing MsgChangeAdminResponse_field"
  by (rule progressingI)
    (auto simp: MsgChangeAdminResponse_field_def no_fuel split: if_splits dest: advances)

interpretation MsgChangeAdminResponse_codec: proto_message
  MsgChangeAdminResponse_MarshalToSizedBuffer MsgChangeAdminResponse_Size MsgChangeAdminResponse_Unmarshal MsgChangeAdminResponse_zero MsgChangeAdminResponse_bytes id
proof unfold_locales
  fix m :: MsgChangeAdminResponse
  show "marshals (MsgChangeAdminResponse_MarshalToSizedBuffer m) (MsgChangeAdminResponse_bytes m)"
    unfolding MsgChangeAdminResponse_MarshalToSizedBuffer_def MsgChangeAdminResponse_bytes_def
    by (rule marshals_sizedBuffer, (rule writes_intros)+)
  show "MsgChangeAdminResponse_Size m = length (MsgChangeAdminResponse_bytes m)"
    by (simp add: MsgChangeAdminResponse_Size_def MsgChangeAdminResponse_bytes_def field_lengths )
  assume "length (MsgChangeAdminResponse_bytes m) < 2 ^ 63"
  then show "MsgChangeAdminResponse_Unmarshal MsgChangeAdminResponse_zero (MsgChangeAdminResponse_bytes m) = Inr (id m)"
    by (cases m) (simp add: MsgChangeAdminResponse_Unmarshal_def MsgChangeAdminResponse_bytes_def MsgChangeAdminResponse_zero_def unmarshalWith_def)
next
  fix m :: MsgChangeAdminResponse and d :: bytes
  assume "length d < 2 ^ 63"
  then show "MsgChangeAdminResponse_Unmarshal m d \<noteq> Inl ErrFuel"
    unfolding MsgChangeAdminResponse_Unmarshal_def by (rule unmarshalWith_no_fuel [OF MsgChangeAdminResponse_progressing])
qed

section \<open>SetDenomMetadata\<close>

record MsgSetDenomMetadata =
  sdm_Sender :: string
  sdm_Metadata :: bank_metadata

definition MsgSetDenomMetadata_zero :: "bank_metadata codec \<Rightarrow> MsgSetDenomMetadata" where
  "MsgSetDenomMetadata_zero CC = \<lparr>sdm_Sender = '''', sdm_Metadata = codec_zero CC\<rparr>"

definition MsgSetDenomMetadata_MarshalToSizedBuffer :: "bank_metadata codec \<Rightarrow> MsgSetDenomMetadata \<Rightarrow> marshaller" where
  "MsgSetDenomMetadata_MarshalToSizedBuffer CC m = sizedBuffer
    (thenW (put_msg_field 0x12 (codec_MarshalToSizedBuffer CC (sdm_Metadata m)))
      (put_string_field 0x0a (sdm_Sender m)))"

definition MsgSetDenomMetadata_Size :: "bank_metadata codec \<Rightarrow> MsgSetDenomMetadata \<Rightarrow> nat" where
  "MsgSetDenomMetadata_Size CC m = string_size (sdm_Sender m) + msg_size (codec_Size CC (sdm_Metadata m))"

definition MsgSetDenomMetadata_Marshal :: "bank_metadata codec \<Rightarrow> MsgSetDenomMetadata \<Rightarrow> bytes result" where
  "MsgSetDenomMetadata_Marshal CC m = marshalWith (MsgSetDenomMetadata_Size CC m) (MsgSetDenomMetadata_MarshalToSizedBuffer CC m)"

definition MsgSetDenomMetadata_field :: "bank_metadata codec \<Rightarrow> MsgSetDenomMetadata field_switch" where
  "MsgSetDenomMetadata_field CC m fieldNum wireType d i =
    (if fieldNum = 1 then Some (read_string_field (\<lambda>s. m\<lparr>sdm_Sender := s\<rparr>) wireType d i)
     else if fieldNum = 2 then Some (read_msg_field (\<lambda>b. andThen (codec_Unmarshal CC (sdm_Metadata m) b) (\<lambda>x. Inr (m\<lparr>sdm_Metadata := x\<rparr>))) wireType d i)
     else None)"

definition MsgSetDenomMetadata_Unmarshal :: "bank_metadata codec \<Rightarrow> MsgSetDenomMetadata \<Rightarrow> bytes \<Rightarrow> MsgSetDenomMetadata result" where
  "MsgSetDenomMetadata_Unmarshal CC m d = unmarshalWith (MsgSetDenomMetadata_field CC) m d"

definition MsgSetDenomMetadata_bytes :: "(bank_metadata \<Rightarrow> bytes) \<Rightarrow> MsgSetDenomMetadata \<Rightarrow> bytes" where
  "MsgSetDenomMetadata_bytes cenc m = string_field 0x0a (sdm_Sender m)
    @ delimited 0x12 (cenc (sdm_Metadata m))"

lemma MsgSetDenomMetadata_routes:
  "routes (MsgSetDenomMetadata_field CC) m 0x0a 2 (read_string_field (\<lambda>s. m\<lparr>sdm_Sender := s\<rparr>) 2)"
  "sdm_Metadata m = codec_zero CC \<Longrightarrow> routes (MsgSetDenomMetadata_field CC) m 0x12 2
    (read_msg_field (\<lambda>b. andThen (codec_Unmarshal CC (codec_zero CC) b) (\<lambda>x. Inr (m\<lparr>sdm_Metadata := x\<rparr>))) 2)"
  by (simp_all add: routes_def MsgSetDenomMetadata_field_def fun_eq_iff)

lemma MsgSetDenomMetadata_progressing:
  assumes "codec_ok CC cenc"
  shows "progressing (MsgSetDenomMetadata_field CC)"
  by (rule progressingI)
    (auto simp: MsgSetDenomMetadata_field_def no_fuel proto_message.field_no_fuel [OF assms]
      split: if_splits dest: advances)

lemma MsgSetDenomMetadata_reads:
  assumes "codec_ok CC cenc" and "length (MsgSetDenomMetadata_bytes cenc m) < 2 ^ 63"
  shows "reads (MsgSetDenomMetadata_field CC) (MsgSetDenomMetadata_bytes cenc m) (MsgSetDenomMetadata_zero CC) m"
proof -
  let ?m0 = "MsgSetDenomMetadata_zero CC"
  let ?m1 = "?m0\<lparr>sdm_Sender := sdm_Sender m\<rparr>"
  let ?m2 = "?m1\<lparr>sdm_Metadata := sdm_Metadata m\<rparr>"
  have r1: "reads (MsgSetDenomMetadata_field CC) (string_field 0x0a (sdm_Sender m)) ?m0 ?m1"
    by (rule reads_string_field [OF MsgSetDenomMetadata_routes(1)]) (simp add: MsgSetDenomMetadata_zero_def)
  have r2: "reads (MsgSetDenomMetadata_field CC) (delimited 0x12 (cenc (sdm_Metadata m))) ?m1 ?m2"
    by (rule proto_message.reads_field [OF assms(1), simplified], rule MsgSetDenomMetadata_routes(2), simp add: MsgSetDenomMetadata_zero_def)
      (use assms(2) in \<open>simp add: MsgSetDenomMetadata_bytes_def length_delimited\<close>)
  have eq: "?m2 = m" by (cases m) (simp add: MsgSetDenomMetadata_zero_def)
  show ?thesis
    using reads_append [OF r1 r2] unfolding eq MsgSetDenomMetadata_bytes_def .
qed

lemma MsgSetDenomMetadata_codec:
  assumes "codec_ok CC cenc"
  shows "proto_message (MsgSetDenomMetadata_MarshalToSizedBuffer CC) (MsgSetDenomMetadata_Size CC)
    (MsgSetDenomMetadata_Unmarshal CC) (MsgSetDenomMetadata_zero CC) (MsgSetDenomMetadata_bytes cenc) id"
proof unfold_locales
  fix m :: MsgSetDenomMetadata
  show "marshals (MsgSetDenomMetadata_MarshalToSizedBuffer CC m) (MsgSetDenomMetadata_bytes cenc m)"
    unfolding MsgSetDenomMetadata_MarshalToSizedBuffer_def MsgSetDenomMetadata_bytes_def
    by (rule marshals_sizedBuffer, rule writes_cong, (rule writes_intros proto_message.marshals_enc [OF assms])+) simp
  show "MsgSetDenomMetadata_Size CC m = length (MsgSetDenomMetadata_bytes cenc m)"
    by (simp add: MsgSetDenomMetadata_Size_def MsgSetDenomMetadata_bytes_def field_lengths  proto_message.sz_enc [OF assms])
  assume "length (MsgSetDenomMetadata_bytes cenc m) < 2 ^ 63"
  then show "MsgSetDenomMetadata_Unmarshal CC (MsgSetDenomMetadata_zero CC) (MsgSetDenomMetadata_bytes cenc m) = Inr (id m)"
    unfolding MsgSetDenomMetadata_Unmarshal_def id_apply
    by (intro unmarshalWith_reads MsgSetDenomMetadata_reads [OF assms])
next
  fix m :: MsgSetDenomMetadata and d :: bytes
  assume "length d < 2 ^ 63"
  then show "MsgSetDenomMetadata_Unmarshal CC m d \<noteq> Inl ErrFuel"
    unfolding MsgSetDenomMetadata_Unmarshal_def by (rule unmarshalWith_no_fuel [OF MsgSetDenomMetadata_progressing [OF assms]])
qed

datatype MsgSetDenomMetadataResponse = MsgSetDenomMetadataResponse

definition MsgSetDenomMetadataResponse_zero :: MsgSetDenomMetadataResponse where
  "MsgSetDenomMetadataResponse_zero = MsgSetDenomMetadataResponse"

definition MsgSetDenomMetadataResponse_MarshalToSizedBuffer :: "MsgSetDenomMetadataResponse \<Rightarrow> marshaller" where
  "MsgSetDenomMetadataResponse_MarshalToSizedBuffer m = sizedBuffer
    (Inr)"

definition MsgSetDenomMetadataResponse_Size :: "MsgSetDenomMetadataResponse \<Rightarrow> nat" where
  "MsgSetDenomMetadataResponse_Size m = 0"

definition MsgSetDenomMetadataResponse_Marshal :: "MsgSetDenomMetadataResponse \<Rightarrow> bytes result" where
  "MsgSetDenomMetadataResponse_Marshal m = marshalWith (MsgSetDenomMetadataResponse_Size m) (MsgSetDenomMetadataResponse_MarshalToSizedBuffer m)"

definition MsgSetDenomMetadataResponse_field :: "MsgSetDenomMetadataResponse field_switch" where
  "MsgSetDenomMetadataResponse_field m fieldNum wireType d i =
    None"

definition MsgSetDenomMetadataResponse_Unmarshal :: "MsgSetDenomMetadataResponse \<Rightarrow> bytes \<Rightarrow> MsgSetDenomMetadataResponse result" where
  "MsgSetDenomMetadataResponse_Unmarshal m d = unmarshalWith MsgSetDenomMetadataResponse_field m d"

definition MsgSetDenomMetadataResponse_bytes :: "MsgSetDenomMetadataResponse \<Rightarrow> bytes" where
  "MsgSetDenomMetadataResponse_bytes m = []"

lemma MsgSetDenomMetadataResponse_progressing: "progressing MsgSetDenomMetadataResponse_field"
  by (rule progressingI)
    (auto simp: MsgSetDenomMetadataResponse_field_def no_fuel split: if_splits dest: advances)

interpretation MsgSetDenomMetadataResponse_codec: proto_message
  MsgSetDenomMetadataResponse_MarshalToSizedBuffer MsgSetDenomMetadataResponse_Size MsgSetDenomMetadataResponse_Unmarshal MsgSetDenomMetadataResponse_zero MsgSetDenomMetadataResponse_bytes id
proof unfold_locales
  fix m :: MsgSetDenomMetadataResponse
  show "marshals (MsgSetDenomMetadataResponse_MarshalToSizedBuffer m) (MsgSetDenomMetadataResponse_bytes m)"
    unfolding MsgSetDenomMetadataResponse_MarshalToSizedBuffer_def MsgSetDenomMetadataResponse_bytes_def
    by (rule marshals_sizedBuffer, (rule writes_intros)+)
  show "MsgSetDenomMetadataResponse_Size m = length (MsgSetDenomMetadataResponse_bytes m)"
    by (simp add: MsgSetDenomMetadataResponse_Size_def MsgSetDenomMetadataResponse_bytes_def field_lengths )
  assume "length (MsgSetDenomMetadataResponse_bytes m) < 2 ^ 63"
  then show "MsgSetDenomMetadataResponse_Unmarshal MsgSetDenomMetadataResponse_zero (MsgSetDenomMetadataResponse_bytes m) = Inr (id m)"
    by (cases m) (simp add: MsgSetDenomMetadataResponse_Unmarshal_def MsgSetDenomMetadataResponse_bytes_def MsgSetDenomMetadataResponse_zero_def unmarshalWith_def)
next
  fix m :: MsgSetDenomMetadataResponse and d :: bytes
  assume "length d < 2 ^ 63"
  then show "MsgSetDenomMetadataResponse_Unmarshal m d \<noteq> Inl ErrFuel"
    unfolding MsgSetDenomMetadataResponse_Unmarshal_def by (rule unmarshalWith_no_fuel [OF MsgSetDenomMetadataResponse_progressing])
qed

section \<open>ForceTransfer\<close>

record MsgForceTransfer =
  ft_Sender :: string
  ft_Amount :: coin
  TransferFromAddress :: string
  TransferToAddress :: string

definition MsgForceTransfer_zero :: "coin codec \<Rightarrow> MsgForceTransfer" where
  "MsgForceTransfer_zero CC = \<lparr>ft_Sender = '''', ft_Amount = codec_zero CC, TransferFromAddress = '''', TransferToAddress = ''''\<rparr>"

definition MsgForceTransfer_MarshalToSizedBuffer :: "coin codec \<Rightarrow> MsgForceTransfer \<Rightarrow> marshaller" where
  "MsgForceTransfer_MarshalToSizedBuffer CC m = sizedBuffer
    (thenW (put_string_field 0x22 (TransferToAddress m))
      (thenW (put_string_field 0x1a (TransferFromAddress m))
        (thenW (put_msg_field 0x12 (codec_MarshalToSizedBuffer CC (ft_Amount m)))
          (put_string_field 0x0a (ft_Sender m)))))"

definition MsgForceTransfer_Size :: "coin codec \<Rightarrow> MsgForceTransfer \<Rightarrow> nat" where
  "MsgForceTransfer_Size CC m = string_size (ft_Sender m) + msg_size (codec_Size CC (ft_Amount m)) + string_size (TransferFromAddress m) + string_size (TransferToAddress m)"

definition MsgForceTransfer_Marshal :: "coin codec \<Rightarrow> MsgForceTransfer \<Rightarrow> bytes result" where
  "MsgForceTransfer_Marshal CC m = marshalWith (MsgForceTransfer_Size CC m) (MsgForceTransfer_MarshalToSizedBuffer CC m)"

definition MsgForceTransfer_field :: "coin codec \<Rightarrow> MsgForceTransfer field_switch" where
  "MsgForceTransfer_field CC m fieldNum wireType d i =
    (if fieldNum = 1 then Some (read_string_field (\<lambda>s. m\<lparr>ft_Sender := s\<rparr>) wireType d i)
     else if fieldNum = 2 then Some (read_msg_field (\<lambda>b. andThen (codec_Unmarshal CC (ft_Amount m) b) (\<lambda>x. Inr (m\<lparr>ft_Amount := x\<rparr>))) wireType d i)
     else if fieldNum = 3 then Some (read_string_field (\<lambda>s. m\<lparr>TransferFromAddress := s\<rparr>) wireType d i)
     else if fieldNum = 4 then Some (read_string_field (\<lambda>s. m\<lparr>TransferToAddress := s\<rparr>) wireType d i)
     else None)"

definition MsgForceTransfer_Unmarshal :: "coin codec \<Rightarrow> MsgForceTransfer \<Rightarrow> bytes \<Rightarrow> MsgForceTransfer result" where
  "MsgForceTransfer_Unmarshal CC m d = unmarshalWith (MsgForceTransfer_field CC) m d"

definition MsgForceTransfer_bytes :: "(coin \<Rightarrow> bytes) \<Rightarrow> MsgForceTransfer \<Rightarrow> bytes" where
  "MsgForceTransfer_bytes cenc m = string_field 0x0a (ft_Sender m)
    @ delimited 0x12 (cenc (ft_Amount m))
    @ string_field 0x1a (TransferFromAddress m)
    @ string_field 0x22 (TransferToAddress m)"

lemma MsgForceTransfer_routes:
  "routes (MsgForceTransfer_field CC) m 0x0a 2 (read_string_field (\<lambda>s. m\<lparr>ft_Sender := s\<rparr>) 2)"
  "ft_Amount m = codec_zero CC \<Longrightarrow> routes (MsgForceTransfer_field CC) m 0x12 2
    (read_msg_field (\<lambda>b. andThen (codec_Unmarshal CC (codec_zero CC) b) (\<lambda>x. Inr (m\<lparr>ft_Amount := x\<rparr>))) 2)"
  "routes (MsgForceTransfer_field CC) m 0x1a 2 (read_string_field (\<lambda>s. m\<lparr>TransferFromAddress := s\<rparr>) 2)"
  "routes (MsgForceTransfer_field CC) m 0x22 2 (read_string_field (\<lambda>s. m\<lparr>TransferToAddress := s\<rparr>) 2)"
  by (simp_all add: routes_def MsgForceTransfer_field_def fun_eq_iff)

lemma MsgForceTransfer_progressing:
  assumes "codec_ok CC cenc"
  shows "progressing (MsgForceTransfer_field CC)"
  by (rule progressingI)
    (auto simp: MsgForceTransfer_field_def no_fuel proto_message.field_no_fuel [OF assms]
      split: if_splits dest: advances)

lemma MsgForceTransfer_reads:
  assumes "codec_ok CC cenc" and "length (MsgForceTransfer_bytes cenc m) < 2 ^ 63"
  shows "reads (MsgForceTransfer_field CC) (MsgForceTransfer_bytes cenc m) (MsgForceTransfer_zero CC) m"
proof -
  let ?m0 = "MsgForceTransfer_zero CC"
  let ?m1 = "?m0\<lparr>ft_Sender := ft_Sender m\<rparr>"
  let ?m2 = "?m1\<lparr>ft_Amount := ft_Amount m\<rparr>"
  let ?m3 = "?m2\<lparr>TransferFromAddress := TransferFromAddress m\<rparr>"
  let ?m4 = "?m3\<lparr>TransferToAddress := TransferToAddress m\<rparr>"
  have r1: "reads (MsgForceTransfer_field CC) (string_field 0x0a (ft_Sender m)) ?m0 ?m1"
    by (rule reads_string_field [OF MsgForceTransfer_routes(1)]) (simp add: MsgForceTransfer_zero_def)
  have r2: "reads (MsgForceTransfer_field CC) (delimited 0x12 (cenc (ft_Amount m))) ?m1 ?m2"
    by (rule proto_message.reads_field [OF assms(1), simplified], rule MsgForceTransfer_routes(2), simp add: MsgForceTransfer_zero_def)
      (use assms(2) in \<open>simp add: MsgForceTransfer_bytes_def length_delimited\<close>)
  have r3: "reads (MsgForceTransfer_field CC) (string_field 0x1a (TransferFromAddress m)) ?m2 ?m3"
    by (rule reads_string_field [OF MsgForceTransfer_routes(3)]) (simp add: MsgForceTransfer_zero_def)
  have r4: "reads (MsgForceTransfer_field CC) (string_field 0x22 (TransferToAddress m)) ?m3 ?m4"
    by (rule reads_string_field [OF MsgForceTransfer_routes(4)]) (simp add: MsgForceTransfer_zero_def)
  have eq: "?m4 = m" by (cases m) (simp add: MsgForceTransfer_zero_def)
  show ?thesis
    using reads_append [OF r1 reads_append [OF r2 reads_append [OF r3 r4]]] unfolding eq MsgForceTransfer_bytes_def .
qed

lemma MsgForceTransfer_codec:
  assumes "codec_ok CC cenc"
  shows "proto_message (MsgForceTransfer_MarshalToSizedBuffer CC) (MsgForceTransfer_Size CC)
    (MsgForceTransfer_Unmarshal CC) (MsgForceTransfer_zero CC) (MsgForceTransfer_bytes cenc) id"
proof unfold_locales
  fix m :: MsgForceTransfer
  show "marshals (MsgForceTransfer_MarshalToSizedBuffer CC m) (MsgForceTransfer_bytes cenc m)"
    unfolding MsgForceTransfer_MarshalToSizedBuffer_def MsgForceTransfer_bytes_def
    by (rule marshals_sizedBuffer, rule writes_cong, (rule writes_intros proto_message.marshals_enc [OF assms])+) simp
  show "MsgForceTransfer_Size CC m = length (MsgForceTransfer_bytes cenc m)"
    by (simp add: MsgForceTransfer_Size_def MsgForceTransfer_bytes_def field_lengths  proto_message.sz_enc [OF assms])
  assume "length (MsgForceTransfer_bytes cenc m) < 2 ^ 63"
  then show "MsgForceTransfer_Unmarshal CC (MsgForceTransfer_zero CC) (MsgForceTransfer_bytes cenc m) = Inr (id m)"
    unfolding MsgForceTransfer_Unmarshal_def id_apply
    by (intro unmarshalWith_reads MsgForceTransfer_reads [OF assms])
next
  fix m :: MsgForceTransfer and d :: bytes
  assume "length d < 2 ^ 63"
  then show "MsgForceTransfer_Unmarshal CC m d \<noteq> Inl ErrFuel"
    unfolding MsgForceTransfer_Unmarshal_def by (rule unmarshalWith_no_fuel [OF MsgForceTransfer_progressing [OF assms]])
qed

datatype MsgForceTransferResponse = MsgForceTransferResponse

definition MsgForceTransferResponse_zero :: MsgForceTransferResponse where
  "MsgForceTransferResponse_zero = MsgForceTransferResponse"

definition MsgForceTransferResponse_MarshalToSizedBuffer :: "MsgForceTransferResponse \<Rightarrow> marshaller" where
  "MsgForceTransferResponse_MarshalToSizedBuffer m = sizedBuffer
    (Inr)"

definition MsgForceTransferResponse_Size :: "MsgForceTransferResponse \<Rightarrow> nat" where
  "MsgForceTransferResponse_Size m = 0"

definition MsgForceTransferResponse_Marshal :: "MsgForceTransferResponse \<Rightarrow> bytes result" where
  "MsgForceTransferResponse_Marshal m = marshalWith (MsgForceTransferResponse_Size m) (MsgForceTransferResponse_MarshalToSizedBuffer m)"

definition MsgForceTransferResponse_field :: "MsgForceTransferResponse field_switch" where
  "MsgForceTransferResponse_field m fieldNum wireType d i =
    None"

definition MsgForceTransferResponse_Unmarshal :: "MsgForceTransferResponse \<Rightarrow> bytes \<Rightarrow> MsgForceTransferResponse result" where
  "MsgForceTransferResponse_Unmarshal m d = unmarshalWith MsgForceTransferResponse_field m d"

definition MsgForceTransferResponse_bytes :: "MsgForceTransferResponse \<Rightarrow> bytes" where
  "MsgForceTransferResponse_bytes m = []"

lemma MsgForceTransferResponse_progressing: "progressing MsgForceTransferResponse_field"
  by (rule progressingI)
    (auto simp: MsgForceTransferResponse_field_def no_fuel split: if_splits dest: advances)

interpretation MsgForceTransferResponse_codec: proto_message
  MsgForceTransferResponse_MarshalToSizedBuffer MsgForceTransferResponse_Size MsgForceTransferResponse_Unmarshal MsgForceTransferResponse_zero MsgForceTransferResponse_bytes id
proof unfold_locales
  fix m :: MsgForceTransferResponse
  show "marshals (MsgForceTransferResponse_MarshalToSizedBuffer m) (MsgForceTransferResponse_bytes m)"
    unfolding MsgForceTransferResponse_MarshalToSizedBuffer_def MsgForceTransferResponse_bytes_def
    by (rule marshals_sizedBuffer, (rule writes_intros)+)
  show "MsgForceTransferResponse_Size m = length (MsgForceTransferResponse_bytes m)"
    by (simp add: MsgForceTransferResponse_Size_def MsgForceTransferResponse_bytes_def field_lengths )
  assume "length (MsgForceTransferResponse_bytes m) < 2 ^ 63"
  then show "MsgForceTransferResponse_Unmarshal MsgForceTransferResponse_zero (MsgForceTransferResponse_bytes m) = Inr (id m)"
    by (cases m) (simp add: MsgForceTransferResponse_Unmarshal_def MsgForceTransferResponse_bytes_def MsgForceTransferResponse_zero_def unmarshalWith_def)
next
  fix m :: MsgForceTransferResponse and d :: bytes
  assume "length d < 2 ^ 63"
  then show "MsgForceTransferResponse_Unmarshal m d \<noteq> Inl ErrFuel"
    unfolding MsgForceTransferResponse_Unmarshal_def by (rule unmarshalWith_no_fuel [OF MsgForceTransferResponse_progressing])
qed

end
