(* ===== verification/Msgs.thy ===== *)
theory Msgs
  imports TxPb Denoms
begin

text \<open>
  \<open>types/msgs.go\<close> and \<open>types/events.go\<close>: the constructors of the six messages, their stateless
  validation, which the SDK runs before a message reaches its handler, and their signers.
\<close>

section \<open>Names\<close>

definition TypeMsgCreateDenom :: string where "TypeMsgCreateDenom = ''create_denom''"
definition TypeMsgMint :: string where "TypeMsgMint = ''tf_mint''"
definition TypeMsgBurn :: string where "TypeMsgBurn = ''tf_burn''"
definition TypeMsgForceTransfer :: string where "TypeMsgForceTransfer = ''force_transfer''"
definition TypeMsgChangeAdmin :: string where "TypeMsgChangeAdmin = ''change_admin''"
definition TypeMsgSetDenomMetadata :: string where "TypeMsgSetDenomMetadata = ''set_denom_metadata''"
definition TypeMsgSetBeforeSendHook :: string where "TypeMsgSetBeforeSendHook = ''set_before_send_hook''"

definition AttributeAmount :: string where "AttributeAmount = ''amount''"
definition AttributeCreator :: string where "AttributeCreator = ''creator''"
definition AttributeSubdenom :: string where "AttributeSubdenom = ''subdenom''"
definition AttributeNewTokenDenom :: string where "AttributeNewTokenDenom = ''new_token_denom''"
definition AttributeMintToAddress :: string where "AttributeMintToAddress = ''mint_to_address''"
definition AttributeBurnFromAddress :: string where "AttributeBurnFromAddress = ''burn_from_address''"
definition AttributeTransferFromAddress :: string where
  "AttributeTransferFromAddress = ''transfer_from_address''"
definition AttributeTransferToAddress :: string where
  "AttributeTransferToAddress = ''transfer_to_address''"
definition AttributeDenom :: string where "AttributeDenom = ''denom''"
definition AttributeNewAdmin :: string where "AttributeNewAdmin = ''new_admin''"
definition AttributeBeforeSendHookAddress :: string where
  "AttributeBeforeSendHookAddress = ''before_send_hook_address''"
definition AttributeDenomMetadata :: string where "AttributeDenomMetadata = ''denom_metadata''"

section \<open>Constructors\<close>

definition NewMsgCreateDenom :: "string \<Rightarrow> string \<Rightarrow> MsgCreateDenom" where
  "NewMsgCreateDenom sender subdenom = \<lparr>cd_Sender = sender, cd_Subdenom = subdenom\<rparr>"

definition NewMsgMint :: "string \<Rightarrow> coin \<Rightarrow> MsgMint" where
  "NewMsgMint sender amount = \<lparr>mint_Sender = sender, mint_Amount = amount, MintToAddress = ''''\<rparr>"

definition NewMsgMintTo :: "string \<Rightarrow> coin \<Rightarrow> string \<Rightarrow> MsgMint" where
  "NewMsgMintTo sender amount mintToAddress =
    \<lparr>mint_Sender = sender, mint_Amount = amount, MintToAddress = mintToAddress\<rparr>"

definition NewMsgBurn :: "string \<Rightarrow> coin \<Rightarrow> MsgBurn" where
  "NewMsgBurn sender amount = \<lparr>burn_Sender = sender, burn_Amount = amount, BurnFromAddress = ''''\<rparr>"

definition NewMsgBurnFrom :: "string \<Rightarrow> coin \<Rightarrow> string \<Rightarrow> MsgBurn" where
  "NewMsgBurnFrom sender amount burnFromAddress =
    \<lparr>burn_Sender = sender, burn_Amount = amount, BurnFromAddress = burnFromAddress\<rparr>"

definition NewMsgForceTransfer :: "string \<Rightarrow> coin \<Rightarrow> string \<Rightarrow> string \<Rightarrow> MsgForceTransfer" where
  "NewMsgForceTransfer sender amount fromAddr toAddr =
    \<lparr>ft_Sender = sender, ft_Amount = amount, TransferFromAddress = fromAddr, TransferToAddress = toAddr\<rparr>"

definition NewMsgChangeAdmin :: "string \<Rightarrow> string \<Rightarrow> string \<Rightarrow> MsgChangeAdmin" where
  "NewMsgChangeAdmin sender denom newAdmin =
    \<lparr>ca_Sender = sender, ca_Denom = denom, NewAdmin = newAdmin\<rparr>"

definition NewMsgSetDenomMetadata :: "string \<Rightarrow> bank_metadata \<Rightarrow> MsgSetDenomMetadata" where
  "NewMsgSetDenomMetadata sender metadata = \<lparr>sdm_Sender = sender, sdm_Metadata = metadata\<rparr>"

section \<open>ValidateBasic\<close>

text \<open>\<open>errorsmod.Wrap(sentinel, ...)\<close> turns whatever error came before into the sentinel.\<close>

definition orErr :: "'a result \<Rightarrow> error \<Rightarrow> 'a result" where
  "orErr r e = (case r of Inl _ \<Rightarrow> Inl e | Inr x \<Rightarrow> Inr x)"

lemma orErr_eq_Inr: "orErr r e = Inr x \<longleftrightarrow> r = Inr x"
  by (simp add: orErr_def split: sum.split)

definition MsgCreateDenom_ValidateBasic :: "('k, 'w) sdk \<Rightarrow> MsgCreateDenom \<Rightarrow> unit result" where
  "MsgCreateDenom_ValidateBasic E m =
    andThen (orErr (AccAddressFromBech32 E (cd_Sender m)) ErrInvalidAddress) (\<lambda>_.
    andThen (orErr (GetTokenDenom E (cd_Sender m) (cd_Subdenom m)) ErrInvalidDenom) (\<lambda>_. Inr ()))"

definition MsgMint_ValidateBasic :: "('k, 'w) sdk \<Rightarrow> MsgMint \<Rightarrow> unit result" where
  "MsgMint_ValidateBasic E m =
    andThen (orErr (AccAddressFromBech32 E (mint_Sender m)) ErrInvalidAddress) (\<lambda>_.
    if \<not> Coin_IsValid E (mint_Amount m) \<or> coin_Amount (mint_Amount m) = 0 then Inl ErrInvalidCoins
    else Inr ())"

definition MsgBurn_ValidateBasic :: "('k, 'w) sdk \<Rightarrow> MsgBurn \<Rightarrow> unit result" where
  "MsgBurn_ValidateBasic E m =
    andThen (orErr (AccAddressFromBech32 E (burn_Sender m)) ErrInvalidAddress) (\<lambda>_.
    if \<not> Coin_IsValid E (burn_Amount m) \<or> coin_Amount (burn_Amount m) = 0 then Inl ErrInvalidCoins
    else Inr ())"

definition MsgForceTransfer_ValidateBasic :: "('k, 'w) sdk \<Rightarrow> MsgForceTransfer \<Rightarrow> unit result" where
  "MsgForceTransfer_ValidateBasic E m =
    andThen (orErr (AccAddressFromBech32 E (ft_Sender m)) ErrInvalidAddress) (\<lambda>_.
    andThen (orErr (AccAddressFromBech32 E (TransferFromAddress m)) ErrInvalidAddress) (\<lambda>_.
    andThen (orErr (AccAddressFromBech32 E (TransferToAddress m)) ErrInvalidAddress) (\<lambda>_.
    if \<not> Coin_IsValid E (ft_Amount m) then Inl ErrInvalidCoins else Inr ())))"

definition MsgChangeAdmin_ValidateBasic :: "('k, 'w) sdk \<Rightarrow> MsgChangeAdmin \<Rightarrow> unit result" where
  "MsgChangeAdmin_ValidateBasic E m =
    andThen (orErr (AccAddressFromBech32 E (ca_Sender m)) ErrInvalidAddress) (\<lambda>_.
    andThen (orErr (AccAddressFromBech32 E (NewAdmin m)) ErrInvalidAddress) (\<lambda>_.
    andThen (DeconstructDenom E (ca_Denom m)) (\<lambda>_. Inr ())))"

definition MsgSetDenomMetadata_ValidateBasic ::
  "('k, 'w) sdk \<Rightarrow> MsgSetDenomMetadata \<Rightarrow> unit result" where
  "MsgSetDenomMetadata_ValidateBasic E m =
    andThen (orErr (AccAddressFromBech32 E (sdm_Sender m)) ErrInvalidAddress) (\<lambda>_.
    andThen (Metadata_Validate E (sdm_Metadata m)) (\<lambda>_.
    andThen (DeconstructDenom E (meta_Base (sdm_Metadata m))) (\<lambda>_. Inr ())))"

section \<open>Signers, routes and types\<close>

text \<open>\<open>sender, _ := sdk.AccAddressFromBech32(m.Sender)\<close>: the error is dropped, and the address is
  empty then.\<close>

definition signer :: "('k, 'w) sdk \<Rightarrow> string \<Rightarrow> bytes" where
  "signer E s = (case AccAddressFromBech32 E s of Inl _ \<Rightarrow> [] | Inr a \<Rightarrow> a)"

definition MsgCreateDenom_GetSigners :: "('k, 'w) sdk \<Rightarrow> MsgCreateDenom \<Rightarrow> bytes list" where
  "MsgCreateDenom_GetSigners E m = [signer E (cd_Sender m)]"

definition MsgMint_GetSigners :: "('k, 'w) sdk \<Rightarrow> MsgMint \<Rightarrow> bytes list" where
  "MsgMint_GetSigners E m = [signer E (mint_Sender m)]"

definition MsgBurn_GetSigners :: "('k, 'w) sdk \<Rightarrow> MsgBurn \<Rightarrow> bytes list" where
  "MsgBurn_GetSigners E m = [signer E (burn_Sender m)]"

definition MsgForceTransfer_GetSigners :: "('k, 'w) sdk \<Rightarrow> MsgForceTransfer \<Rightarrow> bytes list" where
  "MsgForceTransfer_GetSigners E m = [signer E (ft_Sender m)]"

definition MsgChangeAdmin_GetSigners :: "('k, 'w) sdk \<Rightarrow> MsgChangeAdmin \<Rightarrow> bytes list" where
  "MsgChangeAdmin_GetSigners E m = [signer E (ca_Sender m)]"

definition MsgSetDenomMetadata_GetSigners :: "('k, 'w) sdk \<Rightarrow> MsgSetDenomMetadata \<Rightarrow> bytes list" where
  "MsgSetDenomMetadata_GetSigners E m = [signer E (sdm_Sender m)]"

end
