(* ===== verification/QueryPb.thy ===== *)
theory QueryPb
  imports ParamsPb AuthorityPb
begin

text \<open>
  The generated codec of \<open>types/query.pb.go\<close>: the requests and responses of the module's three
  queries.
\<close>

section \<open>Params\<close>

datatype QueryParamsRequest = QueryParamsRequest

definition QueryParamsRequest_zero :: QueryParamsRequest where
  "QueryParamsRequest_zero = QueryParamsRequest"

definition QueryParamsRequest_MarshalToSizedBuffer :: "QueryParamsRequest \<Rightarrow> marshaller" where
  "QueryParamsRequest_MarshalToSizedBuffer m = sizedBuffer
    (Inr)"

definition QueryParamsRequest_Size :: "QueryParamsRequest \<Rightarrow> nat" where
  "QueryParamsRequest_Size m = 0"

definition QueryParamsRequest_Marshal :: "QueryParamsRequest \<Rightarrow> bytes result" where
  "QueryParamsRequest_Marshal m = marshalWith (QueryParamsRequest_Size m) (QueryParamsRequest_MarshalToSizedBuffer m)"

definition QueryParamsRequest_field :: "QueryParamsRequest field_switch" where
  "QueryParamsRequest_field m fieldNum wireType d i =
    None"

definition QueryParamsRequest_Unmarshal :: "QueryParamsRequest \<Rightarrow> bytes \<Rightarrow> QueryParamsRequest result" where
  "QueryParamsRequest_Unmarshal m d = unmarshalWith QueryParamsRequest_field m d"

definition QueryParamsRequest_bytes :: "QueryParamsRequest \<Rightarrow> bytes" where
  "QueryParamsRequest_bytes m = []"

lemma QueryParamsRequest_progressing: "progressing QueryParamsRequest_field"
  by (rule progressingI)
    (auto simp: QueryParamsRequest_field_def no_fuel split: if_splits dest: advances)

interpretation QueryParamsRequest_codec: proto_message
  QueryParamsRequest_MarshalToSizedBuffer QueryParamsRequest_Size QueryParamsRequest_Unmarshal QueryParamsRequest_zero QueryParamsRequest_bytes id
proof unfold_locales
  fix m :: QueryParamsRequest
  show "marshals (QueryParamsRequest_MarshalToSizedBuffer m) (QueryParamsRequest_bytes m)"
    unfolding QueryParamsRequest_MarshalToSizedBuffer_def QueryParamsRequest_bytes_def
    by (rule marshals_sizedBuffer, (rule writes_intros)+)
  show "QueryParamsRequest_Size m = length (QueryParamsRequest_bytes m)"
    by (simp add: QueryParamsRequest_Size_def QueryParamsRequest_bytes_def field_lengths )
  assume "length (QueryParamsRequest_bytes m) < 2 ^ 63"
  then show "QueryParamsRequest_Unmarshal QueryParamsRequest_zero (QueryParamsRequest_bytes m) = Inr (id m)"
    by (cases m) (simp add: QueryParamsRequest_Unmarshal_def QueryParamsRequest_bytes_def QueryParamsRequest_zero_def unmarshalWith_def)
next
  fix m :: QueryParamsRequest and d :: bytes
  assume "length d < 2 ^ 63"
  then show "QueryParamsRequest_Unmarshal m d \<noteq> Inl ErrFuel"
    unfolding QueryParamsRequest_Unmarshal_def by (rule unmarshalWith_no_fuel [OF QueryParamsRequest_progressing])
qed

record QueryParamsResponse =
  qpr_Params :: Params

definition QueryParamsResponse_zero :: QueryParamsResponse where
  "QueryParamsResponse_zero = \<lparr>qpr_Params = Params_zero\<rparr>"

definition QueryParamsResponse_MarshalToSizedBuffer ::
  "coin codec \<Rightarrow> QueryParamsResponse \<Rightarrow> marshaller" where
  "QueryParamsResponse_MarshalToSizedBuffer CC m = sizedBuffer
    (put_msg_field 0x0a (Params_MarshalToSizedBuffer CC (qpr_Params m)))"

definition QueryParamsResponse_Size :: "coin codec \<Rightarrow> QueryParamsResponse \<Rightarrow> nat" where
  "QueryParamsResponse_Size CC m = msg_size (Params_Size CC (qpr_Params m))"

definition QueryParamsResponse_Marshal :: "coin codec \<Rightarrow> QueryParamsResponse \<Rightarrow> bytes result" where
  "QueryParamsResponse_Marshal CC m =
    marshalWith (QueryParamsResponse_Size CC m) (QueryParamsResponse_MarshalToSizedBuffer CC m)"

definition QueryParamsResponse_field :: "coin codec \<Rightarrow> QueryParamsResponse field_switch" where
  "QueryParamsResponse_field CC m fieldNum wireType d i =
    (if fieldNum = 1 then Some (read_msg_field (\<lambda>b. andThen (Params_Unmarshal CC (qpr_Params m) b)
        (\<lambda>x. Inr (m\<lparr>qpr_Params := x\<rparr>))) wireType d i)
     else None)"

definition QueryParamsResponse_Unmarshal ::
  "coin codec \<Rightarrow> QueryParamsResponse \<Rightarrow> bytes \<Rightarrow> QueryParamsResponse result" where
  "QueryParamsResponse_Unmarshal CC m d = unmarshalWith (QueryParamsResponse_field CC) m d"

definition QueryParamsResponse_bytes :: "(coin \<Rightarrow> bytes) \<Rightarrow> QueryParamsResponse \<Rightarrow> bytes" where
  "QueryParamsResponse_bytes cenc m = delimited 0x0a (Params_bytes cenc (qpr_Params m))"

definition QueryParamsResponse_norm :: "QueryParamsResponse \<Rightarrow> QueryParamsResponse" where
  "QueryParamsResponse_norm m = m\<lparr>qpr_Params := Params_norm (qpr_Params m)\<rparr>"

lemma QueryParamsResponse_routes:
  "qpr_Params m = Params_zero \<Longrightarrow> routes (QueryParamsResponse_field CC) m 0x0a 2
    (read_msg_field (\<lambda>b. andThen (Params_Unmarshal CC Params_zero b) (\<lambda>x. Inr (m\<lparr>qpr_Params := x\<rparr>))) 2)"
  by (simp add: routes_def QueryParamsResponse_field_def fun_eq_iff)

lemma QueryParamsResponse_progressing:
  assumes "codec_ok CC cenc"
  shows "progressing (QueryParamsResponse_field CC)"
  by (rule progressingI)
    (auto simp: QueryParamsResponse_field_def proto_message.field_no_fuel [OF Params_codec [OF assms]]
      split: if_splits dest: advances)

lemma QueryParamsResponse_codec:
  assumes "codec_ok CC cenc"
  shows "proto_message (QueryParamsResponse_MarshalToSizedBuffer CC) (QueryParamsResponse_Size CC)
    (QueryParamsResponse_Unmarshal CC) QueryParamsResponse_zero (QueryParamsResponse_bytes cenc)
    QueryParamsResponse_norm"
proof unfold_locales
  fix m :: QueryParamsResponse
  show "marshals (QueryParamsResponse_MarshalToSizedBuffer CC m) (QueryParamsResponse_bytes cenc m)"
    unfolding QueryParamsResponse_MarshalToSizedBuffer_def QueryParamsResponse_bytes_def
    by (rule marshals_sizedBuffer, rule proto_message.writes_field [OF Params_codec [OF assms]])
  show "QueryParamsResponse_Size CC m = length (QueryParamsResponse_bytes cenc m)"
    by (simp add: QueryParamsResponse_Size_def QueryParamsResponse_bytes_def field_lengths
        proto_message.sz_enc [OF Params_codec [OF assms]])
  assume len: "length (QueryParamsResponse_bytes cenc m) < 2 ^ 63"
  have "reads (QueryParamsResponse_field CC) (QueryParamsResponse_bytes cenc m)
      QueryParamsResponse_zero (QueryParamsResponse_zero\<lparr>qpr_Params := Params_norm (qpr_Params m)\<rparr>)"
    unfolding QueryParamsResponse_bytes_def
    by (rule proto_message.reads_field [OF Params_codec [OF assms]], rule QueryParamsResponse_routes,
        simp add: QueryParamsResponse_zero_def)
      (use len in \<open>simp add: QueryParamsResponse_bytes_def length_delimited\<close>)
  then show "QueryParamsResponse_Unmarshal CC QueryParamsResponse_zero (QueryParamsResponse_bytes cenc m)
      = Inr (QueryParamsResponse_norm m)"
    unfolding QueryParamsResponse_Unmarshal_def
    using len by (cases m) (simp add: unmarshalWith_reads QueryParamsResponse_zero_def QueryParamsResponse_norm_def)
next
  fix m :: QueryParamsResponse and d :: bytes
  assume "length d < 2 ^ 63"
  then show "QueryParamsResponse_Unmarshal CC m d \<noteq> Inl ErrFuel"
    unfolding QueryParamsResponse_Unmarshal_def
    by (rule unmarshalWith_no_fuel [OF QueryParamsResponse_progressing [OF assms]])
qed

section \<open>DenomAuthorityMetadata\<close>

record QueryDenomAuthorityMetadataRequest =
  qdam_Denom :: string

definition QueryDenomAuthorityMetadataRequest_zero :: "QueryDenomAuthorityMetadataRequest" where
  "QueryDenomAuthorityMetadataRequest_zero = \<lparr>qdam_Denom = ''''\<rparr>"

definition QueryDenomAuthorityMetadataRequest_MarshalToSizedBuffer :: "QueryDenomAuthorityMetadataRequest \<Rightarrow> marshaller" where
  "QueryDenomAuthorityMetadataRequest_MarshalToSizedBuffer m = sizedBuffer
    (put_string_field 0x0a (qdam_Denom m))"

definition QueryDenomAuthorityMetadataRequest_Size :: "QueryDenomAuthorityMetadataRequest \<Rightarrow> nat" where
  "QueryDenomAuthorityMetadataRequest_Size m = string_size (qdam_Denom m)"

definition QueryDenomAuthorityMetadataRequest_Marshal :: "QueryDenomAuthorityMetadataRequest \<Rightarrow> bytes result" where
  "QueryDenomAuthorityMetadataRequest_Marshal m = marshalWith (QueryDenomAuthorityMetadataRequest_Size m) (QueryDenomAuthorityMetadataRequest_MarshalToSizedBuffer m)"

definition QueryDenomAuthorityMetadataRequest_field :: "QueryDenomAuthorityMetadataRequest field_switch" where
  "QueryDenomAuthorityMetadataRequest_field m fieldNum wireType d i =
    (if fieldNum = 1 then Some (read_string_field (\<lambda>s. m\<lparr>qdam_Denom := s\<rparr>) wireType d i)
     else None)"

definition QueryDenomAuthorityMetadataRequest_Unmarshal :: "QueryDenomAuthorityMetadataRequest \<Rightarrow> bytes \<Rightarrow> QueryDenomAuthorityMetadataRequest result" where
  "QueryDenomAuthorityMetadataRequest_Unmarshal m d = unmarshalWith QueryDenomAuthorityMetadataRequest_field m d"

definition QueryDenomAuthorityMetadataRequest_bytes :: "QueryDenomAuthorityMetadataRequest \<Rightarrow> bytes" where
  "QueryDenomAuthorityMetadataRequest_bytes m = string_field 0x0a (qdam_Denom m)"

lemma QueryDenomAuthorityMetadataRequest_routes:
  "routes QueryDenomAuthorityMetadataRequest_field m 0x0a 2 (read_string_field (\<lambda>s. m\<lparr>qdam_Denom := s\<rparr>) 2)"
  by (simp_all add: routes_def QueryDenomAuthorityMetadataRequest_field_def fun_eq_iff)

lemma QueryDenomAuthorityMetadataRequest_progressing: "progressing QueryDenomAuthorityMetadataRequest_field"
  by (rule progressingI)
    (auto simp: QueryDenomAuthorityMetadataRequest_field_def no_fuel split: if_splits dest: advances)

lemma QueryDenomAuthorityMetadataRequest_reads:
  assumes "length (QueryDenomAuthorityMetadataRequest_bytes m) < 2 ^ 63"
  shows "reads QueryDenomAuthorityMetadataRequest_field (QueryDenomAuthorityMetadataRequest_bytes m) QueryDenomAuthorityMetadataRequest_zero m"
proof -
  let ?m0 = "QueryDenomAuthorityMetadataRequest_zero"
  let ?m1 = "?m0\<lparr>qdam_Denom := qdam_Denom m\<rparr>"
  have r1: "reads QueryDenomAuthorityMetadataRequest_field (string_field 0x0a (qdam_Denom m)) ?m0 ?m1"
    by (rule reads_string_field [OF QueryDenomAuthorityMetadataRequest_routes]) (simp add: QueryDenomAuthorityMetadataRequest_zero_def)
  have eq: "?m1 = m" by (cases m) (simp add: QueryDenomAuthorityMetadataRequest_zero_def)
  show ?thesis
    using r1 unfolding eq QueryDenomAuthorityMetadataRequest_bytes_def .
qed

interpretation QueryDenomAuthorityMetadataRequest_codec: proto_message
  QueryDenomAuthorityMetadataRequest_MarshalToSizedBuffer QueryDenomAuthorityMetadataRequest_Size QueryDenomAuthorityMetadataRequest_Unmarshal QueryDenomAuthorityMetadataRequest_zero QueryDenomAuthorityMetadataRequest_bytes id
proof unfold_locales
  fix m :: QueryDenomAuthorityMetadataRequest
  show "marshals (QueryDenomAuthorityMetadataRequest_MarshalToSizedBuffer m) (QueryDenomAuthorityMetadataRequest_bytes m)"
    unfolding QueryDenomAuthorityMetadataRequest_MarshalToSizedBuffer_def QueryDenomAuthorityMetadataRequest_bytes_def
    by (rule marshals_sizedBuffer, (rule writes_intros)+)
  show "QueryDenomAuthorityMetadataRequest_Size m = length (QueryDenomAuthorityMetadataRequest_bytes m)"
    by (simp add: QueryDenomAuthorityMetadataRequest_Size_def QueryDenomAuthorityMetadataRequest_bytes_def field_lengths )
  assume "length (QueryDenomAuthorityMetadataRequest_bytes m) < 2 ^ 63"
  then show "QueryDenomAuthorityMetadataRequest_Unmarshal QueryDenomAuthorityMetadataRequest_zero (QueryDenomAuthorityMetadataRequest_bytes m) = Inr (id m)"
    unfolding QueryDenomAuthorityMetadataRequest_Unmarshal_def id_apply
    by (intro unmarshalWith_reads QueryDenomAuthorityMetadataRequest_reads)
next
  fix m :: QueryDenomAuthorityMetadataRequest and d :: bytes
  assume "length d < 2 ^ 63"
  then show "QueryDenomAuthorityMetadataRequest_Unmarshal m d \<noteq> Inl ErrFuel"
    unfolding QueryDenomAuthorityMetadataRequest_Unmarshal_def by (rule unmarshalWith_no_fuel [OF QueryDenomAuthorityMetadataRequest_progressing])
qed

record QueryDenomAuthorityMetadataResponse =
  qdam_AuthorityMetadata :: DenomAuthorityMetadata

definition QueryDenomAuthorityMetadataResponse_zero :: "QueryDenomAuthorityMetadataResponse" where
  "QueryDenomAuthorityMetadataResponse_zero = \<lparr>qdam_AuthorityMetadata = DenomAuthorityMetadata_zero\<rparr>"

definition QueryDenomAuthorityMetadataResponse_MarshalToSizedBuffer :: "QueryDenomAuthorityMetadataResponse \<Rightarrow> marshaller" where
  "QueryDenomAuthorityMetadataResponse_MarshalToSizedBuffer m = sizedBuffer
    (put_msg_field 0x0a (DenomAuthorityMetadata_MarshalToSizedBuffer (qdam_AuthorityMetadata m)))"

definition QueryDenomAuthorityMetadataResponse_Size :: "QueryDenomAuthorityMetadataResponse \<Rightarrow> nat" where
  "QueryDenomAuthorityMetadataResponse_Size m = msg_size (DenomAuthorityMetadata_Size (qdam_AuthorityMetadata m))"

definition QueryDenomAuthorityMetadataResponse_Marshal :: "QueryDenomAuthorityMetadataResponse \<Rightarrow> bytes result" where
  "QueryDenomAuthorityMetadataResponse_Marshal m = marshalWith (QueryDenomAuthorityMetadataResponse_Size m) (QueryDenomAuthorityMetadataResponse_MarshalToSizedBuffer m)"

definition QueryDenomAuthorityMetadataResponse_field :: "QueryDenomAuthorityMetadataResponse field_switch" where
  "QueryDenomAuthorityMetadataResponse_field m fieldNum wireType d i =
    (if fieldNum = 1 then Some (read_msg_field (\<lambda>b. andThen (DenomAuthorityMetadata_Unmarshal (qdam_AuthorityMetadata m) b) (\<lambda>x. Inr (m\<lparr>qdam_AuthorityMetadata := x\<rparr>))) wireType d i)
     else None)"

definition QueryDenomAuthorityMetadataResponse_Unmarshal :: "QueryDenomAuthorityMetadataResponse \<Rightarrow> bytes \<Rightarrow> QueryDenomAuthorityMetadataResponse result" where
  "QueryDenomAuthorityMetadataResponse_Unmarshal m d = unmarshalWith QueryDenomAuthorityMetadataResponse_field m d"

definition QueryDenomAuthorityMetadataResponse_bytes :: "QueryDenomAuthorityMetadataResponse \<Rightarrow> bytes" where
  "QueryDenomAuthorityMetadataResponse_bytes m = delimited 0x0a (DenomAuthorityMetadata_bytes (qdam_AuthorityMetadata m))"

lemma QueryDenomAuthorityMetadataResponse_routes:
  "qdam_AuthorityMetadata m = DenomAuthorityMetadata_zero \<Longrightarrow> routes QueryDenomAuthorityMetadataResponse_field m 0x0a 2
    (read_msg_field (\<lambda>b. andThen (DenomAuthorityMetadata_Unmarshal DenomAuthorityMetadata_zero b) (\<lambda>x. Inr (m\<lparr>qdam_AuthorityMetadata := x\<rparr>))) 2)"
  by (simp_all add: routes_def QueryDenomAuthorityMetadataResponse_field_def fun_eq_iff)

lemma QueryDenomAuthorityMetadataResponse_progressing: "progressing QueryDenomAuthorityMetadataResponse_field"
  by (rule progressingI)
    (auto simp: QueryDenomAuthorityMetadataResponse_field_def no_fuel DenomAuthorityMetadata_codec.field_no_fuel split: if_splits dest: advances)

lemma QueryDenomAuthorityMetadataResponse_reads:
  assumes "length (QueryDenomAuthorityMetadataResponse_bytes m) < 2 ^ 63"
  shows "reads QueryDenomAuthorityMetadataResponse_field (QueryDenomAuthorityMetadataResponse_bytes m) QueryDenomAuthorityMetadataResponse_zero m"
proof -
  let ?m0 = "QueryDenomAuthorityMetadataResponse_zero"
  let ?m1 = "?m0\<lparr>qdam_AuthorityMetadata := qdam_AuthorityMetadata m\<rparr>"
  have r1: "reads QueryDenomAuthorityMetadataResponse_field (delimited 0x0a (DenomAuthorityMetadata_bytes (qdam_AuthorityMetadata m))) ?m0 ?m1"
    by (rule DenomAuthorityMetadata_codec.reads_field [simplified], rule QueryDenomAuthorityMetadataResponse_routes, simp add: QueryDenomAuthorityMetadataResponse_zero_def)
      (use assms in \<open>simp add: QueryDenomAuthorityMetadataResponse_bytes_def length_delimited\<close>)
  have eq: "?m1 = m" by (cases m) (simp add: QueryDenomAuthorityMetadataResponse_zero_def)
  show ?thesis
    using r1 unfolding eq QueryDenomAuthorityMetadataResponse_bytes_def .
qed

interpretation QueryDenomAuthorityMetadataResponse_codec: proto_message
  QueryDenomAuthorityMetadataResponse_MarshalToSizedBuffer QueryDenomAuthorityMetadataResponse_Size QueryDenomAuthorityMetadataResponse_Unmarshal QueryDenomAuthorityMetadataResponse_zero QueryDenomAuthorityMetadataResponse_bytes id
proof unfold_locales
  fix m :: QueryDenomAuthorityMetadataResponse
  show "marshals (QueryDenomAuthorityMetadataResponse_MarshalToSizedBuffer m) (QueryDenomAuthorityMetadataResponse_bytes m)"
    unfolding QueryDenomAuthorityMetadataResponse_MarshalToSizedBuffer_def QueryDenomAuthorityMetadataResponse_bytes_def
    by (rule marshals_sizedBuffer, (rule writes_intros DenomAuthorityMetadata_codec.marshals_enc)+)
  show "QueryDenomAuthorityMetadataResponse_Size m = length (QueryDenomAuthorityMetadataResponse_bytes m)"
    by (simp add: QueryDenomAuthorityMetadataResponse_Size_def QueryDenomAuthorityMetadataResponse_bytes_def field_lengths  DenomAuthorityMetadata_codec.sz_enc)
  assume "length (QueryDenomAuthorityMetadataResponse_bytes m) < 2 ^ 63"
  then show "QueryDenomAuthorityMetadataResponse_Unmarshal QueryDenomAuthorityMetadataResponse_zero (QueryDenomAuthorityMetadataResponse_bytes m) = Inr (id m)"
    unfolding QueryDenomAuthorityMetadataResponse_Unmarshal_def id_apply
    by (intro unmarshalWith_reads QueryDenomAuthorityMetadataResponse_reads)
next
  fix m :: QueryDenomAuthorityMetadataResponse and d :: bytes
  assume "length d < 2 ^ 63"
  then show "QueryDenomAuthorityMetadataResponse_Unmarshal m d \<noteq> Inl ErrFuel"
    unfolding QueryDenomAuthorityMetadataResponse_Unmarshal_def by (rule unmarshalWith_no_fuel [OF QueryDenomAuthorityMetadataResponse_progressing])
qed

section \<open>DenomsFromCreator\<close>

record QueryDenomsFromCreatorRequest =
  qdfc_Creator :: string

definition QueryDenomsFromCreatorRequest_zero :: "QueryDenomsFromCreatorRequest" where
  "QueryDenomsFromCreatorRequest_zero = \<lparr>qdfc_Creator = ''''\<rparr>"

definition QueryDenomsFromCreatorRequest_MarshalToSizedBuffer :: "QueryDenomsFromCreatorRequest \<Rightarrow> marshaller" where
  "QueryDenomsFromCreatorRequest_MarshalToSizedBuffer m = sizedBuffer
    (put_string_field 0x0a (qdfc_Creator m))"

definition QueryDenomsFromCreatorRequest_Size :: "QueryDenomsFromCreatorRequest \<Rightarrow> nat" where
  "QueryDenomsFromCreatorRequest_Size m = string_size (qdfc_Creator m)"

definition QueryDenomsFromCreatorRequest_Marshal :: "QueryDenomsFromCreatorRequest \<Rightarrow> bytes result" where
  "QueryDenomsFromCreatorRequest_Marshal m = marshalWith (QueryDenomsFromCreatorRequest_Size m) (QueryDenomsFromCreatorRequest_MarshalToSizedBuffer m)"

definition QueryDenomsFromCreatorRequest_field :: "QueryDenomsFromCreatorRequest field_switch" where
  "QueryDenomsFromCreatorRequest_field m fieldNum wireType d i =
    (if fieldNum = 1 then Some (read_string_field (\<lambda>s. m\<lparr>qdfc_Creator := s\<rparr>) wireType d i)
     else None)"

definition QueryDenomsFromCreatorRequest_Unmarshal :: "QueryDenomsFromCreatorRequest \<Rightarrow> bytes \<Rightarrow> QueryDenomsFromCreatorRequest result" where
  "QueryDenomsFromCreatorRequest_Unmarshal m d = unmarshalWith QueryDenomsFromCreatorRequest_field m d"

definition QueryDenomsFromCreatorRequest_bytes :: "QueryDenomsFromCreatorRequest \<Rightarrow> bytes" where
  "QueryDenomsFromCreatorRequest_bytes m = string_field 0x0a (qdfc_Creator m)"

lemma QueryDenomsFromCreatorRequest_routes:
  "routes QueryDenomsFromCreatorRequest_field m 0x0a 2 (read_string_field (\<lambda>s. m\<lparr>qdfc_Creator := s\<rparr>) 2)"
  by (simp_all add: routes_def QueryDenomsFromCreatorRequest_field_def fun_eq_iff)

lemma QueryDenomsFromCreatorRequest_progressing: "progressing QueryDenomsFromCreatorRequest_field"
  by (rule progressingI)
    (auto simp: QueryDenomsFromCreatorRequest_field_def no_fuel split: if_splits dest: advances)

lemma QueryDenomsFromCreatorRequest_reads:
  assumes "length (QueryDenomsFromCreatorRequest_bytes m) < 2 ^ 63"
  shows "reads QueryDenomsFromCreatorRequest_field (QueryDenomsFromCreatorRequest_bytes m) QueryDenomsFromCreatorRequest_zero m"
proof -
  let ?m0 = "QueryDenomsFromCreatorRequest_zero"
  let ?m1 = "?m0\<lparr>qdfc_Creator := qdfc_Creator m\<rparr>"
  have r1: "reads QueryDenomsFromCreatorRequest_field (string_field 0x0a (qdfc_Creator m)) ?m0 ?m1"
    by (rule reads_string_field [OF QueryDenomsFromCreatorRequest_routes]) (simp add: QueryDenomsFromCreatorRequest_zero_def)
  have eq: "?m1 = m" by (cases m) (simp add: QueryDenomsFromCreatorRequest_zero_def)
  show ?thesis
    using r1 unfolding eq QueryDenomsFromCreatorRequest_bytes_def .
qed

interpretation QueryDenomsFromCreatorRequest_codec: proto_message
  QueryDenomsFromCreatorRequest_MarshalToSizedBuffer QueryDenomsFromCreatorRequest_Size QueryDenomsFromCreatorRequest_Unmarshal QueryDenomsFromCreatorRequest_zero QueryDenomsFromCreatorRequest_bytes id
proof unfold_locales
  fix m :: QueryDenomsFromCreatorRequest
  show "marshals (QueryDenomsFromCreatorRequest_MarshalToSizedBuffer m) (QueryDenomsFromCreatorRequest_bytes m)"
    unfolding QueryDenomsFromCreatorRequest_MarshalToSizedBuffer_def QueryDenomsFromCreatorRequest_bytes_def
    by (rule marshals_sizedBuffer, (rule writes_intros)+)
  show "QueryDenomsFromCreatorRequest_Size m = length (QueryDenomsFromCreatorRequest_bytes m)"
    by (simp add: QueryDenomsFromCreatorRequest_Size_def QueryDenomsFromCreatorRequest_bytes_def field_lengths )
  assume "length (QueryDenomsFromCreatorRequest_bytes m) < 2 ^ 63"
  then show "QueryDenomsFromCreatorRequest_Unmarshal QueryDenomsFromCreatorRequest_zero (QueryDenomsFromCreatorRequest_bytes m) = Inr (id m)"
    unfolding QueryDenomsFromCreatorRequest_Unmarshal_def id_apply
    by (intro unmarshalWith_reads QueryDenomsFromCreatorRequest_reads)
next
  fix m :: QueryDenomsFromCreatorRequest and d :: bytes
  assume "length d < 2 ^ 63"
  then show "QueryDenomsFromCreatorRequest_Unmarshal m d \<noteq> Inl ErrFuel"
    unfolding QueryDenomsFromCreatorRequest_Unmarshal_def by (rule unmarshalWith_no_fuel [OF QueryDenomsFromCreatorRequest_progressing])
qed

record QueryDenomsFromCreatorResponse =
  Denoms :: "string list"

definition QueryDenomsFromCreatorResponse_zero :: "QueryDenomsFromCreatorResponse" where
  "QueryDenomsFromCreatorResponse_zero = \<lparr>Denoms = []\<rparr>"

definition QueryDenomsFromCreatorResponse_MarshalToSizedBuffer :: "QueryDenomsFromCreatorResponse \<Rightarrow> marshaller" where
  "QueryDenomsFromCreatorResponse_MarshalToSizedBuffer m = sizedBuffer
    (put_rev (put_string_elem 0x0a) (Denoms m))"

definition QueryDenomsFromCreatorResponse_Size :: "QueryDenomsFromCreatorResponse \<Rightarrow> nat" where
  "QueryDenomsFromCreatorResponse_Size m = (\<Sum>s\<leftarrow>Denoms m. string_elem_size s)"

definition QueryDenomsFromCreatorResponse_Marshal :: "QueryDenomsFromCreatorResponse \<Rightarrow> bytes result" where
  "QueryDenomsFromCreatorResponse_Marshal m = marshalWith (QueryDenomsFromCreatorResponse_Size m) (QueryDenomsFromCreatorResponse_MarshalToSizedBuffer m)"

definition QueryDenomsFromCreatorResponse_field :: "QueryDenomsFromCreatorResponse field_switch" where
  "QueryDenomsFromCreatorResponse_field m fieldNum wireType d i =
    (if fieldNum = 1 then Some (read_string_field (\<lambda>s. m\<lparr>Denoms := Denoms m @ [s]\<rparr>) wireType d i)
     else None)"

definition QueryDenomsFromCreatorResponse_Unmarshal :: "QueryDenomsFromCreatorResponse \<Rightarrow> bytes \<Rightarrow> QueryDenomsFromCreatorResponse result" where
  "QueryDenomsFromCreatorResponse_Unmarshal m d = unmarshalWith QueryDenomsFromCreatorResponse_field m d"

definition QueryDenomsFromCreatorResponse_bytes :: "QueryDenomsFromCreatorResponse \<Rightarrow> bytes" where
  "QueryDenomsFromCreatorResponse_bytes m = concat (map (\<lambda>s. delimited 0x0a (bytes_of_string s)) (Denoms m))"

lemma QueryDenomsFromCreatorResponse_routes:
  "routes QueryDenomsFromCreatorResponse_field m 0x0a 2 (read_string_field (\<lambda>s. m\<lparr>Denoms := Denoms m @ [s]\<rparr>) 2)"
  by (simp_all add: routes_def QueryDenomsFromCreatorResponse_field_def fun_eq_iff)

lemma QueryDenomsFromCreatorResponse_progressing: "progressing QueryDenomsFromCreatorResponse_field"
  by (rule progressingI)
    (auto simp: QueryDenomsFromCreatorResponse_field_def no_fuel split: if_splits dest: advances)

lemma QueryDenomsFromCreatorResponse_fold:
  "fold (\<lambda>s m. m\<lparr>Denoms := Denoms m @ [s]\<rparr>) xs m = m\<lparr>Denoms := Denoms m @ xs\<rparr>"
  by (induction xs arbitrary: m) simp_all

lemma QueryDenomsFromCreatorResponse_reads: "reads QueryDenomsFromCreatorResponse_field (QueryDenomsFromCreatorResponse_bytes m) QueryDenomsFromCreatorResponse_zero m"
proof -
  have "reads QueryDenomsFromCreatorResponse_field (QueryDenomsFromCreatorResponse_bytes m) QueryDenomsFromCreatorResponse_zero
      (fold (\<lambda>s m. m\<lparr>Denoms := Denoms m @ [s]\<rparr>) (Denoms m) QueryDenomsFromCreatorResponse_zero)"
    unfolding QueryDenomsFromCreatorResponse_bytes_def
    by (rule reads_concat [where P = "\<lambda>_. True"]) (rule reads_string_elem [OF QueryDenomsFromCreatorResponse_routes] TrueI)+
  also have "fold (\<lambda>s m. m\<lparr>Denoms := Denoms m @ [s]\<rparr>) (Denoms m) QueryDenomsFromCreatorResponse_zero = m"
    by (cases m) (simp add: QueryDenomsFromCreatorResponse_fold QueryDenomsFromCreatorResponse_zero_def)
  finally show ?thesis .
qed

interpretation QueryDenomsFromCreatorResponse_codec: proto_message
  QueryDenomsFromCreatorResponse_MarshalToSizedBuffer QueryDenomsFromCreatorResponse_Size QueryDenomsFromCreatorResponse_Unmarshal QueryDenomsFromCreatorResponse_zero QueryDenomsFromCreatorResponse_bytes id
proof unfold_locales
  fix m :: QueryDenomsFromCreatorResponse
  show "marshals (QueryDenomsFromCreatorResponse_MarshalToSizedBuffer m) (QueryDenomsFromCreatorResponse_bytes m)"
    unfolding QueryDenomsFromCreatorResponse_MarshalToSizedBuffer_def QueryDenomsFromCreatorResponse_bytes_def
    by (rule marshals_sizedBuffer, (rule writes_intros)+)
  show "QueryDenomsFromCreatorResponse_Size m = length (QueryDenomsFromCreatorResponse_bytes m)"
    by (simp add: QueryDenomsFromCreatorResponse_Size_def QueryDenomsFromCreatorResponse_bytes_def field_lengths length_concat_map string_elem_size_def msg_size_def Let_def)
  assume "length (QueryDenomsFromCreatorResponse_bytes m) < 2 ^ 63"
  then show "QueryDenomsFromCreatorResponse_Unmarshal QueryDenomsFromCreatorResponse_zero (QueryDenomsFromCreatorResponse_bytes m) = Inr (id m)"
    unfolding QueryDenomsFromCreatorResponse_Unmarshal_def id_apply
    by (intro unmarshalWith_reads QueryDenomsFromCreatorResponse_reads)
next
  fix m :: QueryDenomsFromCreatorResponse and d :: bytes
  assume "length d < 2 ^ 63"
  then show "QueryDenomsFromCreatorResponse_Unmarshal m d \<noteq> Inl ErrFuel"
    unfolding QueryDenomsFromCreatorResponse_Unmarshal_def by (rule unmarshalWith_no_fuel [OF QueryDenomsFromCreatorResponse_progressing])
qed

end
