(* ===== verification/Handlers.thy ===== *)
theory Handlers
  imports Keeper Msgs QueryPb
begin

text \<open>
  The message server (\<open>keeper/msg_server.go\<close>), the query server (\<open>keeper/grpc_query.go\<close>) and
  genesis (\<open>keeper/genesis.go\<close>). A handler's result carries the response message; \<open>Inl\<close> is
  the error it returns with a nil response, or a panic.
\<close>

section \<open>Message server\<close>

definition MsgServer_CreateDenom ::
  "('k, 'w) sdk \<Rightarrow> MsgCreateDenom \<Rightarrow> ('k, 'w, MsgCreateDenomResponse) keeper" where
  "MsgServer_CreateDenom E msg =
    bindM (CreateDenom E (cd_Sender msg) (cd_Subdenom msg)) (\<lambda>denom.
    bindM (EmitEvents [\<lparr>event_Type = TypeMsgCreateDenom, event_Attributes =
        [(AttributeCreator, cd_Sender msg), (AttributeNewTokenDenom, denom)]\<rparr>]) (\<lambda>_.
      retM \<lparr>NewTokenDenom = denom\<rparr>))"

definition MsgServer_Mint :: "('k, 'w) sdk \<Rightarrow> MsgMint \<Rightarrow> ('k, 'w, MsgMintResponse) keeper" where
  "MsgServer_Mint E msg =
    bindM (getM (\<lambda>c. snd (GetDenomMetaData E (world c) (coin_Denom (mint_Amount msg))))) (\<lambda>denomExists.
    bindM (guardM denomExists ErrDenomDoesNotExist) (\<lambda>_.
    bindM (GetAuthorityMetadata E (coin_Denom (mint_Amount msg))) (\<lambda>authorityMetadata.
    bindM (guardM (mint_Sender msg = GetAdmin (Some authorityMetadata)) ErrUnauthorized) (\<lambda>_.
    let msg = (if MintToAddress msg = '''' then msg\<lparr>MintToAddress := mint_Sender msg\<rparr> else msg) in
    bindM (mintTo E (mint_Amount msg) (MintToAddress msg)) (\<lambda>_.
    bindM (EmitEvents [\<lparr>event_Type = TypeMsgMint, event_Attributes =
        [(AttributeMintToAddress, MintToAddress msg), (AttributeAmount, Coin_String E (mint_Amount msg))]\<rparr>]) (\<lambda>_.
      retM MsgMintResponse))))))"

text \<open>The account looked up is \<open>sdk.AccAddress(msg.BurnFromAddress)\<close>: a conversion of the string's bytes,
  not the decoded address. \<open>GetAccount\<close> returns nil for an address without an account, and the type
  assertion fails on nil.\<close>

definition MsgServer_Burn :: "('k, 'w) sdk \<Rightarrow> MsgBurn \<Rightarrow> ('k, 'w, MsgBurnResponse) keeper" where
  "MsgServer_Burn E msg =
    bindM (GetAuthorityMetadata E (coin_Denom (burn_Amount msg))) (\<lambda>authorityMetadata.
    bindM (guardM (burn_Sender msg = GetAdmin (Some authorityMetadata)) ErrUnauthorized) (\<lambda>_.
    let msg = (if BurnFromAddress msg = '''' then msg\<lparr>BurnFromAddress := burn_Sender msg\<rparr> else msg) in
    bindM (getM (\<lambda>c. GetAccount E (world c) (bytes_of_string (BurnFromAddress msg)))) (\<lambda>accountI.
    bindM (guardM (accountI \<noteq> Some ModuleAccountI) ErrBurnFromModuleAccount) (\<lambda>_.
    bindM (burnFrom E (burn_Amount msg) (BurnFromAddress msg)) (\<lambda>_.
    bindM (EmitEvents [\<lparr>event_Type = TypeMsgBurn, event_Attributes =
        [(AttributeBurnFromAddress, BurnFromAddress msg), (AttributeAmount, Coin_String E (burn_Amount msg))]\<rparr>]) (\<lambda>_.
      retM MsgBurnResponse))))))"

definition MsgServer_ForceTransfer ::
  "('k, 'w) sdk \<Rightarrow> MsgForceTransfer \<Rightarrow> ('k, 'w, MsgForceTransferResponse) keeper" where
  "MsgServer_ForceTransfer E msg =
    bindM (GetAuthorityMetadata E (coin_Denom (ft_Amount msg))) (\<lambda>authorityMetadata.
    bindM (guardM (ft_Sender msg = GetAdmin (Some authorityMetadata)) ErrUnauthorized) (\<lambda>_.
    bindM (forceTransfer E (ft_Amount msg) (TransferFromAddress msg) (TransferToAddress msg)) (\<lambda>_.
    bindM (EmitEvents [\<lparr>event_Type = TypeMsgForceTransfer, event_Attributes =
        [(AttributeTransferFromAddress, TransferFromAddress msg),
         (AttributeTransferToAddress, TransferToAddress msg),
         (AttributeAmount, Coin_String E (ft_Amount msg))]\<rparr>]) (\<lambda>_.
      retM MsgForceTransferResponse))))"

definition MsgServer_ChangeAdmin ::
  "('k, 'w) sdk \<Rightarrow> MsgChangeAdmin \<Rightarrow> ('k, 'w, MsgChangeAdminResponse) keeper" where
  "MsgServer_ChangeAdmin E msg =
    bindM (GetAuthorityMetadata E (ca_Denom msg)) (\<lambda>authorityMetadata.
    bindM (guardM (ca_Sender msg = GetAdmin (Some authorityMetadata)) ErrUnauthorized) (\<lambda>_.
    bindM (setAdmin E (ca_Denom msg) (NewAdmin msg)) (\<lambda>_.
    bindM (EmitEvents [\<lparr>event_Type = TypeMsgChangeAdmin, event_Attributes =
        [(AttributeDenom, ca_Denom msg), (AttributeNewAdmin, NewAdmin msg)]\<rparr>]) (\<lambda>_.
      retM MsgChangeAdminResponse))))"

definition MsgServer_SetDenomMetadata ::
  "('k, 'w) sdk \<Rightarrow> MsgSetDenomMetadata \<Rightarrow> ('k, 'w, MsgSetDenomMetadataResponse) keeper" where
  "MsgServer_SetDenomMetadata E msg =
    bindM (liftM (Metadata_Validate E (sdm_Metadata msg))) (\<lambda>_.
    bindM (GetAuthorityMetadata E (meta_Base (sdm_Metadata msg))) (\<lambda>authorityMetadata.
    bindM (guardM (sdm_Sender msg = GetAdmin (Some authorityMetadata)) ErrUnauthorized) (\<lambda>_.
    bindM (modifyM (\<lambda>c. c\<lparr>world := SetDenomMetaData E (sdm_Metadata msg) (world c)\<rparr>)) (\<lambda>_.
    bindM (EmitEvents [\<lparr>event_Type = TypeMsgSetDenomMetadata, event_Attributes =
        [(AttributeDenom, meta_Base (sdm_Metadata msg)),
         (AttributeDenomMetadata, Metadata_String E (sdm_Metadata msg))]\<rparr>]) (\<lambda>_.
      retM MsgSetDenomMetadataResponse)))))"

section \<open>Query server\<close>

definition Query_Params :: "('k, 'w) sdk \<Rightarrow> QueryParamsRequest \<Rightarrow> ('k, 'w, QueryParamsResponse) keeper" where
  "Query_Params E req = bindM (GetParams E) (\<lambda>params. retM \<lparr>qpr_Params = params\<rparr>)"

definition Query_DenomAuthorityMetadata ::
  "('k, 'w) sdk \<Rightarrow> QueryDenomAuthorityMetadataRequest
    \<Rightarrow> ('k, 'w, QueryDenomAuthorityMetadataResponse) keeper" where
  "Query_DenomAuthorityMetadata E req =
    bindM (GetAuthorityMetadata E (qdam_Denom req)) (\<lambda>authorityMetadata.
      retM \<lparr>qdam_AuthorityMetadata = authorityMetadata\<rparr>)"

definition Query_DenomsFromCreator ::
  "('k, 'w) sdk \<Rightarrow> QueryDenomsFromCreatorRequest
    \<Rightarrow> ('k, 'w, QueryDenomsFromCreatorResponse) keeper" where
  "Query_DenomsFromCreator E req =
    bindM (getM (getDenomsFromCreator E (qdfc_Creator req))) (\<lambda>denoms.
      retM \<lparr>Denoms = denoms\<rparr>)"

section \<open>Genesis\<close>

text \<open>\<open>if err != nil { panic(err) }\<close>: the error becomes a panic, and the state changes stay.\<close>

definition orPanic :: "('s, 'a) action \<Rightarrow> ('s, 'a) action" where
  "orPanic m s = (case m s of (Inl e, s') \<Rightarrow> (Inl (GoPanic ''err''), s') | (Inr x, s') \<Rightarrow> (Inr x, s'))"

fun init_FactoryDenoms :: "('k, 'w) sdk \<Rightarrow> GenesisDenom list \<Rightarrow> ('k, 'w, unit) keeper" where
  "init_FactoryDenoms E [] = retM ()"
| "init_FactoryDenoms E (genDenom # ds) =
    bindM (orPanic (liftM (DeconstructDenom E (GenesisDenom_GetDenom (Some genDenom))))) (\<lambda>(creator, _).
    bindM (orPanic (createDenomAfterValidation E creator (GenesisDenom_GetDenom (Some genDenom)))) (\<lambda>_.
    bindM (orPanic (setAuthorityMetadata E (GenesisDenom_GetDenom (Some genDenom))
             (GenesisDenom_GetAuthorityMetadata (Some genDenom)))) (\<lambda>_.
      init_FactoryDenoms E ds)))"

definition InitGenesis :: "('k, 'w) sdk \<Rightarrow> GenesisState \<Rightarrow> ('k, 'w, unit) keeper" where
  "InitGenesis E genState =
    bindM (CreateModuleAccount E) (\<lambda>_.
    bindM (if DenomCreationFee (gs_Params genState) = None
           then bindM (liftM (NewCoins E [])) (\<lambda>fee.
             retM (genState\<lparr>gs_Params := (gs_Params genState)\<lparr>DenomCreationFee := fee\<rparr>\<rparr>))
           else retM genState) (\<lambda>genState.
    bindM (SetParams E (gs_Params genState)) (\<lambda>_.
      init_FactoryDenoms E (GenesisState_GetFactoryDenoms (Some genState)))))"

fun export_FactoryDenoms ::
  "('k, 'w) sdk \<Rightarrow> (bytes \<times> bytes) list \<Rightarrow> GenesisDenom list \<Rightarrow> ('k, 'w, GenesisDenom list) keeper" where
  "export_FactoryDenoms E [] genDenoms = retM genDenoms"
| "export_FactoryDenoms E ((k, v) # it) genDenoms =
    (let denom = string_of_bytes v in
     bindM (orPanic (GetAuthorityMetadata E denom)) (\<lambda>authorityMetadata.
       export_FactoryDenoms E it
         (genDenoms @ [\<lparr>gd_Denom = denom, gd_AuthorityMetadata = authorityMetadata\<rparr>])))"

definition ExportGenesis :: "('k, 'w) sdk \<Rightarrow> ('k, 'w, GenesisState) keeper" where
  "ExportGenesis E =
    bindM (getM (GetAllDenomsIterator E)) (\<lambda>iterator.
    bindM (export_FactoryDenoms E iterator []) (\<lambda>genDenoms.
    bindM (GetParams E) (\<lambda>params.
      retM \<lparr>gs_Params = params, FactoryDenoms = genDenoms\<rparr>)))"

end
