(* ===== verification/Simulation.thy ===== *)
theory Simulation
  imports Handlers
begin

text \<open>
  \<open>simulation/sim_msgs.go\<close>: random messages for the SDK's simulator. \<open>math/rand\<close> and the SDK's simulation
  helpers are parameters; the state of the generator is threaded through. An operation's outcome is either
  the \<open>NoOpMsg\<close> it returns with an error or nil, or the message that it hands to
  \<open>GenAndDeliverTxWithRandFees\<close> for an account. The decoder of addresses returns no empty address without
  an error, so the code's \<open>addr == nil\<close> is the test for the empty one.
\<close>

record 'r rand =
  rand_Intn :: "int \<Rightarrow> 'r \<Rightarrow> int \<times> 'r"
  rand_BigInt :: "int \<Rightarrow> 'r \<Rightarrow> int \<times> 'r"
  RandStringOfLength :: "nat \<Rightarrow> 'r \<Rightarrow> string \<times> 'r"
  Coins_IsAllGTE :: "Coins \<Rightarrow> Coins \<Rightarrow> bool"
  Coins_DenomsSubsetOf :: "Coins \<Rightarrow> Coins \<Rightarrow> bool"
  NewCoin :: "string \<Rightarrow> int \<Rightarrow> coin result"

record sim_account =
  acc_Address :: bytes

datatype 'm sim_outcome = NoOpMsg string string string "error option" | GenAndDeliverTx 'm sim_account

text \<open>\<open>math/rand\<close>: \<open>Intn(n)\<close> panics unless \<open>n > 0\<close> and returns a number in \<open>[0,n)\<close>; \<open>(*big.Int).Rand(r, n)\<close>
  returns a number in \<open>[0,n)\<close>, and 0 if \<open>n\<close> is 0.\<close>

definition rand_laws :: "'r rand \<Rightarrow> bool" where
  "rand_laws R \<longleftrightarrow> (\<forall>n r. 0 < n \<longrightarrow> 0 \<le> fst (rand_Intn R n r) \<and> fst (rand_Intn R n r) < n) \<and>
    (\<forall>n r. 0 \<le> n \<longrightarrow> 0 \<le> fst (rand_BigInt R n r) \<and> fst (rand_BigInt R n r) \<le> max 0 (n - 1)) \<and>
    (\<forall>d a c. NewCoin R d a = Inr c \<longrightarrow> c = \<lparr>coin_Denom = d, coin_Amount = a\<rparr>)"

section \<open>Helpers\<close>

definition Intn :: "'r rand \<Rightarrow> int \<Rightarrow> ('r, int) action" where
  "Intn R n r = (if n \<le> 0 then (Inl (GoPanic ''invalid argument to Intn''), r)
    else case rand_Intn R n r of (x, r') \<Rightarrow> (Inr x, r'))"

definition slice_at :: "'a list \<Rightarrow> int \<Rightarrow> ('r, 'a) action" where
  "slice_at xs i = (if 0 \<le> i \<and> i < int (length xs) then retM (xs ! nat i)
    else failM (GoPanic ''index out of range''))"

definition randomSimAccount :: "'r rand \<Rightarrow> 'a list \<Rightarrow> ('r, 'a) action" where
  "randomSimAccount R accs = bindM (Intn R (int (length accs))) (\<lambda>idx. slice_at accs idx)"

definition RandomSimAccountWithConstraint :: "'r rand \<Rightarrow> 'a list \<Rightarrow> ('a \<Rightarrow> bool) \<Rightarrow> ('r, 'a option) action" where
  "RandomSimAccountWithConstraint R accounts f =
    (let filteredAddrs = filter f accounts in
     if length filteredAddrs = 0 then retM None
     else bindM (randomSimAccount R filteredAddrs) (\<lambda>a. retM (Some a)))"

definition RandomSimAccountWithMinCoins ::
  "('k, 'w) sdk \<Rightarrow> 'r rand \<Rightarrow> ('k, 'w) ctx \<Rightarrow> sim_account list \<Rightarrow> Coins \<Rightarrow> ('r, sim_account) action" where
  "RandomSimAccountWithMinCoins E R c accounts coins =
    bindM (RandomSimAccountWithConstraint R accounts (\<lambda>acc.
        let spendableCoins = SpendableCoins E (world c) (acc_Address acc) in
        Coins_IsAllGTE R spendableCoins coins \<and> Coins_DenomsSubsetOf R coins spendableCoins)) (\<lambda>found.
      case found of None \<Rightarrow> failM (ErrText ''no address with min balance found.'') | Some acc \<Rightarrow> retM acc)"

definition accountCreatedTokenFactoryDenom :: "('k, 'w) sdk \<Rightarrow> ('k, 'w) ctx \<Rightarrow> sim_account \<Rightarrow> bool" where
  "accountCreatedTokenFactoryDenom E c acc \<longleftrightarrow>
    KVStore_Iterator E (Keeper_GetCreatorPrefixStore (AccAddress_String E (acc_Address acc))) c \<noteq> []"

definition gatherAllKeysFromStore :: "('k, 'w) sdk \<Rightarrow> prefix_store \<Rightarrow> ('k, 'w) ctx \<Rightarrow> string list" where
  "gatherAllKeysFromStore E p c = map (\<lambda>(k, v). string_of_bytes k) (KVStore_Iterator E p c)"

definition randLTEBound :: "'r rand \<Rightarrow> int \<Rightarrow> ('r, int) action" where
  "randLTEBound R upperbound = Intn R (upperbound + 1)"

definition randLTBound :: "'r rand \<Rightarrow> int \<Rightarrow> ('r, int) action" where
  "randLTBound R upperbound = randLTEBound R (upperbound - 1)"

definition randSelect :: "'r rand \<Rightarrow> 'a list \<Rightarrow> ('r, 'a) action" where
  "randSelect R args = bindM (randLTBound R (int (length args))) (\<lambda>choice. slice_at args choice)"

definition randIntBetween :: "'r rand \<Rightarrow> int \<Rightarrow> int \<Rightarrow> ('r, int) action" where
  "randIntBetween R mn mx = bindM (Intn R (mx - mn + 1)) (\<lambda>x. retM (x + mn))"

definition RandPositiveInt :: "'r rand \<Rightarrow> int \<Rightarrow> ('r, int) action" where
  "RandPositiveInt R mx =
    (if \<not> mx \<ge> 1 then failM (ErrText ''max too small'')
     else (\<lambda>r. case rand_BigInt R (mx - 1) r of (x, r') \<Rightarrow> (Inr (x + 1), r')))"

definition getTokenFactoryDenomAndItsAdmin ::
  "('k, 'w) sdk \<Rightarrow> 'r rand \<Rightarrow> ('k, 'w) ctx \<Rightarrow> sim_account \<Rightarrow> ('r, string \<times> bytes) action" where
  "getTokenFactoryDenomAndItsAdmin E R c acc =
    (let denoms = gatherAllKeysFromStore E (Keeper_GetCreatorPrefixStore (AccAddress_String E (acc_Address acc))) c in
     bindM (randSelect R denoms) (\<lambda>denom.
     bindM (liftM (fst (GetAuthorityMetadata E denom c))) (\<lambda>authData.
     bindM (liftM (AccAddressFromBech32 E (Admin authData))) (\<lambda>addr.
       retM (denom, addr)))))"

text \<open>\<open>if err != nil { return NoOpMsg(...), nil, err }\<close>: an error becomes an outcome, a panic does not.\<close>

definition orNoOp :: "('r, 'a) action \<Rightarrow> (error \<Rightarrow> 'm sim_outcome) \<Rightarrow> ('a \<Rightarrow> ('r, 'm sim_outcome) action)
    \<Rightarrow> ('r, 'm sim_outcome) action" where
  "orNoOp m h f r = (case m r of
      (Inl e, r') \<Rightarrow> if is_panic e then (Inl e, r') else (Inr (h e), r')
    | (Inr x, r') \<Rightarrow> f x r')"

section \<open>Operations\<close>

definition SimulateMsgCreateDenom ::
  "('k, 'w) sdk \<Rightarrow> 'r rand \<Rightarrow> ('k, 'w) ctx \<Rightarrow> sim_account list \<Rightarrow> ('r, MsgCreateDenom sim_outcome) action" where
  "SimulateMsgCreateDenom E R c accs =
    bindM (liftM (fst (GetParams E c))) (\<lambda>params.
    orNoOp (RandomSimAccountWithMinCoins E R c accs (DenomCreationFee params))
      (\<lambda>e. NoOpMsg ModuleName TypeMsgCreateDenom ''no address with min balance found'' (Some e)) (\<lambda>acc.
    bindM (\<lambda>r. case RandStringOfLength R MaxSubdenomLength r of (s, r') \<Rightarrow> (Inr s, r')) (\<lambda>subdenom.
      retM (GenAndDeliverTx \<lparr>cd_Sender = AccAddress_String E (acc_Address acc), cd_Subdenom = subdenom\<rparr> acc))))"

definition no_creator :: "string \<Rightarrow> 'm sim_outcome" where
  "no_creator typ = NoOpMsg ModuleName typ ''no addr has created a tokenfactory coin''
    (Some (ErrText ''no addr has created a tokenfactory coin''))"

definition no_admin :: "string \<Rightarrow> 'm sim_outcome" where
  "no_admin typ = NoOpMsg ModuleName typ ''denom has no admin'' (Some (ErrText ''denom has no admin''))"

definition SimulateMsgMintDenom ::
  "('k, 'w) sdk \<Rightarrow> 'r rand \<Rightarrow> ('k, 'w) ctx \<Rightarrow> sim_account list \<Rightarrow> ('r, MsgMint sim_outcome) action" where
  "SimulateMsgMintDenom E R c accs =
    bindM (RandomSimAccountWithConstraint R accs (accountCreatedTokenFactoryDenom E c)) (\<lambda>found.
    case found of None \<Rightarrow> retM (no_creator TypeMsgMint)
    | Some acc \<Rightarrow>
      orNoOp (getTokenFactoryDenomAndItsAdmin E R c acc)
        (\<lambda>e. NoOpMsg ModuleName TypeMsgMint ''error while getting token factory denom and admin'' (Some e)) (\<lambda>(denom, addr).
      if addr = [] then retM (NoOpMsg ModuleName TypeMsgMint ''no admin for tokenfactory denom'' None)
      else bindM (RandPositiveInt R 1000000000) (\<lambda>mintAmount.
      bindM (liftM (NewCoin R denom mintAmount)) (\<lambda>amount.
        retM (GenAndDeliverTx \<lparr>mint_Sender = AccAddress_String E addr, mint_Amount = amount, MintToAddress = ''''\<rparr> acc)))))"

definition SimulateMsgBurnDenom ::
  "('k, 'w) sdk \<Rightarrow> 'r rand \<Rightarrow> ('k, 'w) ctx \<Rightarrow> sim_account list \<Rightarrow> ('r, MsgBurn sim_outcome) action" where
  "SimulateMsgBurnDenom E R c accs =
    bindM (RandomSimAccountWithConstraint R accs (accountCreatedTokenFactoryDenom E c)) (\<lambda>found.
    case found of None \<Rightarrow> retM (no_creator TypeMsgBurn)
    | Some acc \<Rightarrow>
      orNoOp (getTokenFactoryDenomAndItsAdmin E R c acc)
        (\<lambda>e. NoOpMsg ModuleName TypeMsgBurn ''error while getting token factory denom and admin'' (Some e)) (\<lambda>(denom, addr).
      if addr = [] then retM (no_admin TypeMsgBurn)
      else let denomBal = GetBalance E (world c) addr denom in
      if coin_Amount denomBal = 0
      then retM (NoOpMsg ModuleName TypeMsgBurn ''addr does not have enough balance to burn''
        (Some (ErrText ''addr does not have enough balance to burn'')))
      else orNoOp (RandPositiveInt R (coin_Amount denomBal))
        (\<lambda>e. NoOpMsg ModuleName TypeMsgBurn ''error generating burn amount'' (Some e)) (\<lambda>burnAmount.
      bindM (liftM (NewCoin R denom burnAmount)) (\<lambda>amount.
        retM (GenAndDeliverTx \<lparr>burn_Sender = AccAddress_String E addr, burn_Amount = amount, BurnFromAddress = ''''\<rparr> acc)))))"

definition SimulateMsgChangeAdmin ::
  "('k, 'w) sdk \<Rightarrow> 'r rand \<Rightarrow> ('k, 'w) ctx \<Rightarrow> sim_account list \<Rightarrow> ('r, MsgChangeAdmin sim_outcome) action" where
  "SimulateMsgChangeAdmin E R c accs =
    bindM (RandomSimAccountWithConstraint R accs (accountCreatedTokenFactoryDenom E c)) (\<lambda>found.
    case found of None \<Rightarrow> retM (no_creator TypeMsgChangeAdmin)
    | Some acc \<Rightarrow>
      orNoOp (getTokenFactoryDenomAndItsAdmin E R c acc)
        (\<lambda>e. NoOpMsg ModuleName TypeMsgChangeAdmin ''error while getting token factory denom and admin'' (Some e)) (\<lambda>(denom, addr).
      if addr = [] then retM (no_admin TypeMsgChangeAdmin)
      else bindM (randomSimAccount R accs) (\<lambda>newAdmin.
      if AccAddress_String E (acc_Address newAdmin) = AccAddress_String E addr
      then retM (NoOpMsg ModuleName TypeMsgChangeAdmin ''new admin cannot be the same as current admin''
        (Some (ErrText ''new admin cannot be the same as current admin'')))
      else retM (GenAndDeliverTx \<lparr>ca_Sender = AccAddress_String E addr, ca_Denom = denom,
        NewAdmin = AccAddress_String E (acc_Address newAdmin)\<rparr> acc))))"

section \<open>Weights\<close>

definition OpWeightMsgCreateDenom :: string where
  "OpWeightMsgCreateDenom = ''op_weight_msg_create_denom''"

definition OpWeightMsgMintDenom :: string where
  "OpWeightMsgMintDenom = ''op_weight_msg_mint_denom''"

definition OpWeightMsgBurnDenom :: string where
  "OpWeightMsgBurnDenom = ''op_weight_msg_burn_denom''"

text \<open>\<open>appParams.GetOrGenerate(cdc, key, &w, nil, gen)\<close> stores the configured weight of the key in \<open>w\<close>, or runs \<open>gen\<close>.
  The three weights are the state; \<open>set_w\<close> and \<open>gen\<close> are the pointer and the closure the code passes.\<close>

record weights =
  weightMsgCreateDenom :: int
  weightMsgMintDenom :: int
  weightMsgBurnDenom :: int

definition GetOrGenerate ::
  "(string \<Rightarrow> int option) \<Rightarrow> string \<Rightarrow> (int \<Rightarrow> weights \<Rightarrow> weights) \<Rightarrow> (weights \<Rightarrow> weights) \<Rightarrow> weights \<Rightarrow> weights" where
  "GetOrGenerate appParams key set_w gen w = (case appParams key of Some v \<Rightarrow> set_w v w | None \<Rightarrow> gen w)"

datatype sim_operation = OpCreateDenom | OpMintDenom | OpBurnDenom

definition WeightedOperations :: "(string \<Rightarrow> int option) \<Rightarrow> int \<Rightarrow> (int \<times> sim_operation) list" where
  "WeightedOperations appParams DefaultWeightMsgSend =
    (let w = \<lparr>weightMsgCreateDenom = 0, weightMsgMintDenom = 0, weightMsgBurnDenom = 0\<rparr>;
         w = GetOrGenerate appParams OpWeightMsgCreateDenom (\<lambda>v w. w\<lparr>weightMsgCreateDenom := v\<rparr>)
               (\<lambda>w. w\<lparr>weightMsgCreateDenom := DefaultWeightMsgSend\<rparr>) w;
         w = GetOrGenerate appParams OpWeightMsgMintDenom (\<lambda>v w. w\<lparr>weightMsgMintDenom := v\<rparr>)
               (\<lambda>w. w\<lparr>weightMsgMintDenom := DefaultWeightMsgSend\<rparr>) w;
         w = GetOrGenerate appParams OpWeightMsgMintDenom (\<lambda>v w. w\<lparr>weightMsgMintDenom := v\<rparr>)
               (\<lambda>w. w\<lparr>weightMsgBurnDenom := DefaultWeightMsgSend\<rparr>) w
     in [(weightMsgCreateDenom w, OpCreateDenom), (weightMsgMintDenom w, OpMintDenom),
         (weightMsgBurnDenom w, OpBurnDenom)])"

section \<open>What the helpers return\<close>

lemma Intn_range:
  "rand_laws R \<Longrightarrow> Intn R n r = (Inr x, r') \<Longrightarrow> 0 \<le> x \<and> x < n"
  unfolding rand_laws_def Intn_def by (auto split: if_splits prod.splits) (metis fst_conv linorder_not_le)+

lemma slice_at_mem: "slice_at xs i r = (Inr x, r') \<Longrightarrow> x \<in> set xs"
  by (auto simp: slice_at_def action_simps split: if_splits)

lemma randomSimAccount_mem: "randomSimAccount R accs r = (Inr a, r') \<Longrightarrow> a \<in> set accs"
  by (auto simp: randomSimAccount_def bindM_eq_Inr dest: slice_at_mem)

lemma randSelect_mem: "randSelect R xs r = (Inr x, r') \<Longrightarrow> x \<in> set xs"
  by (auto simp: randSelect_def bindM_eq_Inr dest: slice_at_mem)

text \<open>Selecting from a list that is not empty does not panic.\<close>

lemma randomSimAccount_returns:
  assumes "rand_laws R" and "accs \<noteq> []"
  shows "\<exists>a r'. randomSimAccount R accs r = (Inr a, r') \<and> a \<in> set accs"
proof -
  obtain x r' where x: "rand_Intn R (int (length accs)) r = (x, r')" by fastforce
  then have "Intn R (int (length accs)) r = (Inr x, r')" using assms(2) by (simp add: Intn_def)
  moreover from this have "0 \<le> x \<and> x < int (length accs)" by (rule Intn_range [OF assms(1)])
  ultimately have "randomSimAccount R accs r = (Inr (accs ! nat x), r')"
    by (simp add: randomSimAccount_def bindM_def slice_at_def action_simps)
  moreover have "accs ! nat x \<in> set accs"
    using \<open>0 \<le> x \<and> x < int (length accs)\<close> by (intro nth_mem) linarith
  ultimately show ?thesis by blast
qed

lemma RandomSimAccountWithConstraint_mem:
  "RandomSimAccountWithConstraint R accounts f r = (Inr (Some a), r') \<Longrightarrow> a \<in> set accounts \<and> f a"
  by (auto simp: RandomSimAccountWithConstraint_def bindM_eq_Inr retM_def Let_def
      split: if_splits dest!: randomSimAccount_mem)

lemma RandPositiveInt_range:
  "rand_laws R \<Longrightarrow> RandPositiveInt R mx r = (Inr x, r') \<Longrightarrow> 1 \<le> x \<and> x \<le> mx"
  unfolding rand_laws_def RandPositiveInt_def
  by (auto simp: action_simps split: if_splits prod.splits) (smt (verit) fst_conv)+

lemma orNoOp_eq_deliver:
  assumes "\<And>e. h e \<noteq> GenAndDeliverTx m acc"
  shows "orNoOp a h f r = (Inr (GenAndDeliverTx m acc), r') \<longleftrightarrow>
    (\<exists>x r1. a r = (Inr x, r1) \<and> f x r1 = (Inr (GenAndDeliverTx m acc), r'))"
  using assms by (auto simp: orNoOp_def split: prod.splits sum.splits if_splits)

end
