(* ===== verification/Registry.thy ===== *)
theory Registry
  imports Handlers
begin

text \<open>
  The module's store seen as a registry: which denoms have authority metadata and who administers
  them (\<open>admins\<close>), and which creator each is listed under (\<open>listed\<close>). The lemmas give each store
  operation of the keeper as an operation on this view, under the store law and the shape
  (\<open>wf_metadata\<close>, \<open>wf_index\<close>) that the module keeps its store in.
\<close>

named_theorems registry "store operations as operations on the registry"

section \<open>The view\<close>

definition metadata_entry :: "('k, 'w) sdk \<Rightarrow> 'k \<Rightarrow> string \<Rightarrow> bytes option" where
  "metadata_entry E s d = store_Get E s (GetDenomPrefixStore d) (bytes_of_string DenomAuthorityMetadataKey)"

definition admins :: "('k, 'w) sdk \<Rightarrow> 'k \<Rightarrow> string \<Rightarrow> string option" where
  "admins E s d = (case metadata_entry E s d of
      None \<Rightarrow> None
    | Some b \<Rightarrow> (case DenomAuthorityMetadata_XXX_Unmarshal DenomAuthorityMetadata_zero b of
        Inl e \<Rightarrow> None | Inr m \<Rightarrow> Some (Admin m)))"

definition listed :: "('k, 'w) sdk \<Rightarrow> 'k \<Rightarrow> string \<Rightarrow> string \<Rightarrow> bool" where
  "listed E s cr d \<longleftrightarrow> store_Get E s (GetCreatorPrefix cr) (bytes_of_string d) \<noteq> None"

definition put_metadata :: "('k, 'w) sdk \<Rightarrow> string \<Rightarrow> DenomAuthorityMetadata \<Rightarrow> 'k \<Rightarrow> 'k" where
  "put_metadata E d m s = store_Set E s (GetDenomPrefixStore d)
    (bytes_of_string DenomAuthorityMetadataKey) (DenomAuthorityMetadata_bytes m)"

definition put_listed :: "('k, 'w) sdk \<Rightarrow> string \<Rightarrow> string \<Rightarrow> 'k \<Rightarrow> 'k" where
  "put_listed E cr d s = store_Set E s (GetCreatorPrefix cr) (bytes_of_string d) (bytes_of_string d)"

text \<open>The shape of the store.\<close>

definition wf_metadata :: "('k, 'w) sdk \<Rightarrow> 'k \<Rightarrow> bool" where
  "wf_metadata E s \<longleftrightarrow> (\<forall>d b. metadata_entry E s d = Some b \<longrightarrow>
     (\<exists>a. b = DenomAuthorityMetadata_bytes \<lparr>Admin = a\<rparr> \<and> admin_ok E a))"

text \<open>The creator in a denom and the creator it is listed under are the same address, though one
  may be its upper-case spelling.\<close>

definition created_by :: "('k, 'w) sdk \<Rightarrow> string \<Rightarrow> string \<Rightarrow> bool" where
  "created_by E cr d \<longleftrightarrow> (\<exists>a c0 sub. AccAddressFromBech32 E cr = Inr a \<and> AccAddressFromBech32 E c0 = Inr a \<and>
     d = ''factory/'' @ c0 @ CHR ''/'' # sub \<and> ValidateDenom E d = Inr ())"

definition wf_index :: "('k, 'w) sdk \<Rightarrow> 'k \<Rightarrow> bool" where
  "wf_index E s \<longleftrightarrow> (\<forall>k v. store_Get E s GetCreatorsPrefix k = Some v \<longrightarrow>
     (\<exists>cr d. k = bytes_of_string (cr @ CHR ''|'' # d) \<and> v = bytes_of_string d \<and>
        created_by E cr d \<and> admins E s d \<noteq> None))"

section \<open>Authority metadata\<close>

lemma length_metadata_bytes:
  assumes "bech32_laws E" and "admin_ok E a"
  shows "length (DenomAuthorityMetadata_bytes \<lparr>Admin = a\<rparr>) < 2 ^ 63"
proof -
  have "length a \<le> 1023"
    using assms bech32_length [of E a] by (auto simp: admin_ok_def)
  moreover have "length (DenomAuthorityMetadata_bytes \<lparr>Admin = a\<rparr>) \<le> 1 + length a + 10"
    using sov_le_10 [of "of_nat (length a)"]
    by (simp add: DenomAuthorityMetadata_bytes_def field_lengths string_size_def Let_def)
  ultimately show ?thesis by simp
qed

lemma metadata_of_bytes:
  "bech32_laws E \<Longrightarrow> admin_ok E a \<Longrightarrow>
    DenomAuthorityMetadata_XXX_Unmarshal DenomAuthorityMetadata_zero
      (DenomAuthorityMetadata_bytes \<lparr>Admin = a\<rparr>) = Inr \<lparr>Admin = a\<rparr>"
  by (intro XXX_Unmarshal_bytes length_metadata_bytes)

definition admin_or_none :: "string option \<Rightarrow> string" where
  "admin_or_none a = (case a of None \<Rightarrow> '''' | Some x \<Rightarrow> x)"

lemma GetAuthorityMetadata_keeps: "snd (GetAuthorityMetadata E d c) = c"
  by (simp add: GetAuthorityMetadata_def action_simps Let_def)

lemma GetAuthorityMetadata_run [registry]:
  assumes "bech32_laws E" and "wf_metadata E (store c)"
  shows "GetAuthorityMetadata E d c = (Inr \<lparr>Admin = admin_or_none (admins E (store c) d)\<rparr>, c)"
proof (cases "metadata_entry E (store c) d")
  case None
  then show ?thesis
    by (simp add: GetAuthorityMetadata_def KVStore_Get_def Keeper_GetDenomPrefixStore_def action_simps
        XXX_Unmarshal_empty [unfolded DenomAuthorityMetadata_zero_def] DenomAuthorityMetadata_zero_def admins_def admin_or_none_def
        flip: metadata_entry_def)
next
  case (Some b)
  then obtain a where "b = DenomAuthorityMetadata_bytes \<lparr>Admin = a\<rparr>" and "admin_ok E a"
    using assms(2) by (auto simp: wf_metadata_def)
  with Some show ?thesis
    by (simp add: GetAuthorityMetadata_def KVStore_Get_def Keeper_GetDenomPrefixStore_def action_simps
        metadata_of_bytes [OF assms(1)] admins_def admin_or_none_def flip: metadata_entry_def)
qed

lemma setAuthorityMetadata_run [registry]:
  "setAuthorityMetadata E d m c = (case DenomAuthorityMetadata_Validate E m of
      Inl e \<Rightarrow> (Inl e, c)
    | Inr u \<Rightarrow> (Inr (), c\<lparr>store := put_metadata E d m (store c)\<rparr>))"
  by (simp add: setAuthorityMetadata_def run_simps XXX_Marshal_eq KVStore_Set_def
      Keeper_GetDenomPrefixStore_def put_metadata_def split: sum.split)

lemma setAuthorityMetadata_ok:
  "admin_ok E (Admin m) \<Longrightarrow>
    setAuthorityMetadata E d m c = (Inr (), c\<lparr>store := put_metadata E d m (store c)\<rparr>)"
  using metadata_Validate_eq_Inr [of E m] by (simp add: setAuthorityMetadata_run)

lemma addDenomFromCreator_run [registry]:
  "addDenomFromCreator E cr d c = (Inr (), c\<lparr>store := put_listed E cr d (store c)\<rparr>)"
  by (simp add: addDenomFromCreator_def KVStore_Set_def Keeper_GetCreatorPrefixStore_def put_listed_def
      action_simps)

section \<open>Reading back what was stored\<close>

lemma metadata_entry_put [registry]:
  "store_laws E \<Longrightarrow> metadata_entry E (put_metadata E d m s) d' =
    (if d' = d then Some (DenomAuthorityMetadata_bytes m) else metadata_entry E s d')"
  by (simp add: metadata_entry_def put_metadata_def store_Get_Set)

lemma metadata_entry_put_listed [registry]:
  "store_laws E \<Longrightarrow> metadata_entry E (put_listed E cr d s) d' = metadata_entry E s d'"
  by (simp add: metadata_entry_def put_listed_def store_Get_Set denom_key_not_creator)

lemma admins_put_metadata [registry]:
  assumes "store_laws E" and "bech32_laws E" and "admin_ok E (Admin m)"
  shows "admins E (put_metadata E d m s) = (admins E s)(d \<mapsto> Admin m)"
proof -
  have "DenomAuthorityMetadata_XXX_Unmarshal DenomAuthorityMetadata_zero (DenomAuthorityMetadata_bytes m) = Inr m"
    using metadata_of_bytes [OF assms(2,3)] by (cases m) simp
  then show ?thesis
    by (simp add: fun_eq_iff admins_def metadata_entry_put [OF assms(1)])
qed

lemma admins_put_listed [registry]:
  "store_laws E \<Longrightarrow> admins E (put_listed E cr d s) = admins E s"
  by (simp add: fun_eq_iff admins_def metadata_entry_put_listed)

lemma index_put_metadata:
  "store_laws E \<Longrightarrow> store_Get E (put_metadata E d m s) GetCreatorsPrefix k = store_Get E s GetCreatorsPrefix k"
  "store_laws E \<Longrightarrow> store_Get E (put_metadata E d m s) (GetCreatorPrefix cr) k = store_Get E s (GetCreatorPrefix cr) k"
  using denom_key_not_creator [symmetric]
  by (simp_all add: put_metadata_def store_Get_Set)

lemma index_put_listed:
  "store_laws E \<Longrightarrow> store_Get E (put_listed E cr d s) GetCreatorsPrefix k =
    (if k = bytes_of_string (cr @ CHR ''|'' # d) then Some (bytes_of_string d)
     else store_Get E s GetCreatorsPrefix k)"
  by (simp add: put_listed_def store_Get_Set creator_key_creators)

lemma listed_put_metadata [registry]:
  "store_laws E \<Longrightarrow> listed E (put_metadata E d m s) = listed E s"
  by (simp add: fun_eq_iff listed_def index_put_metadata)

lemma listed_put_listed [registry]:
  assumes "store_laws E" and "CHR ''|'' \<notin> set cr" and "CHR ''|'' \<notin> set cr'"
  shows "listed E (put_listed E cr d s) cr' d' \<longleftrightarrow> cr' = cr \<and> d' = d \<or> listed E s cr' d'"
  using assms by (auto simp: listed_def put_listed_def store_Get_Set creator_key_eq_iff)

lemma listed_put_listed_same: "store_laws E \<Longrightarrow> listed E (put_listed E cr d s) cr d"
  by (simp add: listed_def put_listed_def store_Get_Set)

lemma listed_put_listed_mono:
  "store_laws E \<Longrightarrow> listed E s cr' d' \<Longrightarrow> listed E (put_listed E cr d s) cr' d'"
  by (simp add: listed_def put_listed_def store_Get_Set)

section \<open>The shape is kept\<close>

lemma wf_put_metadata:
  assumes laws: "store_laws E" "bech32_laws E" and ok: "admin_ok E (Admin m)"
  shows "wf_metadata E s \<Longrightarrow> wf_metadata E (put_metadata E d m s)"
    and "wf_index E s \<Longrightarrow> wf_index E (put_metadata E d m s)"
proof -
  show "wf_metadata E s \<Longrightarrow> wf_metadata E (put_metadata E d m s)"
    using ok by (cases m) (auto simp: wf_metadata_def metadata_entry_put [OF laws(1)])
  show "wf_index E s \<Longrightarrow> wf_index E (put_metadata E d m s)"
    unfolding wf_index_def index_put_metadata [OF laws(1)] admins_put_metadata [OF laws ok]
    by (metis fun_upd_apply option.distinct(1))
qed

lemma wf_put_listed:
  assumes "store_laws E"
  shows "wf_metadata E s \<Longrightarrow> wf_metadata E (put_listed E cr d s)"
    and "wf_index E s \<Longrightarrow> created_by E cr d \<Longrightarrow> admins E s d \<noteq> None \<Longrightarrow> wf_index E (put_listed E cr d s)"
proof -
  show "wf_metadata E s \<Longrightarrow> wf_metadata E (put_listed E cr d s)"
    by (simp add: wf_metadata_def metadata_entry_put_listed [OF assms])
  show "wf_index E s \<Longrightarrow> created_by E cr d \<Longrightarrow> admins E s d \<noteq> None \<Longrightarrow> wf_index E (put_listed E cr d s)"
    unfolding wf_index_def index_put_listed [OF assms] admins_put_listed [OF assms]
    by (metis option.inject)
qed

lemma created_by_no_sep: "bech32_laws E \<Longrightarrow> created_by E cr d \<Longrightarrow> CHR ''|'' \<notin> set cr"
  using bech32_chars(2) by (fastforce simp: created_by_def)

lemma created_by_denom_ok:
  assumes "bech32_laws E" and "created_by E cr d"
  shows "denom_ok E d"
proof -
  obtain a c0 sub where "AccAddressFromBech32 E c0 = Inr a" and "d = ''factory/'' @ c0 @ CHR ''/'' # sub"
    and "ValidateDenom E d = Inr ()"
    using assms(2) by (auto simp: created_by_def)
  with bech32_chars(1) [OF assms(1)] show ?thesis
    unfolding denom_ok_def by (metis DeconstructDenom_eq_Inr)
qed

lemma DeconstructDenom_created_by:
  assumes "bech32_laws E" and "DeconstructDenom E d = Inr (cr, sub)"
  shows "created_by E cr d"
  using assms(2) bech32_again [OF assms(1)]
  unfolding DeconstructDenom_eq_Inr created_by_def by blast

lemma GetTokenDenom_created_by:
  assumes "GetTokenDenom E cr sub = Inr d" and "AccAddressFromBech32 E cr = Inr a"
  shows "created_by E cr d"
  using assms unfolding GetTokenDenom_eq_Inr created_by_def by blast

text \<open>The list \<open>getDenomsFromCreator\<close> returns is the listed denoms of the creator.\<close>

lemma set_getDenomsFromCreator:
  assumes "store_laws E"
  shows "d \<in> set (getDenomsFromCreator E cr c) \<longleftrightarrow> listed E (store c) cr d"
proof -
  have "d \<in> set (getDenomsFromCreator E cr c) \<longleftrightarrow>
      (\<exists>k v. (k, v) \<in> set (store_Iterator E (store c) (GetCreatorPrefix cr)) \<and> d = string_of_bytes k)"
    by (force simp: getDenomsFromCreator_def KVStore_Iterator_def Keeper_GetCreatorPrefixStore_def)
  also have "\<dots> \<longleftrightarrow> listed E (store c) cr d"
    unfolding set_store_Iterator [OF assms] listed_def
    by (metis bytes_of_string_of_bytes not_None_eq string_of_bytes_of_string)
  finally show ?thesis .
qed

end
