(* ===== verification/KeeperProps.thy ===== *)
theory KeeperProps
  imports Registry
begin

text \<open>
  What the keeper operations do: creating a denom as one equation, and the bank actions as
  operations that touch neither the module's store nor the existence of denom metadata.
\<close>

section \<open>Operations that leave the registry alone\<close>

text \<open>The module's store is unchanged and no denom loses its bank metadata.\<close>

definition module_kept :: "('k, 'w) sdk \<Rightarrow> ('k, 'w) ctx \<Rightarrow> ('k, 'w) ctx \<Rightarrow> bool" where
  "module_kept E c c' \<longleftrightarrow> store c' = store c \<and>
    (\<forall>d. snd (GetDenomMetaData E (world c) d) \<longrightarrow> snd (GetDenomMetaData E (world c') d))"

lemma module_kept_refl: "module_kept E c c"
  by (simp add: module_kept_def)

lemma module_kept_trans: "module_kept E a b \<Longrightarrow> module_kept E b c \<Longrightarrow> module_kept E a c"
  by (simp add: module_kept_def)

lemma worldM_module_kept:
  fixes E :: "('k, 'w) sdk" and f :: "'w \<Rightarrow> 'a result \<times> 'w"
  assumes "metadata_kept E f"
  shows "keeps (module_kept E) (worldM f)"
  unfolding keeps_def
proof
  fix c :: "('k, 'w) ctx"
  obtain r w where fw: "f (world c) = (r, w)" by (cases "f (world c)")
  then show "module_kept E c (snd (worldM f c))"
    using metadata_keptD [OF assms fw] by (simp add: run_simps module_kept_def)
qed

lemma EmitEvents_module_kept: "keeps (module_kept E) (EmitEvents es)"
  unfolding EmitEvents_def by (rule keeps_modifyM) (simp add: module_kept_def)

lemma SetDenomMetaData_module_kept:
  assumes "metadata_laws E"
  shows "keeps (module_kept E) (modifyM (\<lambda>c. c\<lparr>world := SetDenomMetaData E m (world c)\<rparr>))"
  by (rule keeps_modifyM) (simp add: module_kept_def GetDenomMetaData_Set [OF assms])

lemma GetAuthorityMetadata_module_kept: "keeps (module_kept E) (GetAuthorityMetadata E d)"
  by (simp add: keeps_def GetAuthorityMetadata_keeps module_kept_refl)

lemma GetParams_keeps: "snd (GetParams E c) = c"
  by (simp add: GetParams_def action_simps)

lemma GetParams_module_kept: "keeps (module_kept E) (GetParams E)"
  by (simp add: keeps_def GetParams_keeps module_kept_refl)

lemmas module_kept_intros =
  keeps_bindM [where R = "module_kept E" for E, OF module_kept_trans]
  keeps_basic [where R = "module_kept E" for E, OF module_kept_refl] worldM_module_kept
  EmitEvents_module_kept SetDenomMetaData_module_kept GetAuthorityMetadata_module_kept
  GetParams_module_kept

text \<open>The bank actions and the creation fee only go to other modules.\<close>

lemma mintTo_module_kept: "metadata_laws E \<Longrightarrow> keeps (module_kept E) (mintTo E amount a)"
  unfolding mintTo_def by (intro module_kept_intros metadata_lawsD)

lemma burnFrom_module_kept: "metadata_laws E \<Longrightarrow> keeps (module_kept E) (burnFrom E amount a)"
  unfolding burnFrom_def by (intro module_kept_intros metadata_lawsD)

lemma forceTransfer_module_kept: "metadata_laws E \<Longrightarrow> keeps (module_kept E) (forceTransfer E amount a b)"
  unfolding forceTransfer_def by (intro module_kept_intros metadata_lawsD)

lemma chargeForCreateDenom_module_kept:
  assumes "metadata_laws E"
  shows "keeps (module_kept E) (chargeForCreateDenom E a)"
  unfolding chargeForCreateDenom_def
  by (intro module_kept_intros)
    (auto intro!: module_kept_intros simp: metadata_lawsD [OF assms])

lemma chargeForCreateDenom_metadata:
  fixes E :: "('k, 'w) sdk"
  assumes "metadata_laws E" and "chargeForCreateDenom E a c = (r, c')"
  shows "GetDenomMetaData E (world c') = GetDenomMetaData E (world c)"
    and "store c' = store c" and "emitted c' = emitted c"
proof -
  let ?R = "\<lambda>c c'. GetDenomMetaData E (world c') = GetDenomMetaData E (world c) \<and> store c' = store c
    \<and> emitted c' = emitted c"
  have w: "keeps ?R (worldM f :: ('k, 'w, unit) keeper)" if "metadata_kept E f" for f
    unfolding keeps_def
    using metadata_keptD [OF that] by (auto simp: worldM_def split: prod.split)
  have "keeps ?R (chargeForCreateDenom E a)"
    unfolding chargeForCreateDenom_def
    by (rule keeps_bindM, simp, simp add: keeps_def GetParams_keeps, rule keeps_bindM, simp)
      (auto intro!: w keeps_basic keeps_bindM simp: metadata_lawsD [OF assms(1)])
  from keepsD [OF this assms(2)]
  show "GetDenomMetaData E (world c') = GetDenomMetaData E (world c)"
    and "store c' = store c" and "emitted c' = emitted c" by simp_all
qed

section \<open>Creating a denom\<close>

lemma validateCreateDenom_run:
  "validateCreateDenom E cr sub c =
    (if HasSupply E (world c) sub then (Inl (ErrText ''temporary error until IBC bug is sorted out''), c)
     else case GetTokenDenom E cr sub of
         Inl e \<Rightarrow> (Inl e, c)
       | Inr d \<Rightarrow> if snd (GetDenomMetaData E (world c) d) then (Inl ErrDenomExists, c) else (Inr d, c))"
  by (simp add: validateCreateDenom_def run_simps split: sum.split)

definition created_metadata :: "string \<Rightarrow> bank_metadata" where
  "created_metadata d = bank_metadata_zero\<lparr>
     meta_DenomUnits := [\<lparr>unit_Denom = d, unit_Exponent = 0, unit_Aliases = []\<rparr>], meta_Base := d\<rparr>"

definition put_created :: "('k, 'w) sdk \<Rightarrow> string \<Rightarrow> string \<Rightarrow> 'k \<Rightarrow> 'k" where
  "put_created E cr d s = put_listed E cr d (put_metadata E d \<lparr>Admin = cr\<rparr> s)"

definition add_metadata :: "('k, 'w) sdk \<Rightarrow> string \<Rightarrow> 'w \<Rightarrow> 'w" where
  "add_metadata E d w = (if snd (GetDenomMetaData E w d) then w
     else SetDenomMetaData E (created_metadata d) w)"

lemma createDenomAfterValidation_run:
  "createDenomAfterValidation E cr d c =
    (case DenomAuthorityMetadata_Validate E \<lparr>Admin = cr\<rparr> of
       Inl e \<Rightarrow> (Inl e, c\<lparr>world := add_metadata E d (world c)\<rparr>)
     | Inr u \<Rightarrow> (Inr (), c\<lparr>store := put_created E cr d (store c), world := add_metadata E d (world c)\<rparr>))"
  by (simp add: createDenomAfterValidation_def created_metadata_def add_metadata_def put_created_def
      run_simps bindM_def setAuthorityMetadata_run addDenomFromCreator_run split: sum.split)

lemma createDenomAfterValidation_ok:
  "admin_ok E cr \<Longrightarrow> createDenomAfterValidation E cr d c =
    (Inr (), c\<lparr>store := put_created E cr d (store c), world := add_metadata E d (world c)\<rparr>)"
  using metadata_Validate_eq_Inr [of E "\<lparr>Admin = cr\<rparr>"] by (simp add: createDenomAfterValidation_run)

lemma CreateDenom_eq_Inr:
  "CreateDenom E cr sub c = (Inr d, c') \<longleftrightarrow>
    \<not> HasSupply E (world c) sub \<and> GetTokenDenom E cr sub = Inr d \<and>
    \<not> snd (GetDenomMetaData E (world c) d) \<and> admin_ok E cr \<and>
    (\<exists>c1. chargeForCreateDenom E cr c = (Inr (), c1) \<and>
       c' = c1\<lparr>store := put_created E cr d (store c1), world := add_metadata E d (world c1)\<rparr>)"
proof
  assume "CreateDenom E cr sub c = (Inr d, c')"
  then obtain c1 where v: "validateCreateDenom E cr sub c = (Inr d, c)"
    and ch: "chargeForCreateDenom E cr c = (Inr (), c1)"
    and after: "createDenomAfterValidation E cr d c1 = (Inr (), c')"
    by (auto simp: CreateDenom_def bindM_eq_Inr retM_def validateCreateDenom_run split: if_splits sum.splits)
  have "admin_ok E cr"
    using after metadata_Validate_eq_Inr [of E "\<lparr>Admin = cr\<rparr>"]
    by (auto simp: createDenomAfterValidation_run split: sum.splits)
  with v ch after show "\<not> HasSupply E (world c) sub \<and> GetTokenDenom E cr sub = Inr d \<and>
    \<not> snd (GetDenomMetaData E (world c) d) \<and> admin_ok E cr \<and>
    (\<exists>c1. chargeForCreateDenom E cr c = (Inr (), c1) \<and>
       c' = c1\<lparr>store := put_created E cr d (store c1), world := add_metadata E d (world c1)\<rparr>)"
    by (auto simp: validateCreateDenom_run createDenomAfterValidation_ok split: if_splits sum.splits)
next
  assume "\<not> HasSupply E (world c) sub \<and> GetTokenDenom E cr sub = Inr d \<and>
    \<not> snd (GetDenomMetaData E (world c) d) \<and> admin_ok E cr \<and>
    (\<exists>c1. chargeForCreateDenom E cr c = (Inr (), c1) \<and>
       c' = c1\<lparr>store := put_created E cr d (store c1), world := add_metadata E d (world c1)\<rparr>)"
  then show "CreateDenom E cr sub c = (Inr d, c')"
    by (auto simp: CreateDenom_def bindM_def validateCreateDenom_run createDenomAfterValidation_ok retM_def)
qed

lemma admins_put_created:
  assumes "store_laws E" and "bech32_laws E" and "admin_ok E cr"
  shows "admins E (put_created E cr d s) = (admins E s)(d \<mapsto> cr)"
  using assms by (simp add: put_created_def admins_put_listed admins_put_metadata)

lemma listed_put_created:
  assumes "store_laws E"
  shows "listed E (put_created E cr d s) cr d" and "listed E s cr' d' \<Longrightarrow> listed E (put_created E cr d s) cr' d'"
  using assms
  by (simp_all add: put_created_def listed_put_listed_same listed_put_listed_mono listed_put_metadata)

lemma wf_put_created:
  assumes "store_laws E" and "bech32_laws E" and "created_by E cr d" and "admin_ok E cr"
  shows "wf_metadata E s \<Longrightarrow> wf_metadata E (put_created E cr d s)"
    and "wf_index E s \<Longrightarrow> wf_index E (put_created E cr d s)"
  using assms
  by (simp_all add: put_created_def wf_put_listed wf_put_metadata admins_put_metadata)

lemma created_by_admin_ok: "created_by E cr d \<Longrightarrow> admin_ok E cr"
  by (auto simp: created_by_def admin_ok_def)

lemma GetDenomMetaData_add:
  assumes "metadata_laws E"
  shows "snd (GetDenomMetaData E (add_metadata E d w) d') \<longleftrightarrow> d' = d \<or> snd (GetDenomMetaData E w d')"
  using assms by (simp add: add_metadata_def GetDenomMetaData_Set created_metadata_def)

section \<open>Bank actions\<close>

lemma mintTo_eq_Inr:
  "mintTo E amount a c = (Inr (), c') \<longleftrightarrow>
    denom_ok E (coin_Denom amount) \<and>
    (\<exists>cs w1 addr w2. NewCoins E [amount] = Inr cs \<and> MintCoins E ModuleName cs (world c) = (Inr (), w1) \<and>
       AccAddressFromBech32 E a = Inr addr \<and>
       SendCoinsFromModuleToAccount E ModuleName addr cs w1 = (Inr (), w2) \<and> c' = c\<lparr>world := w2\<rparr>)"
  by (auto simp: mintTo_def bindM_eq_Inr action_simps worldM_eq denom_ok_def)

lemma burnFrom_eq_Inr:
  "burnFrom E amount a c = (Inr (), c') \<longleftrightarrow>
    denom_ok E (coin_Denom amount) \<and>
    (\<exists>cs w1 addr w2. NewCoins E [amount] = Inr cs \<and> AccAddressFromBech32 E a = Inr addr \<and>
       SendCoinsFromAccountToModule E addr ModuleName cs (world c) = (Inr (), w1) \<and>
       BurnCoins E ModuleName cs w1 = (Inr (), w2) \<and> c' = c\<lparr>world := w2\<rparr>)"
  by (auto simp: burnFrom_def bindM_eq_Inr action_simps worldM_eq denom_ok_def)

lemma forceTransfer_eq_Inr:
  "forceTransfer E amount a b c = (Inr (), c') \<longleftrightarrow>
    denom_ok E (coin_Denom amount) \<and>
    (\<exists>cs w1 from to. NewCoins E [amount] = Inr cs \<and> AccAddressFromBech32 E a = Inr from \<and>
       AccAddressFromBech32 E b = Inr to \<and> SendCoins E from to cs (world c) = (Inr (), w1) \<and>
       c' = c\<lparr>world := w1\<rparr>)"
  by (auto simp: forceTransfer_def bindM_eq_Inr action_simps worldM_eq denom_ok_def)

text \<open>The net effect on balances: minting credits the recipient and nobody else, burning debits,
  a forced transfer moves.\<close>

lemma mintTo_balances:
  assumes laws: "coins_laws E" "bank_laws E modacc" and run: "mintTo E amount a c = (Inr (), c')"
    and addr: "AccAddressFromBech32 E a = Inr addr"
  shows "bal E (world c') x d = bal E (world c) x d
    + (if x = addr \<and> d = coin_Denom amount then coin_Amount amount else 0)"
proof -
  obtain cs w1 w2 where cs: "NewCoins E [amount] = Inr cs"
    and m: "MintCoins E ModuleName cs (world c) = (Inr (), w1)"
    and s: "SendCoinsFromModuleToAccount E ModuleName addr cs w1 = (Inr (), w2)" and c': "world c' = w2"
    using run addr unfolding mintTo_eq_Inr by auto
  show ?thesis
    using movesD [OF bank_lawsD(1) [OF laws(2)] m, of x d] movesD [OF bank_lawsD(4) [OF laws(2)] s, of x d]
      NewCoins_single [OF laws(1) cs, of d]
    by (auto simp: c' credit_def)
qed

lemma burnFrom_balances:
  assumes laws: "coins_laws E" "bank_laws E modacc" and run: "burnFrom E amount a c = (Inr (), c')"
    and addr: "AccAddressFromBech32 E a = Inr addr"
  shows "bal E (world c') x d = bal E (world c) x d
    - (if x = addr \<and> d = coin_Denom amount then coin_Amount amount else 0)"
proof -
  obtain cs w1 w2 where cs: "NewCoins E [amount] = Inr cs"
    and s: "SendCoinsFromAccountToModule E addr ModuleName cs (world c) = (Inr (), w1)"
    and b: "BurnCoins E ModuleName cs w1 = (Inr (), w2)" and c': "world c' = w2"
    using run addr unfolding burnFrom_eq_Inr by auto
  show ?thesis
    using movesD [OF bank_lawsD(2) [OF laws(2)] b, of x d] movesD [OF bank_lawsD(5) [OF laws(2)] s, of x d]
      NewCoins_single [OF laws(1) cs, of d]
    by (auto simp: c' credit_def)
qed

lemma forceTransfer_balances:
  assumes laws: "coins_laws E" "bank_laws E modacc" and run: "forceTransfer E amount a b c = (Inr (), c')"
    and addr: "AccAddressFromBech32 E a = Inr from" "AccAddressFromBech32 E b = Inr to"
  shows "bal E (world c') x d = bal E (world c) x d
    + (if x = to \<and> d = coin_Denom amount then coin_Amount amount else 0)
    - (if x = from \<and> d = coin_Denom amount then coin_Amount amount else 0)"
proof -
  obtain cs w1 where cs: "NewCoins E [amount] = Inr cs"
    and s: "SendCoins E from to cs (world c) = (Inr (), w1)" and c': "world c' = w1"
    using run addr unfolding forceTransfer_eq_Inr by auto
  show ?thesis
    using movesD [OF bank_lawsD(3) [OF laws(2)] s, of x d] NewCoins_single [OF laws(1) cs, of d]
    by (auto simp: c' credit_def)
qed

end
