(* ===== verification/HandlerProps.thy ===== *)
theory HandlerProps
  imports KeeperProps
begin

text \<open>
  What the message handlers do. Five of the six handlers are for a denom's admin; the locale
  \<open>admin_only\<close> is that contract, proved once and interpreted on each of the five. The second part
  says what each handler changes.
\<close>

section \<open>The admin's handlers\<close>

locale admin_only =
  fixes E :: "('k, 'w) sdk"
    and handler :: "'m \<Rightarrow> ('k, 'w, 'r) keeper"
    and sender :: "'m \<Rightarrow> string"
    and denom :: "'m \<Rightarrow> string"
  assumes accepts: "handler m c = (Inr r, c') \<Longrightarrow>
      \<exists>am. GetAuthorityMetadata E (denom m) c = (Inr am, c) \<and> sender m = Admin am"
    and refuses: "GetAuthorityMetadata E (denom m) c = (Inr am, c) \<Longrightarrow> sender m \<noteq> Admin am \<Longrightarrow>
      \<exists>e. handler m c = (Inl e, c)"
begin

lemma sender_is_admin:
  assumes "bech32_laws E" and "wf_metadata E (store c)" and "handler m c = (Inr r, c')"
  shows "sender m = admin_or_none (admins E (store c) (denom m))"
  using accepts [OF assms(3)] GetAuthorityMetadata_run [OF assms(1,2)] by auto

lemma sender_is_registered_admin:
  assumes "bech32_laws E" and "wf_metadata E (store c)" and "handler m c = (Inr r, c')" and "sender m \<noteq> ''''"
  shows "admins E (store c) (denom m) = Some (sender m)"
  using sender_is_admin [OF assms(1-3)] assms(4) by (simp add: admin_or_none_def split: option.splits)

lemma others_change_nothing:
  assumes "bech32_laws E" and "wf_metadata E (store c)" and "sender m \<noteq> ''''"
    and "admins E (store c) (denom m) \<noteq> Some (sender m)"
  shows "\<exists>e. handler m c = (Inl e, c)"
  using GetAuthorityMetadata_run [OF assms(1,2), of "denom m"] assms(3,4)
  by (intro refuses) (auto simp: admin_or_none_def split: option.splits)

end

lemma GetAuthorityMetadata_state: "GetAuthorityMetadata E d c = (r, c') \<Longrightarrow> c' = c"
  using GetAuthorityMetadata_keeps [of E d c] by simp

text \<open>A handler that reads the authority metadata, compares the sender and goes on.\<close>

lemma admin_check_eq_Inr:
  "bindM (GetAuthorityMetadata E d) (\<lambda>am. bindM (guardM (s = GetAdmin (Some am)) ErrUnauthorized) (\<lambda>_. f am)) c
      = (Inr r, c') \<longleftrightarrow>
    (\<exists>am. GetAuthorityMetadata E d c = (Inr am, c) \<and> s = Admin am \<and> f am c = (Inr r, c'))"
  using GetAuthorityMetadata_state [of E d c]
  by (auto simp: bindM_eq_Inr guardM_def action_simps GetAdmin_def split: if_splits)

lemma admin_check_refuses:
  "GetAuthorityMetadata E d c = (Inr am, c) \<Longrightarrow> s \<noteq> Admin am \<Longrightarrow>
    bindM (GetAuthorityMetadata E d) (\<lambda>am. bindM (guardM (s = GetAdmin (Some am)) ErrUnauthorized) (\<lambda>_. f am)) c
      = (Inl ErrUnauthorized, c)"
  by (simp add: bindM_def guardM_def action_simps GetAdmin_def)

interpretation Mint_guard: admin_only E "MsgServer_Mint E" mint_Sender "\<lambda>m. coin_Denom (mint_Amount m)"
  for E :: "('k, 'w) sdk"
  by unfold_locales
    (auto simp: MsgServer_Mint_def bindM_basic bindM_guardM admin_check_eq_Inr admin_check_refuses
      split: if_splits)

interpretation Burn_guard: admin_only E "MsgServer_Burn E" burn_Sender "\<lambda>m. coin_Denom (burn_Amount m)"
  for E :: "('k, 'w) sdk"
  by unfold_locales (auto simp: MsgServer_Burn_def admin_check_eq_Inr admin_check_refuses)

interpretation ForceTransfer_guard: admin_only E "MsgServer_ForceTransfer E" ft_Sender
  "\<lambda>m. coin_Denom (ft_Amount m)"
  for E :: "('k, 'w) sdk"
  by unfold_locales (auto simp: MsgServer_ForceTransfer_def admin_check_eq_Inr admin_check_refuses)

interpretation ChangeAdmin_guard: admin_only E "MsgServer_ChangeAdmin E" ca_Sender ca_Denom
  for E :: "('k, 'w) sdk"
  by unfold_locales (auto simp: MsgServer_ChangeAdmin_def admin_check_eq_Inr admin_check_refuses)

interpretation SetDenomMetadata_guard: admin_only E "MsgServer_SetDenomMetadata E" sdm_Sender
  "\<lambda>m. meta_Base (sdm_Metadata m)"
  for E :: "('k, 'w) sdk"
  by unfold_locales
    (auto simp: MsgServer_SetDenomMetadata_def bindM_liftM admin_check_eq_Inr admin_check_refuses
      split: sum.splits)

section \<open>What the handlers change\<close>

lemma Mint_module_kept: "metadata_laws E \<Longrightarrow> keeps (module_kept E) (MsgServer_Mint E m)"
  unfolding MsgServer_Mint_def Let_def by (intro module_kept_intros mintTo_module_kept)

lemma Burn_module_kept: "metadata_laws E \<Longrightarrow> keeps (module_kept E) (MsgServer_Burn E m)"
  unfolding MsgServer_Burn_def Let_def by (intro module_kept_intros burnFrom_module_kept)

lemma ForceTransfer_module_kept: "metadata_laws E \<Longrightarrow> keeps (module_kept E) (MsgServer_ForceTransfer E m)"
  unfolding MsgServer_ForceTransfer_def by (intro module_kept_intros forceTransfer_module_kept)

lemma SetDenomMetadata_module_kept: "metadata_laws E \<Longrightarrow> keeps (module_kept E) (MsgServer_SetDenomMetadata E m)"
  unfolding MsgServer_SetDenomMetadata_def by (intro module_kept_intros)

lemmas handler_run = bindM_eq_Inr guardM_def action_simps GetAdmin_def EmitEvents_run Let_def

lemma CreateDenom_handler_eq_Inr:
  "MsgServer_CreateDenom E m c = (Inr r, c') \<longleftrightarrow>
    (\<exists>d c1. CreateDenom E (cd_Sender m) (cd_Subdenom m) c = (Inr d, c1) \<and> r = \<lparr>NewTokenDenom = d\<rparr> \<and>
       c' = c1\<lparr>emitted := emitted c1 @ [\<lparr>event_Type = TypeMsgCreateDenom, event_Attributes =
         [(AttributeCreator, cd_Sender m), (AttributeNewTokenDenom, d)]\<rparr>]\<rparr>)"
  by (auto simp: MsgServer_CreateDenom_def handler_run)

lemma ChangeAdmin_handler_eq_Inr:
  assumes "bech32_laws E" and "wf_metadata E (store c)"
  shows "MsgServer_ChangeAdmin E m c = (Inr r, c') \<longleftrightarrow>
    ca_Sender m = admin_or_none (admins E (store c) (ca_Denom m)) \<and> admin_ok E (NewAdmin m) \<and>
    r = MsgChangeAdminResponse \<and>
    c' = c\<lparr>store := put_metadata E (ca_Denom m) \<lparr>Admin = NewAdmin m\<rparr> (store c),
      emitted := emitted c @ [\<lparr>event_Type = TypeMsgChangeAdmin, event_Attributes =
        [(AttributeDenom, ca_Denom m), (AttributeNewAdmin, NewAdmin m)]\<rparr>]\<rparr>"
  using metadata_Validate_eq_Inr [of E "\<lparr>Admin = NewAdmin m\<rparr>"]
  by (auto simp: MsgServer_ChangeAdmin_def handler_run GetAuthorityMetadata_run [OF assms]
      setAdmin_def setAuthorityMetadata_run
      split: if_splits sum.splits)

lemma Mint_handler_eq_Inr:
  assumes "bech32_laws E" and "wf_metadata E (store c)"
  shows "MsgServer_Mint E m c = (Inr r, c') \<longleftrightarrow>
    snd (GetDenomMetaData E (world c) (coin_Denom (mint_Amount m))) \<and>
    mint_Sender m = admin_or_none (admins E (store c) (coin_Denom (mint_Amount m))) \<and>
    r = MsgMintResponse \<and>
    (let to = (if MintToAddress m = '''' then mint_Sender m else MintToAddress m) in
     \<exists>c1. mintTo E (mint_Amount m) to c = (Inr (), c1) \<and>
       c' = c1\<lparr>emitted := emitted c1 @ [\<lparr>event_Type = TypeMsgMint, event_Attributes =
         [(AttributeMintToAddress, to), (AttributeAmount, Coin_String E (mint_Amount m))]\<rparr>]\<rparr>)"
  by (auto simp: MsgServer_Mint_def handler_run GetAuthorityMetadata_run [OF assms]
      split: if_splits)

lemma Burn_handler_eq_Inr:
  assumes "bech32_laws E" and "wf_metadata E (store c)"
  shows "MsgServer_Burn E m c = (Inr r, c') \<longleftrightarrow>
    burn_Sender m = admin_or_none (admins E (store c) (coin_Denom (burn_Amount m))) \<and>
    r = MsgBurnResponse \<and>
    (let from = (if BurnFromAddress m = '''' then burn_Sender m else BurnFromAddress m) in
     GetAccount E (world c) (bytes_of_string from) \<noteq> Some ModuleAccountI \<and>
     (\<exists>c1. burnFrom E (burn_Amount m) from c = (Inr (), c1) \<and>
       c' = c1\<lparr>emitted := emitted c1 @ [\<lparr>event_Type = TypeMsgBurn, event_Attributes =
         [(AttributeBurnFromAddress, from), (AttributeAmount, Coin_String E (burn_Amount m))]\<rparr>]\<rparr>))"
  by (auto simp: MsgServer_Burn_def handler_run GetAuthorityMetadata_run [OF assms]
      split: if_splits)

lemma ForceTransfer_handler_eq_Inr:
  assumes "bech32_laws E" and "wf_metadata E (store c)"
  shows "MsgServer_ForceTransfer E m c = (Inr r, c') \<longleftrightarrow>
    ft_Sender m = admin_or_none (admins E (store c) (coin_Denom (ft_Amount m))) \<and>
    r = MsgForceTransferResponse \<and>
    (\<exists>c1. forceTransfer E (ft_Amount m) (TransferFromAddress m) (TransferToAddress m) c = (Inr (), c1) \<and>
       c' = c1\<lparr>emitted := emitted c1 @ [\<lparr>event_Type = TypeMsgForceTransfer, event_Attributes =
         [(AttributeTransferFromAddress, TransferFromAddress m),
          (AttributeTransferToAddress, TransferToAddress m),
          (AttributeAmount, Coin_String E (ft_Amount m))]\<rparr>]\<rparr>)"
  by (auto simp: MsgServer_ForceTransfer_def handler_run GetAuthorityMetadata_run [OF assms]
      split: if_splits)

lemma SetDenomMetadata_handler_eq_Inr:
  assumes "bech32_laws E" and "wf_metadata E (store c)"
  shows "MsgServer_SetDenomMetadata E m c = (Inr r, c') \<longleftrightarrow>
    Metadata_Validate E (sdm_Metadata m) = Inr () \<and>
    sdm_Sender m = admin_or_none (admins E (store c) (meta_Base (sdm_Metadata m))) \<and>
    r = MsgSetDenomMetadataResponse \<and>
    c' = c\<lparr>world := SetDenomMetaData E (sdm_Metadata m) (world c),
      emitted := emitted c @ [\<lparr>event_Type = TypeMsgSetDenomMetadata, event_Attributes =
        [(AttributeDenom, meta_Base (sdm_Metadata m)),
         (AttributeDenomMetadata, Metadata_String E (sdm_Metadata m))]\<rparr>]\<rparr>"
  by (auto simp: MsgServer_SetDenomMetadata_def handler_run GetAuthorityMetadata_run [OF assms]
      split: if_splits sum.splits)

end
