(* ===== verification/Invariant.thy ===== *)
theory Invariant
  imports HandlerProps
begin

text \<open>
  The invariant of the module's state: every metadata entry is the encoding of a well-formed
  admin, the creator index is well formed, and a denom has authority metadata exactly if it is listed under a
  creator, one only, and then the bank module knows its metadata. The lemmas say which updates keep it.
\<close>

definition Inv :: "('k, 'w) sdk \<Rightarrow> ('k, 'w) ctx \<Rightarrow> bool" where
  "Inv E c \<longleftrightarrow> wf_metadata E (store c) \<and> wf_index E (store c) \<and>
    (\<forall>d a. admins E (store c) d = Some a \<longrightarrow>
       snd (GetDenomMetaData E (world c) d) \<and> (\<exists>cr. created_by E cr d \<and> listed E (store c) cr d)) \<and>
    (\<forall>cr cr' d. CHR ''|'' \<notin> set cr \<longrightarrow> CHR ''|'' \<notin> set cr' \<longrightarrow>
       listed E (store c) cr d \<longrightarrow> listed E (store c) cr' d \<longrightarrow> cr = cr')"

lemma InvD:
  assumes "Inv E c"
  shows "wf_metadata E (store c)" and "wf_index E (store c)"
    and "admins E (store c) d = Some a \<Longrightarrow> snd (GetDenomMetaData E (world c) d)"
    and "admins E (store c) d = Some a \<Longrightarrow> \<exists>cr. created_by E cr d \<and> listed E (store c) cr d"
    and "CHR ''|'' \<notin> set cr \<Longrightarrow> CHR ''|'' \<notin> set cr' \<Longrightarrow> listed E (store c) cr d \<Longrightarrow>
      listed E (store c) cr' d \<Longrightarrow> cr = cr'"
  using assms unfolding Inv_def by blast+

text \<open>A listed denom has authority metadata and was created by the creator it is listed under.\<close>

lemma listed_entry:
  assumes laws: "store_laws E" "bech32_laws E" and wf: "wf_index E s" and li: "listed E s cr d"
    and cr: "CHR ''|'' \<notin> set cr"
  shows "created_by E cr d \<and> admins E s d \<noteq> None"
proof -
  obtain v where "store_Get E s (GetCreatorPrefix cr) (bytes_of_string d) = Some v"
    using li by (auto simp: listed_def)
  then have "store_Get E s GetCreatorsPrefix (bytes_of_string (cr @ CHR ''|'' # d)) = Some v"
    using store_Get_split [OF laws(1) creator_key_creators] by metis
  then obtain cr' d' where "bytes_of_string (cr @ CHR ''|'' # d) = bytes_of_string (cr' @ CHR ''|'' # d')"
    and c: "created_by E cr' d'" "admins E s d' \<noteq> None"
    using wf unfolding wf_index_def by blast
  then have "cr' = cr \<and> d' = d"
    using cr created_by_no_sep [OF laws(2) c(1)] by (simp add: append_sep_eq_iff)
  with c show ?thesis by simp
qed

lemma Inv_admin_ok:
  assumes "bech32_laws E" and "Inv E c" and "admins E (store c) d = Some a"
  shows "admin_ok E a"
proof -
  obtain b where b: "metadata_entry E (store c) d = Some b"
    using assms(3) by (auto simp: admins_def split: option.splits)
  then obtain a' where "b = DenomAuthorityMetadata_bytes \<lparr>Admin = a'\<rparr>" and "admin_ok E a'"
    using InvD(1) [OF assms(2)] by (auto simp: wf_metadata_def)
  with b assms(3) show ?thesis
    by (simp add: admins_def metadata_of_bytes [OF assms(1)])
qed

lemma Inv_denom_ok:
  "bech32_laws E \<Longrightarrow> Inv E c \<Longrightarrow> admins E (store c) d = Some a \<Longrightarrow> denom_ok E d"
  using InvD(4) created_by_denom_ok by metis

section \<open>Updates that keep the invariant\<close>

lemma Inv_empty:
  assumes "\<And>p k. store_Get E (store c) p k = None"
  shows "Inv E c"
  using assms by (simp add: Inv_def wf_metadata_def wf_index_def metadata_entry_def admins_def listed_def)

lemma Inv_emitted [simp]: "Inv E (c\<lparr>emitted := es\<rparr>) \<longleftrightarrow> Inv E c"
  by (simp add: Inv_def)

lemma Inv_module_kept: "Inv E c \<Longrightarrow> module_kept E c c' \<Longrightarrow> Inv E c'"
  by (auto simp: Inv_def module_kept_def)

lemma Inv_put_metadata:
  assumes laws: "store_laws E" "bech32_laws E" and inv: "Inv E c" and reg: "admins E (store c) d \<noteq> None"
    and ok: "admin_ok E (Admin m)"
  shows "Inv E (c\<lparr>store := put_metadata E d m (store c)\<rparr>)"
  using InvD [OF inv] reg
  by (auto simp: Inv_def wf_put_metadata [OF laws ok] admins_put_metadata [OF laws ok]
      listed_put_metadata [OF laws(1)] split: if_splits)

lemma Inv_put_created:
  assumes laws: "store_laws E" "bech32_laws E" "metadata_laws E" and inv: "Inv E c"
    and new: "admins E (store c) d = None" and cb: "created_by E cr d"
  shows "Inv E (c\<lparr>store := put_created E cr d (store c), world := add_metadata E d (world c)\<rparr>)"
proof -
  note ok = created_by_admin_ok [OF cb]
  have cr: "CHR ''|'' \<notin> set cr" by (rule created_by_no_sep [OF laws(2) cb])
  have fresh: "\<not> listed E (store c) cr' d" if "CHR ''|'' \<notin> set cr'" for cr'
    using listed_entry [OF laws(1,2) InvD(2) [OF inv] _ that] new by blast
  have li: "listed E (put_created E cr d (store c)) cr' d' \<longleftrightarrow> cr' = cr \<and> d' = d \<or> listed E (store c) cr' d'"
    if "CHR ''|'' \<notin> set cr'" for cr' d'
    using that cr by (simp add: put_created_def listed_put_listed laws(1) listed_put_metadata)
  have reg: "snd (GetDenomMetaData E (add_metadata E d (world c)) d') \<and>
      (\<exists>cr'. created_by E cr' d' \<and> listed E (put_created E cr d (store c)) cr' d')"
    if "admins E (put_created E cr d (store c)) d' = Some a" for d' a
  proof (cases "d' = d")
    case True
    with cb listed_put_created(1) [OF laws(1)] show ?thesis
      by (auto simp: GetDenomMetaData_add [OF laws(3)])
  next
    case False
    with that have "admins E (store c) d' = Some a"
      by (simp add: admins_put_created [OF laws(1,2) ok])
    with InvD(3,4) [OF inv] listed_put_created(2) [OF laws(1)] show ?thesis
      unfolding GetDenomMetaData_add [OF laws(3)] by blast
  qed
  show ?thesis
    unfolding Inv_def
    using InvD(5) [OF inv] fresh reg
    by (simp add: wf_put_created [OF laws(1,2) cb ok] InvD(1,2) [OF inv] li)
qed

end
