(* ===== verification/System.thy ===== *)
theory System
  imports Invariant
begin

text \<open>
  The module on a chain: messages are dispatched to their handlers as the generated service
  descriptor does (\<open>types/tx.pb.go\<close>), transactions run their messages in order on a branch of the
  state that is dropped on an error or a panic (the contract of the SDK's baseapp), and between
  transactions other modules act on their own state. The registry of admins is refined from an
  abstract machine, and the invariant holds in every reachable state.
\<close>

section \<open>Messages and transactions\<close>

datatype Msg =
    CreateDenomMsg MsgCreateDenom
  | MintMsg MsgMint
  | BurnMsg MsgBurn
  | ForceTransferMsg MsgForceTransfer
  | ChangeAdminMsg MsgChangeAdmin
  | SetDenomMetadataMsg MsgSetDenomMetadata

fun Msg_ValidateBasic :: "('k, 'w) sdk \<Rightarrow> Msg \<Rightarrow> unit result" where
  "Msg_ValidateBasic E (CreateDenomMsg m) = MsgCreateDenom_ValidateBasic E m"
| "Msg_ValidateBasic E (MintMsg m) = MsgMint_ValidateBasic E m"
| "Msg_ValidateBasic E (BurnMsg m) = MsgBurn_ValidateBasic E m"
| "Msg_ValidateBasic E (ForceTransferMsg m) = MsgForceTransfer_ValidateBasic E m"
| "Msg_ValidateBasic E (ChangeAdminMsg m) = MsgChangeAdmin_ValidateBasic E m"
| "Msg_ValidateBasic E (SetDenomMetadataMsg m) = MsgSetDenomMetadata_ValidateBasic E m"

definition ignore :: "('s, 'a) action \<Rightarrow> ('s, unit) action" where
  "ignore m = bindM m (\<lambda>_. retM ())"

fun Msg_handle :: "('k, 'w) sdk \<Rightarrow> Msg \<Rightarrow> ('k, 'w, unit) keeper" where
  "Msg_handle E (CreateDenomMsg m) = ignore (MsgServer_CreateDenom E m)"
| "Msg_handle E (MintMsg m) = ignore (MsgServer_Mint E m)"
| "Msg_handle E (BurnMsg m) = ignore (MsgServer_Burn E m)"
| "Msg_handle E (ForceTransferMsg m) = ignore (MsgServer_ForceTransfer E m)"
| "Msg_handle E (ChangeAdminMsg m) = ignore (MsgServer_ChangeAdmin E m)"
| "Msg_handle E (SetDenomMetadataMsg m) = ignore (MsgServer_SetDenomMetadata E m)"

fun validate_msgs :: "('k, 'w) sdk \<Rightarrow> Msg list \<Rightarrow> unit result" where
  "validate_msgs E [] = Inr ()"
| "validate_msgs E (m # ms) = andThen (Msg_ValidateBasic E m) (\<lambda>_. validate_msgs E ms)"

fun run_msgs :: "('k, 'w) sdk \<Rightarrow> Msg list \<Rightarrow> ('k, 'w, unit) keeper" where
  "run_msgs E [] = retM ()"
| "run_msgs E (m # ms) = bindM (Msg_handle E m) (\<lambda>_. run_msgs E ms)"

definition deliver_tx :: "('k, 'w) sdk \<Rightarrow> Msg list \<Rightarrow> ('k, 'w, unit) keeper" where
  "deliver_tx E ms c = (case validate_msgs E ms of
      Inl e \<Rightarrow> (Inl e, c)
    | Inr _ \<Rightarrow> (case run_msgs E ms c of
        (Inl e, c') \<Rightarrow> (Inl e, c)
      | (Inr _, c') \<Rightarrow> (Inr (), c')))"

lemma validate_msgs_eq_Inr: "validate_msgs E ms = Inr () \<longleftrightarrow> (\<forall>m \<in> set ms. Msg_ValidateBasic E m = Inr ())"
  by (induction ms) (auto simp: andThen_eq_Inr)

lemma deliver_tx_eq_Inr:
  "deliver_tx E ms c = (Inr (), c') \<longleftrightarrow> validate_msgs E ms = Inr () \<and> run_msgs E ms c = (Inr (), c')"
  by (auto simp: deliver_tx_def split: sum.splits prod.splits)

lemma deliver_tx_eq_Inl: "deliver_tx E ms c = (Inl e, c') \<Longrightarrow> c' = c"
  by (auto simp: deliver_tx_def split: sum.splits prod.splits)

lemma ignore_eq_Inr: "ignore m c = (Inr (), c') \<longleftrightarrow> (\<exists>r. m c = (Inr r, c'))"
  by (auto simp: ignore_def bindM_eq_Inr action_simps)

section \<open>The abstract registry\<close>

text \<open>What the module promises of admins: a denom is created once, with its creator as admin; only
  \<open>ChangeAdmin\<close> of the current admin changes the admin; the other messages need the admin and
  leave the registry as it is. \<open>None\<close> is a message the registry does not allow.\<close>

type_synonym registry = "string \<Rightarrow> string option"

definition spec_admin :: "string \<Rightarrow> string \<Rightarrow> registry \<Rightarrow> registry \<Rightarrow> registry option" where
  "spec_admin sender d R' R = (if R d = Some sender then Some R' else None)"

fun spec_msg :: "Msg \<Rightarrow> registry \<Rightarrow> registry option" where
  "spec_msg (CreateDenomMsg m) R =
    (let d = ''factory/'' @ cd_Sender m @ CHR ''/'' # cd_Subdenom m
     in if R d = None then Some (R(d \<mapsto> cd_Sender m)) else None)"
| "spec_msg (MintMsg m) R = spec_admin (mint_Sender m) (coin_Denom (mint_Amount m)) R R"
| "spec_msg (BurnMsg m) R = spec_admin (burn_Sender m) (coin_Denom (burn_Amount m)) R R"
| "spec_msg (ForceTransferMsg m) R = spec_admin (ft_Sender m) (coin_Denom (ft_Amount m)) R R"
| "spec_msg (ChangeAdminMsg m) R =
    spec_admin (ca_Sender m) (ca_Denom m) (R(ca_Denom m \<mapsto> NewAdmin m)) R"
| "spec_msg (SetDenomMetadataMsg m) R = spec_admin (sdm_Sender m) (meta_Base (sdm_Metadata m)) R R"

fun spec_msgs :: "Msg list \<Rightarrow> registry \<Rightarrow> registry option" where
  "spec_msgs [] R = Some R"
| "spec_msgs (m # ms) R = (case spec_msg m R of None \<Rightarrow> None | Some R' \<Rightarrow> spec_msgs ms R')"

section \<open>Every message keeps the invariant and refines the registry\<close>

definition sdk_laws :: "('k, 'w) sdk \<Rightarrow> bool" where
  "sdk_laws E \<longleftrightarrow> store_laws E \<and> bech32_laws E \<and> metadata_laws E \<and> coins_laws E"

lemma sdk_lawsD:
  assumes "sdk_laws E"
  shows "store_laws E" and "bech32_laws E" and "metadata_laws E" and "coins_laws E"
  using assms by (simp_all add: sdk_laws_def)

text \<open>A validated message comes from an address, so its sender is not the empty string.\<close>

lemma orErr_address: "bech32_laws E \<Longrightarrow> orErr (AccAddressFromBech32 E s) e = Inr a \<Longrightarrow> s \<noteq> ''''"
  using bech32_empty [of E] by (auto simp: orErr_eq_Inr)

lemma senders_not_empty:
  assumes "bech32_laws E"
  shows "MsgCreateDenom_ValidateBasic E m1 = Inr () \<Longrightarrow> cd_Sender m1 \<noteq> ''''"
    and "MsgMint_ValidateBasic E m2 = Inr () \<Longrightarrow> mint_Sender m2 \<noteq> ''''"
    and "MsgBurn_ValidateBasic E m3 = Inr () \<Longrightarrow> burn_Sender m3 \<noteq> ''''"
    and "MsgForceTransfer_ValidateBasic E m4 = Inr () \<Longrightarrow> ft_Sender m4 \<noteq> ''''"
    and "MsgChangeAdmin_ValidateBasic E m5 = Inr () \<Longrightarrow> ca_Sender m5 \<noteq> ''''"
    and "MsgSetDenomMetadata_ValidateBasic E m6 = Inr () \<Longrightarrow> sdm_Sender m6 \<noteq> ''''"
  using orErr_address [OF assms]
  by (auto simp: MsgCreateDenom_ValidateBasic_def MsgMint_ValidateBasic_def MsgBurn_ValidateBasic_def
      MsgForceTransfer_ValidateBasic_def MsgChangeAdmin_ValidateBasic_def
      MsgSetDenomMetadata_ValidateBasic_def andThen_eq_Inr)

lemma created_is_listed:
  assumes "store_laws E" and "MsgServer_CreateDenom E m c = (Inr r, c')"
  shows "NewTokenDenom r = ''factory/'' @ cd_Sender m @ CHR ''/'' # cd_Subdenom m"
    and "listed E (store c') (cd_Sender m) (NewTokenDenom r)"
  using assms(2) listed_put_created(1) [OF assms(1)]
  by (auto simp: CreateDenom_handler_eq_Inr CreateDenom_eq_Inr GetTokenDenom_eq_Inr)

lemma CreateDenom_step:
  assumes laws: "sdk_laws E" and inv: "Inv E c" and v: "MsgCreateDenom_ValidateBasic E m = Inr ()"
    and run: "MsgServer_CreateDenom E m c = (Inr r, c')"
  shows "Inv E c' \<and> spec_msg (CreateDenomMsg m) (admins E (store c)) = Some (admins E (store c'))"
proof -
  note l = sdk_lawsD [OF laws]
  obtain d c1 where cd: "CreateDenom E (cd_Sender m) (cd_Subdenom m) c = (Inr d, c1)"
    and c': "store c' = store c1" "Inv E c' \<longleftrightarrow> Inv E c1"
    using run unfolding CreateDenom_handler_eq_Inr by auto
  obtain c2 where d: "GetTokenDenom E (cd_Sender m) (cd_Subdenom m) = Inr d"
    and found: "\<not> snd (GetDenomMetaData E (world c) d)" and ok: "admin_ok E (cd_Sender m)"
    and ch: "chargeForCreateDenom E (cd_Sender m) c = (Inr (), c2)"
    and c1: "c1 = c2\<lparr>store := put_created E (cd_Sender m) d (store c2), world := add_metadata E d (world c2)\<rparr>"
    using cd unfolding CreateDenom_eq_Inr by blast
  obtain a where "AccAddressFromBech32 E (cd_Sender m) = Inr a"
    using v by (auto simp: MsgCreateDenom_ValidateBasic_def andThen_eq_Inr orErr_eq_Inr)
  then have cb: "created_by E (cd_Sender m) d" by (rule GetTokenDenom_created_by [OF d])
  have inv2: "Inv E c2"
    using Inv_module_kept [OF inv] keepsD [OF chargeForCreateDenom_module_kept [OF l(3)] ch] .
  have s2: "store c2 = store c" using chargeForCreateDenom_metadata [OF l(3) ch] by simp
  have new: "admins E (store c2) d = None"
    using InvD(3) [OF inv] found s2 by (cases "admins E (store c) d") auto
  have "Inv E c1" unfolding c1 by (rule Inv_put_created [OF l(1-3) inv2 new cb])
  moreover have "admins E (store c1) = (admins E (store c))(d \<mapsto> cd_Sender m)"
    by (simp add: c1 s2 admins_put_created [OF l(1,2) ok])
  moreover have "d = ''factory/'' @ cd_Sender m @ CHR ''/'' # cd_Subdenom m"
    using d by (simp add: GetTokenDenom_eq_Inr)
  ultimately show ?thesis using new c' s2 by (simp add: Let_def)
qed

lemma ChangeAdmin_step:
  assumes laws: "sdk_laws E" and inv: "Inv E c" and v: "MsgChangeAdmin_ValidateBasic E m = Inr ()"
    and run: "MsgServer_ChangeAdmin E m c = (Inr r, c')"
  shows "Inv E c' \<and> spec_msg (ChangeAdminMsg m) (admins E (store c)) = Some (admins E (store c'))"
proof -
  note l = sdk_lawsD [OF laws]
  have reg: "admins E (store c) (ca_Denom m) = Some (ca_Sender m)"
    using ChangeAdmin_guard.sender_is_registered_admin [OF l(2) InvD(1) [OF inv] run]
      senders_not_empty(5) [OF l(2) v] by simp
  have ok: "admin_ok E (NewAdmin m)" and
    c': "store c' = put_metadata E (ca_Denom m) \<lparr>Admin = NewAdmin m\<rparr> (store c)" "world c' = world c"
    using run by (simp_all add: ChangeAdmin_handler_eq_Inr [OF l(2) InvD(1) [OF inv]])
  have "Inv E (c\<lparr>store := put_metadata E (ca_Denom m) \<lparr>Admin = NewAdmin m\<rparr> (store c)\<rparr>)"
    using Inv_put_metadata [OF l(1,2) inv, of "ca_Denom m" "\<lparr>Admin = NewAdmin m\<rparr>"] reg ok by simp
  then have "Inv E c'" using c' by (simp add: Inv_def)
  then show ?thesis
    using reg ok by (simp add: spec_admin_def c' admins_put_metadata [OF l(1,2)])
qed

text \<open>A handler for the admin that leaves the module's store alone refines the registry's check.\<close>

context admin_only begin

lemma kept_step:
  assumes laws: "sdk_laws E" and inv: "Inv E c" and run: "handler m c = (Inr r, c')"
    and sender: "sender m \<noteq> ''''" and kept: "keeps (module_kept E) (handler m)"
  shows "Inv E c' \<and>
    spec_admin (sender m) (denom m) (admins E (store c)) (admins E (store c)) = Some (admins E (store c'))"
  using sender_is_registered_admin [OF sdk_lawsD(2) [OF laws] InvD(1) [OF inv] run sender]
    Inv_module_kept [OF inv keepsD [OF kept run]] keepsD [OF kept run]
  by (simp add: spec_admin_def module_kept_def)

end

lemma Msg_step:
  assumes laws: "sdk_laws E" and inv: "Inv E c" and v: "Msg_ValidateBasic E m = Inr ()"
    and run: "Msg_handle E m c = (Inr (), c')"
  shows "Inv E c' \<and> spec_msg m (admins E (store c)) = Some (admins E (store c'))"
proof -
  note l = sdk_lawsD [OF laws] and sender = senders_not_empty [OF sdk_lawsD(2) [OF laws]]
  show ?thesis
  proof (cases m)
    case (CreateDenomMsg x)
    with v run CreateDenom_step [OF laws inv] show ?thesis by (auto simp: ignore_eq_Inr)
  next
    case (MintMsg x)
    with v run Mint_guard.kept_step [OF laws inv _ _ Mint_module_kept [OF l(3)]] sender(2) show ?thesis
      by (auto simp: ignore_eq_Inr)
  next
    case (BurnMsg x)
    with v run Burn_guard.kept_step [OF laws inv _ _ Burn_module_kept [OF l(3)]] sender(3) show ?thesis
      by (auto simp: ignore_eq_Inr)
  next
    case (ForceTransferMsg x)
    with v run ForceTransfer_guard.kept_step [OF laws inv _ _ ForceTransfer_module_kept [OF l(3)]] sender(4)
    show ?thesis by (auto simp: ignore_eq_Inr)
  next
    case (ChangeAdminMsg x)
    with v run ChangeAdmin_step [OF laws inv] show ?thesis by (auto simp: ignore_eq_Inr)
  next
    case (SetDenomMetadataMsg x)
    with v run SetDenomMetadata_guard.kept_step [OF laws inv _ _ SetDenomMetadata_module_kept [OF l(3)]] sender(6)
    show ?thesis by (auto simp: ignore_eq_Inr)
  qed
qed

lemma Msgs_step:
  assumes "sdk_laws E"
  shows "Inv E c \<Longrightarrow> validate_msgs E ms = Inr () \<Longrightarrow> run_msgs E ms c = (Inr (), c') \<Longrightarrow>
    Inv E c' \<and> spec_msgs ms (admins E (store c)) = Some (admins E (store c'))"
proof (induction ms arbitrary: c)
  case (Cons m ms)
  then obtain c1 where "Msg_handle E m c = (Inr (), c1)" and "run_msgs E ms c1 = (Inr (), c')"
    by (auto simp: bindM_eq_Inr)
  with Cons Msg_step [OF assms Cons.prems(1)] show ?case
    by (fastforce simp: andThen_eq_Inr)
qed (simp add: action_simps)

end
