(* ===== verification/GenesisProps.thy ===== *)
theory GenesisProps
  imports Invariant
begin

text \<open>
  Genesis: what \<open>InitGenesis\<close> leaves in the store, when it panics, and what \<open>ExportGenesis\<close> reads
  back. Both are stated over the registry view of the store.
\<close>

section \<open>Importing one denom\<close>

definition creator_of :: "('k, 'w) sdk \<Rightarrow> string \<Rightarrow> string" where
  "creator_of E d = (case DeconstructDenom E d of Inl e \<Rightarrow> '''' | Inr p \<Rightarrow> fst p)"

definition import_denom :: "('k, 'w) sdk \<Rightarrow> GenesisDenom \<Rightarrow> ('k, 'w) ctx \<Rightarrow> ('k, 'w) ctx" where
  "import_denom E g c = c\<lparr>
     world := add_metadata E (gd_Denom g) (world c),
     store := put_metadata E (gd_Denom g) (gd_AuthorityMetadata g)
       (put_created E (creator_of E (gd_Denom g)) (gd_Denom g) (store c))\<rparr>"

definition genesis_denom_ok :: "('k, 'w) sdk \<Rightarrow> GenesisDenom \<Rightarrow> bool" where
  "genesis_denom_ok E g \<longleftrightarrow> denom_ok E (gd_Denom g) \<and> admin_ok E (Admin (gd_AuthorityMetadata g))"

lemma creator_of_created_by:
  assumes "bech32_laws E" and "denom_ok E d"
  shows "created_by E (creator_of E d) d"
proof -
  obtain cr sub where "DeconstructDenom E d = Inr (cr, sub)"
    using assms(2) by (auto simp: denom_ok_def)
  then show ?thesis
    using DeconstructDenom_created_by [OF assms(1)] by (simp add: creator_of_def)
qed

lemma init_FactoryDenoms_Cons:
  assumes "bech32_laws E"
  shows "init_FactoryDenoms E (g # gs) c = (Inr (), c') \<longleftrightarrow>
    genesis_denom_ok E g \<and> init_FactoryDenoms E gs (import_denom E g c) = (Inr (), c')"
proof (cases "denom_ok E (gd_Denom g)")
  case False
  then obtain e where "DeconstructDenom E (gd_Denom g) = Inl e"
    by (cases "DeconstructDenom E (gd_Denom g)") (auto simp: denom_ok_def)
  with False show ?thesis
    by (simp add: GenesisDenom_GetDenom_def orPanic_def bindM_def action_simps genesis_denom_ok_def)
next
  case True
  then obtain cr sub where d: "DeconstructDenom E (gd_Denom g) = Inr (cr, sub)" and cr: "creator_of E (gd_Denom g) = cr"
    by (auto simp: denom_ok_def creator_of_def)
  have "admin_ok E cr"
    using creator_of_created_by [OF assms True] cr created_by_admin_ok by metis
  with True d show ?thesis
    using metadata_Validate_eq_Inr [of E "gd_AuthorityMetadata g"]
    by (cases "DenomAuthorityMetadata_Validate E (gd_AuthorityMetadata g)")
      (simp_all add: GenesisDenom_GetDenom_def GenesisDenom_GetAuthorityMetadata_def orPanic_def bindM_def
        action_simps createDenomAfterValidation_ok setAuthorityMetadata_run genesis_denom_ok_def
        import_denom_def cr)
qed

lemma init_FactoryDenoms_eq_Inr:
  assumes "bech32_laws E"
  shows "init_FactoryDenoms E gs c = (Inr (), c') \<longleftrightarrow>
    list_all (genesis_denom_ok E) gs \<and> c' = fold (import_denom E) gs c"
proof (induction gs arbitrary: c)
  case (Cons g gs)
  show ?case unfolding init_FactoryDenoms_Cons [OF assms] Cons.IH by auto
qed (auto simp: action_simps)

section \<open>The state after the import\<close>

text \<open>All listings are under the creator that the denom itself names, in its canonical spelling.\<close>

definition canonical :: "('k, 'w) sdk \<Rightarrow> ('k, 'w) ctx \<Rightarrow> bool" where
  "canonical E c \<longleftrightarrow> wf_metadata E (store c) \<and> wf_index E (store c) \<and>
    (\<forall>d a. admins E (store c) d = Some a \<longrightarrow>
       snd (GetDenomMetaData E (world c) d) \<and> denom_ok E d \<and> listed E (store c) (creator_of E d) d) \<and>
    (\<forall>cr d. CHR ''|'' \<notin> set cr \<longrightarrow> listed E (store c) cr d \<longrightarrow> cr = creator_of E d)"

lemma canonical_Inv: "bech32_laws E \<Longrightarrow> canonical E c \<Longrightarrow> Inv E c"
  unfolding canonical_def Inv_def using creator_of_created_by by metis

lemma canonical_empty: "(\<And>p k. store_Get E (store c) p k = None) \<Longrightarrow> canonical E c"
  by (simp add: canonical_def wf_metadata_def wf_index_def metadata_entry_def admins_def listed_def)

lemma import_denom_admins:
  assumes "store_laws E" and "bech32_laws E" and "genesis_denom_ok E g"
  shows "admins E (store (import_denom E g c)) =
    (admins E (store c))(gd_Denom g \<mapsto> Admin (gd_AuthorityMetadata g))"
proof -
  have "admin_ok E (creator_of E (gd_Denom g))" and "admin_ok E (Admin (gd_AuthorityMetadata g))"
    using assms(2,3) creator_of_created_by created_by_admin_ok unfolding genesis_denom_ok_def by blast+
  with assms(1,2) show ?thesis
    by (simp add: import_denom_def admins_put_metadata admins_put_created)
qed

lemma import_denom_canonical:
  assumes laws: "store_laws E" "bech32_laws E" "metadata_laws E" and c: "canonical E c" and g: "genesis_denom_ok E g"
  shows "canonical E (import_denom E g c)"
proof -
  let ?d = "gd_Denom g" and ?m = "gd_AuthorityMetadata g"
  let ?cr = "creator_of E ?d" and ?s = "store c"
  let ?s' = "put_metadata E ?d ?m (put_created E ?cr ?d ?s)"
  have d: "denom_ok E ?d" and m: "admin_ok E (Admin ?m)" using g by (simp_all add: genesis_denom_ok_def)
  have cb: "created_by E ?cr ?d" by (rule creator_of_created_by [OF laws(2) d])
  have sep: "CHR ''|'' \<notin> set ?cr" by (rule created_by_no_sep [OF laws(2) cb])
  have li: "listed E ?s' cr d' \<longleftrightarrow> cr = ?cr \<and> d' = ?d \<or> listed E ?s cr d'" if "CHR ''|'' \<notin> set cr" for cr d'
    using that sep by (simp add: put_created_def listed_put_listed laws(1) listed_put_metadata)
  have li': "listed E ?s' ?cr ?d" and mono: "\<And>cr d'. listed E ?s cr d' \<Longrightarrow> listed E ?s' cr d'"
    using listed_put_created [OF laws(1)] by (simp_all add: listed_put_metadata [OF laws(1)])
  have ad: "admins E ?s' = (admins E ?s)(?d \<mapsto> Admin ?m)"
    using import_denom_admins [OF laws(1,2) g, of c] by (simp add: import_denom_def)
  have "wf_metadata E ?s'" and "wf_index E ?s'"
    using c by (simp_all add: canonical_def wf_put_metadata [OF laws(1,2) m]
        wf_put_created [OF laws(1,2) cb created_by_admin_ok [OF cb]])
  then show ?thesis
    using c d li li' mono ad
    by (simp add: canonical_def import_denom_def GetDenomMetaData_add [OF laws(3)])
qed

lemma fold_import_canonical:
  assumes laws: "store_laws E" "bech32_laws E" "metadata_laws E"
  shows "canonical E c \<Longrightarrow> list_all (genesis_denom_ok E) gs \<Longrightarrow> canonical E (fold (import_denom E) gs c)"
  by (induction gs arbitrary: c) (simp_all add: import_denom_canonical [OF laws])

lemma fold_import_admins:
  assumes "store_laws E" and "bech32_laws E"
  shows "list_all (genesis_denom_ok E) gs \<Longrightarrow> admins E (store (fold (import_denom E) gs c)) =
    admins E (store c) ++ map_of (rev (map (\<lambda>g. (gd_Denom g, Admin (gd_AuthorityMetadata g))) gs))"
  by (induction gs arbitrary: c) (simp_all add: import_denom_admins [OF assms])

section \<open>InitGenesis\<close>

text \<open>The parameters \<open>InitGenesis\<close> writes: a nil fee is replaced by no coins.\<close>

definition genesis_params :: "('k, 'w) sdk \<Rightarrow> GenesisState \<Rightarrow> Params" where
  "genesis_params E gs = (if DenomCreationFee (gs_Params gs) = None
     then (gs_Params gs)\<lparr>DenomCreationFee := Some []\<rparr> else gs_Params gs)"

lemma InitGenesis_eq_Inr:
  assumes "coins_laws E" and "bech32_laws E"
  shows "InitGenesis E gs c = (Inr (), c') \<longleftrightarrow>
    (\<exists>c1 c2. CreateModuleAccount E c = (Inr (), c1) \<and> SetParams E (genesis_params E gs) c1 = (Inr (), c2) \<and>
       list_all (genesis_denom_ok E) (FactoryDenoms gs) \<and>
       c' = fold (import_denom E) (FactoryDenoms gs) c2)"
proof -
  have nil: "NewCoins E [] = Inr (Some [])" using assms(1) by (simp add: coins_laws_def)
  show ?thesis
    by (auto simp: InitGenesis_def bindM_eq_Inr action_simps nil genesis_params_def
        GenesisState_GetFactoryDenoms_def init_FactoryDenoms_eq_Inr [OF assms(2)] split: if_splits)
qed

lemma worldM_store: "worldM f c = (r, c') \<Longrightarrow> store c' = store c \<and> emitted c' = emitted c"
  by (auto simp: worldM_eq)

lemma InitGenesis_canonical:
  assumes laws: "store_laws E" "bech32_laws E" "metadata_laws E" "coins_laws E"
    and empty: "\<And>p k. store_Get E (store c) p k = None"
    and run: "InitGenesis E gs c = (Inr (), c')"
  shows "canonical E c'"
    and "admins E (store c') = map_of (rev (map (\<lambda>g. (gd_Denom g, Admin (gd_AuthorityMetadata g))) (FactoryDenoms gs)))"
proof -
  obtain c1 c2 where c1: "CreateModuleAccount E c = (Inr (), c1)"
    and c2: "SetParams E (genesis_params E gs) c1 = (Inr (), c2)"
    and ok: "list_all (genesis_denom_ok E) (FactoryDenoms gs)"
    and c': "c' = fold (import_denom E) (FactoryDenoms gs) c2"
    using run unfolding InitGenesis_eq_Inr [OF laws(4,2)] by blast
  have s: "store c2 = store c"
    using worldM_store c1 c2 unfolding CreateModuleAccount_def SetParams_def by metis
  have "canonical E c2" using empty s by (intro canonical_empty) simp
  then show "canonical E c'" unfolding c' using ok by (rule fold_import_canonical [OF laws(1-3)])
  have "admins E (store c2) = Map.empty"
    using empty s by (simp add: fun_eq_iff admins_def metadata_entry_def)
  then show "admins E (store c') = map_of (rev (map (\<lambda>g. (gd_Denom g, Admin (gd_AuthorityMetadata g))) (FactoryDenoms gs)))"
    unfolding c' using fold_import_admins [OF laws(1,2) ok, of c2] by simp
qed

section \<open>Parameters\<close>

definition same_params :: "Params \<Rightarrow> Params \<Rightarrow> bool" where
  "same_params p p' \<longleftrightarrow> coins_list (DenomCreationFee p') = coins_list (DenomCreationFee p) \<and>
    DenomCreationGasConsume p' = DenomCreationGasConsume p"

lemma read_params_same:
  assumes "list_all2 same_param [PCoins fee, PUint64 gas] vs"
  obtains fee' where "read_params vs = Inr \<lparr>DenomCreationFee = fee', DenomCreationGasConsume = gas\<rparr>"
    and "coins_list fee' = coins_list fee"
proof -
  obtain x y where "vs = [x, y]" and x: "same_param (PCoins fee) x" and y: "same_param (PUint64 gas) y"
    using assms by (auto simp: list_all2_Cons1)
  moreover obtain fee' where "x = PCoins fee'" and "coins_list fee = coins_list fee'"
    using x by (cases x) auto
  moreover have "y = PUint64 gas" using y by (cases y) auto
  ultimately show thesis using that [of fee'] by simp
qed

lemma SetParams_GetParams:
  assumes "param_laws E" and "Params_Validate E p = Inr ()"
  obtains c' p' where "SetParams E p c = (Inr (), c')" and "same_params p p'"
    and "\<And>c2. GetParamSet E (world c2) = GetParamSet E (world c') \<Longrightarrow> GetParams E c2 = (Inr p', c2)"
proof -
  obtain w' vs where w': "SetParamSet E (world c) (ParamSetPairs E p) = (Inr (), w')"
    and vs: "GetParamSet E w' (map pair_Key (ParamSetPairs E p)) = Inr vs"
    and same: "list_all2 same_param (map pair_Value (ParamSetPairs E p)) vs"
    using param_lawsD(1) [OF assms(1), of "ParamSetPairs E p"] assms(2) valid_pairs param_keys_distinct by blast
  obtain fee' where rd: "read_params vs =
      Inr \<lparr>DenomCreationFee = fee', DenomCreationGasConsume = DenomCreationGasConsume p\<rparr>" (is "_ = Inr ?p'")
    and fee': "coins_list fee' = coins_list (DenomCreationFee p)"
    by (rule read_params_same [of "DenomCreationFee p" "DenomCreationGasConsume p" vs])
      (use same in \<open>simp add: ParamSetPairs_def\<close>)
  show thesis
  proof
    show "SetParams E p c = (Inr (), c\<lparr>world := w'\<rparr>)"
      by (simp add: SetParams_def worldM_def w')
    show "same_params p ?p'" by (simp add: same_params_def fee')
    show "GetParams E c2 = (Inr ?p', c2)" if "GetParamSet E (world c2) = GetParamSet E (world (c\<lparr>world := w'\<rparr>))" for c2
      using that vs rd by (simp add: GetParams_def param_keys action_simps)
  qed
qed

lemma import_denom_params:
  "param_laws E \<Longrightarrow> GetParamSet E (world (import_denom E g c)) = GetParamSet E (world c)"
  by (simp add: import_denom_def add_metadata_def param_lawsD(2) fun_eq_iff)

lemma fold_import_params:
  "param_laws E \<Longrightarrow> GetParamSet E (world (fold (import_denom E) gs c)) = GetParamSet E (world c)"
  by (induction gs arbitrary: c) (simp_all add: import_denom_params)

text \<open>A valid genesis state is imported without a panic, and its parameters are read back.\<close>

lemma genesis_params_valid:
  assumes "coins_laws E" and "GenesisState_Validate E gs = Inr ()"
  shows "Params_Validate E (genesis_params E gs) = Inr ()"
proof -
  have "Coins_Validate E (DenomCreationFee (gs_Params gs)) = Inr ()"
    using assms(2) by (simp add: GenesisState_Validate_eq_Inr)
  moreover have "Coins_Validate E (Some []) = Coins_Validate E None"
    using assms(1) unfolding coins_laws_def by (metis coins_list.simps)
  ultimately show ?thesis
    by (auto simp: Params_Validate_eq_Inr genesis_params_def)
qed

lemma same_genesis_params: "same_params (genesis_params E gs) p \<Longrightarrow> same_params (gs_Params gs) p"
  by (auto simp: same_params_def genesis_params_def split: if_splits)

lemma InitGenesis_valid:
  assumes laws: "coins_laws E" "bech32_laws E" "param_laws E"
    and valid: "GenesisState_Validate E gs = Inr ()"
    and acc: "GetModuleAccount E ModuleName (world c) = (Inr (), w)"
  obtains c' p where "InitGenesis E gs c = (Inr (), c')" and "GetParams E c' = (Inr p, c')"
    and "same_params (gs_Params gs) p"
proof -
  have c1: "CreateModuleAccount E c = (Inr (), c\<lparr>world := w\<rparr>)"
    by (simp add: CreateModuleAccount_def worldM_def acc)
  obtain c2 p where c2: "SetParams E (genesis_params E gs) (c\<lparr>world := w\<rparr>) = (Inr (), c2)"
    and same: "same_params (genesis_params E gs) p"
    and get: "\<And>c3. GetParamSet E (world c3) = GetParamSet E (world c2) \<Longrightarrow> GetParams E c3 = (Inr p, c3)"
    using SetParams_GetParams [OF laws(3) genesis_params_valid [OF laws(1) valid]] by metis
  have ok: "list_all (genesis_denom_ok E) (FactoryDenoms gs)"
    using valid by (simp add: GenesisState_Validate_eq_Inr list_all_iff genesis_denom_ok_def)
  show thesis
  proof
    show "InitGenesis E gs c = (Inr (), fold (import_denom E) (FactoryDenoms gs) c2)"
      unfolding InitGenesis_eq_Inr [OF laws(1,2)] using c1 c2 ok by blast
    show "GetParams E (fold (import_denom E) (FactoryDenoms gs) c2)
        = (Inr p, fold (import_denom E) (FactoryDenoms gs) c2)"
      by (rule get) (rule fold_import_params [OF laws(3)])
    show "same_params (gs_Params gs) p" by (rule same_genesis_params [OF same])
  qed
qed

section \<open>ExportGenesis\<close>

definition export_denom :: "('k, 'w) sdk \<Rightarrow> ('k, 'w) ctx \<Rightarrow> string \<Rightarrow> GenesisDenom" where
  "export_denom E c d =
    \<lparr>gd_Denom = d, gd_AuthorityMetadata = \<lparr>Admin = admin_or_none (admins E (store c) d)\<rparr>\<rparr>"

definition exported_denoms :: "('k, 'w) sdk \<Rightarrow> ('k, 'w) ctx \<Rightarrow> string list" where
  "exported_denoms E c = map (\<lambda>(k, v). string_of_bytes v) (GetAllDenomsIterator E c)"

lemma export_FactoryDenoms_run:
  assumes "bech32_laws E" and "wf_metadata E (store c)"
  shows "export_FactoryDenoms E it acc c =
    (Inr (acc @ map (\<lambda>(k, v). export_denom E c (string_of_bytes v)) it), c)"
proof (induction it arbitrary: acc)
  case (Cons e it)
  then show ?case
    by (cases e) (simp add: bindM_def orPanic_def GetAuthorityMetadata_run [OF assms] export_denom_def Let_def)
qed (simp add: action_simps)

lemma ExportGenesis_eq_Inr:
  assumes "bech32_laws E" and "wf_metadata E (store c)"
  shows "ExportGenesis E c = (Inr gs, c') \<longleftrightarrow>
    c' = c \<and> GetParams E c = (Inr (gs_Params gs), c) \<and>
    FactoryDenoms gs = map (export_denom E c) (exported_denoms E c)"
proof -
  have "map (\<lambda>(k, v). export_denom E c (string_of_bytes v)) it = map (export_denom E c) (map (\<lambda>(k, v). string_of_bytes v) it)" for it
    by (induction it) auto
  then show ?thesis
    using GetParams_keeps [of E c]
    by (cases gs) (auto simp: ExportGenesis_def bindM_eq_Inr action_simps export_FactoryDenoms_run [OF assms]
        exported_denoms_def)
qed

lemma index_listed:
  assumes "store_laws E" and "store_Get E s GetCreatorsPrefix (bytes_of_string (cr @ CHR ''|'' # d)) = Some v"
  shows "listed E s cr d"
  using assms(2) store_Get_split [OF assms(1) creator_key_creators, of s cr d] by (simp add: listed_def)

lemma exported_denoms_exact:
  assumes laws: "store_laws E" "bech32_laws E" and inv: "Inv E c"
  shows "distinct (exported_denoms E c)" and "set (exported_denoms E c) = dom (admins E (store c))"
proof -
  let ?it = "GetAllDenomsIterator E c"
  have it: "(k, v) \<in> set ?it \<longleftrightarrow> store_Get E (store c) GetCreatorsPrefix k = Some v" for k v
    by (simp add: GetAllDenomsIterator_def KVStore_Iterator_def Keeper_GetCreatorsPrefixStore_def
        set_store_Iterator [OF laws(1)])
  have entry: "\<exists>cr d. k = bytes_of_string (cr @ CHR ''|'' # d) \<and> v = bytes_of_string d \<and>
      created_by E cr d \<and> listed E (store c) cr d \<and> CHR ''|'' \<notin> set cr \<and> admins E (store c) d \<noteq> None"
    if kv: "(k, v) \<in> set ?it" for k v
  proof -
    obtain cr d where e: "k = bytes_of_string (cr @ CHR ''|'' # d)" "v = bytes_of_string d"
      "created_by E cr d" "admins E (store c) d \<noteq> None"
      using kv InvD(2) [OF inv] unfolding it wf_index_def by blast
    moreover have "listed E (store c) cr d"
      using kv index_listed [OF laws(1)] unfolding it e(1) by blast
    ultimately show ?thesis using created_by_no_sep [OF laws(2) e(3)] by blast
  qed
  have "inj_on (\<lambda>(k, v). string_of_bytes v) (set ?it)"
  proof (rule inj_onI, clarify)
    fix k v k' v'
    assume a: "(k, v) \<in> set ?it" and b: "(k', v') \<in> set ?it" and eq: "string_of_bytes v = string_of_bytes v'"
    obtain cr d where 1: "k = bytes_of_string (cr @ CHR ''|'' # d)" "v = bytes_of_string d"
      "listed E (store c) cr d" "CHR ''|'' \<notin> set cr"
      using entry [OF a] by blast
    obtain cr' d' where 2: "k' = bytes_of_string (cr' @ CHR ''|'' # d')" "v' = bytes_of_string d'"
      "listed E (store c) cr' d'" "CHR ''|'' \<notin> set cr'"
      using entry [OF b] by blast
    have "d = d'" using eq 1(2) 2(2) by simp
    then show "k = k' \<and> v = v'" using 1 2 InvD(5) [OF inv] by blast
  qed
  moreover have "distinct ?it"
    using store_Iterator_sorted [OF laws(1), of "store c" GetCreatorsPrefix]
    by (simp add: GetAllDenomsIterator_def KVStore_Iterator_def Keeper_GetCreatorsPrefixStore_def distinct_map)
  ultimately show "distinct (exported_denoms E c)"
    by (simp add: exported_denoms_def distinct_map)
  have "d \<in> set (exported_denoms E c)" if d: "admins E (store c) d = Some a" for d a
  proof -
    obtain cr where cr: "created_by E cr d" "listed E (store c) cr d" using InvD(4) [OF inv d] by blast
    then obtain v where "store_Get E (store c) (GetCreatorPrefix cr) (bytes_of_string d) = Some v"
      by (auto simp: listed_def)
    then have kv: "(bytes_of_string (cr @ CHR ''|'' # d), v) \<in> set ?it"
      unfolding it using store_Get_split [OF laws(1) creator_key_creators] by metis
    then obtain cr' d' where "cr @ CHR ''|'' # d = cr' @ CHR ''|'' # d'" "v = bytes_of_string d'" "CHR ''|'' \<notin> set cr'"
      using entry [OF kv] by auto
    then have "v = bytes_of_string d"
      using created_by_no_sep [OF laws(2) cr(1)] by (simp add: append_sep_eq_iff)
    with kv show ?thesis by (force simp: exported_denoms_def)
  qed
  moreover have "admins E (store c) d \<noteq> None" if "d \<in> set (exported_denoms E c)" for d
    using that entry by (fastforce simp: exported_denoms_def)
  ultimately show "set (exported_denoms E c) = dom (admins E (store c))" by (auto simp: dom_def)
qed

text \<open>The exported list, read as a map, is the registry.\<close>

lemma exported_map:
  assumes "store_laws E" and "bech32_laws E" and "Inv E c"
  shows "map_of (rev (map (\<lambda>g. (gd_Denom g, Admin (gd_AuthorityMetadata g)))
    (map (export_denom E c) (exported_denoms E c)))) = admins E (store c)"
proof -
  have "map_of (rev (map (\<lambda>d. (d, admin_or_none (admins E (store c) d))) ds)) d =
      (if d \<in> set ds then Some (admin_or_none (admins E (store c) d)) else None)" for ds d
    by (induction ds) (auto simp: map_add_def split: option.splits)
  then show ?thesis
    using exported_denoms_exact(2) [OF assms]
    by (auto simp: fun_eq_iff export_denom_def comp_def admin_or_none_def split: option.split)
qed

end
