(* ===== verification/Chain.thy ===== *)
theory Chain
  imports System GenesisProps
begin

text \<open>
  The chain as a transition system: it starts with \<open>InitGenesis\<close> on an empty module store, and then
  transactions of this module and the activity of other modules alternate in any order. The locale
  \<open>invariant\<close> is the induction over its states, interpreted with the module's invariant.
\<close>

inductive reach :: "('s \<Rightarrow> bool) \<Rightarrow> ('s \<Rightarrow> 's \<Rightarrow> bool) \<Rightarrow> 's \<Rightarrow> bool"
  for init step where
  start: "init s \<Longrightarrow> reach init step s"
| go: "reach init step s \<Longrightarrow> step s t \<Longrightarrow> reach init step t"

locale invariant =
  fixes init :: "'s \<Rightarrow> bool" and step :: "'s \<Rightarrow> 's \<Rightarrow> bool" and P :: "'s \<Rightarrow> bool"
  assumes holds_at_start: "init s \<Longrightarrow> P s"
    and kept_by_step: "P s \<Longrightarrow> step s t \<Longrightarrow> P t"
begin

lemma holds: "reach init step s \<Longrightarrow> P s"
  by (induction rule: reach.induct) (simp_all add: holds_at_start kept_by_step)

lemma kept_by_steps: "step\<^sup>*\<^sup>* s t \<Longrightarrow> P s \<Longrightarrow> P t"
  by (induction rule: rtranclp_induct) (simp_all add: kept_by_step)

end

section \<open>Steps\<close>

definition genesis_ctx :: "('k, 'w) sdk \<Rightarrow> ('k, 'w) ctx \<Rightarrow> bool" where
  "genesis_ctx E c \<longleftrightarrow> (\<exists>c0 gs. (\<forall>p k. store_Get E (store c0) p k = None) \<and>
     InitGenesis E gs c0 = (Inr (), c))"

inductive chain_step :: "('k, 'w) sdk \<Rightarrow> ('k, 'w) ctx \<Rightarrow> ('k, 'w) ctx \<Rightarrow> bool" for E where
  tx: "deliver_tx E ms c = (r, c') \<Longrightarrow> chain_step E c c'"
| others: "module_kept E c c' \<Longrightarrow> chain_step E c c'"

inductive_cases chain_stepE: "chain_step E c c'"

definition reachable :: "('k, 'w) sdk \<Rightarrow> ('k, 'w) ctx \<Rightarrow> bool" where
  "reachable E c \<longleftrightarrow> reach (genesis_ctx E) (chain_step E) c"

lemma reachable_tx:
  assumes "reachable E c" and "deliver_tx E ms c = (r, c')"
  shows "reachable E c'"
  using assms(1) unfolding reachable_def by (rule reach.go) (rule chain_step.tx [OF assms(2)])

section \<open>The invariant of the chain\<close>

lemma genesis_Inv:
  assumes "sdk_laws E" and "genesis_ctx E c"
  shows "Inv E c"
proof -
  obtain c0 gs where "\<And>p k. store_Get E (store c0) p k = None" and "InitGenesis E gs c0 = (Inr (), c)"
    using assms(2) by (auto simp: genesis_ctx_def)
  then show ?thesis
    using canonical_Inv [OF sdk_lawsD(2) [OF assms(1)]] InitGenesis_canonical(1) [OF sdk_lawsD [OF assms(1)]]
    by blast
qed

lemma step_Inv:
  assumes "sdk_laws E" and "Inv E c" and "chain_step E c c'"
  shows "Inv E c'"
  using assms(3)
proof (rule chain_stepE)
  fix ms r
  assume run: "deliver_tx E ms c = (r, c')"
  show "Inv E c'"
  proof (cases r)
    case (Inl e)
    with run assms(2) show ?thesis using deliver_tx_eq_Inl by metis
  next
    case (Inr u)
    with run have "validate_msgs E ms = Inr ()" and "run_msgs E ms c = (Inr (), c')"
      by (simp_all add: deliver_tx_eq_Inr)
    with Msgs_step [OF assms(1,2)] show ?thesis by blast
  qed
next
  assume "module_kept E c c'"
  with assms(2) show "Inv E c'" by (rule Inv_module_kept)
qed

interpretation module_invariant: invariant "genesis_ctx E" "chain_step E" "\<lambda>c. sdk_laws E \<longrightarrow> Inv E c"
  for E :: "('k, 'w) sdk"
  by unfold_locales (auto intro: genesis_Inv step_Inv)

lemma reachable_Inv: "sdk_laws E \<Longrightarrow> reachable E c \<Longrightarrow> Inv E c"
  unfolding reachable_def using module_invariant.holds by blast

lemma reachable_wf: "sdk_laws E \<Longrightarrow> reachable E c \<Longrightarrow> wf_metadata E (store c)"
  using reachable_Inv InvD(1) by blast

lemma deliver_tx_admins:
  assumes "sdk_laws E" and "Inv E c" and "deliver_tx E ms c = (Inr (), c')"
  shows "spec_msgs ms (admins E (store c)) = Some (admins E (store c'))"
  using Msgs_step [OF assms(1,2)] assms(3) unfolding deliver_tx_eq_Inr by blast

section \<open>The abstract registry only grows, and a renounced denom stays renounced\<close>

lemma spec_admin_eq_Some: "spec_admin s d R' R = Some R'' \<longleftrightarrow> R d = Some s \<and> R'' = R'"
  by (auto simp: spec_admin_def)

lemma spec_msg_keeps_denoms: "spec_msg m R = Some R' \<Longrightarrow> dom R \<subseteq> dom R'"
  by (cases m) (auto simp: spec_admin_eq_Some Let_def split: if_splits)

lemma spec_msgs_keep_denoms: "spec_msgs ms R = Some R' \<Longrightarrow> dom R \<subseteq> dom R'"
proof (induction ms arbitrary: R)
  case (Cons m ms)
  then obtain R1 where "spec_msg m R = Some R1" and "spec_msgs ms R1 = Some R'"
    by (auto split: option.splits)
  with Cons.IH spec_msg_keeps_denoms show ?case by blast
qed simp

text \<open>A message that changes the admin of a registered denom is a \<open>ChangeAdmin\<close> of that admin.\<close>

lemma spec_msg_changes_admin:
  assumes "spec_msg m R = Some R'" and "R d = Some a" and "R' d \<noteq> Some a"
  shows "\<exists>x. m = ChangeAdminMsg x \<and> ca_Denom x = d \<and> ca_Sender x = a \<and> R' d = Some (NewAdmin x)"
  using assms by (cases m) (auto simp: spec_admin_eq_Some Let_def split: if_splits)

text \<open>In a transaction, the first to change the admin is the admin, and the last to do so names the new one.\<close>

lemma spec_msgs_change_admin:
  "spec_msgs ms R = Some R' \<Longrightarrow> R d = Some a \<Longrightarrow> R' d \<noteq> Some a \<Longrightarrow>
    (\<exists>x. ChangeAdminMsg x \<in> set ms \<and> ca_Denom x = d \<and> ca_Sender x = a) \<and>
    (\<exists>y. ChangeAdminMsg y \<in> set ms \<and> ca_Denom y = d \<and> R' d = Some (NewAdmin y))"
proof (induction ms arbitrary: R a)
  case (Cons m ms)
  then obtain R1 where R1: "spec_msg m R = Some R1" and rest: "spec_msgs ms R1 = Some R'"
    by (auto split: option.splits)
  show ?case
  proof (cases "R1 d = Some a")
    case True
    with Cons.IH [OF rest _ Cons.prems(3)] show ?thesis by auto
  next
    case False
    obtain x where x: "m = ChangeAdminMsg x" "ca_Denom x = d" "ca_Sender x = a" "R1 d = Some (NewAdmin x)"
      using spec_msg_changes_admin [OF R1 Cons.prems(2) False] by blast
    then show ?thesis
      using Cons.IH [OF rest x(4)] by (cases "R' d = Some (NewAdmin x)") auto
  qed
qed simp

fun msg_sender :: "Msg \<Rightarrow> string" where
  "msg_sender (CreateDenomMsg m) = cd_Sender m"
| "msg_sender (MintMsg m) = mint_Sender m"
| "msg_sender (BurnMsg m) = burn_Sender m"
| "msg_sender (ForceTransferMsg m) = ft_Sender m"
| "msg_sender (ChangeAdminMsg m) = ca_Sender m"
| "msg_sender (SetDenomMetadataMsg m) = sdm_Sender m"

lemma validated_sender:
  "bech32_laws E \<Longrightarrow> Msg_ValidateBasic E m = Inr () \<Longrightarrow> msg_sender m \<noteq> ''''"
  by (cases m) (simp_all add: senders_not_empty)

lemma spec_msgs_renounced:
  assumes "bech32_laws E"
  shows "validate_msgs E ms = Inr () \<Longrightarrow> spec_msgs ms R = Some R' \<Longrightarrow> R d = Some '''' \<Longrightarrow> R' d = Some ''''"
proof (induction ms arbitrary: R)
  case (Cons m ms)
  then obtain R1 where R1: "spec_msg m R = Some R1" and rest: "spec_msgs ms R1 = Some R'"
    by (auto split: option.splits)
  have "msg_sender m \<noteq> ''''" using Cons.prems(1) validated_sender [OF assms] by (auto simp: andThen_eq_Inr)
  then have "R1 d = Some ''''"
    using spec_msg_changes_admin [OF R1 Cons.prems(3)] by force
  with Cons rest show ?case by (simp add: andThen_eq_Inr)
qed simp

text \<open>Nor does a validated message make the admin of a denom the empty string.\<close>

lemma spec_msgs_never_renounce:
  assumes "bech32_laws E"
  shows "validate_msgs E ms = Inr () \<Longrightarrow> spec_msgs ms R = Some R' \<Longrightarrow> R d = Some a \<Longrightarrow> a \<noteq> '''' \<Longrightarrow>
    \<exists>a'. R' d = Some a' \<and> a' \<noteq> ''''"
proof (induction ms arbitrary: R a)
  case (Cons m ms)
  then obtain R1 where R1: "spec_msg m R = Some R1" and rest: "spec_msgs ms R1 = Some R'"
    by (auto split: option.splits)
  have v: "Msg_ValidateBasic E m = Inr ()" "validate_msgs E ms = Inr ()"
    using Cons.prems(1) by (auto simp: andThen_eq_Inr)
  have "\<exists>a1. R1 d = Some a1 \<and> a1 \<noteq> ''''"
  proof (cases "R1 d = Some a")
    case True
    with Cons.prems(4) show ?thesis by simp
  next
    case False
    obtain x where "m = ChangeAdminMsg x" "R1 d = Some (NewAdmin x)"
      using spec_msg_changes_admin [OF R1 Cons.prems(3) False] by blast
    with v(1) show ?thesis
      using orErr_address [OF assms] by (auto simp: MsgChangeAdmin_ValidateBasic_def andThen_eq_Inr)
  qed
  with Cons.IH [OF v(2) rest] show ?case by blast
qed simp

lemma step_renounced:
  assumes "sdk_laws E" and "Inv E c" and "chain_step E c c'" and "admins E (store c) d = Some ''''"
  shows "admins E (store c') d = Some ''''"
  using assms(3)
proof (rule chain_stepE)
  fix ms r
  assume run: "deliver_tx E ms c = (r, c')"
  show ?thesis
  proof (cases r)
    case (Inl e)
    with run assms(4) show ?thesis using deliver_tx_eq_Inl by metis
  next
    case (Inr u)
    then have ok: "deliver_tx E ms c = (Inr (), c')" using run by simp
    then have "validate_msgs E ms = Inr ()" by (simp add: deliver_tx_eq_Inr)
    then show ?thesis
      using spec_msgs_renounced [OF sdk_lawsD(2) [OF assms(1)] _ deliver_tx_admins [OF assms(1,2) ok] assms(4)]
      by blast
  qed
next
  assume "module_kept E c c'"
  with assms(4) show ?thesis by (simp add: module_kept_def)
qed

text \<open>From a state of the chain in which a denom is renounced, it stays so.\<close>

interpretation renounced_invariant: invariant
  "\<lambda>c. reachable E c \<and> admins E (store c) d = Some ''''" "chain_step E"
  "\<lambda>c. sdk_laws E \<longrightarrow> Inv E c \<and> admins E (store c) d = Some ''''"
  for E :: "('k, 'w) sdk" and d :: string
  by unfold_locales (auto intro: step_Inv step_renounced reachable_Inv)

end
