(* ===== verification/SimulationProps.thy ===== *)
theory SimulationProps
  imports Simulation Chain
begin

text \<open>
  What the simulator's operations produce in a reachable state: messages that the current admin
  could have sent, with amounts in range.
\<close>

text \<open>The denom and the address that the operations pick: a registered denom and its admin.\<close>

definition picked :: "('k, 'w) sdk \<Rightarrow> ('k, 'w) ctx \<Rightarrow> string \<Rightarrow> bytes \<Rightarrow> bool" where
  "picked E c denom addr \<longleftrightarrow>
    (\<exists>a. admins E (store c) denom = Some a \<and> AccAddressFromBech32 E a = Inr addr)"

lemma getTokenFactoryDenomAndItsAdmin_picked:
  assumes "sdk_laws E" and "Inv E c" and "getTokenFactoryDenomAndItsAdmin E R c acc r = (Inr (denom, addr), r')"
  shows "picked E c denom addr"
proof -
  note l = sdk_lawsD [OF assms(1)]
  obtain authData where "fst (GetAuthorityMetadata E denom c) = Inr authData"
    and addr: "AccAddressFromBech32 E (Admin authData) = Inr addr"
    using assms(3) by (auto simp: getTokenFactoryDenomAndItsAdmin_def Let_def bindM_eq_Inr action_simps)
  then have "Admin authData = admin_or_none (admins E (store c) denom)"
    using GetAuthorityMetadata_run [OF l(2) InvD(1) [OF assms(2)]] by auto
  with addr bech32_empty [OF l(2)] show ?thesis
    by (auto simp: picked_def admin_or_none_def split: option.splits)
qed

text \<open>The denom is one that the account created, whoever its admin is now. The operations let this account sign.\<close>

lemma getTokenFactoryDenomAndItsAdmin_created:
  assumes "getTokenFactoryDenomAndItsAdmin E R c acc r = (Inr (denom, addr), r')"
  shows "denom \<in> set (getDenomsFromCreator E (AccAddress_String E (acc_Address acc)) c)"
  using assms
  by (auto simp: getTokenFactoryDenomAndItsAdmin_def Let_def bindM_eq_Inr action_simps randSelect_def slice_at_def
      gatherAllKeysFromStore_def getDenomsFromCreator_def split: if_splits)

lemmas outcome_simps = bindM_eq_Inr action_simps Let_def no_creator_def no_admin_def

lemma SimulateMsgMintDenom_deliver:
  assumes laws: "sdk_laws E" "rand_laws R" and inv: "Inv E c"
    and run: "SimulateMsgMintDenom E R c accs r = (Inr (GenAndDeliverTx m acc), r')"
  shows "\<exists>addr. picked E c (coin_Denom (mint_Amount m)) addr \<and> mint_Sender m = AccAddress_String E addr \<and>
    1 \<le> coin_Amount (mint_Amount m) \<and> coin_Amount (mint_Amount m) \<le> 1000000000 \<and> MintToAddress m = '''' \<and> acc \<in> set accs \<and>
    coin_Denom (mint_Amount m) \<in> set (getDenomsFromCreator E (AccAddress_String E (acc_Address acc)) c)"
proof -
  obtain found r1 where f: "RandomSimAccountWithConstraint R accs (accountCreatedTokenFactoryDenom E c) r = (Inr found, r1)"
    using run unfolding SimulateMsgMintDenom_def bindM_eq_Inr by blast
  then obtain a where a: "found = Some a"
    using run by (cases found) (simp_all add: SimulateMsgMintDenom_def bindM_def outcome_simps)
  obtain denom addr r2 r3 x amount where g: "getTokenFactoryDenomAndItsAdmin E R c a r1 = (Inr (denom, addr), r2)"
    and x: "RandPositiveInt R 1000000000 r2 = (Inr x, r3)" and n: "NewCoin R denom x = Inr amount"
    and m: "m = \<lparr>mint_Sender = AccAddress_String E addr, mint_Amount = amount, MintToAddress = ''''\<rparr>" and acc: "acc = a"
    using run f unfolding SimulateMsgMintDenom_def a
    by (auto simp: orNoOp_eq_deliver outcome_simps split: if_splits)
  have "amount = \<lparr>coin_Denom = denom, coin_Amount = x\<rparr>" using laws(2) n by (auto simp: rand_laws_def)
  then show ?thesis
    using getTokenFactoryDenomAndItsAdmin_picked [OF laws(1) inv g] getTokenFactoryDenomAndItsAdmin_created [OF g] RandPositiveInt_range [OF laws(2) x] m
      RandomSimAccountWithConstraint_mem [OF f [unfolded a]] acc by auto
qed

lemma SimulateMsgBurnDenom_deliver:
  assumes laws: "sdk_laws E" "rand_laws R" and inv: "Inv E c"
    and run: "SimulateMsgBurnDenom E R c accs r = (Inr (GenAndDeliverTx m acc), r')"
  shows "\<exists>addr. picked E c (coin_Denom (burn_Amount m)) addr \<and> burn_Sender m = AccAddress_String E addr \<and>
    1 \<le> coin_Amount (burn_Amount m) \<and>
    coin_Amount (burn_Amount m) \<le> bal E (world c) addr (coin_Denom (burn_Amount m)) \<and> BurnFromAddress m = '''' \<and>
    coin_Denom (burn_Amount m) \<in> set (getDenomsFromCreator E (AccAddress_String E (acc_Address acc)) c)"
proof -
  obtain found r1 where f: "RandomSimAccountWithConstraint R accs (accountCreatedTokenFactoryDenom E c) r = (Inr found, r1)"
    using run unfolding SimulateMsgBurnDenom_def bindM_eq_Inr by blast
  then obtain a where a: "found = Some a"
    using run by (cases found) (simp_all add: SimulateMsgBurnDenom_def bindM_def outcome_simps)
  obtain denom addr r2 r3 x amount where g: "getTokenFactoryDenomAndItsAdmin E R c a r1 = (Inr (denom, addr), r2)"
    and x: "RandPositiveInt R (coin_Amount (GetBalance E (world c) addr denom)) r2 = (Inr x, r3)"
    and n: "NewCoin R denom x = Inr amount"
    and m: "m = \<lparr>burn_Sender = AccAddress_String E addr, burn_Amount = amount, BurnFromAddress = ''''\<rparr>" and acc: "acc = a"
    using run f unfolding SimulateMsgBurnDenom_def a
    by (auto simp: orNoOp_eq_deliver outcome_simps split: if_splits)
  have "amount = \<lparr>coin_Denom = denom, coin_Amount = x\<rparr>" using laws(2) n by (auto simp: rand_laws_def)
  then show ?thesis
    using getTokenFactoryDenomAndItsAdmin_picked [OF laws(1) inv g] getTokenFactoryDenomAndItsAdmin_created [OF g] RandPositiveInt_range [OF laws(2) x] m
    by (auto simp: bal_def acc)
qed

lemma SimulateMsgChangeAdmin_deliver:
  assumes laws: "sdk_laws E" and inv: "Inv E c"
    and run: "SimulateMsgChangeAdmin E R c accs r = (Inr (GenAndDeliverTx m acc), r')"
  shows "\<exists>addr. picked E c (ca_Denom m) addr \<and> ca_Sender m = AccAddress_String E addr \<and>
    NewAdmin m \<noteq> ca_Sender m \<and> (\<exists>b \<in> set accs. NewAdmin m = AccAddress_String E (acc_Address b)) \<and>
    ca_Denom m \<in> set (getDenomsFromCreator E (AccAddress_String E (acc_Address acc)) c)"
proof -
  obtain found r1 where f: "RandomSimAccountWithConstraint R accs (accountCreatedTokenFactoryDenom E c) r = (Inr found, r1)"
    using run unfolding SimulateMsgChangeAdmin_def bindM_eq_Inr by blast
  then obtain a where a: "found = Some a"
    using run by (cases found) (simp_all add: SimulateMsgChangeAdmin_def bindM_def outcome_simps)
  obtain denom addr r2 r3 b where g: "getTokenFactoryDenomAndItsAdmin E R c a r1 = (Inr (denom, addr), r2)"
    and b: "randomSimAccount R accs r2 = (Inr b, r3)"
    and ne: "AccAddress_String E (acc_Address b) \<noteq> AccAddress_String E addr"
    and m: "m = \<lparr>ca_Sender = AccAddress_String E addr, ca_Denom = denom, NewAdmin = AccAddress_String E (acc_Address b)\<rparr>"
    and acc: "acc = a"
    using run f unfolding SimulateMsgChangeAdmin_def a
    by (auto simp: orNoOp_eq_deliver outcome_simps split: if_splits)
  then show ?thesis
    using getTokenFactoryDenomAndItsAdmin_picked [OF laws inv g] getTokenFactoryDenomAndItsAdmin_created [OF g] randomSimAccount_mem [OF b] acc by auto
qed

end
