(* ===== verification/SampleChain.thy ===== *)
theory SampleChain
  imports GenesisTypes
begin

text \<open>
  A small concrete chain: an executable instance of the SDK parameters, on which the properties
  that assume laws of the SDK are applied. Addresses are \<open>osmo1\<close> followed by lower-case letters and
  digits, a store is a list of updates, the bank keeps balances, supplies and denom metadata. The
  lemmas show that it obeys every law of \<open>Sdk\<close>.
\<close>

section \<open>The coin codec\<close>

text \<open>\<open>cosmos.base.v1beta1.Coin\<close>: the denom, and the amount as a decimal string.\<close>

definition digit :: "nat \<Rightarrow> char" where
  "digit n = char_of (48 + n)"

fun nat_string :: "nat \<Rightarrow> string" where
  "nat_string n = (if n < 10 then [digit n] else nat_string (n div 10) @ [digit (n mod 10)])"

declare nat_string.simps [simp del]

definition string_nat :: "string \<Rightarrow> nat" where
  "string_nat s = foldl (\<lambda>a c. 10 * a + (of_char c - 48)) 0 s"

definition int_string :: "int \<Rightarrow> string" where
  "int_string i = (if i < 0 then CHR ''-'' # nat_string (nat (- i)) else nat_string (nat i))"

definition string_int :: "string \<Rightarrow> int" where
  "string_int s = (case s of c # cs \<Rightarrow> if c = CHR ''-'' then - int (string_nat cs) else int (string_nat s)
     | [] \<Rightarrow> 0)"

lemma of_char_digit: "n < 10 \<Longrightarrow> (of_char (digit n) :: nat) = 48 + n"
  by (simp add: digit_def of_char_of)

lemma string_nat_string: "string_nat (nat_string n) = n"
proof (induction n rule: nat_string.induct)
  case (1 n)
  show ?case
  proof (cases "n < 10")
    case True
    then show ?thesis
      by (simp add: nat_string.simps [of n] string_nat_def of_char_digit)
  next
    case False
    have "string_nat (nat_string n) = 10 * string_nat (nat_string (n div 10)) + n mod 10"
      using False by (simp add: nat_string.simps [of n] string_nat_def of_char_digit)
    then show ?thesis using 1 [OF False] by simp
  qed
qed

lemma nat_string_hd: "\<exists>k cs. nat_string n = digit k # cs \<and> k < 10"
proof (induction n rule: nat_string.induct)
  case (1 n)
  then show ?case by (cases "n < 10") (auto simp: nat_string.simps [of n])
qed

lemma digit_not_minus: "k < 10 \<Longrightarrow> digit k \<noteq> CHR ''-''"
proof
  assume "k < 10" and "digit k = CHR ''-''"
  then have "48 + k = (of_char (CHR ''-'') :: nat)" using of_char_digit [of k] by simp
  then show False by simp
qed

lemma string_int_string [simp]: "string_int (int_string i) = i"
proof -
  obtain k cs where "nat_string (nat i) = digit k # cs" and "k < 10" using nat_string_hd by blast
  then show ?thesis
    using digit_not_minus [of k] string_nat_string [of "nat i"] string_nat_string [of "nat (- i)"]
    by (auto simp: int_string_def string_int_def)
qed

definition coin_field :: "coin field_switch" where
  "coin_field m fieldNum wireType d i =
    (if fieldNum = 1 then Some (read_string_field (\<lambda>s. m\<lparr>coin_Denom := s\<rparr>) wireType d i)
     else if fieldNum = 2 then Some (read_string_field (\<lambda>s. m\<lparr>coin_Amount := string_int s\<rparr>) wireType d i)
     else None)"

definition coin_bytes :: "coin \<Rightarrow> bytes" where
  "coin_bytes m = string_field 0x0a (coin_Denom m) @ string_field 0x12 (int_string (coin_Amount m))"

definition coin_codec :: "coin codec" where
  "coin_codec = \<lparr>
     codec_MarshalToSizedBuffer = (\<lambda>m. sizedBuffer
       (thenW (put_string_field 0x12 (int_string (coin_Amount m))) (put_string_field 0x0a (coin_Denom m)))),
     codec_Size = (\<lambda>m. string_size (coin_Denom m) + string_size (int_string (coin_Amount m))),
     codec_Unmarshal = (\<lambda>m. unmarshalWith coin_field m),
     codec_zero = \<lparr>coin_Denom = '''', coin_Amount = 0\<rparr>\<rparr>"

lemma coin_routes:
  "routes coin_field m 0x0a 2 (read_string_field (\<lambda>s. m\<lparr>coin_Denom := s\<rparr>) 2)"
  "routes coin_field m 0x12 2 (read_string_field (\<lambda>s. m\<lparr>coin_Amount := string_int s\<rparr>) 2)"
  by (simp_all add: routes_def coin_field_def fun_eq_iff)

lemma coin_progressing: "progressing coin_field"
  by (rule progressingI) (auto simp: coin_field_def no_fuel split: if_splits dest: advances)

lemma int_string_not_Nil [simp]: "int_string i \<noteq> []"
  using nat_string_hd [of "nat i"] by (auto simp: int_string_def)

lemma coin_codec_ok: "codec_ok coin_codec coin_bytes"
proof unfold_locales
  fix m :: coin
  show "marshals (codec_MarshalToSizedBuffer coin_codec m) (coin_bytes m)"
    unfolding coin_codec_def codec.simps coin_bytes_def
    by (rule marshals_sizedBuffer, rule writes_cong, (rule writes_intros)+) simp
  show "codec_Size coin_codec m = length (coin_bytes m)"
    by (simp add: coin_codec_def coin_bytes_def field_lengths)
  assume len: "length (coin_bytes m) < 2 ^ 63"
  let ?z = "\<lparr>coin_Denom = '''', coin_Amount = 0\<rparr>"
  have r1: "reads coin_field (string_field 0x0a (coin_Denom m)) ?z (?z\<lparr>coin_Denom := coin_Denom m\<rparr>)"
    by (rule reads_string_field [OF coin_routes(1)]) simp
  have r2: "reads coin_field (string_field 0x12 (int_string (coin_Amount m))) (?z\<lparr>coin_Denom := coin_Denom m\<rparr>)
     (?z\<lparr>coin_Denom := coin_Denom m, coin_Amount := coin_Amount m\<rparr>)"
    using reads_string_field [OF coin_routes(2), of "int_string (coin_Amount m)" "?z\<lparr>coin_Denom := coin_Denom m\<rparr>"]
    by simp
  have eq: "?z\<lparr>coin_Denom := coin_Denom m, coin_Amount := coin_Amount m\<rparr> = m" by simp
  show "codec_Unmarshal coin_codec (codec_zero coin_codec) (coin_bytes m) = Inr (id m)"
    using reads_append [OF r1 r2] len unfolding eq
    by (simp add: coin_codec_def unmarshalWith_reads flip: coin_bytes_def)
next
  fix m :: coin and d :: bytes
  assume "length d < 2 ^ 63"
  then show "codec_Unmarshal coin_codec m d \<noteq> Inl ErrFuel"
    by (simp add: coin_codec_def unmarshalWith_no_fuel [OF coin_progressing])
qed

section \<open>The chain\<close>

type_synonym chain_store = "(bytes \<times> bytes) list"

record chain =
  balances :: "bytes \<Rightarrow> string \<Rightarrow> int"
  coin_supply :: "string \<Rightarrow> int"
  denom_metadata :: "string \<Rightarrow> bank_metadata option"
  params_store :: "bytes \<Rightarrow> param_value option"
  gas_left :: nat

definition address_chars :: "char set" where
  "address_chars = set ''0123456789abcdefghijklmnopqrstuvwxyz''"

definition chain_address :: "string \<Rightarrow> bytes result" where
  "chain_address s =
    (if length s \<le> 90 \<and> take 5 s = ''osmo1'' \<and> drop 5 s \<noteq> [] \<and>
        list_all (\<lambda>c. c \<in> address_chars) (drop 5 s)
     then Inr (bytes_of_string (drop 5 s)) else Inl (ErrSDK ''decoding bech32 failed''))"

definition chain_address_string :: "bytes \<Rightarrow> string" where
  "chain_address_string a = ''osmo1'' @ string_of_bytes a"

definition chain_ValidateDenom :: "string \<Rightarrow> unit result" where
  "chain_ValidateDenom d =
    (if 3 \<le> length d \<and> length d \<le> 128 \<and> list_all (\<lambda>c. c \<noteq> CHR ''|'' \<and> c \<noteq> CHR '' '') d
     then Inr () else Inl (ErrSDK ''invalid denom''))"

definition chain_coin_ok :: "coin \<Rightarrow> bool" where
  "chain_coin_ok c \<longleftrightarrow> chain_ValidateDenom (coin_Denom c) = Inr () \<and> 0 \<le> coin_Amount c"

definition chain_Coins_Validate :: "Coins \<Rightarrow> unit result" where
  "chain_Coins_Validate cs =
    (if list_all (\<lambda>c. chain_coin_ok c \<and> coin_Amount c \<noteq> 0) (coins_list cs) \<and> distinct (map coin_Denom (coins_list cs))
     then Inr () else Inl (ErrSDK ''invalid coins''))"

definition chain_NewCoins :: "coin list \<Rightarrow> Coins result" where
  "chain_NewCoins l = (let cs = filter (\<lambda>c. coin_Amount c \<noteq> 0) l in
    case chain_Coins_Validate (Some cs) of Inl e \<Rightarrow> Inl (GoPanic ''NewCoins'') | Inr _ \<Rightarrow> Inr (Some cs))"

definition chain_pays :: "bytes \<Rightarrow> Coins \<Rightarrow> chain \<Rightarrow> bool" where
  "chain_pays a cs w \<longleftrightarrow>
    list_all (\<lambda>c. amount_of cs (coin_Denom c) \<le> balances w a (coin_Denom c)) (coins_list cs)"

definition chain_move :: "(bytes \<Rightarrow> string \<Rightarrow> int) \<Rightarrow> chain \<Rightarrow> chain" where
  "chain_move \<delta> w = w\<lparr>balances := (\<lambda>a d. balances w a d + \<delta> a d)\<rparr>"

definition chain_Send :: "bytes \<Rightarrow> bytes \<Rightarrow> Coins \<Rightarrow> chain \<Rightarrow> unit result \<times> chain" where
  "chain_Send a b cs w =
    (if chain_pays a cs w then (Inr (), chain_move (\<lambda>x d. credit b cs x d - credit a cs x d) w)
     else (Inl (ErrSDK ''insufficient funds''), w))"

definition chain_Mint :: "bytes \<Rightarrow> Coins \<Rightarrow> chain \<Rightarrow> unit result \<times> chain" where
  "chain_Mint a cs w = (Inr (), (chain_move (credit a cs) w)
    \<lparr>coin_supply := (\<lambda>d. coin_supply w d + amount_of cs d)\<rparr>)"

definition chain_Burn :: "bytes \<Rightarrow> Coins \<Rightarrow> chain \<Rightarrow> unit result \<times> chain" where
  "chain_Burn a cs w =
    (if chain_pays a cs w
     then (Inr (), (chain_move (\<lambda>x d. - credit a cs x d) w)\<lparr>coin_supply := (\<lambda>d. coin_supply w d - amount_of cs d)\<rparr>)
     else (Inl (ErrSDK ''insufficient funds''), w))"

fun chain_SetParamSet :: "chain \<Rightarrow> param_pair list \<Rightarrow> unit result \<times> chain" where
  "chain_SetParamSet w [] = (Inr (), w)"
| "chain_SetParamSet w (p # ps) = (case pair_ValidatorFn p (pair_Value p) of
      Inl e \<Rightarrow> (Inl (GoPanic ''value from ParamSetPair is invalid''), w)
    | Inr _ \<Rightarrow> chain_SetParamSet (w\<lparr>params_store := (params_store w)(pair_Key p \<mapsto> pair_Value p)\<rparr>) ps)"

fun chain_GetParamSet :: "chain \<Rightarrow> bytes list \<Rightarrow> param_value list result" where
  "chain_GetParamSet w [] = Inr []"
| "chain_GetParamSet w (k # ks) = (case params_store w k of
      None \<Rightarrow> Inl (GoPanic ''GetParamSet'')
    | Some v \<Rightarrow> andThen (chain_GetParamSet w ks) (\<lambda>vs. Inr (v # vs)))"

definition chain_keys :: "chain_store \<Rightarrow> bytes \<Rightarrow> bytes list" where
  "chain_keys s p = sort (remdups (map (drop (length p)) (filter (\<lambda>k. take (length p) k = p) (map fst s))))"

definition chain_pool :: bytes where
  "chain_pool = bytes_of_string ''distribution''"

definition chain_sdk :: "(chain_store, chain) sdk" where
  "chain_sdk = \<lparr>
     AccAddressFromBech32 = chain_address,
     AccAddress_String = chain_address_string,
     ValidateDenom = chain_ValidateDenom,
     Coin_IsValid = chain_coin_ok,
     Coin_String = (\<lambda>c. int_string (coin_Amount c) @ coin_Denom c),
     Coins_Validate = chain_Coins_Validate,
     NewCoins = chain_NewCoins,
     Metadata_Validate = (\<lambda>m. if meta_Base m = '''' then Inl (ErrSDK ''invalid metadata base denom'') else Inr ()),
     Metadata_String = meta_Base,
     store_Get = (\<lambda>s p k. map_of s (p @ k)),
     store_Set = (\<lambda>s p k v. (p @ k, v) # s),
     store_Iterator = (\<lambda>s p. map (\<lambda>k. (k, the (map_of s (p @ k)))) (chain_keys s p)),
     GetParamSet = chain_GetParamSet,
     SetParamSet = chain_SetParamSet,
     ConsumeGas = (\<lambda>g descriptor w. if unat g \<le> gas_left w then (Inr (), w\<lparr>gas_left := gas_left w - unat g\<rparr>)
       else (Inl (GoPanic ''out of gas''), w)),
     GetDenomMetaData = (\<lambda>w d. case denom_metadata w d of
         None \<Rightarrow> (bank_metadata_zero, False) | Some m \<Rightarrow> (m, True)),
     SetDenomMetaData = (\<lambda>m w. w\<lparr>denom_metadata := (denom_metadata w)(meta_Base m \<mapsto> m)\<rparr>),
     HasSupply = (\<lambda>w d. coin_supply w d \<noteq> 0),
     SendCoinsFromModuleToAccount = (\<lambda>m a cs. chain_Send (bytes_of_string m) a cs),
     SendCoinsFromAccountToModule = (\<lambda>a m cs. chain_Send a (bytes_of_string m) cs),
     MintCoins = (\<lambda>m cs. chain_Mint (bytes_of_string m) cs),
     BurnCoins = (\<lambda>m cs. chain_Burn (bytes_of_string m) cs),
     SendCoins = chain_Send,
     SpendableCoins = (\<lambda>w a. Some (map (\<lambda>d. \<lparr>coin_Denom = d, coin_Amount = balances w a d\<rparr>)
       (filter (\<lambda>d. balances w a d \<noteq> 0) [''uosmo'']))),
     GetBalance = (\<lambda>w a d. \<lparr>coin_Denom = d, coin_Amount = balances w a d\<rparr>),
     HasBalance = (\<lambda>w a c. coin_Amount c \<le> balances w a (coin_Denom c)),
     GetAccount = (\<lambda>w a. if a = bytes_of_string ModuleName then Some ModuleAccountI else Some OtherAccountI),
     GetModuleAccount = (\<lambda>m w. (Inr (), w)),
     FundCommunityPool = (\<lambda>cs a. chain_Send a chain_pool cs)\<rparr>"

text \<open>Its operations, for evaluation by rewriting.\<close>

lemma chain_ops:
  "AccAddressFromBech32 chain_sdk = chain_address"
  "ValidateDenom chain_sdk = chain_ValidateDenom"
  "NewCoins chain_sdk = chain_NewCoins"
  "GetParamSet chain_sdk = chain_GetParamSet"
  "SetParamSet chain_sdk = chain_SetParamSet"
  "ConsumeGas chain_sdk g t w = (if unat g \<le> gas_left w then (Inr (), w\<lparr>gas_left := gas_left w - unat g\<rparr>)
       else (Inl (GoPanic ''out of gas''), w))"
  "GetDenomMetaData chain_sdk w d = (case denom_metadata w d of
         None \<Rightarrow> (bank_metadata_zero, False) | Some m \<Rightarrow> (m, True))"
  "SetDenomMetaData chain_sdk md w = w\<lparr>denom_metadata := (denom_metadata w)(meta_Base md \<mapsto> md)\<rparr>"
  "HasSupply chain_sdk w d = (coin_supply w d \<noteq> 0)"
  "SendCoinsFromModuleToAccount chain_sdk m a cs = chain_Send (bytes_of_string m) a cs"
  "SendCoinsFromAccountToModule chain_sdk a m cs = chain_Send a (bytes_of_string m) cs"
  "MintCoins chain_sdk m cs = chain_Mint (bytes_of_string m) cs"
  "BurnCoins chain_sdk m cs = chain_Burn (bytes_of_string m) cs"
  "SendCoins chain_sdk = chain_Send"
  "GetAccount chain_sdk w a = (if a = bytes_of_string ModuleName then Some ModuleAccountI else Some OtherAccountI)"
  "GetModuleAccount chain_sdk m w = (Inr (), w)"
  "FundCommunityPool chain_sdk cs a = chain_Send a chain_pool cs"
  "bal chain_sdk w a d = balances w a d"
  by (simp_all add: chain_sdk_def bal_def)

section \<open>It obeys the laws\<close>

lemma set_chain_keys: "k \<in> set (chain_keys s p) \<longleftrightarrow> p @ k \<in> fst ` set s"
proof -
  have "k \<in> set (chain_keys s p) \<longleftrightarrow> (\<exists>x \<in> fst ` set s. take (length p) x = p \<and> k = drop (length p) x)"
    by (auto simp: chain_keys_def)
  also have "\<dots> \<longleftrightarrow> p @ k \<in> fst ` set s"
    by (metis append_eq_conv_conj append_take_drop_id)
  finally show ?thesis .
qed

lemma chain_store_laws: "store_laws chain_sdk"
proof -
  have set: "set (store_Iterator chain_sdk s p) = {(k, v). store_Get chain_sdk s p k = Some v}" for s p
  proof -
    have "(k, v) \<in> set (store_Iterator chain_sdk s p) \<longleftrightarrow>
        p @ k \<in> fst ` set s \<and> v = the (map_of s (p @ k))" for k v
      unfolding set_chain_keys [symmetric] by (auto simp: chain_sdk_def)
    moreover have "p @ k \<in> fst ` set s \<and> v = the (map_of s (p @ k)) \<longleftrightarrow> map_of s (p @ k) = Some v" for k v
      using map_of_eq_None_iff [of s "p @ k"] by (cases "map_of s (p @ k)") auto
    ultimately show ?thesis by (auto simp: chain_sdk_def)
  qed
  have "map fst (store_Iterator chain_sdk s p) = chain_keys s p" for s p
    by (simp add: chain_sdk_def comp_def)
  then have "sorted (map fst (store_Iterator chain_sdk s p)) \<and>
      distinct (map fst (store_Iterator chain_sdk s p))" for s p
    by (simp add: chain_keys_def)
  with set show ?thesis
    unfolding store_laws_def by (auto simp: chain_sdk_def)
qed

lemma chain_address_string_eq:
  assumes "chain_address s = Inr a"
  shows "chain_address_string a = s" and "length s \<le> 1023" and "CHR ''/'' \<notin> set s" and "CHR ''|'' \<notin> set s"
proof -
  from assms have l: "length s \<le> 90" and pre: "take 5 s = ''osmo1''" and a: "a = bytes_of_string (drop 5 s)"
    and cs: "list_all (\<lambda>c. c \<in> address_chars) (drop 5 s)"
    unfolding chain_address_def by (auto simp del: list_all_iff split: if_splits)
  show s: "chain_address_string a = s"
    using append_take_drop_id [of 5 s] by (simp add: chain_address_string_def a pre)
  show "length s \<le> 1023" using l by simp
  have "set s = set ''osmo1'' \<union> set (drop 5 s)"
    by (metis append_take_drop_id pre set_append)
  then show "CHR ''/'' \<notin> set s" and "CHR ''|'' \<notin> set s"
    using cs unfolding list_all_iff address_chars_def by force+
qed

lemma chain_bech32_laws: "bech32_laws chain_sdk"
proof -
  have "chain_address '''' = Inl (ErrSDK ''decoding bech32 failed'')"
    by (simp add: chain_address_def)
  then show ?thesis
    using chain_address_string_eq by (auto simp: bech32_laws_def chain_sdk_def)
qed

lemma chain_denom_laws: "denom_laws chain_sdk"
  by (auto simp: denom_laws_def chain_sdk_def chain_ValidateDenom_def list_all_iff split: if_splits)

lemma chain_coins_laws: "coins_laws chain_sdk"
proof -
  have 1: "NewCoins chain_sdk [] = Inr (Some [])"
    by (simp add: chain_sdk_def chain_NewCoins_def chain_Coins_Validate_def)
  have 2: "Coins_Validate chain_sdk cs = Coins_Validate chain_sdk cs'" if "coins_list cs = coins_list cs'" for cs cs'
    using that by (simp add: chain_sdk_def chain_Coins_Validate_def)
  have 3: "Coins_Validate chain_sdk cs = Inr ()" if "NewCoins chain_sdk l = Inr cs" for l cs
    using that by (auto simp: chain_sdk_def chain_NewCoins_def Let_def split: sum.splits)
  have 4: "amount_of cs d = (if coin_Denom c = d then coin_Amount c else 0)" if "NewCoins chain_sdk [c] = Inr cs" for c cs d
    using that by (auto simp: chain_sdk_def chain_NewCoins_def Let_def amount_of_def split: sum.splits if_splits)
  show ?thesis unfolding coins_laws_def using 1 2 3 4 by blast
qed

lemma chain_bank_laws: "bank_laws chain_sdk bytes_of_string"
  by (auto simp: bank_laws_def moves_def bal_def chain_sdk_def chain_Mint_def chain_Burn_def chain_Send_def
      chain_move_def split: if_splits)

lemma chain_metadata_laws: "metadata_laws chain_sdk"
proof -
  have "denom_metadata (snd (chain_SetParamSet w ps)) = denom_metadata w" for w ps
    by (induction w ps rule: chain_SetParamSet.induct) (auto split: sum.splits)
  then show ?thesis
    by (auto simp: metadata_laws_def metadata_kept_def chain_sdk_def chain_Mint_def chain_Burn_def
        chain_Send_def chain_move_def)
qed

lemma chain_SetParamSet_ok:
  assumes "list_all valid_pair ps"
  shows "chain_SetParamSet w ps =
    (Inr (), w\<lparr>params_store := params_store w ++ map_of (rev (map (\<lambda>p. (pair_Key p, pair_Value p)) ps))\<rparr>)"
  using assms by (induction w ps rule: chain_SetParamSet.induct) (simp_all add: valid_pair_def)

lemma chain_GetParamSet_ok:
  "(\<And>k. k \<in> set ks \<Longrightarrow> params_store w k = Some (f k)) \<Longrightarrow> chain_GetParamSet w ks = Inr (map f ks)"
  by (induction ks) simp_all

lemma same_param_refl: "same_param v v"
  by (cases v) simp_all

lemma chain_param_laws: "param_laws chain_sdk"
proof -
  have "\<exists>w' vs. chain_SetParamSet w ps = (Inr (), w') \<and> chain_GetParamSet w' (map pair_Key ps) = Inr vs \<and>
      list_all2 same_param (map pair_Value ps) vs"
    if "list_all valid_pair ps" and dist: "distinct (map pair_Key ps)" for w ps
  proof -
    let ?m = "map_of (rev (map (\<lambda>p. (pair_Key p, pair_Value p)) ps))"
    let ?w = "w\<lparr>params_store := params_store w ++ ?m\<rparr>"
    have m: "?m (pair_Key p) = Some (pair_Value p)" if "p \<in> set ps" for p
      by (rule map_of_is_SomeI) (use that dist in \<open>auto simp: comp_def rev_map [symmetric]\<close>)
    have "chain_GetParamSet ?w (map pair_Key ps) = Inr (map (\<lambda>k. the (?m k)) (map pair_Key ps))"
      by (rule chain_GetParamSet_ok) (auto simp: m)
    also have "map (\<lambda>k. the (?m k)) (map pair_Key ps) = map pair_Value ps"
      by (simp add: m)
    finally show ?thesis
      using chain_SetParamSet_ok [OF that(1)] by (auto simp: list.rel_refl same_param_refl)
  qed
  moreover have "chain_GetParamSet (w\<lparr>denom_metadata := m\<rparr>) ks = chain_GetParamSet w ks" for w m ks
    by (induction ks) (simp_all split: option.split)
  ultimately show ?thesis by (simp add: param_laws_def chain_sdk_def)
qed

lemmas chain_laws = chain_store_laws chain_bech32_laws chain_denom_laws chain_coins_laws
  chain_bank_laws chain_metadata_laws chain_param_laws

end
