(* ===== verification/SampleRun.thy ===== *)
theory SampleRun
  imports Chain SampleChain
begin

text \<open>
  A run of the sample chain, for applying theorems at concrete states: a genesis with two denoms,
  of which one is renounced, and a state after a third was created.
\<close>

definition alice :: string where "alice = ''osmo1alice''"
definition bob :: string where "bob = ''osmo1bob''"
definition silver :: string where "silver = ''factory/osmo1bob/silver''"
definition void :: string where "void = ''factory/osmo1bob/void''"
definition gold :: string where "gold = ''factory/osmo1alice/gold''"

definition sample_params :: Params where
  "sample_params = NewParams (Some [\<lparr>coin_Denom = ''uosmo'', coin_Amount = 10\<rparr>]) 5"

definition sample_genesis :: GenesisState where
  "sample_genesis = \<lparr>gs_Params = sample_params, FactoryDenoms =
     [\<lparr>gd_Denom = silver, gd_AuthorityMetadata = \<lparr>Admin = bob\<rparr>\<rparr>,
      \<lparr>gd_Denom = void, gd_AuthorityMetadata = \<lparr>Admin = ''''\<rparr>\<rparr>]\<rparr>"

definition empty_ctx :: "(chain_store, chain) ctx" where
  "empty_ctx = \<lparr>store = [],
     world = \<lparr>balances = (\<lambda>a d. if a = bytes_of_string ''alice'' \<and> d = ''uosmo'' then 100
         else if a = bytes_of_string ''alice'' \<and> d = ''factory/osmo1bob/silver'' then 50
         else if a = bytes_of_string ''tokenfactory'' \<and> d = ''factory/osmo1bob/silver'' then 9 else 0),
       coin_supply = (\<lambda>d. if d = ''uosmo'' then 100 else if d = ''factory/osmo1bob/silver'' then 59 else 0), denom_metadata = Map.empty,
       params_store = Map.empty, gas_left = 12\<rparr>,
     emitted = []\<rparr>"

definition params_ctx :: "(chain_store, chain) ctx" where
  "params_ctx = empty_ctx\<lparr>world := (world empty_ctx)\<lparr>params_store :=
     [KeyDenomCreationFee \<mapsto> PCoins (DenomCreationFee sample_params),
      KeyDenomCreationGasConsume \<mapsto> PUint64 (DenomCreationGasConsume sample_params)]\<rparr>\<rparr>"

definition sample_ctx :: "(chain_store, chain) ctx" where
  "sample_ctx = fold (import_denom chain_sdk) (FactoryDenoms sample_genesis) params_ctx"

section \<open>Genesis\<close>

lemma chain_sdk_laws: "sdk_laws chain_sdk"
  by (simp add: sdk_laws_def chain_laws)

lemma sample_valid: "GenesisState_Validate chain_sdk sample_genesis = Inr ()"
  by code_simp

lemma sample_denoms: "list_all (genesis_denom_ok chain_sdk) (FactoryDenoms sample_genesis)"
  using sample_valid by (simp add: GenesisState_Validate_eq_Inr list_all_iff genesis_denom_ok_def)

lemma sample_init: "InitGenesis chain_sdk sample_genesis empty_ctx = (Inr (), sample_ctx)"
proof -
  have keys: "KeyDenomCreationGasConsume \<noteq> KeyDenomCreationFee"
    by (simp add: KeyDenomCreationFee_def KeyDenomCreationGasConsume_def)
  have valid: "list_all valid_pair (ParamSetPairs chain_sdk sample_params)"
    unfolding valid_pairs by code_simp
  have "genesis_params chain_sdk sample_genesis = sample_params"
    by (simp add: genesis_params_def sample_genesis_def sample_params_def NewParams_def)
  moreover have "SetParamSet chain_sdk (world empty_ctx) (ParamSetPairs chain_sdk sample_params) =
      (Inr (), world params_ctx)"
    using chain_SetParamSet_ok [OF valid] keys
    by (simp add: chain_sdk_def params_ctx_def empty_ctx_def ParamSetPairs_def fun_upd_twist)
  ultimately have "SetParams chain_sdk (genesis_params chain_sdk sample_genesis) empty_ctx = (Inr (), params_ctx)"
    by (simp add: SetParams_def worldM_def) (simp add: params_ctx_def)
  moreover have "CreateModuleAccount chain_sdk empty_ctx = (Inr (), empty_ctx)"
    by (simp add: CreateModuleAccount_def worldM_def chain_sdk_def)
  ultimately show ?thesis
    unfolding InitGenesis_eq_Inr [OF chain_coins_laws chain_bech32_laws] sample_ctx_def
    using sample_denoms by blast
qed

lemma empty_store: "store_Get chain_sdk (store empty_ctx) p k = None"
  by (simp add: chain_sdk_def empty_ctx_def)

lemma sample_genesis_ctx: "genesis_ctx chain_sdk sample_ctx"
  unfolding genesis_ctx_def using sample_init empty_store by blast

lemma sample_reachable: "reachable chain_sdk sample_ctx"
  unfolding reachable_def by (rule reach.start) (rule sample_genesis_ctx)

lemmas denom_names = alice_def bob_def silver_def void_def gold_def

lemma sample_admins: "admins chain_sdk (store sample_ctx) = [silver \<mapsto> bob, void \<mapsto> '''']"
  using InitGenesis_canonical(2) [OF chain_store_laws chain_bech32_laws chain_metadata_laws
      chain_coins_laws empty_store sample_init]
  by (simp add: sample_genesis_def)

text \<open>The sample chain's other modules, in a form that evaluates.\<close>

lemma sample_world: "world sample_ctx = (world params_ctx)\<lparr>denom_metadata :=
    [silver \<mapsto> created_metadata silver, void \<mapsto> created_metadata void]\<rparr>"
  by (simp add: sample_ctx_def sample_genesis_def import_denom_def add_metadata_def)
    (simp add: chain_sdk_def params_ctx_def empty_ctx_def created_metadata_def denom_names)

section \<open>Creating a denom\<close>

definition create_gold :: MsgCreateDenom where
  "create_gold = NewMsgCreateDenom alice ''gold''"

definition gold_ctx :: "(chain_store, chain) ctx" where
  "gold_ctx = snd (deliver_tx chain_sdk [CreateDenomMsg create_gold] sample_ctx)"

lemma address_alice: "chain_address alice = Inr (bytes_of_string ''alice'')"
  by code_simp

lemma charge_alice: "\<exists>c. chargeForCreateDenom chain_sdk alice sample_ctx = (Inr (), c)"
proof -
  have keys: "KeyDenomCreationGasConsume \<noteq> KeyDenomCreationFee"
    by (simp add: KeyDenomCreationFee_def KeyDenomCreationGasConsume_def)
  have "GetParams chain_sdk sample_ctx = (Inr sample_params, sample_ctx)"
    using keys by (simp add: GetParams_def param_keys sample_world params_ctx_def chain_ops run_simps
        sample_params_def NewParams_def)
  then show ?thesis
    by (simp add: chargeForCreateDenom_def run_simps chain_ops address_alice worldM_def chain_Send_def
        chain_pays_def amount_of_def sample_world params_ctx_def empty_ctx_def sample_params_def
        NewParams_def chain_move_def bindM_def)
qed

lemma gold_created: "deliver_tx chain_sdk [CreateDenomMsg create_gold] sample_ctx = (Inr (), gold_ctx)"
proof -
  have d: "GetTokenDenom chain_sdk alice ''gold'' = Inr gold" by code_simp
  have v: "MsgCreateDenom_ValidateBasic chain_sdk create_gold = Inr ()" by code_simp
  have ok: "admin_ok chain_sdk alice" using address_alice by (simp add: admin_ok_def chain_ops)
  obtain c where "CreateDenom chain_sdk alice ''gold'' sample_ctx = (Inr gold, c)"
    using charge_alice d ok unfolding CreateDenom_eq_Inr
    by (auto simp: chain_ops sample_world params_ctx_def empty_ctx_def denom_names)
  then have "\<exists>c. deliver_tx chain_sdk [CreateDenomMsg create_gold] sample_ctx = (Inr (), c)"
    using v by (auto simp: deliver_tx_eq_Inr bindM_eq_Inr ignore_eq_Inr CreateDenom_handler_eq_Inr
        create_gold_def NewMsgCreateDenom_def action_simps)
  then show ?thesis by (auto simp: gold_ctx_def)
qed

lemma gold_reachable: "reachable chain_sdk gold_ctx"
  using sample_reachable gold_created by (rule reachable_tx)

lemma gold_admins: "admins chain_sdk (store gold_ctx) = [silver \<mapsto> bob, void \<mapsto> '''', gold \<mapsto> alice]"
  using deliver_tx_admins [OF chain_sdk_laws reachable_Inv [OF chain_sdk_laws sample_reachable] gold_created]
  by (simp add: sample_admins create_gold_def NewMsgCreateDenom_def denom_names)

section \<open>The admin of silver at work\<close>

definition some_silver :: coin where
  "some_silver = \<lparr>coin_Denom = silver, coin_Amount = 7\<rparr>"

definition mint_silver :: MsgMint where
  "mint_silver = NewMsgMintTo bob some_silver alice"

definition burn_silver :: MsgBurn where
  "burn_silver = NewMsgBurnFrom bob some_silver alice"

definition move_silver :: MsgForceTransfer where
  "move_silver = NewMsgForceTransfer bob some_silver alice bob"

definition give_silver :: MsgChangeAdmin where
  "give_silver = NewMsgChangeAdmin bob silver alice"

lemma names_not_empty: "alice \<noteq> ''''" "bob \<noteq> ''''"
  by (simp_all add: denom_names)

lemma sample_wf: "wf_metadata chain_sdk (store sample_ctx)"
  by (rule reachable_wf [OF chain_sdk_laws sample_reachable])

lemma address_bob: "chain_address bob = Inr (bytes_of_string ''bob'')"
  by code_simp

lemma new_some_silver: "chain_NewCoins [some_silver] = Inr (Some [some_silver])"
  by code_simp

lemma silver_ok: "denom_ok chain_sdk silver"
  using sample_denoms by (simp add: sample_genesis_def genesis_denom_ok_def)

lemmas sample_eval = chain_ops sample_world params_ctx_def empty_ctx_def address_alice address_bob
  new_some_silver chain_Send_def chain_Mint_def chain_Burn_def chain_pays_def chain_move_def
  amount_of_def credit_def ModuleName_def some_silver_def denom_names

lemma sample_mintTo: "\<exists>c. mintTo chain_sdk some_silver alice sample_ctx = (Inr (), c)"
  using silver_ok new_some_silver address_alice unfolding mintTo_eq_Inr
  by (simp add: sample_eval)

lemma sample_burnFrom: "\<exists>c. burnFrom chain_sdk some_silver alice sample_ctx = (Inr (), c)"
  using silver_ok new_some_silver address_alice unfolding burnFrom_eq_Inr
  by (simp add: sample_eval)

lemma sample_forceTransfer: "\<exists>c. forceTransfer chain_sdk some_silver alice bob sample_ctx = (Inr (), c)"
  using silver_ok new_some_silver address_alice address_bob unfolding forceTransfer_eq_Inr
  by (simp add: sample_eval)

lemma sample_mint: "\<exists>c. MsgServer_Mint chain_sdk mint_silver sample_ctx = (Inr MsgMintResponse, c)"
  using sample_mintTo unfolding Mint_handler_eq_Inr [OF chain_bech32_laws sample_wf]
  by (auto simp: mint_silver_def NewMsgMintTo_def sample_admins some_silver_def admin_or_none_def
      chain_ops sample_world denom_names)

lemma sample_burn: "\<exists>c. MsgServer_Burn chain_sdk burn_silver sample_ctx = (Inr MsgBurnResponse, c)"
  using sample_burnFrom unfolding Burn_handler_eq_Inr [OF chain_bech32_laws sample_wf]
  by (auto simp: burn_silver_def NewMsgBurnFrom_def sample_admins some_silver_def admin_or_none_def
      chain_ops ModuleName_def denom_names)

lemma sample_move: "\<exists>c. MsgServer_ForceTransfer chain_sdk move_silver sample_ctx = (Inr MsgForceTransferResponse, c)"
  using sample_forceTransfer unfolding ForceTransfer_handler_eq_Inr [OF chain_bech32_laws sample_wf]
  by (auto simp: move_silver_def NewMsgForceTransfer_def sample_admins some_silver_def admin_or_none_def
      denom_names)

lemma sample_give: "\<exists>c. MsgServer_ChangeAdmin chain_sdk give_silver sample_ctx = (Inr MsgChangeAdminResponse, c)"
  using address_alice unfolding ChangeAdmin_handler_eq_Inr [OF chain_bech32_laws sample_wf]
  by (auto simp: give_silver_def NewMsgChangeAdmin_def sample_admins admin_or_none_def admin_ok_def
      chain_ops denom_names)

lemma sample_create: "\<exists>c. MsgServer_CreateDenom chain_sdk create_gold sample_ctx = (Inr \<lparr>NewTokenDenom = gold\<rparr>, c)"
proof -
  obtain r c where "MsgServer_CreateDenom chain_sdk create_gold sample_ctx = (Inr r, c)"
    using gold_created by (auto simp: deliver_tx_eq_Inr bindM_eq_Inr ignore_eq_Inr)
  moreover have "GetTokenDenom chain_sdk alice ''gold'' = Inr gold" by code_simp
  ultimately show ?thesis
    by (auto simp: CreateDenom_handler_eq_Inr CreateDenom_eq_Inr create_gold_def NewMsgCreateDenom_def)
qed

definition give_ctx :: "(chain_store, chain) ctx" where
  "give_ctx = snd (deliver_tx chain_sdk [ChangeAdminMsg give_silver] sample_ctx)"

lemma silver_given: "deliver_tx chain_sdk [ChangeAdminMsg give_silver] sample_ctx = (Inr (), give_ctx)"
proof -
  have "MsgChangeAdmin_ValidateBasic chain_sdk give_silver = Inr ()" by code_simp
  then have "\<exists>c. deliver_tx chain_sdk [ChangeAdminMsg give_silver] sample_ctx = (Inr (), c)"
    using sample_give by (auto simp: deliver_tx_eq_Inr bindM_eq_Inr ignore_eq_Inr action_simps)
  then show ?thesis by (auto simp: give_ctx_def)
qed

lemma give_admins: "admins chain_sdk (store give_ctx) = [silver \<mapsto> alice, void \<mapsto> '''']"
  using deliver_tx_admins [OF chain_sdk_laws reachable_Inv [OF chain_sdk_laws sample_reachable] silver_given]
  by (simp add: sample_admins give_silver_def NewMsgChangeAdmin_def spec_admin_def fun_upd_twist denom_names)

end
