(* ===== verification/SampleSim.thy ===== *)
theory SampleSim
  imports SimulationProps SampleRun
begin

text \<open>The simulator on the sample chain, with a generator that always picks the first.\<close>

definition sample_rand :: "unit rand" where
  "sample_rand = \<lparr>rand_Intn = (\<lambda>n r. (0, r)), rand_BigInt = (\<lambda>n r. (0, r)),
     RandStringOfLength = (\<lambda>n r. (replicate n (CHR ''x''), r)),
     Coins_IsAllGTE = (\<lambda>a b. True), Coins_DenomsSubsetOf = (\<lambda>a b. True),
     NewCoin = (\<lambda>d a. if 0 \<le> a then Inr \<lparr>coin_Denom = d, coin_Amount = a\<rparr>
       else Inl (GoPanic ''negative coin amount''))\<rparr>"

definition bob_acc :: sim_account where
  "bob_acc = \<lparr>acc_Address = bytes_of_string ''bob''\<rparr>"

lemma sample_rand_laws: "rand_laws sample_rand"
  by (simp add: rand_laws_def sample_rand_def)

lemma bob_denoms: "gatherAllKeysFromStore chain_sdk (GetCreatorPrefix ''osmo1bob'') sample_ctx = [silver, void]"
  by code_simp

lemma bob_string: "AccAddress_String chain_sdk (bytes_of_string ''bob'') = bob"
  by (simp add: chain_sdk_def chain_address_string_def bob_def)

lemma sample_sim_mint:
  "SimulateMsgMintDenom chain_sdk sample_rand sample_ctx [bob_acc] () =
    (Inr (GenAndDeliverTx (NewMsgMint bob \<lparr>coin_Denom = silver, coin_Amount = 1\<rparr>) bob_acc), ())"
proof -
  have "KVStore_Iterator chain_sdk (GetCreatorPrefix bob) sample_ctx \<noteq> []"
    using bob_denoms by (auto simp: gatherAllKeysFromStore_def bob_def)
  then have "accountCreatedTokenFactoryDenom chain_sdk sample_ctx bob_acc"
    by (simp add: accountCreatedTokenFactoryDenom_def bob_acc_def bob_string Keeper_GetCreatorPrefixStore_def)
  then have f: "RandomSimAccountWithConstraint sample_rand [bob_acc]
      (accountCreatedTokenFactoryDenom chain_sdk sample_ctx) () = (Inr (Some bob_acc), ())"
    by (simp add: RandomSimAccountWithConstraint_def randomSimAccount_def Intn_def slice_at_def sample_rand_def run_simps)
  have g: "getTokenFactoryDenomAndItsAdmin chain_sdk sample_rand sample_ctx bob_acc () =
      (Inr (silver, bytes_of_string ''bob''), ())"
    using bob_denoms sample_admins GetAuthorityMetadata_run [OF chain_bech32_laws sample_wf, of silver]
    by (simp add: getTokenFactoryDenomAndItsAdmin_def bob_acc_def bob_string Keeper_GetCreatorPrefixStore_def
        randSelect_def randLTBound_def randLTEBound_def Intn_def slice_at_def sample_rand_def run_simps
        address_bob chain_ops bob_def [symmetric] admin_or_none_def denom_names(3,4))
  have "bytes_of_string ''bob'' \<noteq> []" by (simp add: bytes_of_string_def)
  then show ?thesis
    using f g by (simp add: SimulateMsgMintDenom_def bindM_def orNoOp_def RandPositiveInt_def sample_rand_def
        run_simps NewMsgMint_def bob_string)
qed

end
