(* ===== verification/SampleMeta.thy ===== *)
theory SampleMeta
  imports Sdk
begin

text \<open>
  A codec of \<open>banktypes.Metadata\<close> for the witnesses, in the style of the generated code: it satisfies the
  contract that the messages embedding metadata rely on.
\<close>

section \<open>Denom units\<close>

definition unit_zero :: denom_unit where
  "unit_zero = \<lparr>unit_Denom = '''', unit_Exponent = 0, unit_Aliases = []\<rparr>"

definition unit_Sized :: "denom_unit \<Rightarrow> marshaller" where
  "unit_Sized m = sizedBuffer
    (thenW (put_rev (put_string_elem 0x1a) (unit_Aliases m))
      (thenW (put_uint64_field 0x10 (ucast (unit_Exponent m)))
        (put_string_field 0x0a (unit_Denom m))))"

definition unit_Size :: "denom_unit \<Rightarrow> nat" where
  "unit_Size m = string_size (unit_Denom m) + uint64_size (ucast (unit_Exponent m))
    + (\<Sum>s\<leftarrow>unit_Aliases m. string_elem_size s)"

definition unit_field :: "denom_unit field_switch" where
  "unit_field m fieldNum wireType d i =
    (if fieldNum = 1 then Some (read_string_field (\<lambda>s. m\<lparr>unit_Denom := s\<rparr>) wireType d i)
     else if fieldNum = 2 then Some (read_uint64_field (\<lambda>v. m\<lparr>unit_Exponent := ucast v\<rparr>) wireType d i)
     else if fieldNum = 3 then Some (read_string_field (\<lambda>s. m\<lparr>unit_Aliases := unit_Aliases m @ [s]\<rparr>) wireType d i)
     else None)"

definition unit_Unmarshal :: "denom_unit \<Rightarrow> bytes \<Rightarrow> denom_unit result" where
  "unit_Unmarshal m d = unmarshalWith unit_field m d"

definition unit_bytes :: "denom_unit \<Rightarrow> bytes" where
  "unit_bytes m = string_field 0x0a (unit_Denom m) @ uint64_field 0x10 (ucast (unit_Exponent m))
    @ concat (map (\<lambda>s. delimited 0x1a (bytes_of_string s)) (unit_Aliases m))"

lemma unit_routes:
  "routes unit_field m 0x0a 2 (read_string_field (\<lambda>s. m\<lparr>unit_Denom := s\<rparr>) 2)"
  "routes unit_field m 0x10 0 (read_uint64_field (\<lambda>v. m\<lparr>unit_Exponent := ucast v\<rparr>) 0)"
  "routes unit_field m 0x1a 2 (read_string_field (\<lambda>s. m\<lparr>unit_Aliases := unit_Aliases m @ [s]\<rparr>) 2)"
  by (simp_all add: routes_def unit_field_def fun_eq_iff)

lemma unit_progressing: "progressing unit_field"
  by (rule progressingI) (auto simp: unit_field_def no_fuel split: if_splits dest: advances)

lemma unit_fold:
  "fold (\<lambda>s m. m\<lparr>unit_Aliases := unit_Aliases m @ [s]\<rparr>) xs m = m\<lparr>unit_Aliases := unit_Aliases m @ xs\<rparr>"
  by (induction xs arbitrary: m) simp_all

lemma unit_reads: "reads unit_field (unit_bytes m) unit_zero m"
proof -
  let ?m1 = "unit_zero\<lparr>unit_Denom := unit_Denom m\<rparr>"
  let ?m2 = "?m1\<lparr>unit_Exponent := unit_Exponent m\<rparr>"
  let ?m3 = "fold (\<lambda>s m. m\<lparr>unit_Aliases := unit_Aliases m @ [s]\<rparr>) (unit_Aliases m) ?m2"
  have r1: "reads unit_field (string_field 0x0a (unit_Denom m)) unit_zero ?m1"
    by (rule reads_string_field [OF unit_routes(1)]) (simp add: unit_zero_def)
  have "ucast (ucast (unit_Exponent m) :: u64) = unit_Exponent m"
    by (rule ucast_up_ucast_id) (simp add: is_up)
  then have r2: "reads unit_field (uint64_field 0x10 (ucast (unit_Exponent m))) ?m1 ?m2"
    using reads_uint64_field [OF unit_routes(2), of "ucast (unit_Exponent m)" ?m1]
    by (simp add: unit_zero_def)
  have r3: "reads unit_field (concat (map (\<lambda>s. delimited 0x1a (bytes_of_string s)) (unit_Aliases m))) ?m2 ?m3"
    by (rule reads_concat [where P = "\<lambda>_. True"]) (rule reads_string_elem [OF unit_routes(3)] TrueI)+
  have eq: "?m3 = m" by (cases m) (simp add: unit_fold unit_zero_def)
  show ?thesis using reads_append [OF r1 reads_append [OF r2 r3]] unfolding eq unit_bytes_def .
qed

interpretation unit_codec: proto_message unit_Sized unit_Size unit_Unmarshal unit_zero unit_bytes id
proof unfold_locales
  fix m :: denom_unit
  show "marshals (unit_Sized m) (unit_bytes m)"
    unfolding unit_Sized_def unit_bytes_def
    by (rule marshals_sizedBuffer, rule writes_cong, (rule writes_intros)+) simp
  show "unit_Size m = length (unit_bytes m)"
    by (simp add: unit_Size_def unit_bytes_def field_lengths length_concat_map string_elem_size_def msg_size_def Let_def)
  assume "length (unit_bytes m) < 2 ^ 63"
  then show "unit_Unmarshal unit_zero (unit_bytes m) = Inr (id m)"
    unfolding unit_Unmarshal_def id_apply by (intro unmarshalWith_reads unit_reads)
next
  fix m :: denom_unit and d :: bytes
  assume "length d < 2 ^ 63"
  then show "unit_Unmarshal m d \<noteq> Inl ErrFuel"
    unfolding unit_Unmarshal_def by (rule unmarshalWith_no_fuel [OF unit_progressing])
qed

section \<open>Metadata\<close>

definition meta_Sized :: "bank_metadata \<Rightarrow> marshaller" where
  "meta_Sized m = sizedBuffer
    (thenW (put_string_field 0x32 (meta_Symbol m))
      (thenW (put_string_field 0x2a (meta_Name m))
        (thenW (put_string_field 0x22 (meta_Display m))
          (thenW (put_string_field 0x1a (meta_Base m))
            (thenW (put_rev (\<lambda>u. put_msg_field 0x12 (unit_Sized u)) (meta_DenomUnits m))
              (put_string_field 0x0a (meta_Description m)))))))"

definition meta_Size :: "bank_metadata \<Rightarrow> nat" where
  "meta_Size m = string_size (meta_Description m) + (\<Sum>u\<leftarrow>meta_DenomUnits m. msg_size (unit_Size u))
    + string_size (meta_Base m) + string_size (meta_Display m) + string_size (meta_Name m) + string_size (meta_Symbol m)"

definition meta_field :: "bank_metadata field_switch" where
  "meta_field m fieldNum wireType d i =
    (if fieldNum = 1 then Some (read_string_field (\<lambda>s. m\<lparr>meta_Description := s\<rparr>) wireType d i)
     else if fieldNum = 2 then Some (read_msg_field (\<lambda>b. andThen (unit_Unmarshal unit_zero b)
        (\<lambda>x. Inr (m\<lparr>meta_DenomUnits := meta_DenomUnits m @ [x]\<rparr>))) wireType d i)
     else if fieldNum = 3 then Some (read_string_field (\<lambda>s. m\<lparr>meta_Base := s\<rparr>) wireType d i)
     else if fieldNum = 4 then Some (read_string_field (\<lambda>s. m\<lparr>meta_Display := s\<rparr>) wireType d i)
     else if fieldNum = 5 then Some (read_string_field (\<lambda>s. m\<lparr>meta_Name := s\<rparr>) wireType d i)
     else if fieldNum = 6 then Some (read_string_field (\<lambda>s. m\<lparr>meta_Symbol := s\<rparr>) wireType d i)
     else None)"

definition meta_bytes :: "bank_metadata \<Rightarrow> bytes" where
  "meta_bytes m = string_field 0x0a (meta_Description m)
    @ concat (map (\<lambda>u. delimited 0x12 (unit_bytes u)) (meta_DenomUnits m))
    @ string_field 0x1a (meta_Base m) @ string_field 0x22 (meta_Display m)
    @ string_field 0x2a (meta_Name m) @ string_field 0x32 (meta_Symbol m)"

definition meta_codec :: "bank_metadata codec" where
  "meta_codec = \<lparr>codec_MarshalToSizedBuffer = meta_Sized, codec_Size = meta_Size,
     codec_Unmarshal = (\<lambda>m. unmarshalWith meta_field m), codec_zero = bank_metadata_zero\<rparr>"

lemma field_number_high [simp]: "field_number 0x2a = 5" "field_number 0x32 = 6"
  by (simp_all add: field_number_def)

lemma meta_routes:
  "routes meta_field m 0x0a 2 (read_string_field (\<lambda>s. m\<lparr>meta_Description := s\<rparr>) 2)"
  "routes meta_field m 0x12 2 (read_msg_field (\<lambda>b. andThen (unit_Unmarshal unit_zero b)
     (\<lambda>x. Inr (m\<lparr>meta_DenomUnits := meta_DenomUnits m @ [x]\<rparr>))) 2)"
  "routes meta_field m 0x1a 2 (read_string_field (\<lambda>s. m\<lparr>meta_Base := s\<rparr>) 2)"
  "routes meta_field m 0x22 2 (read_string_field (\<lambda>s. m\<lparr>meta_Display := s\<rparr>) 2)"
  "routes meta_field m 0x2a 2 (read_string_field (\<lambda>s. m\<lparr>meta_Name := s\<rparr>) 2)"
  "routes meta_field m 0x32 2 (read_string_field (\<lambda>s. m\<lparr>meta_Symbol := s\<rparr>) 2)"
  by (simp_all add: routes_def meta_field_def fun_eq_iff)

lemma meta_progressing: "progressing meta_field"
  by (rule progressingI)
    (auto simp: meta_field_def no_fuel unit_codec.field_no_fuel split: if_splits dest: advances)

lemma meta_fold:
  "fold (\<lambda>x m. m\<lparr>meta_DenomUnits := meta_DenomUnits m @ [x]\<rparr>) xs m
    = m\<lparr>meta_DenomUnits := meta_DenomUnits m @ xs\<rparr>"
  by (induction xs arbitrary: m) simp_all

lemma meta_units_reads:
  assumes "length (concat (map (\<lambda>u. delimited 0x12 (unit_bytes u)) us)) < 2 ^ 63"
  shows "reads meta_field (concat (map (\<lambda>u. delimited 0x12 (unit_bytes u)) us)) m
    (m\<lparr>meta_DenomUnits := meta_DenomUnits m @ us\<rparr>)"
proof -
  have "reads meta_field (concat (map (\<lambda>u. delimited 0x12 (unit_bytes u)) us)) m
    (fold (\<lambda>x m. m\<lparr>meta_DenomUnits := meta_DenomUnits m @ [x]\<rparr>) us m)"
  proof (rule reads_concat [where P = "\<lambda>_. True"])
    fix x y
    assume "x \<in> set us"
    then have "length (delimited 0x12 (unit_bytes x)) \<le> (\<Sum>x\<leftarrow>us. length (delimited 0x12 (unit_bytes x)))"
      by (intro member_le_sum_list) auto
    with assms have "length (unit_bytes x) < 2 ^ 63" by (simp add: length_concat_map length_delimited)
    then show "reads meta_field (delimited 0x12 (unit_bytes x)) y (y\<lparr>meta_DenomUnits := meta_DenomUnits y @ [x]\<rparr>)"
      using unit_codec.reads_field [OF meta_routes(2)] by simp
  qed simp_all
  then show ?thesis unfolding meta_fold .
qed

lemma meta_reads:
  assumes "length (meta_bytes m) < 2 ^ 63"
  shows "reads meta_field (meta_bytes m) bank_metadata_zero m"
proof -
  let ?m1 = "bank_metadata_zero\<lparr>meta_Description := meta_Description m\<rparr>"
  let ?m2 = "?m1\<lparr>meta_DenomUnits := meta_DenomUnits ?m1 @ meta_DenomUnits m\<rparr>"
  let ?m3 = "?m2\<lparr>meta_Base := meta_Base m\<rparr>"
  let ?m4 = "?m3\<lparr>meta_Display := meta_Display m\<rparr>"
  let ?m5 = "?m4\<lparr>meta_Name := meta_Name m\<rparr>"
  let ?m6 = "?m5\<lparr>meta_Symbol := meta_Symbol m\<rparr>"
  have r1: "reads meta_field (string_field 0x0a (meta_Description m)) bank_metadata_zero ?m1"
    by (rule reads_string_field [OF meta_routes(1)]) (simp add: bank_metadata_zero_def)
  have r2: "reads meta_field (concat (map (\<lambda>u. delimited 0x12 (unit_bytes u)) (meta_DenomUnits m))) ?m1 ?m2"
    by (rule meta_units_reads) (use assms in \<open>simp add: meta_bytes_def\<close>)
  have r3: "reads meta_field (string_field 0x1a (meta_Base m)) ?m2 ?m3"
    by (rule reads_string_field [OF meta_routes(3)]) (simp add: bank_metadata_zero_def)
  have r4: "reads meta_field (string_field 0x22 (meta_Display m)) ?m3 ?m4"
    by (rule reads_string_field [OF meta_routes(4)]) (simp add: bank_metadata_zero_def)
  have r5: "reads meta_field (string_field 0x2a (meta_Name m)) ?m4 ?m5"
    by (rule reads_string_field [OF meta_routes(5)]) (simp add: bank_metadata_zero_def)
  have r6: "reads meta_field (string_field 0x32 (meta_Symbol m)) ?m5 ?m6"
    by (rule reads_string_field [OF meta_routes(6)]) (simp add: bank_metadata_zero_def)
  have eq: "?m6 = m" by (cases m) (simp add: bank_metadata_zero_def)
  show ?thesis
    using reads_append [OF r1 reads_append [OF r2 reads_append [OF r3 reads_append [OF r4 reads_append [OF r5 r6]]]]]
    unfolding eq meta_bytes_def .
qed

lemma meta_codec_ok: "codec_ok meta_codec meta_bytes"
proof unfold_locales
  fix m :: bank_metadata
  show "marshals (codec_MarshalToSizedBuffer meta_codec m) (meta_bytes m)"
    unfolding meta_codec_def codec.simps meta_Sized_def meta_bytes_def
    by (rule marshals_sizedBuffer, rule writes_cong, (rule writes_intros unit_codec.marshals_enc)+) simp
  show "codec_Size meta_codec m = length (meta_bytes m)"
    by (simp add: meta_codec_def meta_Size_def meta_bytes_def field_lengths length_concat_map unit_codec.sz_enc)
  assume "length (meta_bytes m) < 2 ^ 63"
  then show "codec_Unmarshal meta_codec (codec_zero meta_codec) (meta_bytes m) = Inr (id m)"
    unfolding meta_codec_def codec.simps id_apply by (intro unmarshalWith_reads meta_reads)
next
  fix m :: bank_metadata and d :: bytes
  assume "length d < 2 ^ 63"
  then show "codec_Unmarshal meta_codec m d \<noteq> Inl ErrFuel"
    by (simp add: meta_codec_def unmarshalWith_no_fuel [OF meta_progressing])
qed

end
