(* ===== verification/Module.thy ===== *)
theory Module
  imports Handlers
begin

text \<open>
  \<open>module.go\<close> and \<open>types/codec.go\<close>: the module as the SDK's module manager sees it. The JSON codec
  of genesis states is a parameter. The registrations of \<open>codec.go\<close> are the lists of what is registered.
\<close>

record genesis_json =
  UnmarshalJSON :: "bytes \<Rightarrow> GenesisState result"
  MustMarshalJSON :: "GenesisState \<Rightarrow> bytes result"

definition AppModuleBasic_Name :: string where
  "AppModuleBasic_Name = ModuleName"

definition AppModuleBasic_DefaultGenesis :: "('k, 'w) sdk \<Rightarrow> genesis_json \<Rightarrow> bytes result" where
  "AppModuleBasic_DefaultGenesis E cdc = andThen (DefaultGenesis E) (MustMarshalJSON cdc)"

definition AppModuleBasic_ValidateGenesis :: "('k, 'w) sdk \<Rightarrow> genesis_json \<Rightarrow> bytes \<Rightarrow> unit result" where
  "AppModuleBasic_ValidateGenesis E cdc bz = (case UnmarshalJSON cdc bz of
      Inl err \<Rightarrow> Inl (ErrText ''failed to unmarshal genesis state'')
    | Inr genState \<Rightarrow> GenesisState_Validate E genState)"

definition AppModule_QuerierRoute :: string where
  "AppModule_QuerierRoute = QuerierRoute"

definition AppModule_InitGenesis :: "('k, 'w) sdk \<Rightarrow> genesis_json \<Rightarrow> bytes \<Rightarrow> ('k, 'w, unit list) keeper" where
  "AppModule_InitGenesis E cdc gs =
    bindM (orPanic (liftM (UnmarshalJSON cdc gs))) (\<lambda>genState.
    bindM (InitGenesis E genState) (\<lambda>_. retM []))"

definition AppModule_ExportGenesis :: "('k, 'w) sdk \<Rightarrow> genesis_json \<Rightarrow> ('k, 'w, bytes) keeper" where
  "AppModule_ExportGenesis E cdc =
    bindM (ExportGenesis E) (\<lambda>genState. liftM (MustMarshalJSON cdc genState))"

definition AppModule_ConsensusVersion :: u64 where
  "AppModule_ConsensusVersion = 1"

definition AppModule_BeginBlock :: "('k, 'w, unit) keeper" where
  "AppModule_BeginBlock = retM ()"

definition AppModule_EndBlock :: "('k, 'w, unit list) keeper" where
  "AppModule_EndBlock = retM []"

section \<open>Registrations\<close>

datatype msg_type = TMsgCreateDenom | TMsgMint | TMsgBurn | TMsgForceTransfer | TMsgChangeAdmin | TMsgSetDenomMetadata

definition RegisterCodec :: "(msg_type \<times> string) list" where
  "RegisterCodec = [
     (TMsgCreateDenom, ''osmosis/tokenfactory/create-denom''),
     (TMsgMint, ''osmosis/tokenfactory/mint''),
     (TMsgBurn, ''osmosis/tokenfactory/burn''),
     (TMsgForceTransfer, ''osmosis/tokenfactory/force-transfer''),
     (TMsgChangeAdmin, ''osmosis/tokenfactory/change-admin'')]"

text \<open>The methods of the message service, and the types registered as implementations of \<open>sdk.Msg\<close>: those the
  code lists, and the request type of every method, which \<open>msgservice.RegisterMsgServiceDesc\<close> registers.\<close>

definition Msg_serviceDesc :: "(string \<times> msg_type) list" where
  "Msg_serviceDesc = [
     (''CreateDenom'', TMsgCreateDenom),
     (''Mint'', TMsgMint),
     (''Burn'', TMsgBurn),
     (''ChangeAdmin'', TMsgChangeAdmin),
     (''SetDenomMetadata'', TMsgSetDenomMetadata),
     (''ForceTransfer'', TMsgForceTransfer)]"

definition RegisterInterfaces :: "msg_type list" where
  "RegisterInterfaces =
     [TMsgCreateDenom, TMsgMint, TMsgBurn, TMsgChangeAdmin] @ map snd Msg_serviceDesc"

section \<open>Genesis through the module manager\<close>

lemma DefaultGenesis_valid:
  assumes "coins_laws E"
  shows "\<exists>gs. DefaultGenesis E = Inr gs \<and> FactoryDenoms gs = [] \<and> GenesisState_Validate E gs = Inr ()"
proof -
  have "NewCoins E [] = Inr (Some [])" and "Coins_Validate E (Some []) = Inr ()"
    using assms unfolding coins_laws_def by blast+
  then show ?thesis
    by (simp add: DefaultGenesis_def DefaultParams_def GenesisState_Validate_eq_Inr)
qed

end
