(* ===== verification/Services.thy ===== *)
theory Services
  imports System Module
begin

text \<open>
  From bytes to handlers: the service descriptors and handlers of \<open>types/tx.pb.go\<close> and \<open>types/query.pb.go\<close>, the
  names under which messages are registered, and how the SDK uses them. A transaction carries each message
  as an \<open>Any\<close>, a type URL and bytes; the interface registry decodes it if the type was registered as an
  \<open>sdk.Msg\<close>, and the message router calls the service handler with a decoder that does nothing and an interceptor
  that passes the message on. A query arrives as a method path and bytes, which the handler's decoder decodes.
\<close>

section \<open>The services\<close>

text \<open>The interfaces \<open>MsgServer\<close> and \<open>QueryServer\<close>, as records of their methods. The interfaces \<open>MsgClient\<close> and
  \<open>QueryClient\<close> have the same methods, with options for the call besides, which the module does not use.\<close>

record ('k, 'w) msg_service =
  srv_CreateDenom :: "MsgCreateDenom \<Rightarrow> ('k, 'w, MsgCreateDenomResponse) keeper"
  srv_Mint :: "MsgMint \<Rightarrow> ('k, 'w, MsgMintResponse) keeper"
  srv_Burn :: "MsgBurn \<Rightarrow> ('k, 'w, MsgBurnResponse) keeper"
  srv_ChangeAdmin :: "MsgChangeAdmin \<Rightarrow> ('k, 'w, MsgChangeAdminResponse) keeper"
  srv_SetDenomMetadata :: "MsgSetDenomMetadata \<Rightarrow> ('k, 'w, MsgSetDenomMetadataResponse) keeper"
  srv_ForceTransfer :: "MsgForceTransfer \<Rightarrow> ('k, 'w, MsgForceTransferResponse) keeper"

record ('k, 'w) query_service =
  srv_Params :: "QueryParamsRequest \<Rightarrow> ('k, 'w, QueryParamsResponse) keeper"
  srv_DenomAuthorityMetadata ::
    "QueryDenomAuthorityMetadataRequest \<Rightarrow> ('k, 'w, QueryDenomAuthorityMetadataResponse) keeper"
  srv_DenomsFromCreator :: "QueryDenomsFromCreatorRequest \<Rightarrow> ('k, 'w, QueryDenomsFromCreatorResponse) keeper"

text \<open>The module's own implementations: the message server over the keeper, and the keeper itself for queries.\<close>

definition NewMsgServerImpl :: "('k, 'w) sdk \<Rightarrow> ('k, 'w) msg_service" where
  "NewMsgServerImpl E = \<lparr>
     srv_CreateDenom = MsgServer_CreateDenom E,
     srv_Mint = MsgServer_Mint E,
     srv_Burn = MsgServer_Burn E,
     srv_ChangeAdmin = MsgServer_ChangeAdmin E,
     srv_SetDenomMetadata = MsgServer_SetDenomMetadata E,
     srv_ForceTransfer = MsgServer_ForceTransfer E\<rparr>"

definition Keeper_QueryServer :: "('k, 'w) sdk \<Rightarrow> ('k, 'w) query_service" where
  "Keeper_QueryServer E = \<lparr>
     srv_Params = Query_Params E,
     srv_DenomAuthorityMetadata = Query_DenomAuthorityMetadata E,
     srv_DenomsFromCreator = Query_DenomsFromCreator E\<rparr>"

text \<open>Servers to embed for methods that a later version of the interface may add: every method returns an error.\<close>

definition unimplemented :: "string \<Rightarrow> 'req \<Rightarrow> ('k, 'w, 'resp) keeper" where
  "unimplemented name req = failM (ErrText (''method '' @ name @ '' not implemented''))"

definition UnimplementedMsgServer :: "('k, 'w) msg_service" where
  "UnimplementedMsgServer = \<lparr>
     srv_CreateDenom = unimplemented ''CreateDenom'',
     srv_Mint = unimplemented ''Mint'',
     srv_Burn = unimplemented ''Burn'',
     srv_ChangeAdmin = unimplemented ''ChangeAdmin'',
     srv_SetDenomMetadata = unimplemented ''SetDenomMetadata'',
     srv_ForceTransfer = unimplemented ''ForceTransfer''\<rparr>"

definition UnimplementedQueryServer :: "('k, 'w) query_service" where
  "UnimplementedQueryServer = \<lparr>
     srv_Params = unimplemented ''Params'',
     srv_DenomAuthorityMetadata = unimplemented ''DenomAuthorityMetadata'',
     srv_DenomsFromCreator = unimplemented ''DenomsFromCreator''\<rparr>"

section \<open>Handlers of the services\<close>

text \<open>\<open>interceptor(ctx, in, info, handler)\<close>, with \<open>info.FullMethod\<close> for \<open>info\<close>; every generated handler has
  the same body for its method.\<close>

type_synonym ('k, 'w, 'req, 'resp) interceptor =
  "'req \<Rightarrow> string \<Rightarrow> ('req \<Rightarrow> ('k, 'w, 'resp) keeper) \<Rightarrow> ('k, 'w, 'resp) keeper"

definition unary_handler ::
  "'req \<Rightarrow> string \<Rightarrow> ('req \<Rightarrow> ('k, 'w, 'resp) keeper) \<Rightarrow> ('req \<Rightarrow> 'req result) \<Rightarrow>
    ('k, 'w, 'req, 'resp) interceptor option \<Rightarrow> ('k, 'w, 'resp) keeper" where
  "unary_handler new FullMethod method dec interceptor =
    bindM (liftM (dec new)) (\<lambda>req. case interceptor of
      None \<Rightarrow> method req
    | Some ic \<Rightarrow> ic req FullMethod method)"

definition Msg_CreateDenom_Handler :: "('k, 'w) msg_service \<Rightarrow> (MsgCreateDenom \<Rightarrow> MsgCreateDenom result) \<Rightarrow>
    ('k, 'w, MsgCreateDenom, MsgCreateDenomResponse) interceptor option \<Rightarrow> ('k, 'w, MsgCreateDenomResponse) keeper" where
  "Msg_CreateDenom_Handler srv = unary_handler MsgCreateDenom_zero
    ''/tokenfactory.v1beta1.Msg/CreateDenom'' (srv_CreateDenom srv)"

definition Msg_Mint_Handler :: "('k, 'w) msg_service \<Rightarrow> coin codec \<Rightarrow> (MsgMint \<Rightarrow> MsgMint result) \<Rightarrow>
    ('k, 'w, MsgMint, MsgMintResponse) interceptor option \<Rightarrow> ('k, 'w, MsgMintResponse) keeper" where
  "Msg_Mint_Handler srv CC = unary_handler (MsgMint_zero CC)
    ''/tokenfactory.v1beta1.Msg/Mint'' (srv_Mint srv)"

definition Msg_Burn_Handler :: "('k, 'w) msg_service \<Rightarrow> coin codec \<Rightarrow> (MsgBurn \<Rightarrow> MsgBurn result) \<Rightarrow>
    ('k, 'w, MsgBurn, MsgBurnResponse) interceptor option \<Rightarrow> ('k, 'w, MsgBurnResponse) keeper" where
  "Msg_Burn_Handler srv CC = unary_handler (MsgBurn_zero CC)
    ''/tokenfactory.v1beta1.Msg/Burn'' (srv_Burn srv)"

definition Msg_ChangeAdmin_Handler :: "('k, 'w) msg_service \<Rightarrow> (MsgChangeAdmin \<Rightarrow> MsgChangeAdmin result) \<Rightarrow>
    ('k, 'w, MsgChangeAdmin, MsgChangeAdminResponse) interceptor option \<Rightarrow> ('k, 'w, MsgChangeAdminResponse) keeper" where
  "Msg_ChangeAdmin_Handler srv = unary_handler MsgChangeAdmin_zero
    ''/tokenfactory.v1beta1.Msg/ChangeAdmin'' (srv_ChangeAdmin srv)"

definition Msg_SetDenomMetadata_Handler ::
  "('k, 'w) msg_service \<Rightarrow> bank_metadata codec \<Rightarrow> (MsgSetDenomMetadata \<Rightarrow> MsgSetDenomMetadata result) \<Rightarrow>
    ('k, 'w, MsgSetDenomMetadata, MsgSetDenomMetadataResponse) interceptor option \<Rightarrow>
    ('k, 'w, MsgSetDenomMetadataResponse) keeper" where
  "Msg_SetDenomMetadata_Handler srv MC = unary_handler (MsgSetDenomMetadata_zero MC)
    ''/tokenfactory.v1beta1.Msg/SetDenomMetadata'' (srv_SetDenomMetadata srv)"

definition Msg_ForceTransfer_Handler :: "('k, 'w) msg_service \<Rightarrow> coin codec \<Rightarrow> (MsgForceTransfer \<Rightarrow> MsgForceTransfer result) \<Rightarrow>
    ('k, 'w, MsgForceTransfer, MsgForceTransferResponse) interceptor option \<Rightarrow>
    ('k, 'w, MsgForceTransferResponse) keeper" where
  "Msg_ForceTransfer_Handler srv CC = unary_handler (MsgForceTransfer_zero CC)
    ''/tokenfactory.v1beta1.Msg/ForceTransfer'' (srv_ForceTransfer srv)"

definition Query_Params_Handler :: "('k, 'w) query_service \<Rightarrow> (QueryParamsRequest \<Rightarrow> QueryParamsRequest result) \<Rightarrow>
    ('k, 'w, QueryParamsRequest, QueryParamsResponse) interceptor option \<Rightarrow> ('k, 'w, QueryParamsResponse) keeper" where
  "Query_Params_Handler srv = unary_handler QueryParamsRequest_zero
    ''/tokenfactory.v1beta1.Query/Params'' (srv_Params srv)"

definition Query_DenomAuthorityMetadata_Handler :: "('k, 'w) query_service \<Rightarrow>
    (QueryDenomAuthorityMetadataRequest \<Rightarrow> QueryDenomAuthorityMetadataRequest result) \<Rightarrow>
    ('k, 'w, QueryDenomAuthorityMetadataRequest, QueryDenomAuthorityMetadataResponse) interceptor option \<Rightarrow>
    ('k, 'w, QueryDenomAuthorityMetadataResponse) keeper" where
  "Query_DenomAuthorityMetadata_Handler srv = unary_handler QueryDenomAuthorityMetadataRequest_zero
    ''/tokenfactory.v1beta1.Query/DenomAuthorityMetadata'' (srv_DenomAuthorityMetadata srv)"

definition Query_DenomsFromCreator_Handler :: "('k, 'w) query_service \<Rightarrow>
    (QueryDenomsFromCreatorRequest \<Rightarrow> QueryDenomsFromCreatorRequest result) \<Rightarrow>
    ('k, 'w, QueryDenomsFromCreatorRequest, QueryDenomsFromCreatorResponse) interceptor option \<Rightarrow>
    ('k, 'w, QueryDenomsFromCreatorResponse) keeper" where
  "Query_DenomsFromCreator_Handler srv = unary_handler QueryDenomsFromCreatorRequest_zero
    ''/tokenfactory.v1beta1.Query/DenomsFromCreator'' (srv_DenomsFromCreator srv)"

lemmas handler_defs = Msg_CreateDenom_Handler_def Msg_Mint_Handler_def Msg_Burn_Handler_def
  Msg_ChangeAdmin_Handler_def Msg_SetDenomMetadata_Handler_def Msg_ForceTransfer_Handler_def
  Query_Params_Handler_def Query_DenomAuthorityMetadata_Handler_def Query_DenomsFromCreator_Handler_def

text \<open>A handler hands what it decodes to its method, directly or through an interceptor that does so.\<close>

lemma unary_handler_runs:
  "dec new = Inr m \<Longrightarrow> unary_handler new p f dec None = f m"
  "dec new = Inr m \<Longrightarrow> (\<And>r q g. ic r q g = g x) \<Longrightarrow> unary_handler new p f dec (Some ic) = f x"
  by (simp_all add: unary_handler_def bindM_liftM fun_eq_iff)

lemma unary_handler_bad_bytes: "dec new = Inl e \<Longrightarrow> unary_handler new p f dec ic c = (Inl e, c)"
  by (simp add: unary_handler_def bindM_def action_simps)

section \<open>Registered names\<close>

definition message_types :: "(string \<times> msg_type) list" where
  "message_types = [
     (''tokenfactory.v1beta1.MsgCreateDenom'', TMsgCreateDenom),
     (''tokenfactory.v1beta1.MsgMint'', TMsgMint),
     (''tokenfactory.v1beta1.MsgBurn'', TMsgBurn),
     (''tokenfactory.v1beta1.MsgChangeAdmin'', TMsgChangeAdmin),
     (''tokenfactory.v1beta1.MsgSetDenomMetadata'', TMsgSetDenomMetadata),
     (''tokenfactory.v1beta1.MsgForceTransfer'', TMsgForceTransfer)]"

fun Msg_type :: "Msg \<Rightarrow> msg_type" where
  "Msg_type (CreateDenomMsg m) = TMsgCreateDenom"
| "Msg_type (MintMsg m) = TMsgMint"
| "Msg_type (BurnMsg m) = TMsgBurn"
| "Msg_type (ForceTransferMsg m) = TMsgForceTransfer"
| "Msg_type (ChangeAdminMsg m) = TMsgChangeAdmin"
| "Msg_type (SetDenomMetadataMsg m) = TMsgSetDenomMetadata"

text \<open>The type URL is a slash and the registered name.\<close>

definition type_url :: "msg_type \<Rightarrow> string" where
  "type_url t = (case find (\<lambda>(n, t'). t' = t) message_types of Some (n, _) \<Rightarrow> CHR ''/'' # n | None \<Rightarrow> '''')"

definition resolve_url :: "string \<Rightarrow> msg_type option" where
  "resolve_url url = map_option snd (find (\<lambda>(n, t). CHR ''/'' # n = url \<and> t \<in> set RegisterInterfaces) message_types)"

lemma resolve_type_url: "resolve_url (type_url t) = Some t"
  by (cases t) (simp_all add: resolve_url_def type_url_def message_types_def RegisterInterfaces_def Msg_serviceDesc_def)

section \<open>Messages in transactions\<close>

fun Msg_bytes :: "(coin \<Rightarrow> bytes) \<Rightarrow> (bank_metadata \<Rightarrow> bytes) \<Rightarrow> Msg \<Rightarrow> bytes" where
  "Msg_bytes cenc menc (CreateDenomMsg m) = MsgCreateDenom_bytes m"
| "Msg_bytes cenc menc (MintMsg m) = MsgMint_bytes cenc m"
| "Msg_bytes cenc menc (BurnMsg m) = MsgBurn_bytes cenc m"
| "Msg_bytes cenc menc (ForceTransferMsg m) = MsgForceTransfer_bytes cenc m"
| "Msg_bytes cenc menc (ChangeAdminMsg m) = MsgChangeAdmin_bytes m"
| "Msg_bytes cenc menc (SetDenomMetadataMsg m) = MsgSetDenomMetadata_bytes menc m"

fun Msg_Marshal :: "coin codec \<Rightarrow> bank_metadata codec \<Rightarrow> Msg \<Rightarrow> bytes result" where
  "Msg_Marshal CC MC (CreateDenomMsg m) = MsgCreateDenom_Marshal m"
| "Msg_Marshal CC MC (MintMsg m) = MsgMint_Marshal CC m"
| "Msg_Marshal CC MC (BurnMsg m) = MsgBurn_Marshal CC m"
| "Msg_Marshal CC MC (ForceTransferMsg m) = MsgForceTransfer_Marshal CC m"
| "Msg_Marshal CC MC (ChangeAdminMsg m) = MsgChangeAdmin_Marshal m"
| "Msg_Marshal CC MC (SetDenomMetadataMsg m) = MsgSetDenomMetadata_Marshal MC m"

text \<open>The client packs a message, the registry unpacks it.\<close>

definition pack_any :: "coin codec \<Rightarrow> bank_metadata codec \<Rightarrow> Msg \<Rightarrow> (string \<times> bytes) result" where
  "pack_any CC MC m = andThen (Msg_Marshal CC MC m) (\<lambda>bz. Inr (type_url (Msg_type m), bz))"

fun Msg_Unmarshal :: "coin codec \<Rightarrow> bank_metadata codec \<Rightarrow> msg_type \<Rightarrow> bytes \<Rightarrow> Msg result" where
  "Msg_Unmarshal CC MC TMsgCreateDenom bz =
     andThen (MsgCreateDenom_Unmarshal MsgCreateDenom_zero bz) (\<lambda>m. Inr (CreateDenomMsg m))"
| "Msg_Unmarshal CC MC TMsgMint bz = andThen (MsgMint_Unmarshal CC (MsgMint_zero CC) bz) (\<lambda>m. Inr (MintMsg m))"
| "Msg_Unmarshal CC MC TMsgBurn bz = andThen (MsgBurn_Unmarshal CC (MsgBurn_zero CC) bz) (\<lambda>m. Inr (BurnMsg m))"
| "Msg_Unmarshal CC MC TMsgForceTransfer bz =
     andThen (MsgForceTransfer_Unmarshal CC (MsgForceTransfer_zero CC) bz) (\<lambda>m. Inr (ForceTransferMsg m))"
| "Msg_Unmarshal CC MC TMsgChangeAdmin bz =
     andThen (MsgChangeAdmin_Unmarshal MsgChangeAdmin_zero bz) (\<lambda>m. Inr (ChangeAdminMsg m))"
| "Msg_Unmarshal CC MC TMsgSetDenomMetadata bz =
     andThen (MsgSetDenomMetadata_Unmarshal MC (MsgSetDenomMetadata_zero MC) bz) (\<lambda>m. Inr (SetDenomMetadataMsg m))"

fun unpack_any :: "coin codec \<Rightarrow> bank_metadata codec \<Rightarrow> string \<times> bytes \<Rightarrow> Msg result" where
  "unpack_any CC MC (url, bz) = (case resolve_url url of
      None \<Rightarrow> Inl (ErrSDK ''no concrete type registered for type URL'')
    | Some t \<Rightarrow> Msg_Unmarshal CC MC t bz)"

fun unpack_all :: "coin codec \<Rightarrow> bank_metadata codec \<Rightarrow> (string \<times> bytes) list \<Rightarrow> Msg list result" where
  "unpack_all CC MC [] = Inr []"
| "unpack_all CC MC (a # as) =
    andThen (unpack_any CC MC a) (\<lambda>m. andThen (unpack_all CC MC as) (\<lambda>ms. Inr (m # ms)))"

text \<open>The router's decoder and interceptor, and the route of each message.\<close>

definition pass_on :: "'req \<Rightarrow> ('k, 'w, 'req, 'resp) interceptor option" where
  "pass_on msg = Some (\<lambda>_ _ handler. handler msg)"

fun Msg_route :: "('k, 'w) sdk \<Rightarrow> coin codec \<Rightarrow> bank_metadata codec \<Rightarrow> Msg \<Rightarrow> ('k, 'w, unit) keeper" where
  "Msg_route E CC MC (CreateDenomMsg m) = ignore (Msg_CreateDenom_Handler (NewMsgServerImpl E) Inr (pass_on m))"
| "Msg_route E CC MC (MintMsg m) = ignore (Msg_Mint_Handler (NewMsgServerImpl E) CC Inr (pass_on m))"
| "Msg_route E CC MC (BurnMsg m) = ignore (Msg_Burn_Handler (NewMsgServerImpl E) CC Inr (pass_on m))"
| "Msg_route E CC MC (ForceTransferMsg m) = ignore (Msg_ForceTransfer_Handler (NewMsgServerImpl E) CC Inr (pass_on m))"
| "Msg_route E CC MC (ChangeAdminMsg m) = ignore (Msg_ChangeAdmin_Handler (NewMsgServerImpl E) Inr (pass_on m))"
| "Msg_route E CC MC (SetDenomMetadataMsg m) = ignore (Msg_SetDenomMetadata_Handler (NewMsgServerImpl E) MC Inr (pass_on m))"

fun route_msgs :: "('k, 'w) sdk \<Rightarrow> coin codec \<Rightarrow> bank_metadata codec \<Rightarrow> Msg list \<Rightarrow> ('k, 'w, unit) keeper" where
  "route_msgs E CC MC [] = retM ()"
| "route_msgs E CC MC (m # ms) = bindM (Msg_route E CC MC m) (\<lambda>_. route_msgs E CC MC ms)"

definition deliver_bytes ::
  "('k, 'w) sdk \<Rightarrow> coin codec \<Rightarrow> bank_metadata codec \<Rightarrow> (string \<times> bytes) list \<Rightarrow> ('k, 'w, unit) keeper" where
  "deliver_bytes E CC MC anys c = (case unpack_all CC MC anys of
      Inl e \<Rightarrow> (Inl e, c)
    | Inr ms \<Rightarrow> (case validate_msgs E ms of
        Inl e \<Rightarrow> (Inl e, c)
      | Inr _ \<Rightarrow> (case route_msgs E CC MC ms c of
          (Inl e, c') \<Rightarrow> (Inl e, c)
        | (Inr _, c') \<Rightarrow> (Inr (), c'))))"

lemma Msg_route_eq: "Msg_route E CC MC m = Msg_handle E m"
  by (cases m) (simp_all add: handler_defs NewMsgServerImpl_def pass_on_def unary_handler_runs(2))

lemma route_msgs_eq: "route_msgs E CC MC ms = run_msgs E ms"
  by (induction ms) (simp_all add: Msg_route_eq)

lemma deliver_bytes_eq:
  "deliver_bytes E CC MC anys c =
    (case unpack_all CC MC anys of Inl e \<Rightarrow> (Inl e, c) | Inr ms \<Rightarrow> deliver_tx E ms c)"
  by (cases "unpack_all CC MC anys") (simp_all add: deliver_bytes_def deliver_tx_def route_msgs_eq split: sum.split)

lemma Msg_Marshal_bytes:
  assumes "codec_ok CC cenc" and "codec_ok MC menc"
  shows "Msg_Marshal CC MC m = Inr (Msg_bytes cenc menc m)"
  using MsgCreateDenom_codec.marshal_eq MsgChangeAdmin_codec.marshal_eq
    proto_message.marshal_eq [OF MsgMint_codec [OF assms(1)]] proto_message.marshal_eq [OF MsgBurn_codec [OF assms(1)]]
    proto_message.marshal_eq [OF MsgForceTransfer_codec [OF assms(1)]]
    proto_message.marshal_eq [OF MsgSetDenomMetadata_codec [OF assms(2)]]
  by (cases m) (simp_all add: MsgCreateDenom_Marshal_def MsgMint_Marshal_def MsgBurn_Marshal_def
      MsgForceTransfer_Marshal_def MsgChangeAdmin_Marshal_def MsgSetDenomMetadata_Marshal_def)

lemma Msg_Unmarshal_bytes:
  assumes "codec_ok CC cenc" and "codec_ok MC menc" and "length (Msg_bytes cenc menc m) < 2 ^ 63"
  shows "Msg_Unmarshal CC MC (Msg_type m) (Msg_bytes cenc menc m) = Inr m"
  using assms(3) MsgCreateDenom_codec.um_enc MsgChangeAdmin_codec.um_enc
    proto_message.um_enc [OF MsgMint_codec [OF assms(1)]] proto_message.um_enc [OF MsgBurn_codec [OF assms(1)]]
    proto_message.um_enc [OF MsgForceTransfer_codec [OF assms(1)]]
    proto_message.um_enc [OF MsgSetDenomMetadata_codec [OF assms(2)]]
  by (cases m) simp_all

lemma unpack_packed:
  assumes "codec_ok CC cenc" and "codec_ok MC menc" and "length (Msg_bytes cenc menc m) < 2 ^ 63"
  shows "andThen (pack_any CC MC m) (unpack_any CC MC) = Inr m"
  using assms by (simp add: pack_any_def Msg_Marshal_bytes resolve_type_url Msg_Unmarshal_bytes)

section \<open>Queries\<close>

text \<open>The query router calls the handler of the path with the request's bytes and no interceptor, and marshals
  the response.\<close>

definition Query_serviceDesc :: "string list" where
  "Query_serviceDesc = [''Params'', ''DenomAuthorityMetadata'', ''DenomsFromCreator'']"

definition abci_query :: "('k, 'w) sdk \<Rightarrow> coin codec \<Rightarrow> string \<Rightarrow> bytes \<Rightarrow> ('k, 'w, bytes) keeper" where
  "abci_query E CC path bz =
    (if path = ''/tokenfactory.v1beta1.Query/Params'' then
       bindM (Query_Params_Handler (Keeper_QueryServer E) (\<lambda>m. QueryParamsRequest_Unmarshal m bz) None)
         (\<lambda>r. liftM (QueryParamsResponse_Marshal CC r))
     else if path = ''/tokenfactory.v1beta1.Query/DenomAuthorityMetadata'' then
       bindM (Query_DenomAuthorityMetadata_Handler (Keeper_QueryServer E) (\<lambda>m. QueryDenomAuthorityMetadataRequest_Unmarshal m bz) None)
         (\<lambda>r. liftM (QueryDenomAuthorityMetadataResponse_Marshal r))
     else if path = ''/tokenfactory.v1beta1.Query/DenomsFromCreator'' then
       bindM (Query_DenomsFromCreator_Handler (Keeper_QueryServer E) (\<lambda>m. QueryDenomsFromCreatorRequest_Unmarshal m bz) None)
         (\<lambda>r. liftM (QueryDenomsFromCreatorResponse_Marshal r))
     else failM (ErrSDK ''unknown query path''))"

lemma abci_query_denoms:
  assumes "length (QueryDenomsFromCreatorRequest_bytes req) < 2 ^ 63"
  shows "abci_query E CC ''/tokenfactory.v1beta1.Query/DenomsFromCreator'' (QueryDenomsFromCreatorRequest_bytes req) c =
    (Inr (QueryDenomsFromCreatorResponse_bytes \<lparr>Denoms = getDenomsFromCreator E (qdfc_Creator req) c\<rparr>), c)"
  using QueryDenomsFromCreatorRequest_codec.um_enc [OF assms] QueryDenomsFromCreatorResponse_codec.marshal_eq
  by (simp add: abci_query_def handler_defs Keeper_QueryServer_def unary_handler_runs Query_DenomsFromCreator_def
      QueryDenomsFromCreatorResponse_Marshal_def bindM_def action_simps)

lemma abci_query_metadata:
  assumes "length (QueryDenomAuthorityMetadataRequest_bytes req) < 2 ^ 63"
    and "GetAuthorityMetadata E (qdam_Denom req) c = (Inr am, c)"
  shows "abci_query E CC ''/tokenfactory.v1beta1.Query/DenomAuthorityMetadata''
      (QueryDenomAuthorityMetadataRequest_bytes req) c =
    (Inr (QueryDenomAuthorityMetadataResponse_bytes \<lparr>qdam_AuthorityMetadata = am\<rparr>), c)"
  using QueryDenomAuthorityMetadataRequest_codec.um_enc [OF assms(1)] assms(2)
    QueryDenomAuthorityMetadataResponse_codec.marshal_eq
  by (simp add: abci_query_def handler_defs Keeper_QueryServer_def unary_handler_runs Query_DenomAuthorityMetadata_def
      QueryDenomAuthorityMetadataResponse_Marshal_def bindM_def action_simps)

text \<open>A whole transaction, packed and unpacked.\<close>

lemma unpack_all_packed:
  assumes "codec_ok CC cenc" and "codec_ok MC menc" and "\<forall>m \<in> set ms. length (Msg_bytes cenc menc m) < 2 ^ 63"
  shows "\<exists>anys. map (pack_any CC MC) ms = map Inr anys \<and> unpack_all CC MC anys = Inr ms"
  using assms(3)
proof (induction ms)
  case (Cons m ms)
  then obtain anys where "map (pack_any CC MC) ms = map Inr anys" "unpack_all CC MC anys = Inr ms" by auto
  moreover obtain a where "pack_any CC MC m = Inr a" "unpack_any CC MC a = Inr m"
    using unpack_packed [OF assms(1,2), of m] Cons.prems by (cases "pack_any CC MC m") auto
  ultimately have "map (pack_any CC MC) (m # ms) = map Inr (a # anys) \<and> unpack_all CC MC (a # anys) = Inr (m # ms)"
    by simp
  then show ?case by blast
qed simp

end
