(* ===== verification/Gateway.thy ===== *)
theory Gateway
  imports Services Chain
begin

text \<open>
  The REST gateway of the query service (\<open>types/query.pb.gw.go\<close>). The multiplexer of grpc-gateway matches the path
  of a request against a handler's pattern and passes the captured variables; the handler puts them into the
  request message and calls the server (or a client of it). Pattern matching and parsing of variables are
  parameters; a pattern is the opcodes and the pool of texts that the code gives to \<open>runtime.NewPattern\<close>.
\<close>

type_synonym pattern = "(nat \<times> nat) list \<times> string list"
type_synonym path_params = "string \<Rightarrow> string option"

record gateway =
  mux_match :: "pattern \<Rightarrow> string \<Rightarrow> path_params option"
  runtime_String :: "string \<Rightarrow> string result"

text \<open>Opcodes come in pairs with their operand: 1 pushes a path segment, 2 a literal of the pool, 3 the rest of the path, 4
  joins the last \<open>n\<close> pushed segments, 5 captures them under a name of the pool. A pattern that joins single segments only
  captures texts without a slash: the path is split at its slashes, after it has been unescaped.\<close>

definition single_segments :: "pattern \<Rightarrow> bool" where
  "single_segments p \<longleftrightarrow> list_all (\<lambda>(op, n). op \<noteq> 3 \<and> (op = 4 \<longrightarrow> n = 1)) (fst p)"

definition gateway_laws :: "gateway \<Rightarrow> bool" where
  "gateway_laws G \<longleftrightarrow>
    (\<forall>p path params v x. single_segments p \<longrightarrow> mux_match G p path = Some params \<longrightarrow>
       params v = Some x \<longrightarrow> CHR ''/'' \<notin> set x) \<and>
    (\<forall>s. runtime_String G s = Inr s)"

section \<open>Patterns\<close>

definition pattern_Query_Params_0 :: pattern where
  "pattern_Query_Params_0 = ([(2, 0), (2, 1), (2, 2), (2, 3)],
     [''osmosis'', ''tokenfactory'', ''v1beta1'', ''params''])"

definition pattern_Query_DenomAuthorityMetadata_0 :: pattern where
  "pattern_Query_DenomAuthorityMetadata_0 = ([(2, 0), (2, 1), (2, 2), (2, 3), (1, 0), (4, 1), (5, 4), (2, 5)],
     [''osmosis'', ''tokenfactory'', ''v1beta1'', ''denoms'', ''denom'', ''authority_metadata''])"

definition pattern_Query_DenomsFromCreator_0 :: pattern where
  "pattern_Query_DenomsFromCreator_0 = ([(2, 0), (2, 1), (2, 2), (2, 3), (1, 0), (4, 1), (5, 4)],
     [''osmosis'', ''tokenfactory'', ''v1beta1'', ''denoms_from_creator'', ''creator''])"

section \<open>Requests\<close>

text \<open>\<open>client\<close> and \<open>server\<close> are the methods the handlers call: a gRPC client of the service, or the service itself.\<close>

definition path_param :: "gateway \<Rightarrow> string \<Rightarrow> path_params \<Rightarrow> string result" where
  "path_param G name pathParams = (case pathParams name of
      None \<Rightarrow> Inl (ErrText ''missing parameter'')
    | Some val \<Rightarrow> (case runtime_String G val of
        Inl err \<Rightarrow> Inl (ErrText ''type mismatch'')
      | Inr s \<Rightarrow> Inr s))"

definition request_Query_Params_0 ::
  "(QueryParamsRequest \<Rightarrow> ('k, 'w, QueryParamsResponse) keeper) \<Rightarrow> path_params \<Rightarrow> ('k, 'w, QueryParamsResponse) keeper" where
  "request_Query_Params_0 client pathParams = client QueryParamsRequest_zero"

definition local_request_Query_Params_0 ::
  "(QueryParamsRequest \<Rightarrow> ('k, 'w, QueryParamsResponse) keeper) \<Rightarrow> path_params \<Rightarrow> ('k, 'w, QueryParamsResponse) keeper" where
  "local_request_Query_Params_0 server pathParams = server QueryParamsRequest_zero"

definition request_Query_DenomAuthorityMetadata_0 ::
  "gateway \<Rightarrow> (QueryDenomAuthorityMetadataRequest \<Rightarrow> ('k, 'w, QueryDenomAuthorityMetadataResponse) keeper) \<Rightarrow>
    path_params \<Rightarrow> ('k, 'w, QueryDenomAuthorityMetadataResponse) keeper" where
  "request_Query_DenomAuthorityMetadata_0 G client pathParams =
    bindM (liftM (path_param G ''denom'' pathParams)) (\<lambda>val.
      client (QueryDenomAuthorityMetadataRequest_zero\<lparr>qdam_Denom := val\<rparr>))"

definition local_request_Query_DenomAuthorityMetadata_0 ::
  "gateway \<Rightarrow> (QueryDenomAuthorityMetadataRequest \<Rightarrow> ('k, 'w, QueryDenomAuthorityMetadataResponse) keeper) \<Rightarrow>
    path_params \<Rightarrow> ('k, 'w, QueryDenomAuthorityMetadataResponse) keeper" where
  "local_request_Query_DenomAuthorityMetadata_0 G server pathParams =
    bindM (liftM (path_param G ''denom'' pathParams)) (\<lambda>val.
      server (QueryDenomAuthorityMetadataRequest_zero\<lparr>qdam_Denom := val\<rparr>))"

definition request_Query_DenomsFromCreator_0 ::
  "gateway \<Rightarrow> (QueryDenomsFromCreatorRequest \<Rightarrow> ('k, 'w, QueryDenomsFromCreatorResponse) keeper) \<Rightarrow>
    path_params \<Rightarrow> ('k, 'w, QueryDenomsFromCreatorResponse) keeper" where
  "request_Query_DenomsFromCreator_0 G client pathParams =
    bindM (liftM (path_param G ''creator'' pathParams)) (\<lambda>val.
      client (QueryDenomsFromCreatorRequest_zero\<lparr>qdfc_Creator := val\<rparr>))"

definition local_request_Query_DenomsFromCreator_0 ::
  "gateway \<Rightarrow> (QueryDenomsFromCreatorRequest \<Rightarrow> ('k, 'w, QueryDenomsFromCreatorResponse) keeper) \<Rightarrow>
    path_params \<Rightarrow> ('k, 'w, QueryDenomsFromCreatorResponse) keeper" where
  "local_request_Query_DenomsFromCreator_0 G server pathParams =
    bindM (liftM (path_param G ''creator'' pathParams)) (\<lambda>val.
      server (QueryDenomsFromCreatorRequest_zero\<lparr>qdfc_Creator := val\<rparr>))"

section \<open>Registration\<close>

text \<open>A registered handler annotates the context, which may fail, makes the request and forwards the response or writes an
  HTTP error. \<open>annotate\<close> is the result of annotating the context.\<close>

datatype 'resp http = HTTPError error | Forward 'resp

definition http_handler ::
  "unit result \<Rightarrow> (path_params \<Rightarrow> ('k, 'w, 'resp) keeper) \<Rightarrow> path_params \<Rightarrow> ('k, 'w) ctx \<Rightarrow> 'resp http \<times> ('k, 'w) ctx" where
  "http_handler annotate request pathParams c = (case annotate of
      Inl err \<Rightarrow> (HTTPError err, c)
    | Inr _ \<Rightarrow> (case request pathParams c of
        (Inl err, c') \<Rightarrow> (HTTPError err, c')
      | (Inr resp, c') \<Rightarrow> (Forward resp, c')))"

datatype query_response =
    ParamsResponse QueryParamsResponse
  | MetadataResponse QueryDenomAuthorityMetadataResponse
  | DenomsResponse QueryDenomsFromCreatorResponse

definition respond :: "('a \<Rightarrow> 'b) \<Rightarrow> ('p \<Rightarrow> ('k, 'w, 'a) keeper) \<Rightarrow> 'p \<Rightarrow> ('k, 'w, 'b) keeper" where
  "respond f request p = bindM (request p) (\<lambda>r. retM (f r))"

definition RegisterQueryHandlerServer :: "gateway \<Rightarrow> ('k, 'w) query_service \<Rightarrow> unit result \<Rightarrow>
    (string \<times> pattern \<times> (path_params \<Rightarrow> ('k, 'w) ctx \<Rightarrow> query_response http \<times> ('k, 'w) ctx)) list" where
  "RegisterQueryHandlerServer G server annotate = [
     (''GET'', pattern_Query_Params_0,
       http_handler annotate (respond ParamsResponse (local_request_Query_Params_0 (srv_Params server)))),
     (''GET'', pattern_Query_DenomAuthorityMetadata_0,
       http_handler annotate (respond MetadataResponse
         (local_request_Query_DenomAuthorityMetadata_0 G (srv_DenomAuthorityMetadata server)))),
     (''GET'', pattern_Query_DenomsFromCreator_0,
       http_handler annotate (respond DenomsResponse
         (local_request_Query_DenomsFromCreator_0 G (srv_DenomsFromCreator server))))]"

definition RegisterQueryHandlerClient :: "gateway \<Rightarrow> ('k, 'w) query_service \<Rightarrow> unit result \<Rightarrow>
    (string \<times> pattern \<times> (path_params \<Rightarrow> ('k, 'w) ctx \<Rightarrow> query_response http \<times> ('k, 'w) ctx)) list" where
  "RegisterQueryHandlerClient G client annotate = [
     (''GET'', pattern_Query_Params_0,
       http_handler annotate (respond ParamsResponse (request_Query_Params_0 (srv_Params client)))),
     (''GET'', pattern_Query_DenomAuthorityMetadata_0,
       http_handler annotate (respond MetadataResponse
         (request_Query_DenomAuthorityMetadata_0 G (srv_DenomAuthorityMetadata client)))),
     (''GET'', pattern_Query_DenomsFromCreator_0,
       http_handler annotate (respond DenomsResponse
         (request_Query_DenomsFromCreator_0 G (srv_DenomsFromCreator client))))]"

section \<open>What a request can name\<close>

lemma captured_value:
  assumes "gateway_laws G" and "mux_match G pattern_Query_DenomAuthorityMetadata_0 path = Some params"
    and "params v = Some x"
  shows "CHR ''/'' \<notin> set x"
proof -
  have "single_segments pattern_Query_DenomAuthorityMetadata_0"
    by (simp add: single_segments_def pattern_Query_DenomAuthorityMetadata_0_def)
  then show ?thesis using assms unfolding gateway_laws_def by blast
qed

lemma path_param_eq:
  "gateway_laws G \<Longrightarrow> path_param G name params =
    (case params name of None \<Rightarrow> Inl (ErrText ''missing parameter'') | Some x \<Rightarrow> Inr x)"
  by (simp add: path_param_def gateway_laws_def split: option.split)

lemma denom_has_slash: "denom_ok E d \<Longrightarrow> CHR ''/'' \<in> set d"
  unfolding denom_ok_def by (auto simp: DeconstructDenom_eq_Inr)

end
