(* ===== verification/SampleGateway.thy ===== *)
theory SampleGateway
  imports Gateway SampleRun
begin

text \<open>A multiplexer for the witnesses: it splits the path at its slashes and runs the opcodes of the pattern over the
  segments, with a stack of what was pushed and the variables captured.\<close>

fun run_ops :: "string list \<Rightarrow> (nat \<times> nat) list \<Rightarrow> string list \<Rightarrow> string list \<Rightarrow> path_params \<Rightarrow> path_params option" where
  "run_ops pool [] cs st ps = (if cs = [] then Some ps else None)"
| "run_ops pool ((op, n) # ops) cs st ps =
    (if op = 1 then (case cs of [] \<Rightarrow> None | c # cs' \<Rightarrow> run_ops pool ops cs' (c # st) ps)
     else if op = 2 then (case cs of [] \<Rightarrow> None
       | c # cs' \<Rightarrow> if n < length pool \<and> pool ! n = c then run_ops pool ops cs' (c # st) ps else None)
     else if op = 4 then run_ops pool ops cs (strings_Join (rev (take n st)) (CHR ''/'') # drop n st) ps
     else if op = 5 then (case st of [] \<Rightarrow> None
       | s # st' \<Rightarrow> if n < length pool then run_ops pool ops cs st' (ps(pool ! n \<mapsto> s)) else None)
     else None)"

definition sample_gateway :: gateway where
  "sample_gateway = \<lparr>
     mux_match = (\<lambda>p path. case path of [] \<Rightarrow> None
       | c # rest \<Rightarrow> run_ops (snd p) (fst p) (strings_Split rest (CHR ''/'')) [] Map.empty),
     runtime_String = Inr\<rparr>"

lemma run_ops_no_slash:
  assumes "list_all (\<lambda>(op, n). op \<noteq> 3 \<and> (op = 4 \<longrightarrow> n = 1)) ops" and "run_ops pool ops cs st ps = Some ps'"
    and "\<And>x. x \<in> set cs \<union> set st \<union> ran ps \<Longrightarrow> CHR ''/'' \<notin> set x" and "ps' v = Some y"
  shows "CHR ''/'' \<notin> set y"
  using assms
proof (induction ops arbitrary: cs st ps)
  case Nil
  then show ?case by (auto simp: ran_def split: if_splits)
next
  case (Cons a ops)
  obtain op n where a: "a = (op, n)" by fastforce
  note prems = Cons.prems [unfolded a run_ops.simps list.pred_inject prod.case]
  have rest: "list_all (\<lambda>(op, n). op \<noteq> 3 \<and> (op = 4 \<longrightarrow> n = 1)) ops" using prems(1) by simp
  consider (push) c cs' where "cs = c # cs'" "run_ops pool ops cs' (c # st) ps = Some ps'"
    | (join) "run_ops pool ops cs (strings_Join (rev (take 1 st)) (CHR ''/'') # drop 1 st) ps = Some ps'"
    | (capture) s st' where "st = s # st'" "run_ops pool ops cs st' (ps(pool ! n \<mapsto> s)) = Some ps'"
    using prems(1,2) by (fastforce split: if_splits list.splits)
  then show ?case
  proof cases
    case push
    show ?thesis by (rule Cons.IH [OF rest push(2) _ prems(4)]) (use prems(3) push(1) in auto)
  next
    case join
    show ?thesis
      by (rule Cons.IH [OF rest join _ prems(4)]) (use prems(3) in \<open>cases st; auto\<close>)
  next
    case capture
    have "x \<in> set cs \<union> set st \<union> ran ps" if "x \<in> set cs \<union> set st' \<union> ran (ps(pool ! n \<mapsto> s))" for x
      using that capture(1) by (auto simp: ran_def split: if_splits)
    then show ?thesis by (intro Cons.IH [OF rest capture(2) _ prems(4)] prems(3)) blast
  qed
qed

lemma sample_gateway_laws: "gateway_laws sample_gateway"
proof -
  have "CHR ''/'' \<notin> set x"
    if "single_segments p" and "mux_match sample_gateway p path = Some params" and "params v = Some x" for p path params v x
  proof -
    from that(2) obtain c rest where run: "run_ops (snd p) (fst p) (strings_Split rest (CHR ''/'')) [] Map.empty = Some params"
      by (auto simp: sample_gateway_def split: list.splits)
    show ?thesis
      by (rule run_ops_no_slash [OF that(1) [unfolded single_segments_def] run _ that(3)])
        (use strings_Split_parts in auto)
  qed
  then show ?thesis unfolding gateway_laws_def by (auto simp: sample_gateway_def)
qed

lemma sample_match:
  "mux_match sample_gateway pattern_Query_DenomAuthorityMetadata_0
     ''/osmosis/tokenfactory/v1beta1/denoms/silver/authority_metadata'' = Some [''denom'' \<mapsto> ''silver'']"
  "mux_match sample_gateway pattern_Query_DenomAuthorityMetadata_0
     ''/osmosis/tokenfactory/v1beta1/denoms/factory/osmo1bob/silver/authority_metadata'' = None"
  by (simp_all add: sample_gateway_def pattern_Query_DenomAuthorityMetadata_0_def)

end
