(* ===== verification/AppGenesis.thy ===== *)
theory AppGenesis
  imports Sdk "HOL-Library.Multiset"
begin

text \<open>
  The genesis state of the example application (\<open>simapp/genesis.go\<close>: a map from module names to raw
  JSON), the parts of the auth and bank genesis states that the code under \<open>simapp\<close> reads and writes,
  and the functions it calls for that in the Cosmos SDK, Tendermint and Go's JSON package, as the
  parameters \<open>app_sdk\<close>. JSON values (texts up to white space) have a type \<open>'r\<close> that only the codecs look into; \<open>'f\<close> is
  the state of the file system. The conserved quantity of a bank genesis is its supply: for every
  denomination, the sum of the balances.
\<close>

section \<open>Data\<close>

text \<open>\<open>simapp/genesis.go\<close>: \<open>GenesisState\<close>.\<close>

type_synonym 'r app_genesis = "string \<Rightarrow> 'r option"

definition auth_ModuleName :: string where "auth_ModuleName = ''auth''"
definition bank_ModuleName :: string where "bank_ModuleName = ''bank''"
definition staking_ModuleName :: string where "staking_ModuleName = ''staking''"
definition mint_ModuleName :: string where "mint_ModuleName = ''mint''"

lemmas app_module_names = auth_ModuleName_def bank_ModuleName_def staking_ModuleName_def mint_ModuleName_def

record base_account =
  ba_Address :: bytes
  ba_AccountNumber :: u64
  ba_Sequence :: u64

text \<open>\<open>authtypes.NewBaseAccount(addr, nil, accountNumber, sequence)\<close>, without a public key.\<close>

definition NewBaseAccount :: "bytes \<Rightarrow> u64 \<Rightarrow> u64 \<Rightarrow> base_account" where
  "NewBaseAccount addr n s = \<lparr>ba_Address = addr, ba_AccountNumber = n, ba_Sequence = s\<rparr>"

record base_vesting_account =
  bva_BaseAccount :: base_account
  bva_OriginalVesting :: Coins
  bva_EndTime :: u64

text \<open>The accounts the command creates, and any other kind a genesis file may hold, by its address and
  encoding.\<close>

datatype genesis_account =
    BaseAccount base_account
  | ContinuousVestingAccount base_vesting_account u64
  | DelayedVestingAccount base_vesting_account
  | OtherGenesisAccount bytes bytes

fun account_address :: "genesis_account \<Rightarrow> bytes" where
  "account_address (BaseAccount a) = ba_Address a"
| "account_address (ContinuousVestingAccount v _) = ba_Address (bva_BaseAccount v)"
| "account_address (DelayedVestingAccount v) = ba_Address (bva_BaseAccount v)"
| "account_address (OtherGenesisAccount a _) = a"

text \<open>A packed account is an \<open>Any\<close>: its type URL and its bytes.\<close>

record auth_genesis =
  ag_Params :: bytes
  ag_Accounts :: "(string \<times> bytes) list"

record balance =
  bal_Address :: string
  bal_Coins :: Coins

record bank_genesis =
  bg_Params :: bytes
  bg_Balances :: "balance list"
  bg_Supply :: Coins
  bg_DenomMetadata :: "bank_metadata list"

text \<open>The staking state: its bond denomination and validators; what the code does not look into is
  kept as it is encoded.\<close>

datatype bond_status = Unspecified | Unbonded | Unbonding | Bonded

record validator =
  val_OperatorAddress :: string
  val_Status :: bond_status
  val_Tokens :: int
  val_Jailed :: bool
  val_UnbondingHeight :: u64
  val_Rest :: bytes

record staking_genesis =
  sg_BondDenom :: string
  sg_Validators :: "validator list"
  sg_Rest :: bytes

text \<open>\<open>tmtypes.GenesisDoc\<close>: the fields the code sets, and the others together.\<close>

record 'r genesis_doc =
  doc_GenesisTime :: int
  doc_ChainID :: string
  doc_Validators :: "bytes list"
  doc_AppState :: 'r
  doc_Rest :: bytes

section \<open>Functions of the SDK\<close>

record ('r, 'f) app_sdk =
  ParseCoinsNormalized :: "string \<Rightarrow> Coins result"
  Coins_Sort :: "Coins \<Rightarrow> Coins"
  Coins_IsZero :: "Coins \<Rightarrow> bool"
  Coins_IsAnyGT :: "Coins \<Rightarrow> Coins \<Rightarrow> bool"
  Coins_Add :: "Coins \<Rightarrow> Coins \<Rightarrow> Coins result"
  sdk_NewCoin :: "string \<Rightarrow> int \<Rightarrow> coin result"
  NewModuleAddress :: "string \<Rightarrow> bytes"
  GenesisAccount_Validate :: "genesis_account \<Rightarrow> unit result"
  UnpackAccounts :: "(string \<times> bytes) list \<Rightarrow> genesis_account list result"
  PackAccounts :: "genesis_account list \<Rightarrow> (string \<times> bytes) list result"
  Accounts_Contains :: "genesis_account list \<Rightarrow> bytes \<Rightarrow> bool"
  SanitizeGenesisAccounts :: "genesis_account list \<Rightarrow> genesis_account list"
  SanitizeGenesisBalances :: "balance list \<Rightarrow> balance list"
  GetAuthGenesisStateFromAppState :: "'r app_genesis \<Rightarrow> auth_genesis result"
  GetBankGenesisStateFromAppState :: "'r app_genesis \<Rightarrow> bank_genesis result"
  auth_MarshalJSON :: "auth_genesis \<Rightarrow> 'r result"
  auth_UnmarshalJSON :: "'r \<Rightarrow> auth_genesis result"
  bank_MarshalJSON :: "bank_genesis \<Rightarrow> 'r result"
  bank_UnmarshalJSON :: "'r \<Rightarrow> bank_genesis result"
  json_Marshal :: "'r app_genesis \<Rightarrow> 'r result"
  json_Unmarshal :: "'r \<Rightarrow> 'r app_genesis result"
  GenesisStateFromGenFile :: "'f \<Rightarrow> string \<Rightarrow> ('r app_genesis \<times> 'r genesis_doc) result"
  ExportGenesisFile :: "'r genesis_doc \<Rightarrow> string \<Rightarrow> 'f \<Rightarrow> unit result \<times> 'f"

text \<open>\<open>cdc.MustMarshalJSON\<close>, \<open>cdc.MustUnmarshalJSON\<close> and \<open>if err != nil { panic(err) }\<close>: an error is a
  panic.\<close>

definition must :: "'a result \<Rightarrow> 'a result" where
  "must r = (case r of Inl e \<Rightarrow> Inl (GoPanic ''panic(err)'') | Inr x \<Rightarrow> Inr x)"

text \<open>\<open>fmt.Errorf(msg, err)\<close> around an error.\<close>

definition wrapErr :: "string \<Rightarrow> 'a result \<Rightarrow> 'a result" where
  "wrapErr msg r = (case r of Inl e \<Rightarrow> Inl (if is_panic e then e else ErrText msg) | Inr x \<Rightarrow> Inr x)"

lemma must_eq_Inr [simp]: "must r = Inr x \<longleftrightarrow> r = Inr x"
  by (cases r) (simp_all add: must_def)

lemma wrapErr_eq_Inr [simp]: "wrapErr msg r = Inr x \<longleftrightarrow> r = Inr x"
  by (cases r) (simp_all add: wrapErr_def)

lemma must_Inr [simp]: "must (Inr x) = Inr x" and wrapErr_Inr [simp]: "wrapErr msg (Inr x) = Inr x"
  by simp_all

section \<open>The supply of a bank genesis\<close>

definition balances_amount :: "balance list \<Rightarrow> string \<Rightarrow> int" where
  "balances_amount bs d = (\<Sum>b\<leftarrow>bs. amount_of (bal_Coins b) d)"

definition supply_ok :: "bank_genesis \<Rightarrow> bool" where
  "supply_ok g \<longleftrightarrow> (\<forall>d. amount_of (bg_Supply g) d = balances_amount (bg_Balances g) d)"

lemma balances_amount_simps [simp]:
  "balances_amount [] d = 0"
  "balances_amount (b # bs) d = amount_of (bal_Coins b) d + balances_amount bs d"
  "balances_amount (bs @ bs') d = balances_amount bs d + balances_amount bs' d"
  by (simp_all add: balances_amount_def)

lemma sum_list_image_mset: "(\<Sum>x\<leftarrow>xs. f x) = (\<Sum>x\<in>#mset xs. f x)" for f :: "'a \<Rightarrow> int"
  by (induction xs) simp_all

lemma amount_of_mset:
  "mset (coins_list cs) = mset (coins_list cs') \<Longrightarrow> amount_of cs d = amount_of cs' d"
  unfolding amount_of_def by (simp only: sum_list_image_mset)

text \<open>What one balance contributes: its address, and its coins in any order.\<close>

definition balance_content :: "balance \<Rightarrow> string \<times> coin multiset" where
  "balance_content b = (bal_Address b, mset (coins_list (bal_Coins b)))"

definition same_balances :: "balance list \<Rightarrow> balance list \<Rightarrow> bool" where
  "same_balances bs bs' \<longleftrightarrow> image_mset balance_content (mset bs) = image_mset balance_content (mset bs')"

definition content_amount :: "string \<Rightarrow> string \<times> coin multiset \<Rightarrow> int" where
  "content_amount d p = (\<Sum>c\<in>#snd p. if coin_Denom c = d then coin_Amount c else 0)"

lemma content_amount_content: "content_amount d (balance_content b) = amount_of (bal_Coins b) d"
  by (simp only: content_amount_def balance_content_def amount_of_def snd_conv sum_list_image_mset)

lemma balances_amount_content:
  "balances_amount bs d = (\<Sum>p\<in>#image_mset balance_content (mset bs). content_amount d p)"
  by (induction bs) (simp_all add: content_amount_content)

lemma same_balances_amount: "same_balances bs bs' \<Longrightarrow> balances_amount bs d = balances_amount bs' d"
  by (simp only: balances_amount_content same_balances_def)

lemma same_balances_addresses:
  assumes "same_balances bs bs'"
  shows "mset (map bal_Address bs) = mset (map bal_Address bs')"
proof -
  have "mset (map bal_Address bs) = image_mset fst (image_mset balance_content (mset bs))" for bs
    by (induction bs) (simp_all add: balance_content_def)
  then show ?thesis using assms by (simp only: same_balances_def)
qed

section \<open>What theorems may assume\<close>

text \<open>\<open>Sort\<close> only reorders; \<open>Add\<close> adds amounts; \<open>IsAnyGT\<close> compares amounts of denominations that the
  other set holds (its documentation: \<open>{2A, 3B}.IsAnyGT({5C})\<close> is false); \<open>IsZero\<close> sees no
  amount; \<open>NewCoin\<close> builds the coin it is asked for, or panics.\<close>

definition app_coins_laws :: "('r, 'f, 'z) app_sdk_scheme \<Rightarrow> bool" where
  "app_coins_laws A \<longleftrightarrow>
    (\<forall>cs. mset (coins_list (Coins_Sort A cs)) = mset (coins_list cs)) \<and>
    (\<forall>a b c d. Coins_Add A a b = Inr c \<longrightarrow> amount_of c d = amount_of a d + amount_of b d) \<and>
    (\<forall>a b. Coins_IsAnyGT A a b \<longleftrightarrow>
       (\<exists>c\<in>set (coins_list a). amount_of b (coin_Denom c) \<noteq> 0 \<and> amount_of b (coin_Denom c) < coin_Amount c)) \<and>
    (\<forall>a. Coins_IsZero A a \<longleftrightarrow> (\<forall>c\<in>set (coins_list a). coin_Amount c = 0)) \<and>
    (\<forall>d a c. sdk_NewCoin A d a = Inr c \<longrightarrow> c = \<lparr>coin_Denom = d, coin_Amount = a\<rparr>)"

text \<open>Sanitising keeps what is there; packing accounts can be undone; \<open>Contains\<close> compares addresses.\<close>

definition app_accounts_laws :: "('r, 'f, 'z) app_sdk_scheme \<Rightarrow> bool" where
  "app_accounts_laws A \<longleftrightarrow>
    (\<forall>bs. same_balances (SanitizeGenesisBalances A bs) bs) \<and>
    (\<forall>as. mset (SanitizeGenesisAccounts A as) = mset as) \<and>
    (\<forall>as ps. PackAccounts A as = Inr ps \<longrightarrow> UnpackAccounts A ps = Inr as) \<and>
    (\<forall>as a. Accounts_Contains A as a \<longleftrightarrow> a \<in> account_address ` set as)"

text \<open>A genesis state is read back from its JSON up to the order of the fields and the difference of nil
  and empty slices, which the balances, the supply and the accounts do not show.\<close>

definition same_bank :: "bank_genesis \<Rightarrow> bank_genesis \<Rightarrow> bool" where
  "same_bank g g' \<longleftrightarrow> same_balances (bg_Balances g) (bg_Balances g') \<and>
     coins_list (bg_Supply g) = coins_list (bg_Supply g')"

definition app_codec_laws :: "('r, 'f, 'z) app_sdk_scheme \<Rightarrow> bool" where
  "app_codec_laws A \<longleftrightarrow>
    (\<forall>g r. bank_MarshalJSON A g = Inr r \<longrightarrow> (\<exists>g'. bank_UnmarshalJSON A r = Inr g' \<and> same_bank g g')) \<and>
    (\<forall>g r. auth_MarshalJSON A g = Inr r \<longrightarrow>
       (\<exists>g'. auth_UnmarshalJSON A r = Inr g' \<and> ag_Accounts g' = ag_Accounts g)) \<and>
    (\<forall>m r. m bank_ModuleName = Some r \<longrightarrow> GetBankGenesisStateFromAppState A m = must (bank_UnmarshalJSON A r)) \<and>
    (\<forall>m r. m auth_ModuleName = Some r \<longrightarrow> GetAuthGenesisStateFromAppState A m = must (auth_UnmarshalJSON A r)) \<and>
    (\<forall>m m'. m bank_ModuleName = m' bank_ModuleName \<longrightarrow>
       GetBankGenesisStateFromAppState A m = GetBankGenesisStateFromAppState A m') \<and>
    (\<forall>m m'. m auth_ModuleName = m' auth_ModuleName \<longrightarrow>
       GetAuthGenesisStateFromAppState A m = GetAuthGenesisStateFromAppState A m') \<and>
    (\<forall>m r. json_Marshal A m = Inr r \<longrightarrow> json_Unmarshal A r = Inr m)"

text \<open>The bank and auth states that a genesis file holds.\<close>

definition file_bank :: "('r, 'f, 'z) app_sdk_scheme \<Rightarrow> 'f \<Rightarrow> string \<Rightarrow> bank_genesis result" where
  "file_bank A fs path = andThen (GenesisStateFromGenFile A fs path)
     (\<lambda>p. GetBankGenesisStateFromAppState A (fst p))"

definition file_accounts :: "('r, 'f, 'z) app_sdk_scheme \<Rightarrow> 'f \<Rightarrow> string \<Rightarrow> genesis_account list result" where
  "file_accounts A fs path = andThen (GenesisStateFromGenFile A fs path)
     (\<lambda>p. andThen (GetAuthGenesisStateFromAppState A (fst p)) (\<lambda>g. UnpackAccounts A (ag_Accounts g)))"

text \<open>An exported file is read back with its application state.\<close>

definition app_file_laws :: "('r, 'f, 'z) app_sdk_scheme \<Rightarrow> bool" where
  "app_file_laws A \<longleftrightarrow>
    (\<forall>doc path fs fs'. ExportGenesisFile A doc path fs = (Inr (), fs') \<longrightarrow>
       (\<exists>doc'. doc_AppState doc' = doc_AppState doc \<and>
          GenesisStateFromGenFile A fs' path =
            andThen (json_Unmarshal A (doc_AppState doc)) (\<lambda>m. Inr (m, doc'))))"

definition app_laws :: "('r, 'f, 'z) app_sdk_scheme \<Rightarrow> bool" where
  "app_laws A \<longleftrightarrow> app_coins_laws A \<and> app_accounts_laws A \<and> app_codec_laws A \<and> app_file_laws A"

lemma app_lawsD:
  assumes "app_laws A"
  shows "app_coins_laws A" and "app_accounts_laws A" and "app_codec_laws A" and "app_file_laws A"
  using assms by (simp_all add: app_laws_def)

lemma Coins_Sort_amount: "app_coins_laws A \<Longrightarrow> amount_of (Coins_Sort A cs) d = amount_of cs d"
  by (rule amount_of_mset) (simp add: app_coins_laws_def)

lemma Coins_Sort_set: "app_coins_laws A \<Longrightarrow> set (coins_list (Coins_Sort A cs)) = set (coins_list cs)"
  unfolding app_coins_laws_def by (metis set_mset_mset)

lemma Coins_Add_amount:
  "app_coins_laws A \<Longrightarrow> Coins_Add A a b = Inr c \<Longrightarrow> amount_of c d = amount_of a d + amount_of b d"
  unfolding app_coins_laws_def by blast

lemma Coins_IsAnyGT_iff:
  "app_coins_laws A \<Longrightarrow> Coins_IsAnyGT A a b \<longleftrightarrow>
    (\<exists>c\<in>set (coins_list a). amount_of b (coin_Denom c) \<noteq> 0 \<and> amount_of b (coin_Denom c) < coin_Amount c)"
  unfolding app_coins_laws_def by blast

lemma sdk_NewCoin_eq:
  "app_coins_laws A \<Longrightarrow> sdk_NewCoin A d a = Inr c \<Longrightarrow> c = \<lparr>coin_Denom = d, coin_Amount = a\<rparr>"
  unfolding app_coins_laws_def by blast

lemma Coins_IsZero_iff:
  "app_coins_laws A \<Longrightarrow> Coins_IsZero A a \<longleftrightarrow> (\<forall>c\<in>set (coins_list a). coin_Amount c = 0)"
  unfolding app_coins_laws_def by blast

lemma app_accounts_lawsD:
  assumes "app_accounts_laws A"
  shows "same_balances (SanitizeGenesisBalances A bs) bs" and "mset (SanitizeGenesisAccounts A as) = mset as"
    and "PackAccounts A as = Inr ps \<Longrightarrow> UnpackAccounts A ps = Inr as"
    and "Accounts_Contains A as a \<longleftrightarrow> a \<in> account_address ` set as"
  using assms unfolding app_accounts_laws_def by blast+

lemma bank_read_back:
  assumes "app_codec_laws A" and "bank_MarshalJSON A g = Inr r" and "m bank_ModuleName = Some r"
  shows "\<exists>g'. GetBankGenesisStateFromAppState A m = Inr g' \<and> same_bank g g'"
  using assms unfolding app_codec_laws_def by (metis must_Inr)

lemma auth_read_back:
  assumes "app_codec_laws A" and "auth_MarshalJSON A g = Inr r" and "m auth_ModuleName = Some r"
  shows "\<exists>g'. GetAuthGenesisStateFromAppState A m = Inr g' \<and> ag_Accounts g' = ag_Accounts g"
  using assms unfolding app_codec_laws_def by (metis must_Inr)

lemma bank_state_local:
  assumes "app_codec_laws A" and "m bank_ModuleName = m' bank_ModuleName"
  shows "GetBankGenesisStateFromAppState A m = GetBankGenesisStateFromAppState A m'"
  using assms unfolding app_codec_laws_def by blast

lemma auth_state_local:
  assumes "app_codec_laws A" and "m auth_ModuleName = m' auth_ModuleName"
  shows "GetAuthGenesisStateFromAppState A m = GetAuthGenesisStateFromAppState A m'"
  using assms unfolding app_codec_laws_def by blast

lemma json_read_back: "app_codec_laws A \<Longrightarrow> json_Marshal A m = Inr r \<Longrightarrow> json_Unmarshal A r = Inr m"
  unfolding app_codec_laws_def by blast

lemma same_bank_supply:
  assumes "same_bank g g'" and "supply_ok g"
  shows "supply_ok g'"
proof -
  have "amount_of (bg_Supply g) d = amount_of (bg_Supply g') d" for d
    using assms(1) by (simp add: same_bank_def amount_of_def)
  then show ?thesis
    using assms same_balances_amount by (simp add: supply_ok_def same_bank_def)
qed

text \<open>Writing a genesis file: the bank and auth states that were marshalled are in it.\<close>

lemma exported_file:
  assumes "app_laws A" and "ExportGenesisFile A doc path fs = (Inr (), fs')"
    and "json_Marshal A m = Inr (doc_AppState doc)"
  shows "file_bank A fs' path = GetBankGenesisStateFromAppState A m"
    and "file_accounts A fs' path =
      andThen (GetAuthGenesisStateFromAppState A m) (\<lambda>g. UnpackAccounts A (ag_Accounts g))"
proof -
  obtain doc' where "GenesisStateFromGenFile A fs' path =
      andThen (json_Unmarshal A (doc_AppState doc)) (\<lambda>m. Inr (m, doc'))"
    using app_lawsD(4) [OF assms(1)] assms(2) unfolding app_file_laws_def by blast
  then have "GenesisStateFromGenFile A fs' path = Inr (m, doc')"
    using json_read_back [OF app_lawsD(3) [OF assms(1)] assms(3)] by simp
  then show "file_bank A fs' path = GetBankGenesisStateFromAppState A m"
    and "file_accounts A fs' path =
      andThen (GetAuthGenesisStateFromAppState A m) (\<lambda>g. UnpackAccounts A (ag_Accounts g))"
    by (simp_all add: file_bank_def file_accounts_def)
qed

section \<open>The sum of the balances\<close>

text \<open>\<open>for _, b := range balances { supply = supply.Add(b.Coins...) }\<close>\<close>

fun add_supply :: "('r, 'f, 'z) app_sdk_scheme \<Rightarrow> Coins \<Rightarrow> balance list \<Rightarrow> Coins result" where
  "add_supply A supply [] = Inr supply"
| "add_supply A supply (b # bs) = andThen (Coins_Add A supply (bal_Coins b)) (\<lambda>s. add_supply A s bs)"

lemma add_supply_amount:
  assumes "app_coins_laws A"
  shows "add_supply A s bs = Inr t \<Longrightarrow> amount_of t d = amount_of s d + balances_amount bs d"
proof (induction bs arbitrary: s)
  case (Cons b bs)
  from Cons.prems obtain s1 where s1: "Coins_Add A s (bal_Coins b) = Inr s1" and t: "add_supply A s1 bs = Inr t"
    by (auto simp: andThen_eq_Inr)
  show ?case using Cons.IH [OF t] Coins_Add_amount [OF assms s1, of d] by simp
qed simp

end
