(* ===== verification/Cli.thy ===== *)
theory Cli
  imports Msgs QueryPb
begin

text \<open>
  \<open>client/cli\<close>: the commands build a message or a query request from their arguments. cobra runs a
  command only if its \<open>Args\<close> check passes (\<open>cobra.ExactArgs(n)\<close>: exactly \<open>n\<close> arguments); indexing the
  slice of arguments beyond its length panics. The client context and the coin parser are parameters. A
  command's result is what it hands to the transaction or query client.
\<close>

definition ExactArgs :: "nat \<Rightarrow> string list \<Rightarrow> unit result" where
  "ExactArgs n args = (if length args = n then Inr () else Inl (ErrText ''accepts a fixed number of args''))"

definition arg :: "string list \<Rightarrow> nat \<Rightarrow> string result" where
  "arg args i = (if i < length args then Inr (args ! i) else Inl (GoPanic ''index out of range''))"

text \<open>\<open>clientCtx\<close> is the result of \<open>client.GetClientTxContext(cmd)\<close>: the from address, or its error.\<close>

definition NewCreateDenomCmd :: "('k, 'w) sdk \<Rightarrow> bytes result \<Rightarrow> string list \<Rightarrow> MsgCreateDenom result" where
  "NewCreateDenomCmd E clientCtx args =
    andThen (ExactArgs 1 args) (\<lambda>_.
    andThen clientCtx (\<lambda>fromAddress.
    andThen (arg args 0) (\<lambda>a0.
      Inr (NewMsgCreateDenom (AccAddress_String E fromAddress) a0))))"

definition NewMintCmd ::
  "('k, 'w) sdk \<Rightarrow> (string \<Rightarrow> coin result) \<Rightarrow> bytes result \<Rightarrow> string list \<Rightarrow> MsgMint result" where
  "NewMintCmd E ParseCoinNormalized clientCtx args =
    andThen (ExactArgs 1 args) (\<lambda>_.
    andThen clientCtx (\<lambda>fromAddress.
    andThen (arg args 0) (\<lambda>a0.
    andThen (ParseCoinNormalized a0) (\<lambda>coin.
      Inr (NewMsgMint (AccAddress_String E fromAddress) coin)))))"

definition NewBurnCmd ::
  "('k, 'w) sdk \<Rightarrow> (string \<Rightarrow> coin result) \<Rightarrow> bytes result \<Rightarrow> string list \<Rightarrow> MsgBurn result" where
  "NewBurnCmd E ParseCoinNormalized clientCtx args =
    andThen (ExactArgs 1 args) (\<lambda>_.
    andThen clientCtx (\<lambda>fromAddress.
    andThen (arg args 0) (\<lambda>a0.
    andThen (ParseCoinNormalized a0) (\<lambda>coin.
      Inr (NewMsgBurn (AccAddress_String E fromAddress) coin)))))"

definition NewChangeAdminCmd :: "('k, 'w) sdk \<Rightarrow> bytes result \<Rightarrow> string list \<Rightarrow> MsgChangeAdmin result" where
  "NewChangeAdminCmd E clientCtx args =
    andThen (ExactArgs 1 args) (\<lambda>_.
    andThen clientCtx (\<lambda>fromAddress.
    andThen (arg args 0) (\<lambda>a0.
    andThen (arg args 1) (\<lambda>a1.
      Inr (NewMsgChangeAdmin (AccAddress_String E fromAddress) a0 a1)))))"

definition GetCmdDenomAuthorityMetadata ::
  "unit result \<Rightarrow> string list \<Rightarrow> QueryDenomAuthorityMetadataRequest result" where
  "GetCmdDenomAuthorityMetadata clientCtx args =
    andThen (ExactArgs 1 args) (\<lambda>_.
    andThen clientCtx (\<lambda>_.
    andThen (arg args 0) (\<lambda>a0. Inr \<lparr>qdam_Denom = a0\<rparr>)))"

definition GetCmdDenomsFromCreator :: "unit result \<Rightarrow> string list \<Rightarrow> QueryDenomsFromCreatorRequest result" where
  "GetCmdDenomsFromCreator clientCtx args =
    andThen (ExactArgs 1 args) (\<lambda>_.
    andThen clientCtx (\<lambda>_.
    andThen (arg args 0) (\<lambda>a0. Inr \<lparr>qdfc_Creator = a0\<rparr>)))"

datatype tx_cmd = CmdCreateDenom | CmdMint | CmdBurn | CmdChangeAdmin
datatype query_cmd = CmdDenomAuthorityMetadata | CmdDenomsFromCreator

definition GetTxCmd :: "tx_cmd list" where
  "GetTxCmd = [CmdCreateDenom, CmdMint, CmdBurn, CmdChangeAdmin]"

definition GetQueryCmd :: "query_cmd list" where
  "GetQueryCmd = [CmdDenomAuthorityMetadata, CmdDenomsFromCreator]"

lemma one_arg: "ExactArgs 1 args = Inr () \<longleftrightarrow> (\<exists>a. args = [a])"
  by (auto simp: ExactArgs_def length_Suc_conv)

end
