(* ===== verification/GenAccounts.thy ===== *)
theory GenAccounts
  imports AppGenesis Cli
begin

text \<open>
  \<open>simapp/simd/cmd/genaccounts.go\<close>, the command that adds an account with its coins to a genesis file,
  and the validation of \<open>simapp/genesis_account.go\<close>. The command is an action on the file system: it
  reads the genesis file, changes the auth and bank states in it and writes it back.
\<close>

section \<open>\<open>SimGenesisAccount\<close>\<close>

record sim_genesis_account =
  sga_BaseAccount :: base_account
  sga_OriginalVesting :: Coins
  sga_DelegatedFree :: Coins
  sga_DelegatedVesting :: Coins
  sga_StartTime :: u64
  sga_EndTime :: u64
  sga_ModuleName :: string
  sga_ModulePermissions :: "string list"

text \<open>The validation of base and module accounts is the SDK's. Times are \<open>int64\<close>.\<close>

definition SimGenesisAccount_Validate ::
  "('r, 'f) app_sdk \<Rightarrow> (base_account \<Rightarrow> unit result) \<Rightarrow> (base_account \<Rightarrow> string \<Rightarrow> string list \<Rightarrow> unit result) \<Rightarrow>
    sim_genesis_account \<Rightarrow> unit result" where
  "SimGenesisAccount_Validate A BaseAccount_Validate ModuleAccount_Validate sga =
    andThen (if \<not> Coins_IsZero A (sga_OriginalVesting sga) then
               (if sint (sga_EndTime sga) \<le> sint (sga_StartTime sga)
                then Inl (ErrText ''vesting start-time cannot be before end-time'') else Inr ())
             else Inr ()) (\<lambda>_.
    andThen (if sga_ModuleName sga \<noteq> '''' then
               ModuleAccount_Validate (sga_BaseAccount sga) (sga_ModuleName sga) (sga_ModulePermissions sga)
             else Inr ()) (\<lambda>_.
      BaseAccount_Validate (sga_BaseAccount sga)))"

section \<open>The command\<close>

type_synonym keyring = "string \<Rightarrow> bytes result"

text \<open>The client context, the way keyrings are opened, and the path of the genesis file below a home
  directory.\<close>

record client_env =
  env_HomeDir :: string
  env_Keyring :: "keyring option"
  env_keyring_New :: "string \<Rightarrow> string \<Rightarrow> keyring result"
  env_GenesisFile :: "string \<Rightarrow> string"

text \<open>The names of the vesting flags, and the values of the flags.\<close>

definition flagVestingStart :: string where "flagVestingStart = ''vesting-start-time''"
definition flagVestingEnd :: string where "flagVestingEnd = ''vesting-end-time''"
definition flagVestingAmt :: string where "flagVestingAmt = ''vesting-amount''"

record genacc_flags =
  flag_KeyringBackend :: string
  flag_VestingStart :: u64
  flag_VestingEnd :: u64
  flag_VestingAmt :: string

text \<open>The first argument is an address or the name of a key.\<close>

definition genesis_address :: "('k, 'w) sdk \<Rightarrow> client_env \<Rightarrow> string \<Rightarrow> string \<Rightarrow> bytes result" where
  "genesis_address E env keyringBackend arg0 = (case AccAddressFromBech32 E arg0 of
      Inr addr \<Rightarrow> Inr addr
    | Inl err \<Rightarrow>
        andThen (if keyringBackend \<noteq> '''' \<and> env_Keyring env = None
                 then andThen (env_keyring_New env keyringBackend (env_HomeDir env)) (\<lambda>kr. Inr (Some kr))
                 else Inr (env_Keyring env)) (\<lambda>kr.
          (case kr of
             None \<Rightarrow> Inl (GoPanic ''nil pointer dereference'')
           | Some k \<Rightarrow> wrapErr ''failed to get address from Keyring'' (k arg0))))"

text \<open>The account and its balance, from the coins and the vesting flags.\<close>

definition new_genesis_account ::
  "('k, 'w) sdk \<Rightarrow> ('r, 'f) app_sdk \<Rightarrow> genacc_flags \<Rightarrow> bytes \<Rightarrow> Coins \<Rightarrow> (genesis_account \<times> balance) result" where
  "new_genesis_account E A fl addr coins =
    andThen (wrapErr ''failed to parse vesting amount'' (ParseCoinsNormalized A (flag_VestingAmt fl))) (\<lambda>vestingAmt.
    let vestingStart = flag_VestingStart fl; vestingEnd = flag_VestingEnd fl;
        balances = \<lparr>bal_Address = AccAddress_String E addr, bal_Coins = Coins_Sort A coins\<rparr>;
        baseAccount = NewBaseAccount addr 0 0 in
    andThen
      (if \<not> Coins_IsZero A vestingAmt then
         (let baseVestingAccount = \<lparr>bva_BaseAccount = baseAccount,
            bva_OriginalVesting = Coins_Sort A vestingAmt, bva_EndTime = vestingEnd\<rparr> in
          if (Coins_IsZero A (bal_Coins balances) \<and> \<not> Coins_IsZero A (bva_OriginalVesting baseVestingAccount)) \<or>
             Coins_IsAnyGT A (bva_OriginalVesting baseVestingAccount) (bal_Coins balances)
          then Inl (ErrText ''vesting amount cannot be greater than total amount'')
          else if vestingStart \<noteq> 0 \<and> vestingEnd \<noteq> 0
          then Inr (ContinuousVestingAccount baseVestingAccount vestingStart)
          else if vestingEnd \<noteq> 0 then Inr (DelayedVestingAccount baseVestingAccount)
          else Inl (ErrText ''invalid vesting parameters; must supply start and end time or end time''))
       else Inr (BaseAccount baseAccount)) (\<lambda>genAccount.
    andThen (wrapErr ''failed to validate new genesis account'' (GenesisAccount_Validate A genAccount)) (\<lambda>_.
      Inr (genAccount, balances))))"

text \<open>The new application state: the account among the sanitised accounts, the balance among the
  sanitised balances, its coins in the supply.\<close>

definition add_to_genesis ::
  "('r, 'f) app_sdk \<Rightarrow> bytes \<Rightarrow> genesis_account \<Rightarrow> balance \<Rightarrow> 'r app_genesis \<Rightarrow> 'r app_genesis result" where
  "add_to_genesis A addr genAccount balances appState =
    andThen (GetAuthGenesisStateFromAppState A appState) (\<lambda>authGenState.
    andThen (wrapErr ''failed to get accounts from any'' (UnpackAccounts A (ag_Accounts authGenState))) (\<lambda>accs.
    if Accounts_Contains A accs addr then Inl (ErrText ''cannot add account at existing address'')
    else
    andThen (wrapErr ''failed to convert accounts into any's''
      (PackAccounts A (SanitizeGenesisAccounts A (accs @ [genAccount])))) (\<lambda>genAccs.
    andThen (wrapErr ''failed to marshal auth genesis state''
      (auth_MarshalJSON A (authGenState\<lparr>ag_Accounts := genAccs\<rparr>))) (\<lambda>authGenStateBz.
    let appState1 = appState(auth_ModuleName \<mapsto> authGenStateBz) in
    andThen (GetBankGenesisStateFromAppState A appState1) (\<lambda>bankGenState.
    andThen (Coins_Add A (bg_Supply bankGenState) (bal_Coins balances)) (\<lambda>supply.
    andThen (wrapErr ''failed to marshal bank genesis state''
      (bank_MarshalJSON A (bankGenState\<lparr>
         bg_Balances := SanitizeGenesisBalances A (bg_Balances bankGenState @ [balances]),
         bg_Supply := supply\<rparr>))) (\<lambda>bankGenStateBz.
      Inr (appState1(bank_ModuleName \<mapsto> bankGenStateBz)))))))))"

definition AddGenesisAccountCmd ::
  "('k, 'w) sdk \<Rightarrow> ('r, 'f) app_sdk \<Rightarrow> client_env \<Rightarrow> genacc_flags \<Rightarrow> string list \<Rightarrow> ('f, unit) action" where
  "AddGenesisAccountCmd E A env fl args =
    bindM (liftM (ExactArgs 2 args)) (\<lambda>_.
    bindM (liftM (arg args 0)) (\<lambda>arg0.
    bindM (liftM (genesis_address E env (flag_KeyringBackend fl) arg0)) (\<lambda>addr.
    bindM (liftM (arg args 1)) (\<lambda>arg1.
    bindM (liftM (wrapErr ''failed to parse coins'' (ParseCoinsNormalized A arg1))) (\<lambda>coins.
    bindM (liftM (new_genesis_account E A fl addr coins)) (\<lambda>p.
    let genFile = env_GenesisFile env (env_HomeDir env) in
    bindM (\<lambda>fs. (wrapErr ''failed to unmarshal genesis state'' (GenesisStateFromGenFile A fs genFile), fs)) (\<lambda>q.
    bindM (liftM (add_to_genesis A addr (fst p) (snd p) (fst q))) (\<lambda>appState.
    bindM (liftM (wrapErr ''failed to marshal application genesis state'' (json_Marshal A appState))) (\<lambda>appStateJSON.
      ExportGenesisFile A ((snd q)\<lparr>doc_AppState := appStateJSON\<rparr>) genFile)))))))))"

section \<open>What the command does to the genesis state\<close>

lemma new_genesis_account_parts:
  assumes "new_genesis_account E A fl addr coins = Inr (acc, b)"
  shows "account_address acc = addr" and "bal_Coins b = Coins_Sort A coins"
    and "bal_Address b = AccAddress_String E addr"
  using assms
  by (auto simp: new_genesis_account_def Let_def andThen_eq_Inr NewBaseAccount_def split: if_splits)

lemma add_to_genesis_bank:
  assumes laws: "app_laws A" and run: "add_to_genesis A addr acc b m = Inr m'"
    and g: "GetBankGenesisStateFromAppState A m = Inr g"
  shows "\<exists>g'. GetBankGenesisStateFromAppState A m' = Inr g' \<and>
    (\<forall>d. amount_of (bg_Supply g') d = amount_of (bg_Supply g) d + amount_of (bal_Coins b) d) \<and>
    (\<forall>d. balances_amount (bg_Balances g') d = balances_amount (bg_Balances g) d + amount_of (bal_Coins b) d)"
proof -
  note laws = app_lawsD [OF laws]
  have same: "GetBankGenesisStateFromAppState A (m(auth_ModuleName \<mapsto> r)) = Inr g" for r
    using bank_state_local [OF laws(3), of "m(auth_ModuleName \<mapsto> r)" m] g by (simp add: app_module_names)
  obtain s r r' where s: "Coins_Add A (bg_Supply g) (bal_Coins b) = Inr s"
    and r: "bank_MarshalJSON A (g\<lparr>bg_Balances := SanitizeGenesisBalances A (bg_Balances g @ [b]), bg_Supply := s\<rparr>) = Inr r"
    and m': "m' = m(auth_ModuleName \<mapsto> r', bank_ModuleName \<mapsto> r)"
    using run same by (auto simp: add_to_genesis_def Let_def andThen_eq_Inr split: if_splits)
  obtain g' where g': "GetBankGenesisStateFromAppState A m' = Inr g'"
    and eq: "same_bank (g\<lparr>bg_Balances := SanitizeGenesisBalances A (bg_Balances g @ [b]), bg_Supply := s\<rparr>) g'"
    using bank_read_back [OF laws(3) r, of m'] m' by auto
  have "amount_of (bg_Supply g') d = amount_of s d" for d
    using eq by (simp add: same_bank_def amount_of_def)
  moreover have "balances_amount (bg_Balances g') d = balances_amount (bg_Balances g @ [b]) d" for d
    using eq same_balances_amount [OF app_accounts_lawsD(1) [OF laws(2)]] same_balances_amount
    unfolding same_bank_def by (metis bank_genesis.select_convs(2) bank_genesis.surjective bank_genesis.update_convs(2,3))
  ultimately show ?thesis using g' Coins_Add_amount [OF laws(1) s] by simp
qed

lemma add_to_genesis_accounts:
  assumes laws: "app_laws A" and run: "add_to_genesis A addr acc b m = Inr m'"
    and ag: "GetAuthGenesisStateFromAppState A m = Inr ag" and accs: "UnpackAccounts A (ag_Accounts ag) = Inr accs"
  shows "addr \<notin> account_address ` set accs \<and>
    (\<exists>ag' accs'. GetAuthGenesisStateFromAppState A m' = Inr ag' \<and> UnpackAccounts A (ag_Accounts ag') = Inr accs' \<and>
       mset accs' = mset accs + {#acc#})"
proof -
  note laws = app_lawsD [OF laws]
  obtain ps r r' where new: "addr \<notin> account_address ` set accs"
    and ps: "PackAccounts A (SanitizeGenesisAccounts A (accs @ [acc])) = Inr ps"
    and r: "auth_MarshalJSON A (ag\<lparr>ag_Accounts := ps\<rparr>) = Inr r"
    and m': "m' = m(auth_ModuleName \<mapsto> r, bank_ModuleName \<mapsto> r')"
    using run ag accs app_accounts_lawsD(4) [OF laws(2)]
    by (auto simp: add_to_genesis_def Let_def andThen_eq_Inr split: if_splits)
  have "m' auth_ModuleName = Some r" by (simp add: m' app_module_names)
  then obtain ag' where ag': "GetAuthGenesisStateFromAppState A m' = Inr ag'" "ag_Accounts ag' = ps"
    using auth_read_back [OF laws(3) r] by auto
  with new ps app_accounts_lawsD(2,3) [OF laws(2)] show ?thesis by auto
qed

text \<open>A run that succeeds, step by step.\<close>

lemma AddGenesisAccountCmd_run:
  assumes "AddGenesisAccountCmd E A env fl args fs = (Inr (), fs')"
  obtains a0 a1 addr coins acc b m doc m' r where "args = [a0, a1]"
    and "ParseCoinsNormalized A a1 = Inr coins"
    and "new_genesis_account E A fl addr coins = Inr (acc, b)"
    and "GenesisStateFromGenFile A fs (env_GenesisFile env (env_HomeDir env)) = Inr (m, doc)"
    and "add_to_genesis A addr acc b m = Inr m'" and "json_Marshal A m' = Inr r"
    and "ExportGenesisFile A (doc\<lparr>doc_AppState := r\<rparr>) (env_GenesisFile env (env_HomeDir env)) fs = (Inr (), fs')"
proof -
  from assms obtain a0 a1 addr coins p q m' r where
    "ExactArgs 2 args = Inr ()" and "arg args 0 = Inr a0" and "arg args 1 = Inr a1"
    and "ParseCoinsNormalized A a1 = Inr coins" and "new_genesis_account E A fl addr coins = Inr p"
    and "GenesisStateFromGenFile A fs (env_GenesisFile env (env_HomeDir env)) = Inr q"
    and "add_to_genesis A addr (fst p) (snd p) (fst q) = Inr m'" and "json_Marshal A m' = Inr r"
    and "ExportGenesisFile A ((snd q)\<lparr>doc_AppState := r\<rparr>) (env_GenesisFile env (env_HomeDir env)) fs = (Inr (), fs')"
    unfolding AddGenesisAccountCmd_def Let_def bindM_eq_Inr liftM_def by (auto simp del: One_nat_def)
  moreover have "args = [a0, a1]"
    using \<open>ExactArgs 2 args = Inr ()\<close> \<open>arg args 0 = Inr a0\<close> \<open>arg args 1 = Inr a1\<close>
    by (auto simp: ExactArgs_def arg_def length_Suc_conv numeral_2_eq_2 split: if_splits)
  ultimately show ?thesis using that [of a0 a1 coins addr "fst p" "snd p" "fst q" "snd q" m' r] by simp
qed

text \<open>Until the file is exported nothing is written: an error leaves it as it was, unless writing it failed.\<close>

lemma AddGenesisAccountCmd_error:
  assumes "AddGenesisAccountCmd E A env fl args fs = (Inl e, fs')" and "fs' \<noteq> fs"
  shows "\<exists>doc. ExportGenesisFile A doc (env_GenesisFile env (env_HomeDir env)) fs = (Inl e, fs')"
  using assms unfolding AddGenesisAccountCmd_def Let_def bindM_eq_Inl liftM_def by auto

lemma new_account_error: "wrapErr ''failed to validate new genesis account'' r = Inl e \<Longrightarrow>
    e = ErrText ''failed to validate new genesis account'' \<or> is_panic e"
  by (cases r) (auto simp: wrapErr_def split: if_splits)

end
