(* ===== verification/SampleApp.thy ===== *)
theory SampleApp
  imports SampleRun GenAccounts
begin

text \<open>
  A concrete file system and genesis codec on which the properties of the genesis commands are applied: a
  JSON value is the state it encodes, a file system maps paths to genesis documents, coins are parsed
  from one amount and denomination. The lemmas show that it obeys the laws of \<open>AppGenesis\<close>.
\<close>

datatype sample_json = JAuth auth_genesis | JBank bank_genesis | JModule bytes | JState "string \<Rightarrow> sample_json option"

type_synonym sample_files = "string \<Rightarrow> sample_json genesis_doc option"

definition is_digit :: "char \<Rightarrow> bool" where
  "is_digit c \<longleftrightarrow> c \<in> set ''0123456789''"

definition parse_coins :: "string \<Rightarrow> Coins result" where
  "parse_coins s = (if s = '''' then Inr (Some [])
     else if takeWhile is_digit s = [] \<or> dropWhile is_digit s = [] then Inl (ErrSDK ''invalid decimal coin expression'')
     else Inr (Some [\<lparr>coin_Denom = dropWhile is_digit s, coin_Amount = int (string_nat (takeWhile is_digit s))\<rparr>]))"

fun add_coin :: "coin \<Rightarrow> coin list \<Rightarrow> coin list" where
  "add_coin c [] = [c]"
| "add_coin c (x # xs) =
    (if coin_Denom x = coin_Denom c then x\<lparr>coin_Amount := coin_Amount x + coin_Amount c\<rparr> # xs else x # add_coin c xs)"

definition add_coins :: "Coins \<Rightarrow> Coins \<Rightarrow> Coins" where
  "add_coins a b = Some (fold add_coin (coins_list b) (coins_list a))"

definition sort_coins :: "Coins \<Rightarrow> Coins" where
  "sort_coins cs = map_option (sort_key (\<lambda>c. bytes_of_string (coin_Denom c))) cs"

fun pack_accounts :: "genesis_account list \<Rightarrow> (string \<times> bytes) list result" where
  "pack_accounts [] = Inr []"
| "pack_accounts (BaseAccount a # as) =
    (if ba_AccountNumber a = 0 \<and> ba_Sequence a = 0
     then andThen (pack_accounts as) (\<lambda>ps. Inr ((''/cosmos.auth.v1beta1.BaseAccount'', ba_Address a) # ps))
     else Inl (ErrSDK ''unsupported account''))"
| "pack_accounts (_ # as) = Inl (ErrSDK ''unsupported account'')"

definition unpack_accounts :: "(string \<times> bytes) list \<Rightarrow> genesis_account list" where
  "unpack_accounts ps = map (\<lambda>p. BaseAccount (NewBaseAccount (snd p) 0 0)) ps"

definition sample_app :: "(sample_json, sample_files) app_sdk" where
  "sample_app = \<lparr>
     ParseCoinsNormalized = parse_coins,
     Coins_Sort = sort_coins,
     Coins_IsZero = (\<lambda>cs. list_all (\<lambda>c. coin_Amount c = 0) (coins_list cs)),
     Coins_IsAnyGT = (\<lambda>a b. list_ex (\<lambda>c. amount_of b (coin_Denom c) \<noteq> 0 \<and>
        amount_of b (coin_Denom c) < coin_Amount c) (coins_list a)),
     Coins_Add = (\<lambda>a b. Inr (add_coins a b)),
     sdk_NewCoin = (\<lambda>d a. if 0 \<le> a then Inr \<lparr>coin_Denom = d, coin_Amount = a\<rparr>
        else Inl (GoPanic ''negative coin amount'')),
     NewModuleAddress = (\<lambda>m. bytes_of_string (''module'' @ m)),
     GenesisAccount_Validate = (\<lambda>a. Inr ()),
     UnpackAccounts = (\<lambda>ps. Inr (unpack_accounts ps)),
     PackAccounts = pack_accounts,
     Accounts_Contains = (\<lambda>as a. a \<in> account_address ` set as),
     SanitizeGenesisAccounts = (\<lambda>as. as),
     SanitizeGenesisBalances = sort_key (\<lambda>b. bytes_of_string (bal_Address b)),
     GetAuthGenesisStateFromAppState = (\<lambda>m. case m auth_ModuleName of
        Some (JAuth g) \<Rightarrow> Inr g | Some _ \<Rightarrow> Inl (GoPanic ''panic(err)'')
        | None \<Rightarrow> Inr \<lparr>ag_Params = [], ag_Accounts = []\<rparr>),
     GetBankGenesisStateFromAppState = (\<lambda>m. case m bank_ModuleName of
        Some (JBank g) \<Rightarrow> Inr g | Some _ \<Rightarrow> Inl (GoPanic ''panic(err)'')
        | None \<Rightarrow> Inr \<lparr>bg_Params = [], bg_Balances = [], bg_Supply = None, bg_DenomMetadata = []\<rparr>),
     auth_MarshalJSON = (\<lambda>g. Inr (JAuth g)),
     auth_UnmarshalJSON = (\<lambda>r. case r of JAuth g \<Rightarrow> Inr g | _ \<Rightarrow> Inl (ErrSDK ''unmarshal'')),
     bank_MarshalJSON = (\<lambda>g. Inr (JBank g)),
     bank_UnmarshalJSON = (\<lambda>r. case r of JBank g \<Rightarrow> Inr g | _ \<Rightarrow> Inl (ErrSDK ''unmarshal'')),
     json_Marshal = (\<lambda>m. Inr (JState m)),
     json_Unmarshal = (\<lambda>r. case r of JState m \<Rightarrow> Inr m | _ \<Rightarrow> Inl (ErrSDK ''unmarshal'')),
     GenesisStateFromGenFile = (\<lambda>fs path. case fs path of
        None \<Rightarrow> Inl (ErrSDK ''no such file'')
      | Some doc \<Rightarrow> (case doc_AppState doc of JState m \<Rightarrow> Inr (m, doc) | _ \<Rightarrow> Inl (ErrSDK ''unmarshal''))),
     ExportGenesisFile = (\<lambda>doc path fs. (Inr (), fs(path \<mapsto> doc)))\<rparr>"

section \<open>The laws\<close>

definition coin_sum :: "coin list \<Rightarrow> string \<Rightarrow> int" where
  "coin_sum cs d = (\<Sum>c\<leftarrow>cs. if coin_Denom c = d then coin_Amount c else 0)"

lemma coin_sum_simps [simp]:
  "coin_sum [] d = 0"
  "coin_sum (c # cs) d = (if coin_Denom c = d then coin_Amount c else 0) + coin_sum cs d"
  by (simp_all add: coin_sum_def)

lemma add_coin_amount:
  "coin_sum (add_coin c cs) d = coin_sum cs d + (if coin_Denom c = d then coin_Amount c else 0)"
  by (induction cs) auto

lemma add_coins_amount: "amount_of (add_coins a b) d = amount_of a d + amount_of b d"
proof -
  have "coin_sum (fold add_coin cs as) d = coin_sum as d + coin_sum cs d" for cs as
    by (induction cs arbitrary: as) (simp_all add: add_coin_amount)
  then show ?thesis by (simp add: add_coins_def amount_of_def coin_sum_def)
qed

lemma pack_accounts_back: "pack_accounts as = Inr ps \<Longrightarrow> unpack_accounts ps = as"
  by (induction as arbitrary: ps rule: pack_accounts.induct)
    (auto simp: unpack_accounts_def andThen_eq_Inr NewBaseAccount_def split: if_splits)

lemma sample_app_coins_laws: "app_coins_laws sample_app"
  unfolding app_coins_laws_def
  by (auto simp: sample_app_def sort_coins_def add_coins_amount list_all_iff list_ex_iff split: option.splits)
    (case_tac cs; simp)+

lemma same_balances_refl: "same_balances bs bs"
  by (simp add: same_balances_def)

lemma sample_app_laws: "app_laws sample_app"
proof -
  have "app_accounts_laws sample_app"
    unfolding app_accounts_laws_def by (simp add: sample_app_def pack_accounts_back same_balances_def)
  moreover have "app_codec_laws sample_app"
    unfolding app_codec_laws_def
    by (auto simp: sample_app_def same_bank_def same_balances_refl must_def split: sample_json.splits)
  moreover have "app_file_laws sample_app"
    unfolding app_file_laws_def by (auto simp: sample_app_def split: sample_json.split)
  ultimately show ?thesis using sample_app_coins_laws by (simp add: app_laws_def)
qed

section \<open>A genesis file\<close>

definition sample_path :: string where
  "sample_path = ''/home/.simapp/config/genesis.json''"

definition sample_env :: client_env where
  "sample_env = \<lparr>env_HomeDir = ''/home/.simapp'', env_Keyring = None,
     env_keyring_New = (\<lambda>_ _. Inl (ErrSDK ''unknown keyring backend'')),
     env_GenesisFile = (\<lambda>root. root @ ''/config/genesis.json'')\<rparr>"

definition no_vesting :: genacc_flags where
  "no_vesting = \<lparr>flag_KeyringBackend = ''os'', flag_VestingStart = 0, flag_VestingEnd = 0, flag_VestingAmt = ''''\<rparr>"

definition hundred_stake :: Coins where
  "hundred_stake = Some [\<lparr>coin_Denom = ''stake'', coin_Amount = 100\<rparr>]"

definition sample_bank :: bank_genesis where
  "sample_bank = \<lparr>bg_Params = [], bg_Balances = [\<lparr>bal_Address = ''osmo1bob'', bal_Coins = hundred_stake\<rparr>],
     bg_Supply = hundred_stake, bg_DenomMetadata = []\<rparr>"

definition bob_account :: genesis_account where
  "bob_account = BaseAccount (NewBaseAccount (bytes_of_string ''bob'') 0 0)"

definition sample_auth :: auth_genesis where
  "sample_auth = \<lparr>ag_Params = [],
     ag_Accounts = [(''/cosmos.auth.v1beta1.BaseAccount'', bytes_of_string ''bob'')]\<rparr>"

definition sample_files :: sample_files where
  "sample_files = [sample_path \<mapsto> \<lparr>doc_GenesisTime = 0, doc_ChainID = ''sim'', doc_Validators = [],
     doc_AppState = JState [auth_ModuleName \<mapsto> JAuth sample_auth, bank_ModuleName \<mapsto> JBank sample_bank],
     doc_Rest = []\<rparr>]"

section \<open>Runs\<close>

definition atom_vesting :: genacc_flags where
  "atom_vesting = no_vesting\<lparr>flag_VestingAmt := ''7atom'', flag_VestingEnd := 9\<rparr>"

lemma atom_vesting_amount:
  "ParseCoinsNormalized sample_app (flag_VestingAmt atom_vesting) = Inr (Some [\<lparr>coin_Denom = ''atom'', coin_Amount = 7\<rparr>])"
  by code_simp

lemma atom_vesting_account: "new_genesis_account chain_sdk sample_app atom_vesting (bytes_of_string ''alice'') hundred_stake =
    Inr (DelayedVestingAccount \<lparr>bva_BaseAccount = NewBaseAccount (bytes_of_string ''alice'') 0 0,
        bva_OriginalVesting = Some [\<lparr>coin_Denom = ''atom'', coin_Amount = 7\<rparr>], bva_EndTime = 9\<rparr>,
      \<lparr>bal_Address = ''osmo1alice'', bal_Coins = hundred_stake\<rparr>)"
  by code_simp

lemma sample_genesis_account:
  "AddGenesisAccountCmd chain_sdk sample_app sample_env no_vesting [''osmo1alice'', ''10stake''] sample_files =
    (Inr (), snd (AddGenesisAccountCmd chain_sdk sample_app sample_env no_vesting [''osmo1alice'', ''10stake''] sample_files))"
  (is "?run = _")
proof -
  have "fst ?run = Inr ()" by code_simp
  then show ?thesis by (cases ?run) simp
qed

lemma sample_file_bank: "file_bank sample_app sample_files (env_GenesisFile sample_env (env_HomeDir sample_env)) = Inr sample_bank"
  by code_simp

lemma sample_file_accounts:
  "file_accounts sample_app sample_files (env_GenesisFile sample_env (env_HomeDir sample_env)) = Inr [bob_account]"
  by code_simp

lemma sample_bank_supply: "supply_ok sample_bank"
  by (simp add: supply_ok_def sample_bank_def)

end
