(* ===== verification/GoLib.thy ===== *)
theory GoLib
  imports Prelude
begin

text \<open>
  Parts of Go's standard library that only the example application uses: \<open>strconv.Itoa\<close> (which is also
  \<open>%d\<close> of a non-negative number) and \<open>filepath.Join\<close> with its lexical cleaning. The last section has the loops of the application's code:
  a body run for each element of a list, with early return, and with values threaded through.
\<close>

section \<open>\<open>strconv.Itoa\<close>\<close>

fun Itoa :: "nat \<Rightarrow> string" where
  "Itoa n = (if n < 10 then [char_of (48 + n)] else Itoa (n div 10) @ [char_of (48 + n mod 10)])"

declare Itoa.simps [simp del]

definition Atoi :: "string \<Rightarrow> nat" where
  "Atoi s = foldl (\<lambda>a c. 10 * a + (of_char c - 48)) 0 s"

lemma of_char_decimal: "n < 10 \<Longrightarrow> (of_char (char_of (48 + n) :: char) :: nat) = 48 + n"
  by (simp add: of_char_of)

lemma Atoi_Itoa: "Atoi (Itoa n) = n"
proof (induction n rule: Itoa.induct)
  case (1 n)
  show ?case
  proof (cases "n < 10")
    case True
    then show ?thesis by (simp add: Itoa.simps [of n] Atoi_def of_char_decimal)
  next
    case False
    have "Atoi (Itoa n) = 10 * Atoi (Itoa (n div 10)) + n mod 10"
      using False by (simp add: Itoa.simps [of n] Atoi_def of_char_decimal)
    then show ?thesis using 1 [OF False] by simp
  qed
qed

lemma Itoa_eq_iff [simp]: "Itoa m = Itoa n \<longleftrightarrow> m = n"
  by (metis Atoi_Itoa)

lemma set_Itoa: "c \<in> set (Itoa n) \<Longrightarrow> \<exists>k. k < (10 :: nat) \<and> c = char_of (48 + k)"
proof (induction n rule: Itoa.induct)
  case (1 n)
  show ?case
  proof (cases "n < 10")
    case True
    with 1(2) have "c = char_of (48 + n)" by (simp add: Itoa.simps [of n])
    with True show ?thesis by blast
  next
    case False
    with 1(2) consider "c \<in> set (Itoa (n div 10))" | "c = char_of (48 + n mod 10)"
      by (auto simp: Itoa.simps [of n])
    then show ?thesis using 1(1) [OF False] by cases (auto intro: exI [of _ "n mod 10"])
  qed
qed

lemma dot_not_in_Itoa [simp]: "CHR ''.'' \<notin> set (Itoa n)"
proof
  assume "CHR ''.'' \<in> set (Itoa n)"
  then obtain k :: nat where "k < 10" and "CHR ''.'' = (char_of (48 + k) :: char)" using set_Itoa by blast
  then have "(of_char (CHR ''.'') :: nat) = 48 + k" using of_char_decimal [of k] by simp
  then show False by simp
qed

section \<open>\<open>filepath.Join\<close>\<close>

text \<open>\<open>filepath.Clean\<close> on the parts of a path, with the parts kept so far in reverse: empty parts and
  \<open>.\<close> are dropped, \<open>..\<close> takes back the part before it, or is dropped at the root.\<close>

fun clean_parts :: "bool \<Rightarrow> string list \<Rightarrow> string list \<Rightarrow> string list" where
  "clean_parts rooted acc [] = rev acc"
| "clean_parts rooted acc (p # ps) =
    (if p = '''' \<or> p = ''.'' then clean_parts rooted acc ps
     else if p = ''..'' then
       (case acc of
          [] \<Rightarrow> clean_parts rooted (if rooted then [] else [p]) ps
        | q # acc' \<Rightarrow> clean_parts rooted (if q = ''..'' then p # acc else acc') ps)
     else clean_parts rooted (p # acc) ps)"

definition filepath_Clean :: "string \<Rightarrow> string" where
  "filepath_Clean path =
    (let rooted = (path \<noteq> '''' \<and> hd path = CHR ''/'');
         s = strings_Join (clean_parts rooted [] (strings_Split path CHR ''/'')) CHR ''/'' in
     if rooted then CHR ''/'' # s else if s = '''' then ''.'' else s)"

definition filepath_Join :: "string list \<Rightarrow> string" where
  "filepath_Join elems = (case dropWhile (\<lambda>e. e = '''') elems of
      [] \<Rightarrow> ''''
    | es \<Rightarrow> filepath_Clean (strings_Join es CHR ''/''))"

lemma filepath_Join_examples:
  "filepath_Join [''./mytestnet'', ''node0'', ''simd''] = ''mytestnet/node0/simd''"
  "filepath_Join [''/a/../..'', ''b''] = ''/b''"
  "filepath_Join [''a/..'', ''..'', ''b''] = ''../b''"
  by code_simp+

section \<open>Loops\<close>

fun forM :: "'a list \<Rightarrow> ('a \<Rightarrow> ('s, unit) action) \<Rightarrow> ('s, unit) action" where
  "forM [] body = retM ()"
| "forM (x # xs) body = bindM (body x) (\<lambda>_. forM xs body)"

fun foldM :: "'a list \<Rightarrow> 'b \<Rightarrow> ('a \<Rightarrow> 'b \<Rightarrow> ('s, 'b) action) \<Rightarrow> ('s, 'b) action" where
  "foldM [] acc body = retM acc"
| "foldM (x # xs) acc body = bindM (body x acc) (\<lambda>acc'. foldM xs acc' body)"

text \<open>What every turn of the loop establishes or keeps holds after the loop.\<close>

lemma forM_invariant:
  assumes "forM xs body s = (Inr (), t)" and "P s"
    and "\<And>x s t. x \<in> set xs \<Longrightarrow> P s \<Longrightarrow> body x s = (Inr (), t) \<Longrightarrow> P t"
  shows "P t"
  using assms
proof (induction xs arbitrary: s)
  case (Cons x xs)
  from Cons.prems(1) obtain s1 where x: "body x s = (Inr (), s1)" and xs: "forM xs body s1 = (Inr (), t)"
    by (auto simp: bindM_eq_Inr)
  have "P s1" by (rule Cons.prems(3) [OF _ Cons.prems(2) x]) simp
  with xs show ?case by (rule Cons.IH) (rule Cons.prems(3); simp)
qed (simp add: action_simps)

lemma foldM_invariant:
  assumes "foldM xs acc body s = (Inr acc', t)" and "P acc s"
    and "\<And>x acc s acc' t. x \<in> set xs \<Longrightarrow> P acc s \<Longrightarrow> body x acc s = (Inr acc', t) \<Longrightarrow> P acc' t"
  shows "P acc' t"
  using assms
proof (induction xs arbitrary: acc s)
  case (Cons x xs)
  from Cons.prems(1) obtain acc1 s1 where x: "body x acc s = (Inr acc1, s1)" and xs: "foldM xs acc1 body s1 = (Inr acc', t)"
    by (auto simp: bindM_eq_Inr)
  have "P acc1 s1" by (rule Cons.prems(3) [OF _ Cons.prems(2) x]) simp
  with xs show ?case by (rule Cons.IH) (rule Cons.prems(3); simp)
qed (simp add: action_simps)

text \<open>What one turn establishes and later turns keep.\<close>

lemma forM_each:
  assumes "forM xs body s = (Inr (), t)" and "x \<in> set xs"
    and "\<And>s t. body x s = (Inr (), t) \<Longrightarrow> Q t"
    and "\<And>y s t. y \<in> set xs \<Longrightarrow> Q s \<Longrightarrow> body y s = (Inr (), t) \<Longrightarrow> Q t"
  shows "Q t"
  using assms
proof (induction xs arbitrary: s)
  case (Cons y ys)
  from Cons.prems(1) obtain s' where y: "body y s = (Inr (), s')" and ys: "forM ys body s' = (Inr (), t)"
    by (auto simp: bindM_eq_Inr)
  show ?case
  proof (cases "x = y")
    case True
    then have "Q s'" using y Cons.prems(3) by blast
    then show ?thesis
      by (rule forM_invariant [OF ys]) (rule Cons.prems(4); simp)
  next
    case False
    then have "x \<in> set ys" using Cons.prems(2) by simp
    with ys show ?thesis
      by (rule Cons.IH) (rule Cons.prems(3), assumption, rule Cons.prems(4), simp_all)
  qed
qed simp

lemma keeps_forM [frame]:
  assumes "\<And>a. R a a" and "\<And>a b c. R a b \<Longrightarrow> R b c \<Longrightarrow> R a c" and "\<And>x. keeps R (body x)"
  shows "keeps R (forM xs body)"
  by (induction xs) (simp_all add: keeps_basic keeps_bindM assms)

end
