(* ===== verification/Testnet.thy ===== *)
theory Testnet
  imports AppGenesis GoLib
begin

text \<open>
  \<open>simapp/simd/cmd/testnet.go\<close>: the files of a test network of \<open>v\<close> validators. Each function is an
  action on the file system (which holds the keyrings too); what it calls in the SDK, Tendermint
  and the operating system is in the parameters \<open>testnet_sdk\<close>, which extend those of \<open>AppGenesis\<close>.
\<close>

text \<open>The fields of the Tendermint configuration that the code sets.\<close>

record node_config =
  RootDir :: string
  RPC_ListenAddress :: string
  Moniker :: string

text \<open>The fields of the server configuration that the code sets, on top of the default.\<close>

record app_config =
  MinGasPrices :: string
  API_Enable :: bool
  Telemetry_Enabled :: bool
  Telemetry_PrometheusRetentionTime :: int
  Telemetry_EnableHostnameLabel :: bool
  Telemetry_GlobalLabels :: "string list list"

text \<open>\<open>net.ParseIP(s).To4()\<close> (nil for what is no IPv4 address), \<open>IP.String\<close>, and the SDK's \<open>server.ExternalIP\<close>.\<close>

record net =
  ParseIP_To4 :: "string \<Rightarrow> bytes option"
  IP_String :: "bytes \<Rightarrow> string"
  ExternalIP :: "string result"

text \<open>\<open>genutil.InitializeNodeValidatorFiles\<close> returns a node id and a public key; a keyring is a value of type \<open>'k\<close>;
  an unsigned and a signed transaction are what the client's transaction configuration makes of the message.\<close>

record ('r, 'f, 'k, 'm) testnet_sdk = "('r, 'f) app_sdk" +
  rand_chain_suffix :: string
  DefaultAppConfig :: app_config
  config_GenesisFile :: "node_config \<Rightarrow> string"
  MkdirAll :: "string \<Rightarrow> ('f, unit) action"
  RemoveAll :: "string \<Rightarrow> 'f \<Rightarrow> 'f"
  EnsureDir :: "string \<Rightarrow> ('f, unit) action"
  WriteFile :: "string \<Rightarrow> bytes \<Rightarrow> ('f, unit) action"
  WriteConfigFile :: "string \<Rightarrow> app_config \<Rightarrow> ('f, unit) action"
  testnet_net :: net
  InitializeNodeValidatorFiles :: "node_config \<Rightarrow> ('f, string \<times> bytes) action"
  keyring_New :: "string \<Rightarrow> string \<Rightarrow> ('f, 'k) action"
  NewSigningAlgoFromString :: "'k \<Rightarrow> string \<Rightarrow> string result"
  GenerateSaveCoinKey :: "'k \<Rightarrow> string \<Rightarrow> string \<Rightarrow> ('f, bytes \<times> string) action"
  json_MarshalStrings :: "(string \<times> string) list \<Rightarrow> bytes result"
  TokensFromConsensusPower :: "int \<Rightarrow> int"
  addr_String :: "bytes \<Rightarrow> string"
  NewMsgCreateValidator :: "bytes \<Rightarrow> bytes \<Rightarrow> coin \<Rightarrow> string \<Rightarrow> 'm result"
  tx_SetMsgs :: "'m \<Rightarrow> unit result"
  tx_SignEncode :: "string \<Rightarrow> string \<Rightarrow> 'k \<Rightarrow> string \<Rightarrow> 'm \<Rightarrow> bytes result"
  ModuleBasics_DefaultGenesis :: "'r app_genesis result"
  genDoc_SaveAs :: "'r genesis_doc \<Rightarrow> string \<Rightarrow> ('f, unit) action"
  GenesisDocFromFile :: "'f \<Rightarrow> string \<Rightarrow> 'r genesis_doc result"
  GenAppStateFromConfig :: "node_config \<Rightarrow> string \<Rightarrow> string \<Rightarrow> string \<Rightarrow> bytes \<Rightarrow> 'r genesis_doc \<Rightarrow> ('f, 'r) action"
  ExportGenesisFileWithTime :: "string \<Rightarrow> string \<Rightarrow> 'r \<Rightarrow> int \<Rightarrow> ('f, unit) action"
  Now :: int

definition DefaultBondDenom :: string where "DefaultBondDenom = ''stake''"

section \<open>Addresses\<close>

text \<open>The loop adds one to the last byte, which wraps around.\<close>

fun bump_last :: "nat \<Rightarrow> bytes \<Rightarrow> bytes" where
  "bump_last 0 ipv4 = ipv4"
| "bump_last (Suc j) ipv4 = bump_last j (ipv4[3 := ipv4 ! 3 + 1])"

definition calculateIP :: "net \<Rightarrow> string \<Rightarrow> nat \<Rightarrow> string result" where
  "calculateIP N ip i = (case ParseIP_To4 N ip of
      None \<Rightarrow> Inl (ErrText ''non ipv4 address'')
    | Some ipv4 \<Rightarrow> Inr (IP_String N (bump_last i ipv4)))"

definition getIP :: "net \<Rightarrow> nat \<Rightarrow> string \<Rightarrow> string result" where
  "getIP N i startingIPAddr =
    (if length startingIPAddr = 0 then ExternalIP N else calculateIP N startingIPAddr i)"

definition writeFile :: "('r, 'f, 'k, 'm) testnet_sdk \<Rightarrow> string \<Rightarrow> string \<Rightarrow> bytes \<Rightarrow> ('f, unit) action" where
  "writeFile T name dir contents =
    (let writePath = filepath_Join [dir]; file = filepath_Join [writePath, name] in
     bindM (EnsureDir T writePath) (\<lambda>_. WriteFile T file contents))"

text \<open>\<open>net.ParseIP(ip).To4()\<close> is nil or four bytes; the text of an address determines it.\<close>

definition ip_laws :: "net \<Rightarrow> bool" where
  "ip_laws N \<longleftrightarrow> (\<forall>s b. ParseIP_To4 N s = Some b \<longrightarrow> length b = 4) \<and>
     (\<forall>b b'. length b = 4 \<longrightarrow> length b' = 4 \<longrightarrow> IP_String N b = IP_String N b' \<longrightarrow> b = b')"

lemma bump_last_eq: "length b = 4 \<Longrightarrow> bump_last i b = b[3 := b ! 3 + word_of_nat i]"
proof (induction i arbitrary: b)
  case 0
  then show ?case by simp
next
  case (Suc i)
  then show ?case by (simp add: algebra_simps)
qed

lemma bump_last_eq_iff:
  assumes "length b = 4"
  shows "bump_last i b = bump_last j b \<longleftrightarrow> i mod 256 = j mod 256"
proof -
  have "x = y" if "b[3 := x] = b[3 := y]" for x y
    using arg_cong [OF that, of "\<lambda>l. l ! 3"] assms by simp
  then have "bump_last i b = bump_last j b \<longleftrightarrow> (word_of_nat i :: 8 word) = word_of_nat j"
    unfolding bump_last_eq [OF assms] by (metis add_left_cancel)
  also have "\<dots> \<longleftrightarrow> i mod 256 = j mod 256"
    by (simp add: word_of_nat_eq_iff take_bit_eq_mod)
  finally show ?thesis .
qed

section \<open>The files of a validator\<close>

text \<open>The names of the command's own flags, the permissions of a node's directories (\<open>0o755\<close>), and the values of the flags.\<close>

definition flagNodeDirPrefix :: string where "flagNodeDirPrefix = ''node-dir-prefix''"
definition flagNumValidators :: string where "flagNumValidators = ''v''"
definition flagOutputDir :: string where "flagOutputDir = ''output-dir''"
definition flagNodeDaemonHome :: string where "flagNodeDaemonHome = ''node-daemon-home''"
definition flagStartingIPAddress :: string where "flagStartingIPAddress = ''starting-ip-address''"
definition nodeDirPerm :: nat where "nodeDirPerm = 7 * 64 + 5 * 8 + 5"

record testnet_args =
  outputDir :: string
  chainID :: string
  minGasPrices :: string
  nodeDirPrefix :: string
  nodeDaemonHome :: string
  startingIPAddress :: string
  keyringBackend :: string
  algoStr :: string
  numValidators :: int

text \<open>What the loop over the validators collects.\<close>

record testnet_acc =
  acc_nodeConfig :: node_config
  acc_nodeIDs :: "string list"
  acc_valPubKeys :: "bytes list"
  acc_genAccounts :: "genesis_account list"
  acc_genBalances :: "balance list"
  acc_genFiles :: "string list"

text \<open>\<open>if err != nil { _ = os.RemoveAll(outputDir); return err }\<close>\<close>

definition orRemove :: "('r, 'f, 'k, 'm) testnet_sdk \<Rightarrow> string \<Rightarrow> ('f, 'a) action \<Rightarrow> ('f, 'a) action" where
  "orRemove T dir m fs = (case m fs of
      (Inl e, fs') \<Rightarrow> (Inl e, if is_panic e then fs' else RemoveAll T dir fs')
    | (Inr x, fs') \<Rightarrow> (Inr x, fs'))"

definition validator_config :: "('r, 'f, 'k, 'm) testnet_sdk \<Rightarrow> testnet_args \<Rightarrow> app_config" where
  "validator_config T a = (DefaultAppConfig T)\<lparr>MinGasPrices := minGasPrices a, API_Enable := True,
     Telemetry_Enabled := True, Telemetry_PrometheusRetentionTime := 60,
     Telemetry_EnableHostnameLabel := False, Telemetry_GlobalLabels := [[''chain_id'', chainID a]]\<rparr>"

text \<open>The keys and the balance of validator \<open>i\<close>.\<close>

definition init_keys ::
  "('r, 'f, 'k, 'm) testnet_sdk \<Rightarrow> testnet_args \<Rightarrow> string \<Rightarrow> string \<Rightarrow> ('f, 'k \<times> bytes \<times> balance) action" where
  "init_keys T a nodeDirName nodeDir =
    bindM (keyring_New T (keyringBackend a) nodeDir) (\<lambda>kb.
    bindM (liftM (NewSigningAlgoFromString T kb (algoStr a))) (\<lambda>algo.
    bindM (orRemove T (outputDir a) (GenerateSaveCoinKey T kb nodeDirName algo)) (\<lambda>(addr, secret).
    bindM (liftM (json_MarshalStrings T [(''secret'', secret)])) (\<lambda>cliPrint.
    bindM (writeFile T ''key_seed.json'' nodeDir cliPrint) (\<lambda>_.
    bindM (liftM (sdk_NewCoin T ''testtoken'' (TokensFromConsensusPower T 1000))) (\<lambda>accCoin.
    bindM (liftM (sdk_NewCoin T DefaultBondDenom (TokensFromConsensusPower T 500))) (\<lambda>stakeCoin.
      retM (kb, addr, \<lparr>bal_Address = addr_String T addr,
        bal_Coins = Coins_Sort T (Some [accCoin, stakeCoin])\<rparr>))))))))"

text \<open>The transaction that creates the validator, and its configuration file.\<close>

definition init_gentx ::
  "('r, 'f, 'k, 'm) testnet_sdk \<Rightarrow> testnet_args \<Rightarrow> string \<Rightarrow> string \<Rightarrow> string \<Rightarrow> 'k \<Rightarrow> bytes \<Rightarrow> bytes \<Rightarrow> ('f, unit) action" where
  "init_gentx T a nodeDirName nodeDir memo kb addr valPubKey =
    bindM (liftM (sdk_NewCoin T DefaultBondDenom (TokensFromConsensusPower T 100))) (\<lambda>valCoin.
    bindM (liftM (NewMsgCreateValidator T addr valPubKey valCoin nodeDirName)) (\<lambda>createValMsg.
    bindM (liftM (tx_SetMsgs T createValMsg)) (\<lambda>_.
    bindM (liftM (tx_SignEncode T (chainID a) memo kb nodeDirName createValMsg)) (\<lambda>txBz.
    bindM (writeFile T (nodeDirName @ ''.json'') (filepath_Join [outputDir a, ''gentxs'']) txBz) (\<lambda>_.
      WriteConfigFile T (filepath_Join [nodeDir, ''config/app.toml'']) (validator_config T a))))))"

definition init_validator ::
  "('r, 'f, 'k, 'm) testnet_sdk \<Rightarrow> testnet_args \<Rightarrow> nat \<Rightarrow> testnet_acc \<Rightarrow> ('f, testnet_acc) action" where
  "init_validator T a i acc =
    (let nodeDirName = nodeDirPrefix a @ Itoa i;
         nodeDir = filepath_Join [outputDir a, nodeDirName, nodeDaemonHome a];
         nodeConfig = (acc_nodeConfig acc)\<lparr>RootDir := nodeDir,
           RPC_ListenAddress := ''tcp://0.0.0.0:26657'', Moniker := nodeDirName\<rparr> in
    bindM (orRemove T (outputDir a) (MkdirAll T (filepath_Join [nodeDir, ''config'']))) (\<lambda>_.
    bindM (orRemove T (outputDir a) (liftM (getIP (testnet_net T) i (startingIPAddress a)))) (\<lambda>ip.
    bindM (orRemove T (outputDir a) (InitializeNodeValidatorFiles T nodeConfig)) (\<lambda>(nodeID, valPubKey).
    let memo = nodeID @ ''@'' @ ip @ '':26656'' in
    bindM (init_keys T a nodeDirName nodeDir) (\<lambda>(kb, addr, balance).
    bindM (init_gentx T a nodeDirName nodeDir memo kb addr valPubKey) (\<lambda>_.
      retM \<lparr>acc_nodeConfig = nodeConfig,
        acc_nodeIDs = acc_nodeIDs acc @ [nodeID],
        acc_valPubKeys = acc_valPubKeys acc @ [valPubKey],
        acc_genAccounts = acc_genAccounts acc @ [BaseAccount (NewBaseAccount addr 0 0)],
        acc_genBalances = acc_genBalances acc @ [balance],
        acc_genFiles = acc_genFiles acc @ [config_GenesisFile T nodeConfig]\<rparr>))))))"

section \<open>The genesis files\<close>

text \<open>A missing key of the map is a nil message, which does not unmarshal.\<close>

definition raw_state :: "'r app_genesis \<Rightarrow> string \<Rightarrow> 'r result" where
  "raw_state m name = (case m name of None \<Rightarrow> Inl (GoPanic ''panic(err)'') | Some r \<Rightarrow> Inr r)"

definition initGenState ::
  "('r, 'f, 'k, 'm) testnet_sdk \<Rightarrow> genesis_account list \<Rightarrow> balance list \<Rightarrow> 'r app_genesis result" where
  "initGenState T genAccounts genBalances =
    andThen (ModuleBasics_DefaultGenesis T) (\<lambda>appGenState.
    andThen (raw_state appGenState auth_ModuleName) (\<lambda>authRaw.
    andThen (must (auth_UnmarshalJSON T authRaw)) (\<lambda>authGenState.
    andThen (PackAccounts T genAccounts) (\<lambda>accounts.
    andThen (must (auth_MarshalJSON T (authGenState\<lparr>ag_Accounts := accounts\<rparr>))) (\<lambda>authBz.
    let appGenState1 = appGenState(auth_ModuleName \<mapsto> authBz) in
    andThen (raw_state appGenState1 bank_ModuleName) (\<lambda>bankRaw.
    andThen (must (bank_UnmarshalJSON T bankRaw)) (\<lambda>bankGenState.
    let bals = SanitizeGenesisBalances T genBalances in
    andThen (add_supply T (bg_Supply bankGenState) bals) (\<lambda>supply.
    andThen (must (bank_MarshalJSON T (bankGenState\<lparr>bg_Balances := bals, bg_Supply := supply\<rparr>))) (\<lambda>bankBz.
      Inr (appGenState1(bank_ModuleName \<mapsto> bankBz)))))))))))"

text \<open>\<open>genDoc.SaveAs(genFiles[i])\<close>\<close>

definition save_nth :: "('r, 'f, 'k, 'm) testnet_sdk \<Rightarrow> 'r genesis_doc \<Rightarrow> string list \<Rightarrow> nat \<Rightarrow> ('f, unit) action" where
  "save_nth T genDoc genFiles i =
    (if i < length genFiles then genDoc_SaveAs T genDoc (genFiles ! i)
     else failM (GoPanic ''index out of range''))"

definition initGenFiles ::
  "('r, 'f, 'k, 'm) testnet_sdk \<Rightarrow> string \<Rightarrow> genesis_account list \<Rightarrow> balance list \<Rightarrow> string list \<Rightarrow> nat \<Rightarrow>
    ('f, unit) action" where
  "initGenFiles T chain genAccounts genBalances genFiles n =
    bindM (liftM (initGenState T genAccounts genBalances)) (\<lambda>appGenState.
    bindM (liftM (json_Marshal T appGenState)) (\<lambda>appGenStateJSON.
    let genDoc = \<lparr>doc_GenesisTime = 0, doc_ChainID = chain, doc_Validators = [],
          doc_AppState = appGenStateJSON, doc_Rest = []\<rparr> in
    forM [0..<n] (save_nth T genDoc genFiles)))"

text \<open>Every node gets the application state that the first one's genesis transactions give.\<close>

definition collect_node ::
  "('r, 'f, 'k, 'm) testnet_sdk \<Rightarrow> testnet_args \<Rightarrow> node_config \<Rightarrow> string list \<Rightarrow> bytes list \<Rightarrow> int \<Rightarrow> nat \<Rightarrow>
    'r option \<Rightarrow> ('f, 'r option) action" where
  "collect_node T a nodeConfig nodeIDs valPubKeys genTime i appState =
    (let nodeDirName = nodeDirPrefix a @ Itoa i;
         nodeDir = filepath_Join [outputDir a, nodeDirName, nodeDaemonHome a];
         gentxsDir = filepath_Join [outputDir a, ''gentxs''];
         cfg = nodeConfig\<lparr>Moniker := nodeDirName, RootDir := nodeDir\<rparr>;
         genFile = config_GenesisFile T cfg in
    if \<not> (i < length nodeIDs \<and> i < length valPubKeys) then failM (GoPanic ''index out of range'')
    else
    bindM (\<lambda>fs. (GenesisDocFromFile T fs genFile, fs)) (\<lambda>genDoc.
    bindM (GenAppStateFromConfig T cfg (chainID a) gentxsDir (nodeIDs ! i) (valPubKeys ! i) genDoc) (\<lambda>nodeAppState.
    let state = (case appState of None \<Rightarrow> nodeAppState | Some s \<Rightarrow> s) in
    bindM (ExportGenesisFileWithTime T genFile (chainID a) state genTime) (\<lambda>_. retM (Some state)))))"

definition collectGenFiles ::
  "('r, 'f, 'k, 'm) testnet_sdk \<Rightarrow> testnet_args \<Rightarrow> node_config \<Rightarrow> string list \<Rightarrow> bytes list \<Rightarrow> nat \<Rightarrow> ('f, unit) action" where
  "collectGenFiles T a nodeConfig nodeIDs valPubKeys n =
    bindM (foldM [0..<n] None (collect_node T a nodeConfig nodeIDs valPubKeys (Now T))) (\<lambda>_. retM ())"

definition InitTestnet ::
  "('r, 'f, 'k, 'm) testnet_sdk \<Rightarrow> node_config \<Rightarrow> testnet_args \<Rightarrow> ('f, unit) action" where
  "InitTestnet T nodeConfig args =
    (let a = (if chainID args = '''' then args\<lparr>chainID := ''chain-'' @ rand_chain_suffix T\<rparr> else args);
         n = nat (numValidators a) in
    if numValidators a < 0 then failM (GoPanic ''makeslice: len out of range'')
    else
    bindM (foldM [0..<n] \<lparr>acc_nodeConfig = nodeConfig, acc_nodeIDs = [], acc_valPubKeys = [],
             acc_genAccounts = [], acc_genBalances = [], acc_genFiles = []\<rparr> (init_validator T a)) (\<lambda>acc.
    bindM (initGenFiles T (chainID a) (acc_genAccounts acc) (acc_genBalances acc) (acc_genFiles acc) n) (\<lambda>_.
      collectGenFiles T a (acc_nodeConfig acc) (acc_nodeIDs acc) (acc_valPubKeys acc) n)))"

section \<open>What the genesis files hold\<close>

text \<open>A saved document is read back from its path, and other paths are not touched.\<close>

definition save_laws :: "('r, 'f, 'k, 'm) testnet_sdk \<Rightarrow> bool" where
  "save_laws T \<longleftrightarrow> (\<forall>doc p fs fs'. genDoc_SaveAs T doc p fs = (Inr (), fs') \<longrightarrow>
     (\<exists>doc'. GenesisStateFromGenFile T fs' p =
        andThen (json_Unmarshal T (doc_AppState doc)) (\<lambda>m. Inr (m, doc'))) \<and>
     (\<forall>q. q \<noteq> p \<longrightarrow> GenesisStateFromGenFile T fs' q = GenesisStateFromGenFile T fs q))"

lemma GetBank_raw:
  assumes "app_codec_laws A" and "raw_state m bank_ModuleName = Inr r"
  shows "GetBankGenesisStateFromAppState A m = must (bank_UnmarshalJSON A r)"
proof -
  have "m bank_ModuleName = Some r" using assms(2) by (simp add: raw_state_def split: option.splits)
  then show ?thesis using assms(1) unfolding app_codec_laws_def by blast
qed

lemma initGenState_bank:
  assumes laws: "app_laws T" and run: "initGenState T accs bals = Inr m"
    and default: "ModuleBasics_DefaultGenesis T = Inr m0" "GetBankGenesisStateFromAppState T m0 = Inr g0"
    and none: "\<And>d. amount_of (bg_Supply g0) d = 0"
  shows "\<exists>g. GetBankGenesisStateFromAppState T m = Inr g \<and> supply_ok g \<and> same_balances (bg_Balances g) bals"
proof -
  note laws = app_lawsD [OF laws]
  let ?bals = "SanitizeGenesisBalances T bals"
  obtain r r0 g1 s r1 where raw: "raw_state (m0(auth_ModuleName \<mapsto> r)) bank_ModuleName = Inr r0"
    and g1: "bank_UnmarshalJSON T r0 = Inr g1" and s: "add_supply T (bg_Supply g1) ?bals = Inr s"
    and r1: "bank_MarshalJSON T (g1\<lparr>bg_Balances := ?bals, bg_Supply := s\<rparr>) = Inr r1"
    and m: "m0(auth_ModuleName \<mapsto> r, bank_ModuleName \<mapsto> r1) = m"
    using run unfolding initGenState_def Let_def default(1) andThen_simps andThen_eq_Inr must_eq_Inr sum.inject
    by (elim exE conjE) (rule that; assumption)
  have "GetBankGenesisStateFromAppState T (m0(auth_ModuleName \<mapsto> r)) = Inr g1"
    using GetBank_raw [OF laws(3) raw] g1 by simp
  moreover have "GetBankGenesisStateFromAppState T (m0(auth_ModuleName \<mapsto> r)) = Inr g0"
    using bank_state_local [OF laws(3), of "m0(auth_ModuleName \<mapsto> r)" m0] default(2) by (simp add: app_module_names)
  ultimately have "g1 = g0" by simp
  then have "supply_ok (g1\<lparr>bg_Balances := ?bals, bg_Supply := s\<rparr>)"
    using add_supply_amount [OF laws(1) s] none by (simp add: supply_ok_def)
  moreover obtain g where g: "GetBankGenesisStateFromAppState T m = Inr g"
    and eq: "same_bank (g1\<lparr>bg_Balances := ?bals, bg_Supply := s\<rparr>) g"
    using bank_read_back [OF laws(3) r1, of m] m by auto
  ultimately have "supply_ok g" using same_bank_supply by blast
  moreover have "same_balances (bg_Balances g) bals"
    using eq app_accounts_lawsD(1) [OF laws(2), of bals] by (simp add: same_bank_def same_balances_def)
  ultimately show ?thesis using g by blast
qed

lemma save_nth_bank:
  assumes "app_codec_laws T" and "save_laws T" and "json_Marshal T m = Inr (doc_AppState doc)"
    and "GetBankGenesisStateFromAppState T m = Inr g" and "save_nth T doc files j s = (Inr (), t)"
  shows "j < length files \<and> file_bank T t (files ! j) = Inr g \<and>
    (\<forall>q. q \<noteq> files ! j \<longrightarrow> file_bank T t q = file_bank T s q)"
proof -
  have j: "j < length files" and save: "genDoc_SaveAs T doc (files ! j) s = (Inr (), t)"
    using assms(5) by (simp_all add: save_nth_def action_simps split: if_splits)
  obtain doc' where "GenesisStateFromGenFile T t (files ! j) =
      andThen (json_Unmarshal T (doc_AppState doc)) (\<lambda>m. Inr (m, doc'))"
    and other: "\<And>q. q \<noteq> files ! j \<Longrightarrow> GenesisStateFromGenFile T t q = GenesisStateFromGenFile T s q"
    using assms(2) save unfolding save_laws_def by blast
  then have "GenesisStateFromGenFile T t (files ! j) = Inr (m, doc')"
    using json_read_back [OF assms(1,3)] by simp
  then show ?thesis using j other assms(4) by (simp add: file_bank_def)
qed

lemma initGenFiles_bank:
  assumes laws: "app_laws T" "save_laws T" and run: "initGenFiles T chain accs bals files n fs = (Inr (), fs')"
    and default: "ModuleBasics_DefaultGenesis T = Inr m0" "GetBankGenesisStateFromAppState T m0 = Inr g0"
    and none: "\<And>d. amount_of (bg_Supply g0) d = 0" and i: "i < n"
  shows "\<exists>g. file_bank T fs' (files ! i) = Inr g \<and> supply_ok g \<and> same_balances (bg_Balances g) bals"
proof -
  obtain m doc where m: "initGenState T accs bals = Inr m" and r: "json_Marshal T m = Inr (doc_AppState doc)"
    and loop: "forM [0..<n] (save_nth T doc files) fs = (Inr (), fs')"
  proof -
    from run obtain m r where "initGenState T accs bals = Inr m" and "json_Marshal T m = Inr r"
      and "forM [0..<n] (save_nth T \<lparr>doc_GenesisTime = 0, doc_ChainID = chain, doc_Validators = [],
        doc_AppState = r, doc_Rest = []\<rparr> files) fs = (Inr (), fs')"
      by (auto simp: initGenFiles_def Let_def bindM_eq_Inr action_simps)
    then show ?thesis by (intro that) simp_all
  qed
  obtain g where g: "GetBankGenesisStateFromAppState T m = Inr g" "supply_ok g" "same_balances (bg_Balances g) bals"
    using initGenState_bank [OF laws(1) m default none] by blast
  note saved = save_nth_bank [OF app_lawsD(3) [OF laws(1)] laws(2) r g(1)]
  have "file_bank T fs' (files ! i) = Inr g"
  proof (rule forM_each [OF loop, of i])
    fix j s t
    assume "file_bank T s (files ! i) = Inr g" and "save_nth T doc files j s = (Inr (), t)"
    then show "file_bank T t (files ! i) = Inr g"
      using saved [of files j s t] by (cases "files ! i = files ! j") simp_all
  qed (use i saved in simp_all)
  then show ?thesis using g by blast
qed

end
