(* ===== verification/Export.thy ===== *)
theory Export
  imports AppGenesis GoLib
begin

text \<open>
  \<open>simapp/export.go\<close>: the state of the application as a genesis file, and its preparation for a restart at
  height zero. The state \<open>'s\<close> of the chain is opaque; the keepers of the SDK are parameters, those that
  depend on the height of the context take it as an argument. A keeper's iterator runs through the list of what is
  stored when it starts. \<open>log.Fatal\<close> ends the process.
\<close>

record entry =
  entry_CreationHeight :: u64
  entry_Rest :: bytes

record unbonding =
  ubd_Key :: bytes
  ubd_Entries :: "entry list"

record signing_info =
  info_StartHeight :: u64
  info_Rest :: bytes

record ('s, 'd, 'r) export_sdk =
  LastBlockHeight :: "'s \<Rightarrow> int"
  AssertInvariants :: "'s \<Rightarrow> unit result"
  export_ValAddressFromBech32 :: "string \<Rightarrow> bytes result"
  export_AccAddressFromBech32 :: "string \<Rightarrow> bytes result"
  ValAddress_String :: "bytes \<Rightarrow> string"
  IterateValidators :: "'s \<Rightarrow> bytes list"
  WithdrawValidatorCommission :: "bytes \<Rightarrow> 's \<Rightarrow> unit result \<times> 's"
  GetAllDelegations :: "'s \<Rightarrow> (string \<times> string) list"
  WithdrawDelegationRewards :: "bytes \<Rightarrow> bytes \<Rightarrow> 's \<Rightarrow> unit result \<times> 's"
  DeleteAllValidatorSlashEvents :: "'s \<Rightarrow> 's"
  DeleteAllValidatorHistoricalRewards :: "'s \<Rightarrow> 's"
  GetValidatorOutstandingRewardsCoins :: "'s \<Rightarrow> bytes \<Rightarrow> 'd"
  GetCommunityPool :: "'s \<Rightarrow> 'd"
  SetCommunityPool :: "'d \<Rightarrow> 's \<Rightarrow> 's"
  DecCoins_Add :: "'d \<Rightarrow> 'd \<Rightarrow> 'd"
  AfterValidatorCreated :: "int \<Rightarrow> bytes \<Rightarrow> 's \<Rightarrow> 's"
  BeforeDelegationCreated :: "int \<Rightarrow> bytes \<Rightarrow> bytes \<Rightarrow> 's \<Rightarrow> 's"
  AfterDelegationModified :: "int \<Rightarrow> bytes \<Rightarrow> bytes \<Rightarrow> 's \<Rightarrow> 's"
  IterateRedelegations :: "'s \<Rightarrow> unbonding list"
  SetRedelegation :: "unbonding \<Rightarrow> 's \<Rightarrow> 's"
  IterateUnbondingDelegations :: "'s \<Rightarrow> unbonding list"
  SetUnbondingDelegation :: "unbonding \<Rightarrow> 's \<Rightarrow> 's"
  validator_keys_reverse :: "'s \<Rightarrow> bytes list"
  AddressFromValidatorsKey :: "bytes \<Rightarrow> bytes"
  GetValidator :: "'s \<Rightarrow> bytes \<Rightarrow> validator option"
  SetValidator :: "validator \<Rightarrow> 's \<Rightarrow> 's"
  ApplyAndReturnValidatorSetUpdates :: "'s \<Rightarrow> unit result \<times> 's"
  IterateValidatorSigningInfos :: "'s \<Rightarrow> (bytes \<times> signing_info) list"
  SetValidatorSigningInfo :: "bytes \<Rightarrow> signing_info \<Rightarrow> 's \<Rightarrow> 's"
  mm_ExportGenesis :: "'s \<Rightarrow> 'r app_genesis result"
  export_MarshalIndent :: "'r app_genesis \<Rightarrow> 'r result"
  WriteValidators :: "'s \<Rightarrow> bytes list result"
  GetConsensusParams :: "'s \<Rightarrow> bytes"

text \<open>\<open>_, _ = f(...)\<close>: an error is ignored, its effects stay; a panic is not an error value.\<close>

definition ignoreErr :: "('s \<Rightarrow> unit result \<times> 's) \<Rightarrow> ('s, unit) action" where
  "ignoreErr f s = (case f s of
      (Inl e, s') \<Rightarrow> (if is_panic e then Inl e else Inr (), s')
    | (Inr u, s') \<Rightarrow> (Inr (), s'))"

section \<open>Fee distribution\<close>

text \<open>\<open>valAddr, err := ...; if err != nil { panic(err) }; delAddr := MustAccAddressFromBech32(...)\<close>\<close>

definition delegation_addresses :: "('s, 'd, 'r) export_sdk \<Rightarrow> string \<times> string \<Rightarrow> (bytes \<times> bytes) result" where
  "delegation_addresses X del =
    andThen (must (export_ValAddressFromBech32 X (fst del))) (\<lambda>valAddr.
    andThen (must (export_AccAddressFromBech32 X (snd del))) (\<lambda>delAddr.
      Inr (valAddr, delAddr)))"

definition withdraw_all :: "('s, 'd, 'r) export_sdk \<Rightarrow> (string \<times> string) list \<Rightarrow> ('s, unit) action" where
  "withdraw_all X dels =
    forM dels (\<lambda>del.
      bindM (liftM (delegation_addresses X del)) (\<lambda>(valAddr, delAddr).
        ignoreErr (WithdrawDelegationRewards X delAddr valAddr)))"

definition reinit_validator :: "('s, 'd, 'r) export_sdk \<Rightarrow> bytes \<Rightarrow> ('s, unit) action" where
  "reinit_validator X operator =
    modifyM (\<lambda>s.
      let scraps = GetValidatorOutstandingRewardsCoins X s operator;
          pool = DecCoins_Add X (GetCommunityPool X s) scraps in
      AfterValidatorCreated X 0 operator (SetCommunityPool X pool s))"

definition reinit_delegation :: "('s, 'd, 'r) export_sdk \<Rightarrow> string \<times> string \<Rightarrow> ('s, unit) action" where
  "reinit_delegation X del =
    bindM (liftM (delegation_addresses X del)) (\<lambda>(valAddr, delAddr).
      modifyM (\<lambda>s. AfterDelegationModified X 0 delAddr valAddr (BeforeDelegationCreated X 0 delAddr valAddr s)))"

definition reset_distribution :: "('s, 'd, 'r) export_sdk \<Rightarrow> ('s, unit) action" where
  "reset_distribution X =
    bindM (getM (IterateValidators X)) (\<lambda>vals.
    bindM (forM vals (\<lambda>operator. ignoreErr (WithdrawValidatorCommission X operator))) (\<lambda>_.
    bindM (getM (GetAllDelegations X)) (\<lambda>dels.
    bindM (withdraw_all X dels) (\<lambda>_.
    bindM (modifyM (DeleteAllValidatorSlashEvents X)) (\<lambda>_.
    bindM (modifyM (DeleteAllValidatorHistoricalRewards X)) (\<lambda>_.
    bindM (getM (IterateValidators X)) (\<lambda>vals'.
    bindM (forM vals' (reinit_validator X)) (\<lambda>_.
      forM dels (reinit_delegation X)))))))))"

section \<open>Staking\<close>

definition reset_heights :: "unbonding \<Rightarrow> unbonding" where
  "reset_heights u = u\<lparr>ubd_Entries := map (\<lambda>e. e\<lparr>entry_CreationHeight := 0\<rparr>) (ubd_Entries u)\<rparr>"

text \<open>One turn of the loop over the validators: the bond height is reset, and a validator that is not on the list of
  allowed addresses, if there is one, is jailed.\<close>

definition reset_validator :: "('s, 'd, 'r) export_sdk \<Rightarrow> string list \<Rightarrow> bytes \<Rightarrow> ('s, unit) action" where
  "reset_validator X allowed key =
    (let addr = AddressFromValidatorsKey X key in
    bindM (getM (\<lambda>s. GetValidator X s addr)) (\<lambda>found.
      case found of
        None \<Rightarrow> failM (GoPanic ''expected validator, not found'')
      | Some validator \<Rightarrow>
          (let validator = validator\<lparr>val_UnbondingHeight := 0\<rparr>;
               validator = (if length allowed > 0 \<and> ValAddress_String X addr \<notin> set allowed
                            then validator\<lparr>val_Jailed := True\<rparr> else validator) in
           modifyM (SetValidator X validator))))"

definition reset_validators :: "('s, 'd, 'r) export_sdk \<Rightarrow> string list \<Rightarrow> ('s, unit) action" where
  "reset_validators X allowed =
    bindM (getM (validator_keys_reverse X)) (\<lambda>ks. forM ks (reset_validator X allowed))"

definition update_validator_set :: "('s, 'd, 'r) export_sdk \<Rightarrow> ('s, unit) action" where
  "update_validator_set X s = (case ApplyAndReturnValidatorSetUpdates X s of
      (Inl e, s') \<Rightarrow> (Inl (GoPanic ''log.Fatal''), s') | (Inr u, s') \<Rightarrow> (Inr (), s'))"

definition reset_staking :: "('s, 'd, 'r) export_sdk \<Rightarrow> string list \<Rightarrow> ('s, unit) action" where
  "reset_staking X allowed =
    bindM (getM (IterateRedelegations X)) (\<lambda>reds.
    bindM (forM reds (\<lambda>red. modifyM (SetRedelegation X (reset_heights red)))) (\<lambda>_.
    bindM (getM (IterateUnbondingDelegations X)) (\<lambda>ubds.
    bindM (forM ubds (\<lambda>ubd. modifyM (SetUnbondingDelegation X (reset_heights ubd)))) (\<lambda>_.
    bindM (reset_validators X allowed) (\<lambda>_.
      update_validator_set X)))))"

section \<open>The whole preparation, and the export\<close>

definition reset_signing_infos :: "('s, 'd, 'r) export_sdk \<Rightarrow> ('s, unit) action" where
  "reset_signing_infos X =
    bindM (getM (IterateValidatorSigningInfos X)) (\<lambda>infos.
      forM infos (\<lambda>(addr, info). modifyM (SetValidatorSigningInfo X addr (info\<lparr>info_StartHeight := 0\<rparr>))))"

definition prepForZeroHeightGenesis :: "('s, 'd, 'r) export_sdk \<Rightarrow> string list \<Rightarrow> ('s, unit) action" where
  "prepForZeroHeightGenesis X jailAllowedAddrs =
    bindM (forM jailAllowedAddrs (\<lambda>addr. case export_ValAddressFromBech32 X addr of
        Inl e \<Rightarrow> failM (GoPanic ''log.Fatal'') | Inr a \<Rightarrow> retM ())) (\<lambda>_.
    bindM (\<lambda>s. (AssertInvariants X s, s)) (\<lambda>_.
    bindM (reset_distribution X) (\<lambda>_.
    bindM (reset_staking X jailAllowedAddrs) (\<lambda>_.
      reset_signing_infos X))))"

record 'r exported_app =
  exp_AppState :: 'r
  exp_Validators :: "bytes list"
  exp_Height :: int
  exp_ConsensusParams :: bytes

definition ExportAppStateAndValidators ::
  "('s, 'd, 'r) export_sdk \<Rightarrow> bool \<Rightarrow> string list \<Rightarrow> ('s, 'r exported_app) action" where
  "ExportAppStateAndValidators X forZeroHeight jailAllowedAddrs =
    bindM (getM (\<lambda>s. LastBlockHeight X s + 1)) (\<lambda>next.
    bindM (if forZeroHeight then
        bindM (prepForZeroHeightGenesis X jailAllowedAddrs) (\<lambda>_. retM 0) else retM next) (\<lambda>height.
    bindM (\<lambda>s. (mm_ExportGenesis X s, s)) (\<lambda>genState.
    bindM (liftM (export_MarshalIndent X genState)) (\<lambda>appState.
    bindM (\<lambda>s. (WriteValidators X s, s)) (\<lambda>validators.
    bindM (getM (GetConsensusParams X)) (\<lambda>params.
      retM \<lparr>exp_AppState = appState, exp_Validators = validators, exp_Height = height,
        exp_ConsensusParams = params\<rparr>))))))"

section \<open>What the export leaves unchanged\<close>

lemma keeps_ignoreErr: "(\<And>s. R s (snd (f s))) \<Longrightarrow> keeps R (ignoreErr f)"
  by (simp add: keeps_def ignoreErr_def split: prod.splits sum.splits) (metis snd_conv)

text \<open>A relation between states that every keeper keeps, those of the validators aside, is kept by the preparation,
  the loop over the validators aside.\<close>

locale export_frame =
  fixes X :: "('s, 'd, 'r) export_sdk" and R :: "'s \<Rightarrow> 's \<Rightarrow> bool"
  assumes same: "R s s" and step: "R s t \<Longrightarrow> R t u \<Longrightarrow> R s u"
    and commission: "R s (snd (WithdrawValidatorCommission X a s))"
    and rewards: "R s (snd (WithdrawDelegationRewards X a b s))"
    and slash_events: "R s (DeleteAllValidatorSlashEvents X s)"
    and historical_rewards: "R s (DeleteAllValidatorHistoricalRewards X s)"
    and community_pool: "R s (SetCommunityPool X p s)"
    and validator_created: "R s (AfterValidatorCreated X h a s)"
    and delegation_created: "R s (BeforeDelegationCreated X h a b s)"
    and delegation_modified: "R s (AfterDelegationModified X h a b s)"
    and redelegation: "R s (SetRedelegation X ub s)"
    and unbonding_delegation: "R s (SetUnbondingDelegation X ub s)"
    and signing_info: "R s (SetValidatorSigningInfo X a i s)"
begin

lemmas keeps_parts = keeps_basic [where R = R, OF same] keeps_bindM [where R = R, OF step]
  keeps_forM [where R = R, OF same step] keeps_modifyM [where R = R] keeps_ignoreErr [where R = R]

lemma keeps_reset_distribution: "keeps R (reset_distribution X)"
proof -
  have w: "keeps R (withdraw_all X dels)" for dels
    unfolding withdraw_all_def by (intro keeps_parts) (auto split: prod.split intro!: keeps_parts rewards)
  have v: "keeps R (reinit_validator X a)" for a
    unfolding reinit_validator_def Let_def by (intro keeps_parts step [OF community_pool validator_created])
  have d: "keeps R (reinit_delegation X del)" for del
    unfolding reinit_delegation_def
    by (intro keeps_parts) (auto split: prod.split intro!: keeps_parts step [OF delegation_created delegation_modified])
  show ?thesis
    unfolding reset_distribution_def by (intro keeps_parts w v d commission slash_events historical_rewards)
qed

lemma keeps_redelegations: "keeps R (forM us (\<lambda>u. modifyM (SetRedelegation X (reset_heights u))))"
  by (intro keeps_parts redelegation)

lemma keeps_unbonding_delegations: "keeps R (forM us (\<lambda>u. modifyM (SetUnbondingDelegation X (reset_heights u))))"
  by (intro keeps_parts unbonding_delegation)

lemma keeps_signing_infos: "keeps R (reset_signing_infos X)"
  unfolding reset_signing_infos_def by (intro keeps_parts) (auto split: prod.split intro!: keeps_parts signing_info)

lemma keeps_address_check:
  "keeps R (forM allowed (\<lambda>addr. case export_ValAddressFromBech32 X addr of
     Inl e \<Rightarrow> failM (GoPanic ''log.Fatal'') | Inr a \<Rightarrow> retM ()))"
  by (intro keeps_parts) (auto split: sum.split intro: keeps_parts)

end

text \<open>If the validators' keeper keeps it too, the whole preparation and the export do.\<close>

locale whole_export_frame = export_frame +
  assumes validators: "R s (SetValidator X v s)"
    and validator_updates: "R s (snd (ApplyAndReturnValidatorSetUpdates X s))"
begin

lemma keeps_reset_staking: "keeps R (reset_staking X allowed)"
proof -
  have "keeps R (reset_validator X allowed key)" for key
    unfolding reset_validator_def Let_def
    by (intro keeps_parts) (auto split: option.split intro!: keeps_parts validators)
  moreover have "keeps R (update_validator_set X)"
    unfolding keeps_def update_validator_set_def
    using validator_updates by (auto split: prod.split sum.split) (metis snd_conv)+
  ultimately show ?thesis
    unfolding reset_staking_def reset_validators_def
    by (intro keeps_parts keeps_redelegations keeps_unbonding_delegations)
qed

lemma keeps_prepForZeroHeightGenesis: "keeps R (prepForZeroHeightGenesis X allowed)"
proof -
  have "keeps R (\<lambda>s. (AssertInvariants X s, s))" by (simp add: keeps_def same)
  then show ?thesis
    unfolding prepForZeroHeightGenesis_def
    by (intro keeps_parts keeps_address_check keeps_reset_distribution keeps_reset_staking keeps_signing_infos)
qed

lemma keeps_export: "keeps R (ExportAppStateAndValidators X forZeroHeight allowed)"
proof -
  have "keeps R (\<lambda>s. (mm_ExportGenesis X s, s))" "keeps R (\<lambda>s. (WriteValidators X s, s))"
    by (simp_all add: keeps_def same)
  then show ?thesis
    unfolding ExportAppStateAndValidators_def
    by (intro keeps_parts) (auto intro!: keeps_parts keeps_prepForZeroHeightGenesis)
qed

end

section \<open>Who is jailed\<close>

text \<open>Validators are stored by their operator; the distribution and slashing keepers, redelegations and unbonding
  delegations are stored elsewhere, and updating the validator set jails nobody.\<close>

definition same_validators :: "('s, 'd, 'r) export_sdk \<Rightarrow> 's \<Rightarrow> 's \<Rightarrow> bool" where
  "same_validators X s t \<longleftrightarrow> GetValidator X t = GetValidator X s"

definition validator_store_laws :: "('s, 'd, 'r) export_sdk \<Rightarrow> bool" where
  "validator_store_laws X \<longleftrightarrow>
    (\<forall>s a v. GetValidator X s a = Some v \<longrightarrow> export_ValAddressFromBech32 X (val_OperatorAddress v) = Inr a) \<and>
    (\<forall>s a v. export_ValAddressFromBech32 X (val_OperatorAddress v) = Inr a \<longrightarrow>
       GetValidator X (SetValidator X v s) = (GetValidator X s)(a \<mapsto> v)) \<and>
    (\<forall>s. AddressFromValidatorsKey X ` set (validator_keys_reverse X s) = dom (GetValidator X s) \<and>
       distinct (map (AddressFromValidatorsKey X) (validator_keys_reverse X s))) \<and>
    (\<forall>s a. map_option val_Jailed (GetValidator X (snd (ApplyAndReturnValidatorSetUpdates X s)) a) =
       map_option val_Jailed (GetValidator X s a))"

definition other_keepers_laws :: "('s, 'd, 'r) export_sdk \<Rightarrow> bool" where
  "other_keepers_laws X \<longleftrightarrow>
    (\<forall>a s. same_validators X s (snd (WithdrawValidatorCommission X a s))) \<and>
    (\<forall>a b s. same_validators X s (snd (WithdrawDelegationRewards X a b s))) \<and>
    (\<forall>s. same_validators X s (DeleteAllValidatorSlashEvents X s)) \<and>
    (\<forall>s. same_validators X s (DeleteAllValidatorHistoricalRewards X s)) \<and>
    (\<forall>p s. same_validators X s (SetCommunityPool X p s)) \<and>
    (\<forall>h a s. same_validators X s (AfterValidatorCreated X h a s)) \<and>
    (\<forall>h a b s. same_validators X s (BeforeDelegationCreated X h a b s)) \<and>
    (\<forall>h a b s. same_validators X s (AfterDelegationModified X h a b s)) \<and>
    (\<forall>u s. same_validators X s (SetRedelegation X u s)) \<and>
    (\<forall>u s. same_validators X s (SetUnbondingDelegation X u s)) \<and>
    (\<forall>a i s. same_validators X s (SetValidatorSigningInfo X a i s))"

lemma same_validators_refl: "same_validators X s s"
  by (simp add: same_validators_def)

lemma same_validators_trans: "same_validators X a b \<Longrightarrow> same_validators X b c \<Longrightarrow> same_validators X a c"
  by (simp add: same_validators_def)

interpretation jailing: export_frame X "\<lambda>s t. other_keepers_laws X \<longrightarrow> same_validators X s t" for X :: "('s, 'd, 'r) export_sdk"
  by unfold_locales (auto simp: other_keepers_laws_def same_validators_refl intro: same_validators_trans)

lemma jailing_kept:
  "keeps (\<lambda>s t. other_keepers_laws X \<longrightarrow> same_validators X s t) m \<Longrightarrow> other_keepers_laws X \<Longrightarrow> m s = (r, t) \<Longrightarrow>
    GetValidator X t = GetValidator X s"
  by (drule keepsD) (auto simp: same_validators_def)

definition reset_fields :: "('s, 'd, 'r) export_sdk \<Rightarrow> string list \<Rightarrow> bytes \<Rightarrow> validator \<Rightarrow> validator" where
  "reset_fields X allowed addr v = v\<lparr>val_UnbondingHeight := 0,
     val_Jailed := (val_Jailed v \<or> allowed \<noteq> [] \<and> ValAddress_String X addr \<notin> set allowed)\<rparr>"

lemma reset_validator_run:
  assumes "validator_store_laws X" and "reset_validator X allowed key s = (Inr (), t)"
  shows "\<exists>v. GetValidator X s (AddressFromValidatorsKey X key) = Some v \<and>
    GetValidator X t = (GetValidator X s)(AddressFromValidatorsKey X key \<mapsto>
      reset_fields X allowed (AddressFromValidatorsKey X key) v)"
proof -
  let ?a = "AddressFromValidatorsKey X key"
  obtain v where v: "GetValidator X s ?a = Some v" and t: "t = SetValidator X (reset_fields X allowed ?a v) s"
    using assms(2)
    by (auto simp: reset_validator_def Let_def bindM_eq_Inr action_simps reset_fields_def
        split: option.splits if_splits)
  have "export_ValAddressFromBech32 X (val_OperatorAddress (reset_fields X allowed ?a v)) = Inr ?a"
    using assms(1) v by (simp add: validator_store_laws_def reset_fields_def)
  then show ?thesis using assms(1) v t unfolding validator_store_laws_def by blast
qed

lemma reset_validators_loop:
  assumes "validator_store_laws X"
  shows "forM ks (reset_validator X allowed) s = (Inr (), t) \<Longrightarrow>
    distinct (map (AddressFromValidatorsKey X) ks) \<Longrightarrow>
    GetValidator X t a = (if a \<in> AddressFromValidatorsKey X ` set ks
      then map_option (reset_fields X allowed a) (GetValidator X s a) else GetValidator X s a)"
proof (induction ks arbitrary: s)
  case Nil
  then show ?case by (simp add: action_simps)
next
  case (Cons k ks)
  from Cons.prems(1) obtain s1 where k: "reset_validator X allowed k s = (Inr (), s1)"
    and ks: "forM ks (reset_validator X allowed) s1 = (Inr (), t)"
    by (auto simp: bindM_eq_Inr)
  have "AddressFromValidatorsKey X k \<notin> AddressFromValidatorsKey X ` set ks" using Cons.prems(2) by simp
  then show ?case
    using Cons.IH [OF ks] Cons.prems(2) reset_validator_run [OF assms k]
    by (cases "a = AddressFromValidatorsKey X k") auto
qed

lemma update_validator_set_run:
  "update_validator_set X s = (Inr (), t) \<Longrightarrow> t = snd (ApplyAndReturnValidatorSetUpdates X s)"
  by (auto simp: update_validator_set_def split: prod.splits sum.splits)

text \<open>After the preparation exactly those validators are jailed that were, and those missing from a list that
  is not empty.\<close>

lemma reset_staking_jails:
  assumes laws: "validator_store_laws X" "other_keepers_laws X" and run: "reset_staking X allowed s = (Inr (), t)"
  shows "map_option val_Jailed (GetValidator X t a) =
    map_option (\<lambda>v. val_Jailed v \<or> allowed \<noteq> [] \<and> ValAddress_String X a \<notin> set allowed) (GetValidator X s a)"
proof -
  obtain s1 s2 s3 where
    s1: "forM (IterateRedelegations X s) (\<lambda>red. modifyM (SetRedelegation X (reset_heights red))) s = (Inr (), s1)"
    and s2: "forM (IterateUnbondingDelegations X s1) (\<lambda>ubd. modifyM (SetUnbondingDelegation X (reset_heights ubd))) s1 = (Inr (), s2)"
    and s3: "forM (validator_keys_reverse X s2) (reset_validator X allowed) s2 = (Inr (), s3)"
    and t: "t = snd (ApplyAndReturnValidatorSetUpdates X s3)"
    using run unfolding reset_staking_def reset_validators_def
    by (auto simp: bindM_eq_Inr action_simps dest!: update_validator_set_run)
  have same: "GetValidator X s2 = GetValidator X s"
    using jailing_kept [OF jailing.keeps_redelegations laws(2) s1] jailing_kept [OF jailing.keeps_unbonding_delegations laws(2) s2]
    by simp
  have "distinct (map (AddressFromValidatorsKey X) (validator_keys_reverse X s2))"
    and ks: "AddressFromValidatorsKey X ` set (validator_keys_reverse X s2) = dom (GetValidator X s2)"
    using laws(1) unfolding validator_store_laws_def by blast+
  then have "GetValidator X s3 a = map_option (reset_fields X allowed a) (GetValidator X s a)"
    using reset_validators_loop [OF laws(1) s3, of a] by (auto simp: same ks dom_def)
  moreover have "map_option val_Jailed (GetValidator X t a) = map_option val_Jailed (GetValidator X s3 a)"
    using laws(1) t unfolding validator_store_laws_def by blast
  ultimately show ?thesis by (cases "GetValidator X s a") (simp_all add: reset_fields_def)
qed

lemma prepForZeroHeightGenesis_jails:
  assumes laws: "validator_store_laws X" "other_keepers_laws X"
    and run: "prepForZeroHeightGenesis X allowed s = (Inr (), t)"
  shows "map_option val_Jailed (GetValidator X t a) =
    map_option (\<lambda>v. val_Jailed v \<or> allowed \<noteq> [] \<and> ValAddress_String X a \<notin> set allowed) (GetValidator X s a)"
proof -
  obtain s1 s2 s3 where
    s1: "forM allowed (\<lambda>addr. case export_ValAddressFromBech32 X addr of
        Inl e \<Rightarrow> failM (GoPanic ''log.Fatal'') | Inr a \<Rightarrow> retM ()) s = (Inr (), s1)"
    and s2: "reset_distribution X s1 = (Inr (), s2)" and s3: "reset_staking X allowed s2 = (Inr (), s3)"
    and t: "reset_signing_infos X s3 = (Inr (), t)"
    using run unfolding prepForZeroHeightGenesis_def by (auto simp: bindM_eq_Inr)
  have "GetValidator X s2 = GetValidator X s" and "GetValidator X t = GetValidator X s3"
    using jailing_kept [OF jailing.keeps_address_check laws(2) s1] jailing_kept [OF jailing.keeps_reset_distribution laws(2) s2]
      jailing_kept [OF jailing.keeps_signing_infos laws(2) t] by simp_all
  then show ?thesis using reset_staking_jails [OF laws s3, of a] by simp
qed

end
