(* ===== verification/SampleNode.thy ===== *)
theory SampleNode
  imports SampleApp Testnet Export
begin

text \<open>
  Concrete parameters for the properties of the node's commands: dotted addresses, and a chain whose state is the list of
  its validators, under keys of the SDK's form (a prefix, the length of the address, the address).
\<close>

section \<open>Addresses of the network\<close>

definition parse_ip :: "string \<Rightarrow> bytes option" where
  "parse_ip s = (let ps = strings_Split s (CHR ''.'') in
     if length ps = 4 \<and> list_all (\<lambda>p. Itoa (Atoi p) = p \<and> Atoi p < 256) ps
     then Some (map (\<lambda>p. word_of_nat (Atoi p)) ps) else None)"

definition ip_string :: "bytes \<Rightarrow> string" where
  "ip_string b = strings_Join (map (\<lambda>x. Itoa (unat x)) b) (CHR ''.'')"

definition sample_net :: net where
  "sample_net = \<lparr>ParseIP_To4 = parse_ip, IP_String = ip_string, ExternalIP = Inr ''10.0.0.1''\<rparr>"

lemma ip_string_eq:
  assumes "ip_string b = ip_string b'" and "b \<noteq> []" and "b' \<noteq> []"
  shows "b = b'"
proof -
  have split: "strings_Split (ip_string b) (CHR ''.'') = map (\<lambda>x. Itoa (unat x)) b" if "b \<noteq> []" for b
    unfolding ip_string_def using that by (intro strings_Split_Join) auto
  have "map (\<lambda>x. Itoa (unat x)) b = map (\<lambda>x. Itoa (unat x)) b'"
    using split [of b] split [of b'] assms by simp
  moreover have "inj (\<lambda>x :: byte. Itoa (unat x))" by (rule injI) (simp add: unsigned_word_eqI)
  ultimately show ?thesis by (simp add: inj_map_eq_map)
qed

lemma sample_net_laws: "ip_laws sample_net"
  unfolding ip_laws_def
proof (intro conjI allI impI)
  fix s b
  assume "ParseIP_To4 sample_net s = Some b"
  then show "length b = 4" by (auto simp: sample_net_def parse_ip_def Let_def split: if_splits)
next
  fix b b' :: bytes
  assume "length b = 4" and "length b' = 4" and "IP_String sample_net b = IP_String sample_net b'"
  then show "b = b'" by (intro ip_string_eq) (auto simp: sample_net_def)
qed

lemma sample_ip: "ParseIP_To4 sample_net ''192.168.0.254'' = Some [192, 168, 0, 254]"
  by code_simp

section \<open>A chain to export\<close>

type_synonym sample_validators = "validator list"

definition operator :: "validator \<Rightarrow> bytes" where
  "operator v = bytes_of_string (val_OperatorAddress v)"

definition get_validator :: "sample_validators \<Rightarrow> bytes \<Rightarrow> validator option" where
  "get_validator s a = find (\<lambda>v. operator v = a) s"

definition set_validator :: "validator \<Rightarrow> sample_validators \<Rightarrow> sample_validators" where
  "set_validator v s = v # filter (\<lambda>w. operator w \<noteq> operator v) s"

definition sample_export :: "(sample_validators, unit, string) export_sdk" where
  "sample_export = \<lparr>LastBlockHeight = (\<lambda>s. 41), AssertInvariants = (\<lambda>s. Inr ()),
     export_ValAddressFromBech32 = (\<lambda>a. Inr (bytes_of_string a)),
     export_AccAddressFromBech32 = (\<lambda>a. Inr (bytes_of_string a)), ValAddress_String = string_of_bytes,
     IterateValidators = map operator, WithdrawValidatorCommission = (\<lambda>a s. (Inl (ErrSDK ''no commission''), s)),
     GetAllDelegations = (\<lambda>s. map (\<lambda>v. (val_OperatorAddress v, ''osmo1bob'')) s),
     WithdrawDelegationRewards = (\<lambda>a b s. (Inr (), s)), DeleteAllValidatorSlashEvents = (\<lambda>s. s),
     DeleteAllValidatorHistoricalRewards = (\<lambda>s. s), GetValidatorOutstandingRewardsCoins = (\<lambda>s a. ()),
     GetCommunityPool = (\<lambda>s. ()), SetCommunityPool = (\<lambda>p s. s), DecCoins_Add = (\<lambda>a b. ()),
     AfterValidatorCreated = (\<lambda>h a s. s), BeforeDelegationCreated = (\<lambda>h a b s. s),
     AfterDelegationModified = (\<lambda>h a b s. s), IterateRedelegations = (\<lambda>s. []), SetRedelegation = (\<lambda>u s. s),
     IterateUnbondingDelegations = (\<lambda>s. []), SetUnbondingDelegation = (\<lambda>u s. s),
     validator_keys_reverse = (\<lambda>s. map (\<lambda>a. 0x21 # word_of_nat (length a) # a) (remdups (map operator s))),
     AddressFromValidatorsKey = drop 2, GetValidator = get_validator, SetValidator = set_validator,
     ApplyAndReturnValidatorSetUpdates = (\<lambda>s. (Inr (), s)), IterateValidatorSigningInfos = (\<lambda>s. []),
     SetValidatorSigningInfo = (\<lambda>a i s. s), mm_ExportGenesis = (\<lambda>s. Inr Map.empty),
     export_MarshalIndent = (\<lambda>m. Inr ''{}''), WriteValidators = (\<lambda>s. Inr (map operator s)),
     GetConsensusParams = (\<lambda>s. [])\<rparr>"

lemma get_validator_operator: "get_validator s a = Some v \<Longrightarrow> operator v = a"
  by (auto simp: get_validator_def find_Some_iff)

lemma get_set_validator: "get_validator (set_validator v s) = (get_validator s)(operator v \<mapsto> v)"
proof
  fix a
  have "find (\<lambda>w. operator w = a) (filter (\<lambda>w. operator w \<noteq> operator v) s) = find (\<lambda>w. operator w = a) s"
    if "a \<noteq> operator v" using that by (induction s) auto
  then show "get_validator (set_validator v s) a = ((get_validator s)(operator v \<mapsto> v)) a"
    by (auto simp: get_validator_def set_validator_def)
qed

lemma dom_get_validator: "dom (get_validator s) = operator ` set s"
  by (induction s) (auto simp: get_validator_def dom_def split: if_splits)

lemma sample_validator_laws: "validator_store_laws sample_export"
proof -
  have keys: "(\<lambda>a. drop 2 (0x21 # word_of_nat (length a) # a)) = (\<lambda>a :: bytes. a)" by (simp add: fun_eq_iff)
  show ?thesis
    unfolding validator_store_laws_def sample_export_def
    by (auto simp: get_set_validator dom_get_validator operator_def [symmetric] image_image comp_def keys
        dest: get_validator_operator split: if_splits)
qed

lemma sample_other_keepers_laws: "other_keepers_laws sample_export"
  by (simp add: other_keepers_laws_def same_validators_def sample_export_def)

definition sample_validator :: "string \<Rightarrow> validator" where
  "sample_validator s = \<lparr>val_OperatorAddress = s, val_Status = Bonded, val_Tokens = 100, val_Jailed = False,
     val_UnbondingHeight = 7, val_Rest = []\<rparr>"

definition two_validators :: sample_validators where
  "two_validators = [sample_validator ''val1'', sample_validator ''val2'']"

end
