(* ===== verification/Frames.thy ===== *)
theory Frames
  imports Chain
begin

text \<open>
  Transactions seen from outside the module: the parameters stay what they are while a transaction runs,
  no message panics, and every change of a balance is accounted for. The laws of the first section are about
  the SDK's bank and distribution modules, which know nothing of the module's parameters, and pay what they are told.
\<close>

section \<open>What theorems may assume\<close>

text \<open>The module's parameters lie in its own parameter space: payments, gas and denom metadata do not touch it.\<close>

definition params_kept :: "('k, 'w) sdk \<Rightarrow> ('w \<Rightarrow> 'a result \<times> 'w) \<Rightarrow> bool" where
  "params_kept E f \<longleftrightarrow> (\<forall>w ks. GetParamSet E (snd (f w)) ks = GetParamSet E w ks)"

definition params_frame_laws :: "('k, 'w) sdk \<Rightarrow> bool" where
  "params_frame_laws E \<longleftrightarrow>
    (\<forall>w m ks. GetParamSet E (SetDenomMetaData E m w) ks = GetParamSet E w ks) \<and>
    (\<forall>g s. params_kept E (ConsumeGas E g s)) \<and>
    (\<forall>m a cs. params_kept E (SendCoinsFromModuleToAccount E m a cs)) \<and>
    (\<forall>a m cs. params_kept E (SendCoinsFromAccountToModule E a m cs)) \<and>
    (\<forall>m cs. params_kept E (MintCoins E m cs)) \<and>
    (\<forall>m cs. params_kept E (BurnCoins E m cs)) \<and>
    (\<forall>a b cs. params_kept E (SendCoins E a b cs)) \<and>
    (\<forall>cs a. params_kept E (FundCommunityPool E cs a))"

text \<open>When the SDK's functions panic. Texts and coins are checked by functions that return errors, and
  \<open>NewCoins\<close> panics only on an invalid coin. What changes the state may run out of gas, or overflow the 256 bits of an amount;
  the module's account may mint and burn.\<close>

definition sdk_panic :: "error \<Rightarrow> bool" where
  "sdk_panic e \<longleftrightarrow> e = GoPanic ''out of gas'' \<or> e = GoPanic ''Int overflow''"

definition tame :: "error \<Rightarrow> bool" where
  "tame e \<longleftrightarrow> (is_panic e \<longrightarrow> sdk_panic e)"

definition no_panic :: "'a result \<Rightarrow> bool" where
  "no_panic r \<longleftrightarrow> (\<forall>e. r = Inl e \<longrightarrow> \<not> is_panic e)"

definition tame_run :: "('w \<Rightarrow> 'a result \<times> 'w) \<Rightarrow> bool" where
  "tame_run f \<longleftrightarrow> (\<forall>w e. fst (f w) = Inl e \<longrightarrow> tame e)"

definition panic_laws :: "('k, 'w) sdk \<Rightarrow> bool" where
  "panic_laws E \<longleftrightarrow>
    (\<forall>s. no_panic (AccAddressFromBech32 E s)) \<and> (\<forall>d. no_panic (ValidateDenom E d)) \<and>
    (\<forall>m. no_panic (Metadata_Validate E m)) \<and>
    (\<forall>c. Coin_IsValid E c \<longrightarrow> (\<exists>cs. NewCoins E [c] = Inr cs)) \<and>
    (\<forall>g s. tame_run (ConsumeGas E g s)) \<and>
    (\<forall>m a cs. tame_run (SendCoinsFromModuleToAccount E m a cs)) \<and>
    (\<forall>a m cs. tame_run (SendCoinsFromAccountToModule E a m cs)) \<and>
    (\<forall>cs. tame_run (MintCoins E ModuleName cs)) \<and>
    (\<forall>cs. tame_run (BurnCoins E ModuleName cs)) \<and>
    (\<forall>a b cs. tame_run (SendCoins E a b cs)) \<and>
    (\<forall>cs a. tame_run (FundCommunityPool E cs a))"

lemma panic_lawsD:
  assumes "panic_laws E"
  shows "no_panic (AccAddressFromBech32 E s)" and "no_panic (ValidateDenom E d)" and "no_panic (Metadata_Validate E m)"
    and "Coin_IsValid E c \<Longrightarrow> \<exists>cs. NewCoins E [c] = Inr cs"
    and "tame_run (ConsumeGas E g t)" and "tame_run (SendCoinsFromModuleToAccount E n a cs)"
    and "tame_run (SendCoinsFromAccountToModule E a n cs)"
    and "tame_run (MintCoins E ModuleName cs)" and "tame_run (BurnCoins E ModuleName cs)"
    and "tame_run (SendCoins E a b cs)" and "tame_run (FundCommunityPool E cs a)"
  using assms unfolding panic_laws_def by blast+

text \<open>Funding the community pool moves the coins from the sender to the pool's account; gas is not paid in coins here.\<close>

definition pool_laws :: "('k, 'w) sdk \<Rightarrow> bytes \<Rightarrow> bool" where
  "pool_laws E pool \<longleftrightarrow>
    (\<forall>cs a. moves E (\<lambda>x d. credit pool cs x d - credit a cs x d) (FundCommunityPool E cs a)) \<and>
    (\<forall>g s. moves E (\<lambda>x d. 0) (ConsumeGas E g s))"

section \<open>Parameters during a transaction\<close>

definition same_param_space :: "('k, 'w) sdk \<Rightarrow> ('k, 'w) ctx \<Rightarrow> ('k, 'w) ctx \<Rightarrow> bool" where
  "same_param_space E c c' \<longleftrightarrow> GetParamSet E (world c') = GetParamSet E (world c)"

lemma worldM_params_kept:
  fixes E :: "('k, 'w) sdk" and f :: "'w \<Rightarrow> 'a result \<times> 'w"
  assumes "params_kept E f"
  shows "keeps (same_param_space E) (worldM f)"
  using assms unfolding keeps_def params_kept_def same_param_space_def worldM_def
  by (auto simp: fun_eq_iff split: prod.split) (metis snd_conv)

lemma params_frame_lawsD:
  assumes "params_frame_laws E"
  shows "params_kept E (ConsumeGas E g s)"
    and "params_kept E (SendCoinsFromModuleToAccount E m a cs)" and "params_kept E (SendCoinsFromAccountToModule E a m cs)"
    and "params_kept E (MintCoins E m cs)" and "params_kept E (BurnCoins E m cs)"
    and "params_kept E (SendCoins E a b cs)" and "params_kept E (FundCommunityPool E cs a)"
  using assms unfolding params_frame_laws_def by blast+

lemma SetDenomMetaData_params_kept:
  "params_frame_laws E \<Longrightarrow> keeps (same_param_space E) (modifyM (\<lambda>c. c\<lparr>world := SetDenomMetaData E m (world c)\<rparr>))"
  by (rule keeps_modifyM) (simp add: same_param_space_def params_frame_laws_def fun_eq_iff)

lemma KVStore_Set_params_kept: "keeps (same_param_space E) (KVStore_Set E p k v)"
  unfolding KVStore_Set_def by (rule keeps_modifyM) (simp add: same_param_space_def)

lemma EmitEvents_params_kept: "keeps (same_param_space E) (EmitEvents es)"
  unfolding EmitEvents_def by (rule keeps_modifyM) (simp add: same_param_space_def)

lemma reads_params_kept:
  "keeps (same_param_space E) (GetAuthorityMetadata E d)" "keeps (same_param_space E) (GetParams E)"
  by (simp_all add: keeps_def same_param_space_def GetAuthorityMetadata_keeps GetParams_keeps)

lemma same_param_space_refl: "same_param_space E c c"
  by (simp add: same_param_space_def)

lemma same_param_space_trans: "same_param_space E a b \<Longrightarrow> same_param_space E b c \<Longrightarrow> same_param_space E a c"
  by (simp add: same_param_space_def)

lemmas params_kept_intros =
  keeps_bindM [where R = "same_param_space E" for E, OF same_param_space_trans]
  keeps_basic [where R = "same_param_space E" for E, OF same_param_space_refl] worldM_params_kept
  EmitEvents_params_kept KVStore_Set_params_kept SetDenomMetaData_params_kept reads_params_kept

lemma setAuthorityMetadata_params_kept: "keeps (same_param_space E) (setAuthorityMetadata E d m)"
  unfolding setAuthorityMetadata_def by (intro params_kept_intros)

lemma chargeForCreateDenom_params_kept:
  assumes "params_frame_laws E"
  shows "keeps (same_param_space E) (chargeForCreateDenom E a)"
  unfolding chargeForCreateDenom_def
  by (intro params_kept_intros) (auto intro!: params_kept_intros simp: params_frame_lawsD [OF assms])

lemma createDenomAfterValidation_params_kept:
  assumes "params_frame_laws E"
  shows "keeps (same_param_space E) (createDenomAfterValidation E a d)"
  unfolding createDenomAfterValidation_def addDenomFromCreator_def
  by (intro params_kept_intros setAuthorityMetadata_params_kept) (auto intro!: params_kept_intros assms)

lemma bank_actions_params_kept:
  assumes "params_frame_laws E"
  shows "keeps (same_param_space E) (mintTo E amount a)" and "keeps (same_param_space E) (burnFrom E amount a)"
    and "keeps (same_param_space E) (forceTransfer E amount a b)"
proof -
  show "keeps (same_param_space E) (mintTo E amount a)"
    unfolding mintTo_def by (intro params_kept_intros params_frame_lawsD [OF assms])
  show "keeps (same_param_space E) (burnFrom E amount a)"
    unfolding burnFrom_def by (intro params_kept_intros params_frame_lawsD [OF assms])
  show "keeps (same_param_space E) (forceTransfer E amount a b)"
    unfolding forceTransfer_def by (intro params_kept_intros params_frame_lawsD [OF assms])
qed

lemma validateCreateDenom_params_kept: "keeps (same_param_space E) (validateCreateDenom E a s)"
  unfolding validateCreateDenom_def by (intro params_kept_intros)

lemma Msg_handle_params_kept:
  assumes "params_frame_laws E"
  shows "keeps (same_param_space E) (Msg_handle E m)"
proof -
  note intros = params_kept_intros bank_actions_params_kept [OF assms] setAuthorityMetadata_params_kept assms
    validateCreateDenom_params_kept chargeForCreateDenom_params_kept createDenomAfterValidation_params_kept
  have "keeps (same_param_space E) (MsgServer_CreateDenom E x1)" for x1
    unfolding MsgServer_CreateDenom_def CreateDenom_def by (intro intros)
  moreover have "keeps (same_param_space E) (MsgServer_Mint E x2)" for x2
    unfolding MsgServer_Mint_def Let_def by (intro intros)
  moreover have "keeps (same_param_space E) (MsgServer_Burn E x3)" for x3
    unfolding MsgServer_Burn_def Let_def by (intro intros)
  moreover have "keeps (same_param_space E) (MsgServer_ForceTransfer E x4)" for x4
    unfolding MsgServer_ForceTransfer_def by (intro intros)
  moreover have "keeps (same_param_space E) (MsgServer_ChangeAdmin E x5)" for x5
    unfolding MsgServer_ChangeAdmin_def setAdmin_def by (intro intros)
  moreover have "keeps (same_param_space E) (MsgServer_SetDenomMetadata E x6)" for x6
    unfolding MsgServer_SetDenomMetadata_def by (intro intros)
  ultimately show ?thesis
    unfolding ignore_def [abs_def] by (cases m) (auto simp: ignore_def intro!: intros)
qed

lemma GetParams_same: "same_param_space E c c' \<Longrightarrow> fst (GetParams E c') = fst (GetParams E c)"
  by (simp add: same_param_space_def GetParams_def action_simps)

lemma GetParams_frame:
  "same_param_space E c c' \<Longrightarrow> GetParams E c = (Inr p, c) \<Longrightarrow> GetParams E c' = (Inr p, c')"
  using GetParams_same GetParams_keeps by (metis fst_conv prod.collapse)

end
