(* ===== verification/Panics.thy ===== *)
theory Panics
  imports Frames
begin

text \<open>
  Transactions return errors; they do not panic by the module's own doing. An action is \<open>calm\<close> at a state if every error
  it ends with is no panic, or a panic of the SDK that the module cannot prevent (\<open>tame\<close>). The lemmas follow the
  code: each handler is calm for a message that passed \<open>ValidateBasic\<close>, in a state that satisfies the invariant and has parameters.
\<close>

section \<open>Calm actions\<close>

definition calm :: "('s, 'a) action \<Rightarrow> 's \<Rightarrow> bool" where
  "calm m c \<longleftrightarrow> (\<forall>e c'. m c = (Inl e, c') \<longrightarrow> tame e)"

lemma calm_bindM:
  "calm m c \<Longrightarrow> (\<And>x c'. m c = (Inr x, c') \<Longrightarrow> calm (f x) c') \<Longrightarrow> calm (bindM m f) c"
  unfolding calm_def bindM_eq_Inl by blast

lemma calm_basic:
  "calm (retM x) c" "calm (getM h) c" "calm (modifyM k) c" "calm (EmitEvents es) c" "calm (KVStore_Set E p k' v) c"
  by (simp_all add: calm_def action_simps EmitEvents_def KVStore_Set_def)

lemma calm_liftM: "no_panic r \<Longrightarrow> calm (liftM r) c"
  by (auto simp: calm_def action_simps no_panic_def tame_def)

lemma calm_guardM: "\<not> is_panic e \<Longrightarrow> calm (guardM b e) c"
  by (simp add: calm_def guardM_def action_simps tame_def)

lemma calm_failM: "\<not> is_panic e \<Longrightarrow> calm (failM e) c"
  by (simp add: calm_def action_simps tame_def)

lemma calm_worldM: "tame_run f \<Longrightarrow> calm (worldM f) c"
  unfolding calm_def tame_run_def worldM_eq by (metis fst_conv)

lemma no_panic_simps: "no_panic (Inr x)" "no_panic (Inl e) \<longleftrightarrow> \<not> is_panic e"
  "no_panic r \<Longrightarrow> (\<And>x. r = Inr x \<Longrightarrow> no_panic (f x)) \<Longrightarrow> no_panic (andThen r f)"
  "\<not> is_panic e \<Longrightarrow> no_panic (orErr r e)"
  by (cases r; simp add: no_panic_def orErr_def)+

lemmas calm_intros = calm_bindM calm_basic calm_liftM calm_guardM calm_failM calm_worldM

section \<open>The module's checks\<close>

lemma checks_no_panic:
  assumes "panic_laws E"
  shows "no_panic (DeconstructDenom E d)" and "no_panic (GetTokenDenom E s t)" and "no_panic (DenomAuthorityMetadata_Validate E m)"
  using panic_lawsD(1,2) [OF assms] DeconstructDenom_eq_Inl [of E d]
  by (auto simp: no_panic_def GetTokenDenom_def Let_def andThen_eq_Inl DenomAuthorityMetadata_Validate_def split: if_splits)

lemma ValidateBasic_no_panic:
  assumes "panic_laws E"
  shows "no_panic (Msg_ValidateBasic E m)"
  using checks_no_panic [OF assms] panic_lawsD(1-3) [OF assms]
  by (cases m)
    (auto intro!: no_panic_simps simp: no_panic_simps(2) MsgCreateDenom_ValidateBasic_def MsgMint_ValidateBasic_def MsgBurn_ValidateBasic_def
      MsgForceTransfer_ValidateBasic_def MsgChangeAdmin_ValidateBasic_def MsgSetDenomMetadata_ValidateBasic_def)

lemma validate_no_panic: "panic_laws E \<Longrightarrow> no_panic (validate_msgs E ms)"
  by (induction ms) (auto intro!: no_panic_simps ValidateBasic_no_panic)

section \<open>The keeper\<close>

lemma setAuthorityMetadata_calm: "panic_laws E \<Longrightarrow> calm (setAuthorityMetadata E d m) c"
  using checks_no_panic(3) [of E m]
  by (auto simp: calm_def setAuthorityMetadata_run no_panic_def tame_def split: sum.splits)

lemma GetAuthorityMetadata_calm: "bech32_laws E \<Longrightarrow> wf_metadata E (store c) \<Longrightarrow> calm (GetAuthorityMetadata E d) c"
  by (simp add: calm_def GetAuthorityMetadata_run)

lemma bank_actions_calm:
  assumes "panic_laws E" and "Coin_IsValid E amount"
  shows "calm (mintTo E amount a) c" and "calm (burnFrom E amount a) c" and "calm (forceTransfer E amount a b) c"
proof -
  have new: "no_panic (NewCoins E [amount])" using panic_lawsD(4) [OF assms] by (auto simp: no_panic_def)
  note intros = calm_intros new panic_lawsD [OF assms(1)] checks_no_panic [OF assms(1)]
  show "calm (mintTo E amount a) c" unfolding mintTo_def by (intro intros)
  show "calm (burnFrom E amount a) c" unfolding burnFrom_def by (intro intros)
  show "calm (forceTransfer E amount a b) c" unfolding forceTransfer_def by (intro intros)
qed

lemma CreateDenom_calm:
  assumes "panic_laws E" and params: "GetParams E c = (Inr p, c)"
  shows "calm (CreateDenom E a s) c"
proof -
  have get: "calm (GetParams E) c" using params by (simp add: calm_def)
  have "calm (validateCreateDenom E a s) c"
    unfolding validateCreateDenom_def by (intro calm_intros checks_no_panic assms(1)) simp_all
  moreover have "c' = c" if "validateCreateDenom E a s c = (Inr d, c')" for d c'
    using that by (auto simp: validateCreateDenom_run split: if_splits sum.splits)
  moreover have "calm (chargeForCreateDenom E a) c"
    unfolding chargeForCreateDenom_def
    by (intro calm_bindM get) (auto intro!: calm_intros panic_lawsD [OF assms(1)])
  moreover have "calm (createDenomAfterValidation E a d) c'" for d c'
    unfolding createDenomAfterValidation_def addDenomFromCreator_def
    by (intro calm_intros setAuthorityMetadata_calm assms(1)) (auto intro!: calm_intros)
  ultimately show ?thesis
    unfolding CreateDenom_def by (intro calm_bindM calm_basic) auto
qed

section \<open>The handlers\<close>

lemma Msg_handle_calm:
  assumes laws: "sdk_laws E" "panic_laws E" and inv: "Inv E c" and params: "GetParams E c = (Inr p, c)"
    and v: "Msg_ValidateBasic E m = Inr ()"
  shows "calm (Msg_handle E m) c"
proof -
  note get = GetAuthorityMetadata_calm [OF sdk_lawsD(2) [OF laws(1)] InvD(1) [OF inv]]
  show ?thesis
  proof (cases m)
    case (CreateDenomMsg x)
    then show ?thesis
      by (simp add: ignore_def MsgServer_CreateDenom_def) (intro calm_intros CreateDenom_calm [OF laws(2) params])
  next
    case (MintMsg x)
    then have "Coin_IsValid E (mint_Amount x)"
      using v by (auto simp: MsgMint_ValidateBasic_def andThen_eq_Inr split: if_splits)
    with MintMsg show ?thesis
      by (auto simp: ignore_def MsgServer_Mint_def Let_def GetAuthorityMetadata_state action_simps guardM_def
          intro!: calm_intros get bank_actions_calm laws split: if_splits)
  next
    case (BurnMsg x)
    then have "Coin_IsValid E (burn_Amount x)"
      using v by (auto simp: MsgBurn_ValidateBasic_def andThen_eq_Inr split: if_splits)
    with BurnMsg show ?thesis
      by (auto simp: ignore_def MsgServer_Burn_def Let_def intro!: calm_intros get bank_actions_calm laws)
  next
    case (ForceTransferMsg x)
    then have "Coin_IsValid E (ft_Amount x)"
      using v by (auto simp: MsgForceTransfer_ValidateBasic_def andThen_eq_Inr split: if_splits)
    with ForceTransferMsg show ?thesis
      by (auto simp: ignore_def MsgServer_ForceTransfer_def intro!: calm_intros get bank_actions_calm laws)
  next
    case (ChangeAdminMsg x)
    then show ?thesis
      by (auto simp: ignore_def MsgServer_ChangeAdmin_def setAdmin_def action_simps guardM_def dest!: GetAuthorityMetadata_state
          intro!: calm_bindM calm_basic calm_failM get setAuthorityMetadata_calm laws split: if_splits)
  next
    case (SetDenomMetadataMsg x)
    then show ?thesis
      by (auto simp: ignore_def MsgServer_SetDenomMetadata_def action_simps
          intro!: calm_intros get panic_lawsD laws)
  qed
qed

lemma run_msgs_calm:
  assumes laws: "sdk_laws E" "panic_laws E" "params_frame_laws E"
  shows "Inv E c \<Longrightarrow> GetParams E c = (Inr p, c) \<Longrightarrow> validate_msgs E ms = Inr () \<Longrightarrow> calm (run_msgs E ms) c"
proof (induction ms arbitrary: c)
  case (Cons m ms)
  have v: "Msg_ValidateBasic E m = Inr ()" "validate_msgs E ms = Inr ()"
    using Cons.prems(3) by (auto simp: andThen_eq_Inr)
  show ?case
    unfolding run_msgs.simps
  proof (rule calm_bindM)
    show "calm (Msg_handle E m) c" by (rule Msg_handle_calm [OF laws(1,2) Cons.prems(1,2) v(1)])
    fix u c1
    assume run: "Msg_handle E m c = (Inr u, c1)"
    have "Inv E c1" using Msg_step [OF laws(1) Cons.prems(1) v(1), of c1] run by simp
    moreover have "GetParams E c1 = (Inr p, c1)"
      using GetParams_frame [OF keepsD [OF Msg_handle_params_kept [OF laws(3)] run] Cons.prems(2)] .
    ultimately show "calm (run_msgs E ms) c1" using Cons.IH v(2) by blast
  qed
qed (simp add: calm_basic)

lemma deliver_tx_calm:
  assumes "sdk_laws E" and "panic_laws E" and "params_frame_laws E" and "Inv E c" and "GetParams E c = (Inr p, c)"
  shows "calm (deliver_tx E ms) c"
  using validate_no_panic [OF assms(2), of ms] run_msgs_calm [OF assms, of ms]
  unfolding calm_def deliver_tx_def no_panic_def tame_def
  by (auto split: sum.splits prod.splits)

end
