(* ===== verification/Accounting.thy ===== *)
theory Accounting
  imports Frames
begin

text \<open>
  What a transaction does to balances, read off its messages. \<open>flow\<close> is what one message moves: the creation fee to the
  community pool, minted coins to their recipient, burned coins from their holder, forced transfers between the two.
  An accepted transaction changes balances by the sum of its flows, coins come into being and disappear only by minting
  and burning, and a denom's balances are out of reach for transactions that its admin sends no message of.
\<close>

section \<open>The flow of a message\<close>

definition pay :: "bytes \<Rightarrow> coin \<Rightarrow> bytes \<Rightarrow> string \<Rightarrow> int" where
  "pay a c x d = (if x = a \<and> d = coin_Denom c then coin_Amount c else 0)"

fun mint_recipient :: "MsgMint \<Rightarrow> string" where
  "mint_recipient m = (if MintToAddress m = '''' then mint_Sender m else MintToAddress m)"

fun burn_holder :: "MsgBurn \<Rightarrow> string" where
  "burn_holder m = (if BurnFromAddress m = '''' then burn_Sender m else BurnFromAddress m)"

fun flow :: "('k, 'w) sdk \<Rightarrow> bytes \<Rightarrow> Coins \<Rightarrow> Msg \<Rightarrow> bytes \<Rightarrow> string \<Rightarrow> int" where
  "flow E pool fee (CreateDenomMsg m) x d = credit pool fee x d - credit (signer E (cd_Sender m)) fee x d"
| "flow E pool fee (MintMsg m) x d = pay (signer E (mint_recipient m)) (mint_Amount m) x d"
| "flow E pool fee (BurnMsg m) x d = - pay (signer E (burn_holder m)) (burn_Amount m) x d"
| "flow E pool fee (ForceTransferMsg m) x d =
    pay (signer E (TransferToAddress m)) (ft_Amount m) x d - pay (signer E (TransferFromAddress m)) (ft_Amount m) x d"
| "flow E pool fee (ChangeAdminMsg m) x d = 0"
| "flow E pool fee (SetDenomMetadataMsg m) x d = 0"

text \<open>What the messages of a transaction mint, less what they burn, and the addresses they name.\<close>

fun issued :: "Msg \<Rightarrow> string \<Rightarrow> int" where
  "issued (MintMsg m) d = (if d = coin_Denom (mint_Amount m) then coin_Amount (mint_Amount m) else 0)"
| "issued (BurnMsg m) d = - (if d = coin_Denom (burn_Amount m) then coin_Amount (burn_Amount m) else 0)"
| "issued m d = 0"

fun parties :: "('k, 'w) sdk \<Rightarrow> bytes \<Rightarrow> Msg \<Rightarrow> bytes set" where
  "parties E pool (CreateDenomMsg m) = {pool, signer E (cd_Sender m)}"
| "parties E pool (MintMsg m) = {signer E (mint_recipient m)}"
| "parties E pool (BurnMsg m) = {signer E (burn_holder m)}"
| "parties E pool (ForceTransferMsg m) = {signer E (TransferToAddress m), signer E (TransferFromAddress m)}"
| "parties E pool m = {}"

lemma signer_eq: "AccAddressFromBech32 E s = Inr a \<Longrightarrow> signer E s = a"
  by (simp add: signer_def)

section \<open>Each message moves its flow\<close>

lemma chargeForCreateDenom_balances:
  assumes laws: "pool_laws E pool" and params: "GetParams E c = (Inr p, c)"
    and run: "chargeForCreateDenom E a c = (Inr (), c')"
  shows "bal E (world c') x d = bal E (world c) x d
    + credit pool (DenomCreationFee p) x d - credit (signer E a) (DenomCreationFee p) x d"
proof -
  have gas_law: "moves E (\<lambda>x d. 0) (ConsumeGas E g s)" for g s
    using laws unfolding pool_laws_def by blast
  have fund_law: "moves E (\<lambda>x d. credit pool cs x d - credit b cs x d) (FundCommunityPool E cs b)" for cs b
    using laws unfolding pool_laws_def by blast
  have gas: "bal E w' y d = bal E w y d" if "ConsumeGas E g s w = (Inr (), w')" for g s w w' y
    using movesD [OF gas_law that] by simp
  have fund: "bal E w' y d = bal E w y d + (credit pool cs y d - credit b cs y d)"
    if "FundCommunityPool E cs b w = (Inr (), w')" for cs b w w' y
    using movesD [OF fund_law that] by simp
  show ?thesis
  proof (cases "DenomCreationFee p")
    case None
    then show ?thesis
      using run params by (auto simp: chargeForCreateDenom_def bindM_eq_Inr action_simps worldM_eq credit_def
          amount_of_def gas split: if_splits)
  next
    case (Some fee)
    then show ?thesis
      using run params by (auto simp: chargeForCreateDenom_def bindM_eq_Inr action_simps worldM_eq gas fund
          signer_eq split: if_splits)
  qed
qed

lemma add_metadata_balances: "bank_laws E modacc \<Longrightarrow> bal E (add_metadata E d w) x d' = bal E w x d'"
  by (simp add: add_metadata_def bank_lawsD(6))

lemma Msg_handle_flow:
  assumes laws: "sdk_laws E" "bank_laws E modacc" "pool_laws E pool" and inv: "Inv E c"
    and params: "GetParams E c = (Inr p, c)" and run: "Msg_handle E m c = (Inr (), c')"
  shows "bal E (world c') x d = bal E (world c) x d + flow E pool (DenomCreationFee p) m x d"
proof -
  note lw = sdk_lawsD(2) [OF laws(1)] InvD(1) [OF inv] and l4 = sdk_lawsD(4) [OF laws(1)]
  show ?thesis
  proof (cases m)
    case (CreateDenomMsg y)
    then obtain dn c1 where ch: "chargeForCreateDenom E (cd_Sender y) c = (Inr (), c1)"
      and c': "world c' = add_metadata E dn (world c1)"
      using run by (auto simp: ignore_eq_Inr CreateDenom_handler_eq_Inr CreateDenom_eq_Inr)
    show ?thesis
      using chargeForCreateDenom_balances [OF laws(3) params ch, of x d] CreateDenomMsg
      by (simp add: c' add_metadata_balances [OF laws(2)])
  next
    case (MintMsg y)
    then obtain c1 where m: "mintTo E (mint_Amount y) (mint_recipient y) c = (Inr (), c1)" and c': "world c' = world c1"
      using run by (auto simp: ignore_eq_Inr Mint_handler_eq_Inr [OF lw] Let_def)
    obtain addr where a: "AccAddressFromBech32 E (mint_recipient y) = Inr addr"
      using m unfolding mintTo_eq_Inr by blast
    show ?thesis
      using mintTo_balances [OF l4 laws(2) m a, of x d] MintMsg c' signer_eq [OF a] by (simp add: pay_def)
  next
    case (BurnMsg y)
    then obtain c1 where b: "burnFrom E (burn_Amount y) (burn_holder y) c = (Inr (), c1)" and c': "world c' = world c1"
      using run by (auto simp: ignore_eq_Inr Burn_handler_eq_Inr [OF lw] Let_def)
    obtain addr where a: "AccAddressFromBech32 E (burn_holder y) = Inr addr"
      using b unfolding burnFrom_eq_Inr by blast
    show ?thesis
      using burnFrom_balances [OF l4 laws(2) b a, of x d] BurnMsg c' signer_eq [OF a] by (simp add: pay_def)
  next
    case (ForceTransferMsg y)
    then obtain c1 where f: "forceTransfer E (ft_Amount y) (TransferFromAddress y) (TransferToAddress y) c = (Inr (), c1)"
      and c': "world c' = world c1"
      using run by (auto simp: ignore_eq_Inr ForceTransfer_handler_eq_Inr [OF lw])
    obtain src dst where a: "AccAddressFromBech32 E (TransferFromAddress y) = Inr src"
      "AccAddressFromBech32 E (TransferToAddress y) = Inr dst"
      using f unfolding forceTransfer_eq_Inr by blast
    show ?thesis
      using forceTransfer_balances [OF l4 laws(2) f a, of x d] ForceTransferMsg c' signer_eq [OF a(1)] signer_eq [OF a(2)]
      by (simp add: pay_def)
  next
    case (ChangeAdminMsg y)
    with run show ?thesis by (auto simp: ignore_eq_Inr ChangeAdmin_handler_eq_Inr [OF lw])
  next
    case (SetDenomMetadataMsg y)
    with run show ?thesis
      by (auto simp: ignore_eq_Inr SetDenomMetadata_handler_eq_Inr [OF lw] bank_lawsD(6) [OF laws(2)])
  qed
qed

section \<open>A transaction moves the sum\<close>

definition flows :: "('k, 'w) sdk \<Rightarrow> bytes \<Rightarrow> Coins \<Rightarrow> Msg list \<Rightarrow> bytes \<Rightarrow> string \<Rightarrow> int" where
  "flows E pool fee ms x d = (\<Sum>m\<leftarrow>ms. flow E pool fee m x d)"

lemma run_msgs_flows:
  assumes laws: "sdk_laws E" "bank_laws E modacc" "pool_laws E pool" "params_frame_laws E"
  shows "Inv E c \<Longrightarrow> GetParams E c = (Inr p, c) \<Longrightarrow> validate_msgs E ms = Inr () \<Longrightarrow> run_msgs E ms c = (Inr (), c') \<Longrightarrow>
    bal E (world c') x d = bal E (world c) x d + flows E pool (DenomCreationFee p) ms x d"
proof (induction ms arbitrary: c)
  case (Cons m ms)
  then obtain c1 where run: "Msg_handle E m c = (Inr (), c1)" and rest: "run_msgs E ms c1 = (Inr (), c')"
    by (auto simp: bindM_eq_Inr)
  have v: "Msg_ValidateBasic E m = Inr ()" "validate_msgs E ms = Inr ()"
    using Cons.prems(3) by (auto simp: andThen_eq_Inr)
  have "Inv E c1" using Msg_step [OF laws(1) Cons.prems(1) v(1) run] by simp
  moreover have "GetParams E c1 = (Inr p, c1)"
    using GetParams_frame [OF keepsD [OF Msg_handle_params_kept [OF laws(4)] run] Cons.prems(2)] .
  ultimately have "bal E (world c') x d = bal E (world c1) x d + flows E pool (DenomCreationFee p) ms x d"
    using Cons.IH v(2) rest by blast
  then show ?case
    using Msg_handle_flow [OF laws(1-3) Cons.prems(1,2) run, of x d] by (simp add: flows_def)
qed (simp add: action_simps flows_def)

lemma deliver_tx_flows:
  assumes "sdk_laws E" "bank_laws E modacc" "pool_laws E pool" "params_frame_laws E" and "Inv E c"
    and "GetParams E c = (Inr p, c)" and "deliver_tx E ms c = (Inr (), c')"
  shows "bal E (world c') x d = bal E (world c) x d + flows E pool (DenomCreationFee p) ms x d"
  using run_msgs_flows [OF assms(1-4,5,6)] assms(7) by (simp add: deliver_tx_eq_Inr)

section \<open>Coins come and go only by minting and burning\<close>

lemma sum_credit: "finite S \<Longrightarrow> a \<in> S \<Longrightarrow> (\<Sum>x\<in>S. credit a cs x d) = amount_of cs d"
  by (simp add: credit_def)

lemma sum_pay: "finite S \<Longrightarrow> a \<in> S \<Longrightarrow> (\<Sum>x\<in>S. pay a c x d) = (if d = coin_Denom c then coin_Amount c else 0)"
  by (cases "d = coin_Denom c") (simp_all add: pay_def)

lemma sum_flow: "finite S \<Longrightarrow> parties E pool m \<subseteq> S \<Longrightarrow> (\<Sum>x\<in>S. flow E pool fee m x d) = issued m d"
  by (cases m) (simp_all add: sum_subtractf sum_negf sum_credit sum_pay del: mint_recipient.simps burn_holder.simps)

lemma sum_flows:
  "finite S \<Longrightarrow> (\<And>m. m \<in> set ms \<Longrightarrow> parties E pool m \<subseteq> S) \<Longrightarrow>
    (\<Sum>x\<in>S. flows E pool fee ms x d) = (\<Sum>m\<leftarrow>ms. issued m d)"
  by (induction ms) (simp_all add: flows_def sum.distrib sum_flow)

lemma flow_outside: "x \<notin> parties E pool m \<Longrightarrow> flow E pool fee m x d = 0"
  by (cases m) (auto simp: pay_def credit_def)

lemma flows_outside:
  "(\<And>m. m \<in> set ms \<Longrightarrow> parties E pool m \<subseteq> S) \<Longrightarrow> x \<notin> S \<Longrightarrow> flows E pool fee ms x d = 0"
proof (induction ms)
  case (Cons m ms)
  have "x \<notin> parties E pool m" using Cons.prems(1) [of m] Cons.prems(2) by auto
  with Cons show ?case by (simp add: flows_def flow_outside)
qed (simp add: flows_def)

section \<open>Strangers do not touch a denom\<close>

lemma spec_msg_stranger:
  assumes "spec_msg m R = Some R'" and "R d = Some a" and "msg_sender m \<noteq> a" and "amount_of fee d = 0"
  shows "flow E pool fee m x d = 0" and "R' d = Some a"
  using assms by (cases m; auto simp: spec_admin_eq_Some Let_def pay_def credit_def split: if_splits)+

lemma spec_msgs_stranger:
  assumes "amount_of fee d = 0"
  shows "spec_msgs ms R = Some R' \<Longrightarrow> R d = Some a \<Longrightarrow> (\<And>m. m \<in> set ms \<Longrightarrow> msg_sender m \<noteq> a) \<Longrightarrow>
    flows E pool fee ms x d = 0 \<and> R' d = Some a"
proof (induction ms arbitrary: R)
  case (Cons m ms)
  then obtain R1 where R1: "spec_msg m R = Some R1" and rest: "spec_msgs ms R1 = Some R'"
    by (auto split: option.splits)
  have "msg_sender m \<noteq> a" using Cons.prems(3) by simp
  note st = spec_msg_stranger [OF R1 Cons.prems(2) this assms]
  then show ?case using Cons.IH [OF rest st(2)] Cons.prems(3) by (simp add: flows_def)
qed (simp add: flows_def)

section \<open>Nor its bank metadata\<close>

definition same_metadata :: "('k, 'w) sdk \<Rightarrow> ('k, 'w) ctx \<Rightarrow> ('k, 'w) ctx \<Rightarrow> bool" where
  "same_metadata E c c' \<longleftrightarrow> GetDenomMetaData E (world c') = GetDenomMetaData E (world c)"

lemma same_metadata_refl: "same_metadata E c c"
  by (simp add: same_metadata_def)

lemma same_metadata_trans: "same_metadata E a b \<Longrightarrow> same_metadata E b c \<Longrightarrow> same_metadata E a c"
  by (simp add: same_metadata_def)

lemma worldM_same_metadata:
  fixes E :: "('k, 'w) sdk" and f :: "'w \<Rightarrow> 'a result \<times> 'w"
  assumes "metadata_kept E f"
  shows "keeps (same_metadata E) (worldM f)"
  using metadata_keptD [OF assms] by (auto simp: keeps_def same_metadata_def worldM_def split: prod.split)

lemma module_state_same_metadata:
  "keeps (same_metadata E) (EmitEvents es)" "keeps (same_metadata E) (KVStore_Set E q k v)"
  "keeps (same_metadata E) (GetAuthorityMetadata E d)" "keeps (same_metadata E) (GetParams E)"
  by (auto simp: EmitEvents_def KVStore_Set_def keeps_def same_metadata_def action_simps GetAuthorityMetadata_keeps GetParams_keeps)

lemmas same_metadata_intros =
  keeps_bindM [where R = "same_metadata E" for E, OF same_metadata_trans]
  keeps_basic [where R = "same_metadata E" for E, OF same_metadata_refl] worldM_same_metadata module_state_same_metadata

text \<open>Only a creation and \<open>SetDenomMetadata\<close> change bank metadata.\<close>

lemma payments_same_metadata:
  assumes "metadata_laws E"
  shows "keeps (same_metadata E) (MsgServer_Mint E m2)" and "keeps (same_metadata E) (MsgServer_Burn E m3)"
    and "keeps (same_metadata E) (MsgServer_ForceTransfer E m4)" and "keeps (same_metadata E) (MsgServer_ChangeAdmin E m5)"
proof -
  note intros = same_metadata_intros metadata_lawsD [OF assms]
  show "keeps (same_metadata E) (MsgServer_Mint E m2)"
    unfolding MsgServer_Mint_def mintTo_def Let_def by (intro intros)
  show "keeps (same_metadata E) (MsgServer_Burn E m3)"
    unfolding MsgServer_Burn_def burnFrom_def Let_def by (intro intros)
  show "keeps (same_metadata E) (MsgServer_ForceTransfer E m4)"
    unfolding MsgServer_ForceTransfer_def forceTransfer_def by (intro intros)
  show "keeps (same_metadata E) (MsgServer_ChangeAdmin E m5)"
    unfolding MsgServer_ChangeAdmin_def setAdmin_def setAuthorityMetadata_def by (intro intros)
qed

lemma CreateDenom_other_metadata:
  assumes laws: "metadata_laws E" and run: "MsgServer_CreateDenom E m c = (Inr r, c')"
    and known: "snd (GetDenomMetaData E (world c) d)"
  shows "GetDenomMetaData E (world c') d = GetDenomMetaData E (world c) d"
proof -
  obtain dn c1 where ch: "chargeForCreateDenom E (cd_Sender m) c = (Inr (), c1)"
    and new: "\<not> snd (GetDenomMetaData E (world c) dn)" and c': "world c' = add_metadata E dn (world c1)"
    using run by (auto simp: CreateDenom_handler_eq_Inr CreateDenom_eq_Inr)
  have "d \<noteq> dn" using known new by blast
  then show ?thesis
    using chargeForCreateDenom_metadata(1) [OF laws ch]
    by (simp add: c' add_metadata_def GetDenomMetaData_Set [OF laws] created_metadata_def)
qed

lemma Msg_handle_stranger:
  assumes laws: "sdk_laws E" and inv: "Inv E c" and run: "Msg_handle E m c = (Inr (), c')"
    and spec: "spec_msg m (admins E (store c)) = Some R'" and reg: "admins E (store c) d = Some a" and "msg_sender m \<noteq> a"
  shows "GetDenomMetaData E (world c') d = GetDenomMetaData E (world c) d"
proof -
  note l3 = sdk_lawsD(3) [OF laws]
  note kept = payments_same_metadata [OF l3, THEN keepsD, unfolded same_metadata_def]
  show ?thesis
  proof (cases m)
    case (CreateDenomMsg x)
    with run CreateDenom_other_metadata [OF l3 _ InvD(3) [OF inv reg]] show ?thesis by (auto simp: ignore_eq_Inr)
  next
    case (SetDenomMetadataMsg x)
    then have "meta_Base (sdm_Metadata x) \<noteq> d" using spec reg assms(6) by (auto simp: spec_admin_eq_Some)
    with SetDenomMetadataMsg run show ?thesis
      by (auto simp: ignore_eq_Inr SetDenomMetadata_handler_eq_Inr [OF sdk_lawsD(2) [OF laws] InvD(1) [OF inv]]
          GetDenomMetaData_Set [OF l3])
  qed (use run in \<open>auto simp: ignore_eq_Inr dest!: kept\<close>)
qed

lemma run_msgs_stranger:
  assumes laws: "sdk_laws E"
  shows "Inv E c \<Longrightarrow> validate_msgs E ms = Inr () \<Longrightarrow> run_msgs E ms c = (Inr (), c') \<Longrightarrow> admins E (store c) d = Some a \<Longrightarrow>
    (\<And>m. m \<in> set ms \<Longrightarrow> msg_sender m \<noteq> a) \<Longrightarrow> GetDenomMetaData E (world c') d = GetDenomMetaData E (world c) d"
proof (induction ms arbitrary: c)
  case (Cons m ms)
  then obtain c1 where run: "Msg_handle E m c = (Inr (), c1)" and rest: "run_msgs E ms c1 = (Inr (), c')"
    by (auto simp: bindM_eq_Inr)
  have v: "Msg_ValidateBasic E m = Inr ()" "validate_msgs E ms = Inr ()"
    using Cons.prems(2) by (auto simp: andThen_eq_Inr)
  have st: "Inv E c1" "spec_msg m (admins E (store c)) = Some (admins E (store c1))"
    using Msg_step [OF laws Cons.prems(1) v(1) run] by simp_all
  have ne: "msg_sender m \<noteq> a" using Cons.prems(5) by simp
  have "admins E (store c1) d = Some a"
    using spec_msg_stranger(2) [OF st(2) Cons.prems(4) ne, of None] by (simp add: amount_of_def)
  then have "GetDenomMetaData E (world c') d = GetDenomMetaData E (world c1) d"
    using Cons.IH [OF st(1) v(2) rest] Cons.prems(5) by simp
  then show ?case using Msg_handle_stranger [OF laws Cons.prems(1) run st(2) Cons.prems(4) ne] by simp
qed (simp add: action_simps)

lemma validated_senders:
  "bech32_laws E \<Longrightarrow> validate_msgs E ms = Inr () \<Longrightarrow> m \<in> set ms \<Longrightarrow> msg_sender m \<noteq> ''''"
  using validated_sender by (auto simp: validate_msgs_eq_Inr)

end
