(* ===== verification/SampleLaws.thy ===== *)
theory SampleLaws
  imports SampleRun Panics Accounting
begin

text \<open>
  The sample chain obeys the laws of payments, gas and panics that the theorems about whole transactions assume.
\<close>

lemma chain_GetParamSet_cong: "params_store w' = params_store w \<Longrightarrow> chain_GetParamSet w' ks = chain_GetParamSet w ks"
  by (induction ks) (simp_all split: option.split)

lemma chain_params_frame_laws: "params_frame_laws chain_sdk"
proof -
  have "params_store (snd (chain_Send a b cs w)) = params_store w" "params_store (snd (chain_Mint a cs w)) = params_store w"
    "params_store (snd (chain_Burn a cs w)) = params_store w" for a b cs w
    by (simp_all add: chain_Send_def chain_Mint_def chain_Burn_def chain_move_def)
  then show ?thesis
    unfolding params_frame_laws_def params_kept_def chain_ops
    by (auto intro!: chain_GetParamSet_cong simp: chain_ops)
qed

lemma chain_panic_laws: "panic_laws chain_sdk"
proof -
  have "chain_coin_ok c \<Longrightarrow> \<exists>cs. chain_NewCoins [c] = Inr cs" for c
    by (simp add: chain_NewCoins_def chain_Coins_Validate_def)
  moreover have "Coin_IsValid chain_sdk = chain_coin_ok" by (simp add: chain_sdk_def)
  moreover have "no_panic (Metadata_Validate chain_sdk m)" for m by (simp add: chain_sdk_def no_panic_def)
  ultimately show ?thesis
    unfolding panic_laws_def chain_ops
    by (auto simp: no_panic_def tame_run_def tame_def sdk_panic_def chain_address_def chain_ValidateDenom_def chain_ops
        chain_Send_def chain_Mint_def chain_Burn_def split: if_splits)
qed

lemma chain_pool_laws: "pool_laws chain_sdk chain_pool"
  by (auto simp: pool_laws_def moves_def chain_ops chain_Send_def chain_move_def split: if_splits)

section \<open>Transactions on the sample chain\<close>

lemma sample_GetParams: "GetParams chain_sdk sample_ctx = (Inr sample_params, sample_ctx)"
proof -
  have keys: "KeyDenomCreationGasConsume \<noteq> KeyDenomCreationFee"
    by (simp add: KeyDenomCreationFee_def KeyDenomCreationGasConsume_def)
  then show ?thesis
    by (simp add: GetParams_def param_keys sample_world params_ctx_def chain_ops run_simps sample_params_def NewParams_def)
qed

lemma silver_minted: "\<exists>c. deliver_tx chain_sdk [MintMsg mint_silver] sample_ctx = (Inr (), c)"
proof -
  have "MsgMint_ValidateBasic chain_sdk mint_silver = Inr ()" by code_simp
  then show ?thesis
    using sample_mint by (auto simp: deliver_tx_eq_Inr bindM_eq_Inr ignore_eq_Inr action_simps)
qed

text \<open>Other modules have used up the gas: the creation of gold panics in the SDK.\<close>

definition nogas_ctx :: "(chain_store, chain) ctx" where
  "nogas_ctx = sample_ctx\<lparr>world := (world sample_ctx)\<lparr>gas_left := 0\<rparr>\<rparr>"

lemma nogas_reachable: "reachable chain_sdk nogas_ctx"
proof -
  have "module_kept chain_sdk sample_ctx nogas_ctx"
    by (simp add: module_kept_def nogas_ctx_def chain_ops)
  then have "chain_step chain_sdk sample_ctx nogas_ctx" by (rule chain_step.others)
  with sample_reachable show ?thesis
    unfolding reachable_def by (rule reach.go)
qed

lemma nogas_GetParams: "GetParams chain_sdk nogas_ctx = (Inr sample_params, nogas_ctx)"
proof -
  have "same_param_space chain_sdk sample_ctx nogas_ctx"
    by (simp add: same_param_space_def nogas_ctx_def chain_ops fun_eq_iff chain_GetParamSet_cong)
  then show ?thesis by (rule GetParams_frame [OF _ sample_GetParams])
qed

lemma nogas_fails: "deliver_tx chain_sdk [CreateDenomMsg create_gold] nogas_ctx = (Inl (GoPanic ''out of gas''), nogas_ctx)"
proof -
  have d: "GetTokenDenom chain_sdk alice ''gold'' = Inr gold" by code_simp
  have v: "MsgCreateDenom_ValidateBasic chain_sdk create_gold = Inr ()" by code_simp
  have "validateCreateDenom chain_sdk alice ''gold'' nogas_ctx = (Inr gold, nogas_ctx)"
    using d by (simp add: validateCreateDenom_run nogas_ctx_def sample_eval)
  moreover have "\<exists>c. chargeForCreateDenom chain_sdk alice nogas_ctx = (Inl (GoPanic ''out of gas''), c)"
    using nogas_GetParams
    by (simp add: chargeForCreateDenom_def bindM_def action_simps chain_ops address_alice worldM_def chain_Send_def
        chain_pays_def amount_of_def nogas_ctx_def sample_world params_ctx_def empty_ctx_def sample_params_def
        NewParams_def chain_move_def)
  ultimately have "\<exists>c. MsgServer_CreateDenom chain_sdk create_gold nogas_ctx = (Inl (GoPanic ''out of gas''), c)"
    by (auto simp: MsgServer_CreateDenom_def CreateDenom_def bindM_def create_gold_def NewMsgCreateDenom_def)
  with v show ?thesis by (auto simp: deliver_tx_def bindM_def ignore_def)
qed

end
