(* ===== verification/Clients.thy ===== *)
theory Clients
  imports Gateway
begin

text \<open>
  The clients of the two services and their registration with a gRPC server (\<open>types/tx.pb.go\<close>, \<open>types/query.pb.go\<close>, and the
  entry points of \<open>types/query.pb.gw.go\<close> that take a connection). gRPC itself is a parameter: a server with services registered
  by their descriptors, and connections to it. A client's method marshals the request, invokes the path, and unmarshals the reply.
\<close>

section \<open>gRPC\<close>

text \<open>\<open>RegisterService\<close> adds the methods of a service, by name, to a server; a method takes the bytes of a request and
  returns those of the response. \<open>Invoke\<close> sends bytes to a path of a server and returns the reply. An error travels as a status:
  \<open>status_error\<close> is what the client sees of it.\<close>

type_synonym ('k, 'w) grpc_method = "bytes \<Rightarrow> ('k, 'w, bytes) keeper"

record ('srv, 'k, 'w) grpc =
  RegisterService :: "'srv \<Rightarrow> string \<Rightarrow> (string \<times> ('k, 'w) grpc_method) list \<Rightarrow> 'srv"
  Invoke :: "'srv \<Rightarrow> string \<Rightarrow> ('k, 'w) grpc_method"
  status_error :: "error \<Rightarrow> error"

definition full_method :: "string \<Rightarrow> string \<Rightarrow> string" where
  "full_method service name = ''/'' @ service @ ''/'' @ name"

text \<open>What happens to the outcome of a method on its way to the client.\<close>

definition on_wire :: "(error \<Rightarrow> error) \<Rightarrow> ('a \<Rightarrow> 'b) \<Rightarrow> 'a result \<times> 's \<Rightarrow> 'b result \<times> 's" where
  "on_wire status norm = map_prod (map_sum status norm) id"

lemma on_wire_simps [simp]:
  "on_wire status norm (Inl e, c) = (Inl (status e), c)"
  "on_wire status norm (Inr x, c) = (Inr (norm x), c)"
  by (simp_all add: on_wire_def)

definition grpc_laws :: "('srv, 'k, 'w) grpc \<Rightarrow> bool" where
  "grpc_laws G \<longleftrightarrow>
    (\<forall>s service methods name h bz c. distinct (map fst methods) \<longrightarrow> (name, h) \<in> set methods \<longrightarrow>
       Invoke G (RegisterService G s service methods) (full_method service name) bz c = on_wire (status_error G) id (h bz c)) \<and>
    (\<forall>s service methods path. path \<notin> full_method service ` fst ` set methods \<longrightarrow>
       Invoke G (RegisterService G s service methods) path = Invoke G s path)"

section \<open>Registration of the services\<close>

text \<open>A handler of a descriptor as a method: its decoder reads the bytes of the request, there is no interceptor, and
  the response is marshalled.\<close>

definition served :: "('req \<Rightarrow> bytes \<Rightarrow> 'req result) \<Rightarrow> ('resp \<Rightarrow> bytes result) \<Rightarrow>
    (('req \<Rightarrow> 'req result) \<Rightarrow> ('k, 'w, 'req, 'resp) interceptor option \<Rightarrow> ('k, 'w, 'resp) keeper) \<Rightarrow> ('k, 'w) grpc_method" where
  "served unmarshal marshal handler bz = bindM (handler (\<lambda>m. unmarshal m bz) None) (\<lambda>r. liftM (marshal r))"

definition Msg_methods :: "coin codec \<Rightarrow> bank_metadata codec \<Rightarrow> ('k, 'w) msg_service \<Rightarrow> (string \<times> ('k, 'w) grpc_method) list" where
  "Msg_methods CC MC srv = [
     (''CreateDenom'', served MsgCreateDenom_Unmarshal MsgCreateDenomResponse_Marshal (Msg_CreateDenom_Handler srv)),
     (''Mint'', served (MsgMint_Unmarshal CC) MsgMintResponse_Marshal (Msg_Mint_Handler srv CC)),
     (''Burn'', served (MsgBurn_Unmarshal CC) MsgBurnResponse_Marshal (Msg_Burn_Handler srv CC)),
     (''ChangeAdmin'', served MsgChangeAdmin_Unmarshal MsgChangeAdminResponse_Marshal (Msg_ChangeAdmin_Handler srv)),
     (''SetDenomMetadata'',
       served (MsgSetDenomMetadata_Unmarshal MC) MsgSetDenomMetadataResponse_Marshal (Msg_SetDenomMetadata_Handler srv MC)),
     (''ForceTransfer'', served (MsgForceTransfer_Unmarshal CC) MsgForceTransferResponse_Marshal (Msg_ForceTransfer_Handler srv CC))]"

definition Query_methods :: "coin codec \<Rightarrow> ('k, 'w) query_service \<Rightarrow> (string \<times> ('k, 'w) grpc_method) list" where
  "Query_methods CC srv = [
     (''Params'', served QueryParamsRequest_Unmarshal (QueryParamsResponse_Marshal CC) (Query_Params_Handler srv)),
     (''DenomAuthorityMetadata'', served QueryDenomAuthorityMetadataRequest_Unmarshal QueryDenomAuthorityMetadataResponse_Marshal
       (Query_DenomAuthorityMetadata_Handler srv)),
     (''DenomsFromCreator'', served QueryDenomsFromCreatorRequest_Unmarshal QueryDenomsFromCreatorResponse_Marshal
       (Query_DenomsFromCreator_Handler srv))]"

definition RegisterMsgServer ::
  "('srv, 'k, 'w) grpc \<Rightarrow> coin codec \<Rightarrow> bank_metadata codec \<Rightarrow> 'srv \<Rightarrow> ('k, 'w) msg_service \<Rightarrow> 'srv" where
  "RegisterMsgServer G CC MC s srv = RegisterService G s ''tokenfactory.v1beta1.Msg'' (Msg_methods CC MC srv)"

definition RegisterQueryServer :: "('srv, 'k, 'w) grpc \<Rightarrow> coin codec \<Rightarrow> 'srv \<Rightarrow> ('k, 'w) query_service \<Rightarrow> 'srv" where
  "RegisterQueryServer G CC s srv = RegisterService G s ''tokenfactory.v1beta1.Query'' (Query_methods CC srv)"

section \<open>Clients\<close>

text \<open>\<open>cc.Invoke(ctx, path, in, out)\<close>.\<close>

definition call :: "('srv, 'k, 'w) grpc \<Rightarrow> 'srv \<Rightarrow> string \<Rightarrow> ('req \<Rightarrow> bytes result) \<Rightarrow> ('resp \<Rightarrow> bytes \<Rightarrow> 'resp result) \<Rightarrow> 'resp \<Rightarrow>
    'req \<Rightarrow> ('k, 'w, 'resp) keeper" where
  "call G cc path marshal unmarshal new in_msg =
    bindM (liftM (marshal in_msg)) (\<lambda>bz.
    bindM (Invoke G cc path bz) (\<lambda>reply.
      liftM (unmarshal new reply)))"

definition MsgClient_CreateDenom :: "('srv, 'k, 'w) grpc \<Rightarrow> 'srv \<Rightarrow> MsgCreateDenom \<Rightarrow> ('k, 'w, MsgCreateDenomResponse) keeper" where
  "MsgClient_CreateDenom G cc = call G cc ''/tokenfactory.v1beta1.Msg/CreateDenom''
     MsgCreateDenom_Marshal MsgCreateDenomResponse_Unmarshal MsgCreateDenomResponse_zero"

definition MsgClient_Mint :: "('srv, 'k, 'w) grpc \<Rightarrow> coin codec \<Rightarrow> 'srv \<Rightarrow> MsgMint \<Rightarrow> ('k, 'w, MsgMintResponse) keeper" where
  "MsgClient_Mint G CC cc = call G cc ''/tokenfactory.v1beta1.Msg/Mint''
     (MsgMint_Marshal CC) MsgMintResponse_Unmarshal MsgMintResponse_zero"

definition MsgClient_Burn :: "('srv, 'k, 'w) grpc \<Rightarrow> coin codec \<Rightarrow> 'srv \<Rightarrow> MsgBurn \<Rightarrow> ('k, 'w, MsgBurnResponse) keeper" where
  "MsgClient_Burn G CC cc = call G cc ''/tokenfactory.v1beta1.Msg/Burn''
     (MsgBurn_Marshal CC) MsgBurnResponse_Unmarshal MsgBurnResponse_zero"

definition MsgClient_ChangeAdmin :: "('srv, 'k, 'w) grpc \<Rightarrow> 'srv \<Rightarrow> MsgChangeAdmin \<Rightarrow> ('k, 'w, MsgChangeAdminResponse) keeper" where
  "MsgClient_ChangeAdmin G cc = call G cc ''/tokenfactory.v1beta1.Msg/ChangeAdmin''
     MsgChangeAdmin_Marshal MsgChangeAdminResponse_Unmarshal MsgChangeAdminResponse_zero"

definition MsgClient_SetDenomMetadata ::
  "('srv, 'k, 'w) grpc \<Rightarrow> bank_metadata codec \<Rightarrow> 'srv \<Rightarrow> MsgSetDenomMetadata \<Rightarrow> ('k, 'w, MsgSetDenomMetadataResponse) keeper" where
  "MsgClient_SetDenomMetadata G MC cc = call G cc ''/tokenfactory.v1beta1.Msg/SetDenomMetadata''
     (MsgSetDenomMetadata_Marshal MC) MsgSetDenomMetadataResponse_Unmarshal MsgSetDenomMetadataResponse_zero"

definition MsgClient_ForceTransfer ::
  "('srv, 'k, 'w) grpc \<Rightarrow> coin codec \<Rightarrow> 'srv \<Rightarrow> MsgForceTransfer \<Rightarrow> ('k, 'w, MsgForceTransferResponse) keeper" where
  "MsgClient_ForceTransfer G CC cc = call G cc ''/tokenfactory.v1beta1.Msg/ForceTransfer''
     (MsgForceTransfer_Marshal CC) MsgForceTransferResponse_Unmarshal MsgForceTransferResponse_zero"

definition NewMsgClient ::
  "('srv, 'k, 'w) grpc \<Rightarrow> coin codec \<Rightarrow> bank_metadata codec \<Rightarrow> 'srv \<Rightarrow> ('k, 'w) msg_service" where
  "NewMsgClient G CC MC cc = \<lparr>
     srv_CreateDenom = MsgClient_CreateDenom G cc,
     srv_Mint = MsgClient_Mint G CC cc,
     srv_Burn = MsgClient_Burn G CC cc,
     srv_ChangeAdmin = MsgClient_ChangeAdmin G cc,
     srv_SetDenomMetadata = MsgClient_SetDenomMetadata G MC cc,
     srv_ForceTransfer = MsgClient_ForceTransfer G CC cc\<rparr>"

definition QueryClient_Params ::
  "('srv, 'k, 'w) grpc \<Rightarrow> coin codec \<Rightarrow> 'srv \<Rightarrow> QueryParamsRequest \<Rightarrow> ('k, 'w, QueryParamsResponse) keeper" where
  "QueryClient_Params G CC cc = call G cc ''/tokenfactory.v1beta1.Query/Params''
     QueryParamsRequest_Marshal (QueryParamsResponse_Unmarshal CC) QueryParamsResponse_zero"

definition QueryClient_DenomAuthorityMetadata :: "('srv, 'k, 'w) grpc \<Rightarrow> 'srv \<Rightarrow>
    QueryDenomAuthorityMetadataRequest \<Rightarrow> ('k, 'w, QueryDenomAuthorityMetadataResponse) keeper" where
  "QueryClient_DenomAuthorityMetadata G cc = call G cc ''/tokenfactory.v1beta1.Query/DenomAuthorityMetadata''
     QueryDenomAuthorityMetadataRequest_Marshal QueryDenomAuthorityMetadataResponse_Unmarshal QueryDenomAuthorityMetadataResponse_zero"

definition QueryClient_DenomsFromCreator :: "('srv, 'k, 'w) grpc \<Rightarrow> 'srv \<Rightarrow>
    QueryDenomsFromCreatorRequest \<Rightarrow> ('k, 'w, QueryDenomsFromCreatorResponse) keeper" where
  "QueryClient_DenomsFromCreator G cc = call G cc ''/tokenfactory.v1beta1.Query/DenomsFromCreator''
     QueryDenomsFromCreatorRequest_Marshal QueryDenomsFromCreatorResponse_Unmarshal QueryDenomsFromCreatorResponse_zero"

definition NewQueryClient :: "('srv, 'k, 'w) grpc \<Rightarrow> coin codec \<Rightarrow> 'srv \<Rightarrow> ('k, 'w) query_service" where
  "NewQueryClient G CC cc = \<lparr>
     srv_Params = QueryClient_Params G CC cc,
     srv_DenomAuthorityMetadata = QueryClient_DenomAuthorityMetadata G cc,
     srv_DenomsFromCreator = QueryClient_DenomsFromCreator G cc\<rparr>"

lemmas client_defs = MsgClient_CreateDenom_def MsgClient_Mint_def MsgClient_Burn_def MsgClient_ChangeAdmin_def
  MsgClient_SetDenomMetadata_def MsgClient_ForceTransfer_def QueryClient_Params_def QueryClient_DenomAuthorityMetadata_def
  QueryClient_DenomsFromCreator_def

section \<open>The gateway over a connection\<close>

definition RegisterQueryHandler :: "('srv, 'k, 'w) grpc \<Rightarrow> coin codec \<Rightarrow> gateway \<Rightarrow> 'srv \<Rightarrow> unit result \<Rightarrow>
    (string \<times> pattern \<times> (path_params \<Rightarrow> ('k, 'w) ctx \<Rightarrow> query_response http \<times> ('k, 'w) ctx)) list" where
  "RegisterQueryHandler G CC W conn annotate = RegisterQueryHandlerClient W (NewQueryClient G CC conn) annotate"

text \<open>\<open>RegisterQueryHandlerFromEndpoint\<close> dials the endpoint itself. Its deferred function closes the connection: at once
  if there was an error after dialling, else when the context is done.\<close>

datatype closing = CloseNow | CloseWhenDone

definition RegisterQueryHandlerFromEndpoint :: "('srv, 'k, 'w) grpc \<Rightarrow> coin codec \<Rightarrow> gateway \<Rightarrow> 'srv result \<Rightarrow> unit result \<Rightarrow>
    (string \<times> pattern \<times> (path_params \<Rightarrow> ('k, 'w) ctx \<Rightarrow> query_response http \<times> ('k, 'w) ctx)) list result \<times> ('srv \<times> closing) option" where
  "RegisterQueryHandlerFromEndpoint G CC W dialled annotate = (case dialled of
      Inl err \<Rightarrow> (Inl err, None)
    | Inr conn \<Rightarrow>
        let r = Inr (RegisterQueryHandler G CC W conn annotate)
        in (r, Some (conn, case r of Inl err \<Rightarrow> CloseNow | Inr _ \<Rightarrow> CloseWhenDone)))"

section \<open>A call reaches its method\<close>

text \<open>The outcome fits into a message if there is an error or the response is short enough.\<close>

definition fits :: "('a \<Rightarrow> bytes) \<Rightarrow> 'a result \<times> 's \<Rightarrow> bool" where
  "fits enc r \<longleftrightarrow> (\<forall>x. fst r = Inr x \<longrightarrow> length (enc x) < 2 ^ 63)"

lemma call_served:
  assumes path: "\<And>bz c. Invoke G cc path bz c = on_wire st id (served um_req mar_resp (unary_handler zero p impl) bz c)"
    and req: "mar_req m = Inr bz" "um_req zero bz = Inr m"
    and resp: "\<And>r. mar_resp r = Inr (enc r)" "\<And>r. length (enc r) < 2 ^ 63 \<Longrightarrow> um_resp new (enc r) = Inr (norm r)"
    and fit: "fits enc (impl m c)"
  shows "call G cc path mar_req um_resp new m c = on_wire st norm (impl m c)"
proof -
  have served: "served um_req mar_resp (unary_handler zero p impl) bz c = bindM (impl m) (\<lambda>r. liftM (Inr (enc r))) c"
    using req by (simp add: served_def unary_handler_def bindM_def action_simps resp)
  show ?thesis
    using fit by (cases "impl m c"; cases "fst (impl m c)")
      (simp_all add: call_def bindM_def action_simps req path served fits_def resp(2))
qed

lemma Invoke_registered:
  assumes "grpc_laws G" and "distinct (map fst methods)" and "(name, h) \<in> set methods"
  shows "Invoke G (RegisterService G s service methods) (full_method service name) bz c = on_wire (status_error G) id (h bz c)"
  using assms unfolding grpc_laws_def by blast

lemma Invoke_other:
  assumes "grpc_laws G" and "path \<notin> full_method service ` fst ` set methods"
  shows "Invoke G (RegisterService G s service methods) path = Invoke G s path"
  using assms unfolding grpc_laws_def by blast

text \<open>A server with both services of the module, and the methods of its clients.\<close>

definition token_factory_server ::
  "('srv, 'k, 'w) grpc \<Rightarrow> coin codec \<Rightarrow> bank_metadata codec \<Rightarrow> 'srv \<Rightarrow> ('k, 'w) msg_service \<Rightarrow> ('k, 'w) query_service \<Rightarrow> 'srv" where
  "token_factory_server G CC MC s srv q = RegisterQueryServer G CC (RegisterMsgServer G CC MC s srv) q"

lemma Invoke_query:
  assumes "grpc_laws G" and "(name, h) \<in> set (Query_methods CC q)" and "path = full_method ''tokenfactory.v1beta1.Query'' name"
  shows "Invoke G (token_factory_server G CC MC s srv q) path bz c = on_wire (status_error G) id (h bz c)"
  unfolding assms(3) token_factory_server_def RegisterQueryServer_def
  by (rule Invoke_registered [OF assms(1) _ assms(2)]) (simp add: Query_methods_def)

lemma Invoke_msg:
  assumes "grpc_laws G" and "(name, h) \<in> set (Msg_methods CC MC srv)" and "path = full_method ''tokenfactory.v1beta1.Msg'' name"
  shows "Invoke G (token_factory_server G CC MC s srv q) path bz c = on_wire (status_error G) id (h bz c)"
proof -
  have "Invoke G (token_factory_server G CC MC s srv q) path = Invoke G (RegisterMsgServer G CC MC s srv) path"
    unfolding token_factory_server_def RegisterQueryServer_def assms(3)
    by (rule Invoke_other [OF assms(1)]) (auto simp: full_method_def)
  then show ?thesis
    unfolding assms(3) RegisterMsgServer_def
    using Invoke_registered [OF assms(1) _ assms(2)] by (simp add: Msg_methods_def)
qed

lemmas marshal_defs = MsgCreateDenom_Marshal_def MsgMint_Marshal_def MsgBurn_Marshal_def MsgChangeAdmin_Marshal_def
  MsgSetDenomMetadata_Marshal_def MsgForceTransfer_Marshal_def MsgCreateDenomResponse_Marshal_def MsgMintResponse_Marshal_def
  MsgBurnResponse_Marshal_def MsgChangeAdminResponse_Marshal_def MsgSetDenomMetadataResponse_Marshal_def
  MsgForceTransferResponse_Marshal_def QueryParamsRequest_Marshal_def QueryParamsResponse_Marshal_def
  QueryDenomAuthorityMetadataRequest_Marshal_def QueryDenomAuthorityMetadataResponse_Marshal_def
  QueryDenomsFromCreatorRequest_Marshal_def QueryDenomsFromCreatorResponse_Marshal_def

text \<open>A client's method, for codecs that obey the contract of a protobuf message.\<close>

lemma call_method:
  assumes G: "grpc_laws G" and req: "proto_message mt_req sz_req um_req zero enc_req id"
    and resp: "proto_message mt_resp sz_resp um_resp new enc_resp norm"
    and path: "\<And>bz c. Invoke G cc path bz c = on_wire (status_error G) id (served um_req (\<lambda>r. marshalWith (sz_resp r) (mt_resp r))
        (unary_handler zero p impl) bz c)"
    and len: "length (enc_req m) < 2 ^ 63" and fit: "fits enc_resp (impl m c)"
  shows "call G cc path (\<lambda>m. marshalWith (sz_req m) (mt_req m)) um_resp new m c = on_wire (status_error G) norm (impl m c)"
proof (rule call_served [where um_req = um_req and zero = zero and p = p and impl = impl and bz = "enc_req m"
      and enc = enc_resp, OF path])
  show "marshalWith (sz_req m) (mt_req m) = Inr (enc_req m)" by (rule proto_message.marshal_eq [OF req])
  show "um_req zero (enc_req m) = Inr m" using proto_message.um_enc [OF req len] by simp
  show "marshalWith (sz_resp r) (mt_resp r) = Inr (enc_resp r)" for r by (rule proto_message.marshal_eq [OF resp])
  show "um_resp new (enc_resp r) = Inr (norm r)" if "length (enc_resp r) < 2 ^ 63" for r
    by (rule proto_message.um_enc [OF resp that])
  show "fits enc_resp (impl m c)" by (rule fit)
qed

lemma no_response_fits:
  "fits MsgMintResponse_bytes r1" "fits MsgBurnResponse_bytes r2" "fits MsgChangeAdminResponse_bytes r3"
  "fits MsgSetDenomMetadataResponse_bytes r4" "fits MsgForceTransferResponse_bytes r5"
  by (simp_all add: fits_def MsgMintResponse_bytes_def MsgBurnResponse_bytes_def MsgChangeAdminResponse_bytes_def
      MsgSetDenomMetadataResponse_bytes_def MsgForceTransferResponse_bytes_def)

lemmas server_simps = marshal_defs [abs_def] Msg_methods_def Query_methods_def handler_defs full_method_def

lemma msg_client_calls:
  fixes s srv q
  assumes G: "grpc_laws G" and CC: "codec_ok CC cenc" and MC: "codec_ok MC menc"
  defines "client \<equiv> NewMsgClient G CC MC (token_factory_server G CC MC s srv q)"
  shows "length (MsgCreateDenom_bytes m1) < 2 ^ 63 \<Longrightarrow> fits MsgCreateDenomResponse_bytes (srv_CreateDenom srv m1 c) \<Longrightarrow>
      srv_CreateDenom client m1 c = on_wire (status_error G) id (srv_CreateDenom srv m1 c)"
    and "length (MsgMint_bytes cenc m2) < 2 ^ 63 \<Longrightarrow>
      srv_Mint client m2 c = on_wire (status_error G) id (srv_Mint srv m2 c)"
    and "length (MsgBurn_bytes cenc m3) < 2 ^ 63 \<Longrightarrow>
      srv_Burn client m3 c = on_wire (status_error G) id (srv_Burn srv m3 c)"
    and "length (MsgChangeAdmin_bytes m4) < 2 ^ 63 \<Longrightarrow>
      srv_ChangeAdmin client m4 c = on_wire (status_error G) id (srv_ChangeAdmin srv m4 c)"
    and "length (MsgSetDenomMetadata_bytes menc m5) < 2 ^ 63 \<Longrightarrow>
      srv_SetDenomMetadata client m5 c = on_wire (status_error G) id (srv_SetDenomMetadata srv m5 c)"
    and "length (MsgForceTransfer_bytes cenc m6) < 2 ^ 63 \<Longrightarrow>
      srv_ForceTransfer client m6 c = on_wire (status_error G) id (srv_ForceTransfer srv m6 c)"
proof -
  note path = Invoke_msg [OF G, of _ _ CC MC srv]
  show "srv_CreateDenom client m1 c = on_wire (status_error G) id (srv_CreateDenom srv m1 c)"
    if "length (MsgCreateDenom_bytes m1) < 2 ^ 63" and "fits MsgCreateDenomResponse_bytes (srv_CreateDenom srv m1 c)"
    unfolding client_def NewMsgClient_def msg_service.simps MsgClient_CreateDenom_def MsgCreateDenom_Marshal_def [abs_def]
    by (rule call_method [where impl = "srv_CreateDenom srv" and m = m1 and c = c,
        OF G MsgCreateDenom_codec.proto_message_axioms MsgCreateDenomResponse_codec.proto_message_axioms _ that],
      rule path [of "''CreateDenom''"]) (simp_all add: server_simps)
  show "srv_Mint client m2 c = on_wire (status_error G) id (srv_Mint srv m2 c)"
    if "length (MsgMint_bytes cenc m2) < 2 ^ 63"
    unfolding client_def NewMsgClient_def msg_service.simps MsgClient_Mint_def MsgMint_Marshal_def [abs_def]
    by (rule call_method [where impl = "srv_Mint srv" and m = m2 and c = c,
        OF G MsgMint_codec [OF CC] MsgMintResponse_codec.proto_message_axioms _ that no_response_fits(1)],
      rule path [of "''Mint''"]) (simp_all add: server_simps)
  show "srv_Burn client m3 c = on_wire (status_error G) id (srv_Burn srv m3 c)"
    if "length (MsgBurn_bytes cenc m3) < 2 ^ 63"
    unfolding client_def NewMsgClient_def msg_service.simps MsgClient_Burn_def MsgBurn_Marshal_def [abs_def]
    by (rule call_method [where impl = "srv_Burn srv" and m = m3 and c = c,
        OF G MsgBurn_codec [OF CC] MsgBurnResponse_codec.proto_message_axioms _ that no_response_fits(2)],
      rule path [of "''Burn''"]) (simp_all add: server_simps)
  show "srv_ChangeAdmin client m4 c = on_wire (status_error G) id (srv_ChangeAdmin srv m4 c)"
    if "length (MsgChangeAdmin_bytes m4) < 2 ^ 63"
    unfolding client_def NewMsgClient_def msg_service.simps MsgClient_ChangeAdmin_def MsgChangeAdmin_Marshal_def [abs_def]
    by (rule call_method [where impl = "srv_ChangeAdmin srv" and m = m4 and c = c,
        OF G MsgChangeAdmin_codec.proto_message_axioms MsgChangeAdminResponse_codec.proto_message_axioms _ that
        no_response_fits(3)], rule path [of "''ChangeAdmin''"]) (simp_all add: server_simps)
  show "srv_SetDenomMetadata client m5 c = on_wire (status_error G) id (srv_SetDenomMetadata srv m5 c)"
    if "length (MsgSetDenomMetadata_bytes menc m5) < 2 ^ 63"
    unfolding client_def NewMsgClient_def msg_service.simps MsgClient_SetDenomMetadata_def MsgSetDenomMetadata_Marshal_def [abs_def]
    by (rule call_method [where impl = "srv_SetDenomMetadata srv" and m = m5 and c = c,
        OF G MsgSetDenomMetadata_codec [OF MC] MsgSetDenomMetadataResponse_codec.proto_message_axioms _ that
        no_response_fits(4)], rule path [of "''SetDenomMetadata''"]) (simp_all add: server_simps)
  show "srv_ForceTransfer client m6 c = on_wire (status_error G) id (srv_ForceTransfer srv m6 c)"
    if "length (MsgForceTransfer_bytes cenc m6) < 2 ^ 63"
    unfolding client_def NewMsgClient_def msg_service.simps MsgClient_ForceTransfer_def MsgForceTransfer_Marshal_def [abs_def]
    by (rule call_method [where impl = "srv_ForceTransfer srv" and m = m6 and c = c,
        OF G MsgForceTransfer_codec [OF CC] MsgForceTransferResponse_codec.proto_message_axioms _ that
        no_response_fits(5)], rule path [of "''ForceTransfer''"]) (simp_all add: server_simps)
qed

lemma query_client_calls:
  fixes s srv q MC
  assumes G: "grpc_laws G" and CC: "codec_ok CC cenc"
  defines "client \<equiv> NewQueryClient G CC (token_factory_server G CC MC s srv q)"
  shows "fits (QueryParamsResponse_bytes cenc) (srv_Params q r1 c) \<Longrightarrow>
      srv_Params client r1 c = on_wire (status_error G) QueryParamsResponse_norm (srv_Params q r1 c)"
    and "length (QueryDenomAuthorityMetadataRequest_bytes r2) < 2 ^ 63 \<Longrightarrow>
      fits QueryDenomAuthorityMetadataResponse_bytes (srv_DenomAuthorityMetadata q r2 c) \<Longrightarrow>
      srv_DenomAuthorityMetadata client r2 c = on_wire (status_error G) id (srv_DenomAuthorityMetadata q r2 c)"
    and "length (QueryDenomsFromCreatorRequest_bytes r3) < 2 ^ 63 \<Longrightarrow>
      fits QueryDenomsFromCreatorResponse_bytes (srv_DenomsFromCreator q r3 c) \<Longrightarrow>
      srv_DenomsFromCreator client r3 c = on_wire (status_error G) id (srv_DenomsFromCreator q r3 c)"
proof -
  note path = Invoke_query [OF G, of _ _ CC q]
  have len: "length (QueryParamsRequest_bytes r1) < 2 ^ 63" by (simp add: QueryParamsRequest_bytes_def)
  show "srv_Params client r1 c = on_wire (status_error G) QueryParamsResponse_norm (srv_Params q r1 c)"
    if "fits (QueryParamsResponse_bytes cenc) (srv_Params q r1 c)"
    unfolding client_def NewQueryClient_def query_service.simps QueryClient_Params_def QueryParamsRequest_Marshal_def [abs_def]
    by (rule call_method [where impl = "srv_Params q" and m = r1 and c = c,
        OF G QueryParamsRequest_codec.proto_message_axioms QueryParamsResponse_codec [OF CC] _ len that],
      rule path [of "''Params''"]) (simp_all add: server_simps)
  show "srv_DenomAuthorityMetadata client r2 c = on_wire (status_error G) id (srv_DenomAuthorityMetadata q r2 c)"
    if "length (QueryDenomAuthorityMetadataRequest_bytes r2) < 2 ^ 63"
      and "fits QueryDenomAuthorityMetadataResponse_bytes (srv_DenomAuthorityMetadata q r2 c)"
    unfolding client_def NewQueryClient_def query_service.simps QueryClient_DenomAuthorityMetadata_def
      QueryDenomAuthorityMetadataRequest_Marshal_def [abs_def]
    by (rule call_method [where impl = "srv_DenomAuthorityMetadata q" and m = r2 and c = c,
        OF G QueryDenomAuthorityMetadataRequest_codec.proto_message_axioms
        QueryDenomAuthorityMetadataResponse_codec.proto_message_axioms _ that],
      rule path [of "''DenomAuthorityMetadata''"]) (simp_all add: server_simps)
  show "srv_DenomsFromCreator client r3 c = on_wire (status_error G) id (srv_DenomsFromCreator q r3 c)"
    if "length (QueryDenomsFromCreatorRequest_bytes r3) < 2 ^ 63"
      and "fits QueryDenomsFromCreatorResponse_bytes (srv_DenomsFromCreator q r3 c)"
    unfolding client_def NewQueryClient_def query_service.simps QueryClient_DenomsFromCreator_def
      QueryDenomsFromCreatorRequest_Marshal_def [abs_def]
    by (rule call_method [where impl = "srv_DenomsFromCreator q" and m = r3 and c = c,
        OF G QueryDenomsFromCreatorRequest_codec.proto_message_axioms
        QueryDenomsFromCreatorResponse_codec.proto_message_axioms _ that],
      rule path [of "''DenomsFromCreator''"]) (simp_all add: server_simps)
qed

section \<open>REST over a connection\<close>

text \<open>A request through a connection answers as the same request to the server in the process: errors of the gateway
  itself are the same, those of the server arrive as their status.\<close>

lemma metadata_request_length: "length (QueryDenomAuthorityMetadataRequest_bytes r) \<le> length (qdam_Denom r) + 11"
  using sov_le_10 [of "of_nat (length (qdam_Denom r))"]
  by (simp add: QueryDenomAuthorityMetadataRequest_bytes_def field_lengths string_size_def Let_def)

lemma denoms_request_length: "length (QueryDenomsFromCreatorRequest_bytes r) \<le> length (qdfc_Creator r) + 11"
  using sov_le_10 [of "of_nat (length (qdfc_Creator r))"]
  by (simp add: QueryDenomsFromCreatorRequest_bytes_def field_lengths string_size_def Let_def)

lemma rest_over_connection:
  fixes s srv q MC
  assumes G: "grpc_laws G" and CC: "codec_ok CC cenc" and W: "gateway_laws W"
    and short: "\<And>v x. ps v = Some x \<Longrightarrow> length x < 2 ^ 62"
  defines "client \<equiv> NewQueryClient G CC (token_factory_server G CC MC s srv q)"
  shows "fits (QueryParamsResponse_bytes cenc) (srv_Params q QueryParamsRequest_zero c) \<Longrightarrow>
      request_Query_Params_0 (srv_Params client) ps c =
        on_wire (status_error G) QueryParamsResponse_norm (local_request_Query_Params_0 (srv_Params q) ps c)"
    and "(\<And>r. fits QueryDenomAuthorityMetadataResponse_bytes (srv_DenomAuthorityMetadata q r c)) \<Longrightarrow>
      \<exists>f \<in> {id, status_error G}. request_Query_DenomAuthorityMetadata_0 W (srv_DenomAuthorityMetadata client) ps c =
        on_wire f id (local_request_Query_DenomAuthorityMetadata_0 W (srv_DenomAuthorityMetadata q) ps c)"
    and "(\<And>r. fits QueryDenomsFromCreatorResponse_bytes (srv_DenomsFromCreator q r c)) \<Longrightarrow>
      \<exists>f \<in> {id, status_error G}. request_Query_DenomsFromCreator_0 W (srv_DenomsFromCreator client) ps c =
        on_wire f id (local_request_Query_DenomsFromCreator_0 W (srv_DenomsFromCreator q) ps c)"
proof -
  note calls = query_client_calls [OF G CC, where s = s and srv = srv and q = q and MC = MC and c = c, folded client_def]
  show "request_Query_Params_0 (srv_Params client) ps c =
      on_wire (status_error G) QueryParamsResponse_norm (local_request_Query_Params_0 (srv_Params q) ps c)"
    if "fits (QueryParamsResponse_bytes cenc) (srv_Params q QueryParamsRequest_zero c)"
    unfolding request_Query_Params_0_def local_request_Query_Params_0_def by (rule calls(1) [OF that])
  show "\<exists>f \<in> {id, status_error G}. request_Query_DenomAuthorityMetadata_0 W (srv_DenomAuthorityMetadata client) ps c =
      on_wire f id (local_request_Query_DenomAuthorityMetadata_0 W (srv_DenomAuthorityMetadata q) ps c)"
    if fit: "\<And>r. fits QueryDenomAuthorityMetadataResponse_bytes (srv_DenomAuthorityMetadata q r c)"
  proof (cases "ps ''denom''")
    case None
    then show ?thesis
      by (simp add: request_Query_DenomAuthorityMetadata_0_def local_request_Query_DenomAuthorityMetadata_0_def path_param_eq [OF W]
          bindM_liftM)
  next
    case (Some x)
    let ?r = "QueryDenomAuthorityMetadataRequest_zero\<lparr>qdam_Denom := x\<rparr>"
    have "length (QueryDenomAuthorityMetadataRequest_bytes ?r) < 2 ^ 63"
      using metadata_request_length [of ?r] short [OF Some] by simp
    from calls(2) [OF this fit] Some show ?thesis
      by (simp add: request_Query_DenomAuthorityMetadata_0_def local_request_Query_DenomAuthorityMetadata_0_def path_param_eq [OF W]
          bindM_liftM)
  qed
  show "\<exists>f \<in> {id, status_error G}. request_Query_DenomsFromCreator_0 W (srv_DenomsFromCreator client) ps c =
      on_wire f id (local_request_Query_DenomsFromCreator_0 W (srv_DenomsFromCreator q) ps c)"
    if fit: "\<And>r. fits QueryDenomsFromCreatorResponse_bytes (srv_DenomsFromCreator q r c)"
  proof (cases "ps ''creator''")
    case None
    then show ?thesis
      by (simp add: request_Query_DenomsFromCreator_0_def local_request_Query_DenomsFromCreator_0_def path_param_eq [OF W] bindM_liftM)
  next
    case (Some x)
    let ?r = "QueryDenomsFromCreatorRequest_zero\<lparr>qdfc_Creator := x\<rparr>"
    have "length (QueryDenomsFromCreatorRequest_bytes ?r) < 2 ^ 63"
      using denoms_request_length [of ?r] short [OF Some] by simp
    from calls(3) [OF this fit] Some show ?thesis
      by (simp add: request_Query_DenomsFromCreator_0_def local_request_Query_DenomsFromCreator_0_def path_param_eq [OF W] bindM_liftM)
  qed
qed

end
