(* ===== verification/Commands.thy ===== *)
theory Commands
  imports Clients Cli
begin

text \<open>
  The commands of \<open>client/cli\<close> from their arguments to their effect: \<open>RunE\<close> of a transaction command hands the message it built to
  the SDK, which broadcasts it; \<open>RunE\<close> of a query command calls the module's query client over the connection of the client
  context and prints the response. Broadcasting and printing are parameters.
\<close>

section \<open>Transactions\<close>

text \<open>\<open>broadcast\<close> is \<open>tx.GenerateOrBroadcastTxWithFactory\<close> with the context and the factory that the command made from its
  flags.\<close>

definition NewCreateDenomCmd_RunE ::
  "('k, 'w) sdk \<Rightarrow> (Msg \<Rightarrow> ('s, unit) action) \<Rightarrow> bytes result \<Rightarrow> string list \<Rightarrow> ('s, unit) action" where
  "NewCreateDenomCmd_RunE E broadcast clientCtx args =
    bindM (liftM (NewCreateDenomCmd E clientCtx args)) (\<lambda>msg. broadcast (CreateDenomMsg msg))"

definition NewMintCmd_RunE ::
  "('k, 'w) sdk \<Rightarrow> (string \<Rightarrow> coin result) \<Rightarrow> (Msg \<Rightarrow> ('s, unit) action) \<Rightarrow> bytes result \<Rightarrow> string list \<Rightarrow> ('s, unit) action" where
  "NewMintCmd_RunE E ParseCoinNormalized broadcast clientCtx args =
    bindM (liftM (NewMintCmd E ParseCoinNormalized clientCtx args)) (\<lambda>msg. broadcast (MintMsg msg))"

definition NewBurnCmd_RunE ::
  "('k, 'w) sdk \<Rightarrow> (string \<Rightarrow> coin result) \<Rightarrow> (Msg \<Rightarrow> ('s, unit) action) \<Rightarrow> bytes result \<Rightarrow> string list \<Rightarrow> ('s, unit) action" where
  "NewBurnCmd_RunE E ParseCoinNormalized broadcast clientCtx args =
    bindM (liftM (NewBurnCmd E ParseCoinNormalized clientCtx args)) (\<lambda>msg. broadcast (BurnMsg msg))"

definition NewChangeAdminCmd_RunE ::
  "('k, 'w) sdk \<Rightarrow> (Msg \<Rightarrow> ('s, unit) action) \<Rightarrow> bytes result \<Rightarrow> string list \<Rightarrow> ('s, unit) action" where
  "NewChangeAdminCmd_RunE E broadcast clientCtx args =
    bindM (liftM (NewChangeAdminCmd E clientCtx args)) (\<lambda>msg. broadcast (ChangeAdminMsg msg))"

section \<open>Queries\<close>

definition GetCmdDenomAuthorityMetadata_RunE ::
  "('srv, 'k, 'w) grpc \<Rightarrow> coin codec \<Rightarrow> (QueryDenomAuthorityMetadataResponse \<Rightarrow> ('k, 'w, unit) keeper) \<Rightarrow>
    'srv result \<Rightarrow> string list \<Rightarrow> ('k, 'w, unit) keeper" where
  "GetCmdDenomAuthorityMetadata_RunE G CC PrintProto clientCtx args =
    bindM (liftM (GetCmdDenomAuthorityMetadata (andThen clientCtx (\<lambda>_. Inr ())) args)) (\<lambda>req.
    bindM (liftM clientCtx) (\<lambda>conn.
    bindM (srv_DenomAuthorityMetadata (NewQueryClient G CC conn) req) (\<lambda>res.
      PrintProto res)))"

definition GetCmdDenomsFromCreator_RunE ::
  "('srv, 'k, 'w) grpc \<Rightarrow> coin codec \<Rightarrow> (QueryDenomsFromCreatorResponse \<Rightarrow> ('k, 'w, unit) keeper) \<Rightarrow>
    'srv result \<Rightarrow> string list \<Rightarrow> ('k, 'w, unit) keeper" where
  "GetCmdDenomsFromCreator_RunE G CC PrintProto clientCtx args =
    bindM (liftM (GetCmdDenomsFromCreator (andThen clientCtx (\<lambda>_. Inr ())) args)) (\<lambda>req.
    bindM (liftM clientCtx) (\<lambda>conn.
    bindM (srv_DenomsFromCreator (NewQueryClient G CC conn) req) (\<lambda>res.
      PrintProto res)))"

section \<open>What a query command prints\<close>

text \<open>Over a connection to a node that runs the module, the commands print what the query server answers there.\<close>

lemma denoms_command_prints:
  fixes s :: 'srv
  assumes laws: "grpc_laws G" "codec_ok CC cenc" and len: "length (QueryDenomsFromCreatorRequest_bytes \<lparr>qdfc_Creator = a\<rparr>) < 2 ^ 63"
    and fit: "length (QueryDenomsFromCreatorResponse_bytes \<lparr>Denoms = getDenomsFromCreator E a c\<rparr>) < 2 ^ 63"
  shows "GetCmdDenomsFromCreator_RunE G CC pr (Inr (token_factory_server G CC MC s srv (Keeper_QueryServer E))) [a] c =
    pr \<lparr>Denoms = getDenomsFromCreator E a c\<rparr> c"
proof -
  have q: "srv_DenomsFromCreator (Keeper_QueryServer E) \<lparr>qdfc_Creator = a\<rparr> c = (Inr \<lparr>Denoms = getDenomsFromCreator E a c\<rparr>, c)"
    by (simp add: Keeper_QueryServer_def Query_DenomsFromCreator_def bindM_basic action_simps)
  have "srv_DenomsFromCreator (NewQueryClient G CC (token_factory_server G CC MC s srv (Keeper_QueryServer E))) \<lparr>qdfc_Creator = a\<rparr> c
      = (Inr \<lparr>Denoms = getDenomsFromCreator E a c\<rparr>, c)"
    using query_client_calls(3) [OF laws len, of "Keeper_QueryServer E" c] fit by (simp add: q fits_def)
  then show ?thesis
    by (simp add: GetCmdDenomsFromCreator_RunE_def GetCmdDenomsFromCreator_def ExactArgs_def arg_def bindM_basic bindM_liftM bindM_runs)
qed

lemma metadata_command_prints:
  fixes s :: 'srv
  assumes laws: "grpc_laws G" "codec_ok CC cenc" and len: "length (QueryDenomAuthorityMetadataRequest_bytes \<lparr>qdam_Denom = d\<rparr>) < 2 ^ 63"
    and am: "GetAuthorityMetadata E d c = (Inr am, c)"
    and fit: "length (QueryDenomAuthorityMetadataResponse_bytes \<lparr>qdam_AuthorityMetadata = am\<rparr>) < 2 ^ 63"
  shows "GetCmdDenomAuthorityMetadata_RunE G CC pr (Inr (token_factory_server G CC MC s srv (Keeper_QueryServer E))) [d] c =
    pr \<lparr>qdam_AuthorityMetadata = am\<rparr> c"
proof -
  have q: "srv_DenomAuthorityMetadata (Keeper_QueryServer E) \<lparr>qdam_Denom = d\<rparr> c = (Inr \<lparr>qdam_AuthorityMetadata = am\<rparr>, c)"
    using am by (simp add: Keeper_QueryServer_def Query_DenomAuthorityMetadata_def bindM_runs action_simps)
  have "srv_DenomAuthorityMetadata (NewQueryClient G CC (token_factory_server G CC MC s srv (Keeper_QueryServer E)))
      \<lparr>qdam_Denom = d\<rparr> c = (Inr \<lparr>qdam_AuthorityMetadata = am\<rparr>, c)"
    using query_client_calls(2) [OF laws len, of "Keeper_QueryServer E" c] fit by (simp add: q fits_def)
  then show ?thesis
    by (simp add: GetCmdDenomAuthorityMetadata_RunE_def GetCmdDenomAuthorityMetadata_def ExactArgs_def arg_def bindM_basic
        bindM_liftM bindM_runs)
qed

text \<open>Broadcasting that delivers a valid message as a transaction of its own.\<close>

definition delivers :: "('k, 'w) sdk \<Rightarrow> (Msg \<Rightarrow> ('k, 'w, unit) keeper) \<Rightarrow> bool" where
  "delivers E broadcast \<longleftrightarrow> (\<forall>m c. broadcast m c = deliver_tx E [m] c)"

end
