(* ===== verification/SampleClients.thy ===== *)
theory SampleClients
  imports Commands SampleGateway SampleMeta SampleLaws
begin

text \<open>
  An instance of gRPC for the witnesses: a server is a list of paths with their methods, and every error arrives
  as the text of an unknown status.
\<close>

type_synonym sample_server = "(string \<times> (chain_store, chain) grpc_method) list"

definition sample_status :: "error \<Rightarrow> error" where
  "sample_status e = ErrSDK ''rpc error: code = Unknown''"

definition sample_grpc :: "(sample_server, chain_store, chain) grpc" where
  "sample_grpc = \<lparr>
     RegisterService = (\<lambda>s service methods. map (\<lambda>(name, h). (full_method service name, h)) methods @ s),
     Invoke = (\<lambda>s path bz c. case map_of s path of
         None \<Rightarrow> (Inl (ErrSDK ''rpc error: code = Unimplemented''), c)
       | Some h \<Rightarrow> on_wire sample_status id (h bz c)),
     status_error = sample_status\<rparr>"

lemma full_method_inject: "full_method service n = full_method service n' \<longleftrightarrow> n = n'"
  by (simp add: full_method_def)

lemma map_of_methods:
  "map_of (map (\<lambda>(name, h). (full_method service name, h)) methods) (full_method service n) = map_of methods n"
  by (induction methods) (auto simp: full_method_inject)

lemma map_of_other:
  "path \<notin> full_method service ` fst ` set methods \<Longrightarrow>
    map_of (map (\<lambda>(name, h). (full_method service name, h)) methods) path = None"
  by (induction methods) auto

lemma sample_grpc_laws: "grpc_laws sample_grpc"
  unfolding grpc_laws_def
  by (auto simp: sample_grpc_def map_of_methods map_of_other map_add_def fun_eq_iff split: option.split)

definition sample_node :: sample_server where
  "sample_node = token_factory_server sample_grpc coin_codec meta_codec [] (NewMsgServerImpl chain_sdk) (Keeper_QueryServer chain_sdk)"

text \<open>What the node prints after the creation of gold.\<close>

lemma gold_listed: "getDenomsFromCreator chain_sdk alice gold_ctx = [gold]"
  by code_simp

lemma gold_answer_length: "length (QueryDenomsFromCreatorResponse_bytes \<lparr>Denoms = [gold]\<rparr>) < 100"
  by code_simp

end
