(* ===== verification/SampleCaps.thy ===== *)
theory SampleCaps
  imports SampleLaws
begin

text \<open>
  The sample chain with bech32's second spelling: a text in capitals decodes like the same text in small letters. Alice
  creates a denom under the capital spelling of her address.
\<close>

definition capital_chars :: "char set" where
  "capital_chars = set ''0123456789ABCDEFGHIJKLMNOPQRSTUVWXYZ''"

definition small :: "char \<Rightarrow> char" where
  "small ch = (if (65::nat) \<le> of_char ch \<and> of_char ch \<le> (90::nat) then char_of (of_char ch + 32 :: nat) else ch)"

definition caps_address :: "string \<Rightarrow> bytes result" where
  "caps_address s = chain_address (if list_all (\<lambda>ch. ch \<in> capital_chars) s then map small s else s)"

definition caps_sdk :: "(chain_store, chain) sdk" where
  "caps_sdk = chain_sdk\<lparr>AccAddressFromBech32 := caps_address\<rparr>"

definition ALICE :: string where
  "ALICE = ''OSMO1ALICE''"

lemma address_ALICE: "caps_address ALICE = Inr (bytes_of_string ''alice'')" "caps_address alice = Inr (bytes_of_string ''alice'')"
  by code_simp+

section \<open>It obeys the laws\<close>

lemma caps_ops:
  "ValidateDenom caps_sdk = ValidateDenom chain_sdk" "Coins_Validate caps_sdk = Coins_Validate chain_sdk"
  "NewCoins caps_sdk = NewCoins chain_sdk" "store_Get caps_sdk = store_Get chain_sdk" "store_Set caps_sdk = store_Set chain_sdk"
  "store_Iterator caps_sdk = store_Iterator chain_sdk" "GetParamSet caps_sdk = GetParamSet chain_sdk"
  "SetParamSet caps_sdk = SetParamSet chain_sdk" "ConsumeGas caps_sdk = ConsumeGas chain_sdk"
  "GetDenomMetaData caps_sdk = GetDenomMetaData chain_sdk" "SetDenomMetaData caps_sdk = SetDenomMetaData chain_sdk"
  "SendCoinsFromModuleToAccount caps_sdk = SendCoinsFromModuleToAccount chain_sdk"
  "SendCoinsFromAccountToModule caps_sdk = SendCoinsFromAccountToModule chain_sdk" "MintCoins caps_sdk = MintCoins chain_sdk"
  "BurnCoins caps_sdk = BurnCoins chain_sdk" "SendCoins caps_sdk = SendCoins chain_sdk"
  "GetModuleAccount caps_sdk = GetModuleAccount chain_sdk" "FundCommunityPool caps_sdk = FundCommunityPool chain_sdk"
  "HasSupply caps_sdk = HasSupply chain_sdk" "AccAddress_String caps_sdk = AccAddress_String chain_sdk"
  "Coin_IsValid caps_sdk = Coin_IsValid chain_sdk" "Metadata_Validate caps_sdk = Metadata_Validate chain_sdk"
  by (simp_all add: caps_sdk_def)

lemma no_capitals: "CHR ''o'' \<notin> capital_chars" "CHR ''/'' \<notin> capital_chars" "CHR ''|'' \<notin> capital_chars"
  by (simp_all add: capital_chars_def)

lemma chain_address_string_small: "chain_address s = Inr a \<Longrightarrow> \<not> list_all (\<lambda>ch. ch \<in> capital_chars) s"
proof
  assume addr: "chain_address s = Inr a" and caps: "list_all (\<lambda>ch. ch \<in> capital_chars) s"
  have "take 5 s = ''osmo1''"
    using addr by (simp add: chain_address_def del: list_all_iff split: if_splits)
  then have "set ''osmo1'' \<subseteq> set s"
    using set_take_subset [of 5 s] by (simp del: set_simps insert_subset)
  with caps no_capitals(1) show False by (auto simp: list_all_iff)
qed

lemma caps_bech32_laws: "bech32_laws caps_sdk"
proof -
  have "CHR ''/'' \<notin> set s \<and> CHR ''|'' \<notin> set s \<and> length s \<le> 1023 \<and> caps_address (chain_address_string a) = Inr a \<and>
      CHR ''/'' \<notin> set (chain_address_string a) \<and> CHR ''|'' \<notin> set (chain_address_string a)"
    if a: "caps_address s = Inr a" for s a
  proof -
    obtain t where t: "chain_address t = Inr a" "length t = length s"
      and s: "list_all (\<lambda>ch. ch \<in> capital_chars) s \<or> s = t"
      using a unfolding caps_address_def by (cases "list_all (\<lambda>ch. ch \<in> capital_chars) s") simp_all
    note eq = chain_address_string_eq [OF t(1)]
    have "CHR ''/'' \<notin> set s \<and> CHR ''|'' \<notin> set s"
      using s eq(3,4) no_capitals(2,3) by (auto simp: list_all_iff)
    then show ?thesis
      using eq t chain_address_string_small [OF t(1)] by (simp add: caps_address_def)
  qed
  moreover have "\<exists>e. caps_address '''' = Inl e" by (simp add: caps_address_def chain_address_def)
  ultimately show ?thesis by (simp add: bech32_laws_def caps_sdk_def chain_sdk_def)
qed

lemma caps_other_laws:
  "store_laws caps_sdk" "denom_laws caps_sdk" "coins_laws caps_sdk" "metadata_laws caps_sdk" "param_laws caps_sdk"
  using chain_store_laws chain_denom_laws chain_coins_laws chain_metadata_laws chain_param_laws
  unfolding store_laws_def denom_laws_def coins_laws_def metadata_laws_def metadata_kept_def param_laws_def caps_ops .

lemma caps_sdk_laws: "sdk_laws caps_sdk"
  by (simp add: sdk_laws_def caps_bech32_laws caps_other_laws)

section \<open>A denom under a capital spelling\<close>

definition caps_genesis :: GenesisState where
  "caps_genesis = \<lparr>gs_Params = sample_params, FactoryDenoms = []\<rparr>"

lemma caps_valid: "GenesisState_Validate caps_sdk caps_genesis = Inr ()"
  by code_simp

lemma caps_init: "InitGenesis caps_sdk caps_genesis empty_ctx = (Inr (), params_ctx)"
proof -
  have keys: "KeyDenomCreationGasConsume \<noteq> KeyDenomCreationFee"
    by (simp add: KeyDenomCreationFee_def KeyDenomCreationGasConsume_def)
  have valid: "list_all valid_pair (ParamSetPairs caps_sdk sample_params)"
    unfolding valid_pairs by code_simp
  have "genesis_params caps_sdk caps_genesis = sample_params"
    by (simp add: genesis_params_def caps_genesis_def sample_params_def NewParams_def)
  moreover have "SetParamSet caps_sdk (world empty_ctx) (ParamSetPairs caps_sdk sample_params) = (Inr (), world params_ctx)"
    using chain_SetParamSet_ok [OF valid] keys
    by (simp add: caps_ops chain_ops params_ctx_def empty_ctx_def ParamSetPairs_def fun_upd_twist)
  ultimately have "SetParams caps_sdk (genesis_params caps_sdk caps_genesis) empty_ctx = (Inr (), params_ctx)"
    by (simp add: SetParams_def worldM_def) (simp add: params_ctx_def)
  moreover have "CreateModuleAccount caps_sdk empty_ctx = (Inr (), empty_ctx)"
    by (simp add: CreateModuleAccount_def worldM_def caps_ops chain_ops)
  ultimately show ?thesis
    unfolding InitGenesis_eq_Inr [OF caps_other_laws(3) caps_bech32_laws] by (simp add: caps_genesis_def)
qed

lemma caps_params_reachable: "reachable caps_sdk params_ctx"
  unfolding reachable_def
  by (rule reach.start) (use caps_init empty_store in \<open>auto simp: genesis_ctx_def caps_ops\<close>)

definition GOLD :: string where
  "GOLD = ''factory/OSMO1ALICE/gold''"

definition caps_ctx :: "(chain_store, chain) ctx" where
  "caps_ctx = snd (deliver_tx caps_sdk [CreateDenomMsg (NewMsgCreateDenom ALICE ''gold'')] params_ctx)"

lemma caps_GetParams: "GetParams caps_sdk params_ctx = (Inr sample_params, params_ctx)"
  by (simp add: GetParams_def param_keys params_ctx_def caps_ops chain_ops run_simps sample_params_def NewParams_def
      KeyDenomCreationFee_def KeyDenomCreationGasConsume_def)

lemma caps_charge: "\<exists>c. chargeForCreateDenom caps_sdk ALICE params_ctx = (Inr (), c)"
  using caps_GetParams address_ALICE
  by (simp add: chargeForCreateDenom_def bindM_def action_simps caps_ops chain_ops caps_sdk_def worldM_def chain_Send_def
      chain_pays_def amount_of_def params_ctx_def empty_ctx_def sample_params_def NewParams_def chain_move_def)

lemma caps_created: "deliver_tx caps_sdk [CreateDenomMsg (NewMsgCreateDenom ALICE ''gold'')] params_ctx = (Inr (), caps_ctx)"
proof -
  have d: "GetTokenDenom caps_sdk ALICE ''gold'' = Inr GOLD" by code_simp
  have v: "MsgCreateDenom_ValidateBasic caps_sdk (NewMsgCreateDenom ALICE ''gold'') = Inr ()" by code_simp
  have ok: "admin_ok caps_sdk ALICE" using address_ALICE by (simp add: admin_ok_def caps_sdk_def)
  obtain c where "CreateDenom caps_sdk ALICE ''gold'' params_ctx = (Inr GOLD, c)"
    using caps_charge d ok unfolding CreateDenom_eq_Inr
    by (auto simp: caps_ops chain_ops params_ctx_def empty_ctx_def)
  then have "\<exists>c. deliver_tx caps_sdk [CreateDenomMsg (NewMsgCreateDenom ALICE ''gold'')] params_ctx = (Inr (), c)"
    using v by (auto simp: deliver_tx_eq_Inr bindM_eq_Inr ignore_eq_Inr CreateDenom_handler_eq_Inr
        NewMsgCreateDenom_def action_simps)
  then show ?thesis by (auto simp: caps_ctx_def)
qed

lemma caps_reachable: "reachable caps_sdk caps_ctx"
  using caps_params_reachable caps_created by (rule reachable_tx)

lemma caps_empty_store: "\<forall>p k. store_Get caps_sdk (store empty_ctx) p k = None"
  using empty_store by (simp only: caps_ops simp_thms)

lemma caps_empty: "admins caps_sdk (store params_ctx) = Map.empty"
proof -
  have "store_Get caps_sdk (store empty_ctx) p k = None" for p k
    using caps_empty_store by blast
  from InitGenesis_canonical(2) [OF caps_other_laws(1) caps_bech32_laws caps_other_laws(4,3) this caps_init]
  show ?thesis by (simp add: caps_genesis_def)
qed

lemma caps_admins: "admins caps_sdk (store caps_ctx) = [GOLD \<mapsto> ALICE]"
proof -
  have "spec_msgs [CreateDenomMsg (NewMsgCreateDenom ALICE ''gold'')] Map.empty = Some (admins caps_sdk (store caps_ctx))"
    using deliver_tx_admins [OF caps_sdk_laws reachable_Inv [OF caps_sdk_laws caps_params_reachable] caps_created]
    unfolding caps_empty .
  moreover have "spec_msgs [CreateDenomMsg (NewMsgCreateDenom ALICE ''gold'')] Map.empty = Some [GOLD \<mapsto> ALICE]"
    by (simp add: NewMsgCreateDenom_def GOLD_def ALICE_def)
  ultimately show ?thesis by simp
qed

lemma caps_listed: "listed caps_sdk (store caps_ctx) ALICE GOLD"
proof -
  obtain r where "MsgServer_CreateDenom caps_sdk (NewMsgCreateDenom ALICE ''gold'') params_ctx = (Inr r, caps_ctx)"
    using caps_created by (auto simp: deliver_tx_eq_Inr andThen_eq_Inr bindM_eq_Inr ignore_eq_Inr action_simps)
  from created_is_listed [OF caps_other_laws(1) this] show ?thesis
    by (simp add: NewMsgCreateDenom_def GOLD_def ALICE_def)
qed

section \<open>Exported, and imported again\<close>

lemma caps_params_frame_laws: "params_frame_laws caps_sdk"
  using chain_params_frame_laws unfolding params_frame_laws_def params_kept_def caps_ops .

lemma caps_ctx_GetParams: "GetParams caps_sdk caps_ctx = (Inr sample_params, caps_ctx)"
proof -
  have "Msg_handle caps_sdk (CreateDenomMsg (NewMsgCreateDenom ALICE ''gold'')) params_ctx = (Inr (), caps_ctx)"
    using caps_created by (auto simp: deliver_tx_eq_Inr bindM_eq_Inr action_simps)
  then have "same_param_space caps_sdk params_ctx caps_ctx"
    using Msg_handle_params_kept [OF caps_params_frame_laws] unfolding keeps_def by (metis snd_conv)
  then show ?thesis by (rule GetParams_frame [OF _ caps_GetParams])
qed

definition caps_state :: GenesisState where
  "caps_state = \<lparr>gs_Params = sample_params, FactoryDenoms = [\<lparr>gd_Denom = GOLD, gd_AuthorityMetadata = \<lparr>Admin = ALICE\<rparr>\<rparr>]\<rparr>"

lemma caps_exported: "ExportGenesis caps_sdk caps_ctx = (Inr caps_state, caps_ctx)"
proof -
  note inv = reachable_Inv [OF caps_sdk_laws caps_reachable]
  note exact = exported_denoms_exact [OF caps_other_laws(1) caps_bech32_laws inv]
  have one: "exported_denoms caps_sdk caps_ctx = [GOLD]"
  proof (cases "exported_denoms caps_sdk caps_ctx")
    case Nil
    then show ?thesis using exact(2) by (simp add: caps_admins)
  next
    case (Cons d ds)
    with exact(2) have "d = GOLD" "set ds \<subseteq> {GOLD}" by (auto simp: caps_admins)
    moreover have "d \<notin> set ds" using exact(1) Cons by simp
    ultimately show ?thesis using Cons by (cases ds) auto
  qed
  then show ?thesis
    using caps_ctx_GetParams
    by (simp add: ExportGenesis_eq_Inr [OF caps_bech32_laws InvD(1) [OF inv]] caps_state_def export_denom_def caps_admins admin_or_none_def)
qed

lemma caps_imported:
  obtains c where "InitGenesis caps_sdk caps_state empty_ctx = (Inr (), c)"
proof -
  have "GetModuleAccount caps_sdk ModuleName (world empty_ctx) = (Inr (), world empty_ctx)"
    by (simp add: caps_ops chain_ops)
  moreover have "GenesisState_Validate caps_sdk caps_state = Inr ()" by code_simp
  ultimately show ?thesis
    using that InitGenesis_valid [OF caps_other_laws(3) caps_bech32_laws caps_other_laws(5)] by metis
qed

end
