(* ===== verification/App.thy ===== *)
theory App
  imports AppGenesis Keys
begin

text \<open>
  \<open>simapp/app.go\<close>, \<open>simapp/encoding.go\<close> and \<open>simapp/genesis.go\<close>: how the example application is put together from the
  modules of the SDK and the token factory. A module is its name; the module manager is the list of
  modules it runs, with the orders in which it runs them.
\<close>

section \<open>Modules\<close>

datatype app_module =
    AuthModule | GenutilModule | BankModule | CapabilityModule | StakingModule | MintModule | DistrModule
  | GovModule | ParamsModule | CrisisModule | SlashingModule | FeegrantModule | UpgradeModule
  | EvidenceModule | AuthzModule | VestingModule | TokenfactoryModule

definition ModuleBasics :: "app_module list" where
  "ModuleBasics = [AuthModule, GenutilModule, BankModule, CapabilityModule, StakingModule, MintModule,
     DistrModule, GovModule, ParamsModule, CrisisModule, SlashingModule, FeegrantModule, UpgradeModule,
     EvidenceModule, AuthzModule, VestingModule, TokenfactoryModule]"

definition module_manager :: "app_module list" where
  "module_manager = [GenutilModule, AuthModule, VestingModule, BankModule, CapabilityModule, CrisisModule,
     FeegrantModule, GovModule, MintModule, SlashingModule, DistrModule, StakingModule, UpgradeModule,
     EvidenceModule, ParamsModule, AuthzModule, TokenfactoryModule]"

definition OrderBeginBlockers :: "app_module list" where
  "OrderBeginBlockers = [UpgradeModule, CapabilityModule, MintModule, DistrModule, SlashingModule,
     EvidenceModule, StakingModule, AuthModule, BankModule, GovModule, CrisisModule, GenutilModule,
     AuthzModule, FeegrantModule, ParamsModule, VestingModule, TokenfactoryModule]"

definition OrderEndBlockers :: "app_module list" where
  "OrderEndBlockers = [CrisisModule, GovModule, StakingModule, CapabilityModule, AuthModule, BankModule,
     DistrModule, SlashingModule, MintModule, GenutilModule, EvidenceModule, AuthzModule, FeegrantModule,
     ParamsModule, UpgradeModule, VestingModule, TokenfactoryModule]"

definition OrderInitGenesis :: "app_module list" where
  "OrderInitGenesis = [CapabilityModule, AuthModule, BankModule, DistrModule, StakingModule,
     SlashingModule, GovModule, MintModule, CrisisModule, GenutilModule, EvidenceModule, AuthzModule,
     FeegrantModule, ParamsModule, UpgradeModule, VestingModule, TokenfactoryModule]"

section \<open>Module accounts\<close>

datatype permission = Minter | Burner | Staking

datatype module_account =
    FeeCollector | DistrAccount | MintAccount | BondedPool | NotBondedPool | GovAccount | TokenfactoryAccount

definition maccPerms :: "(module_account \<times> permission list) list" where
  "maccPerms = [(FeeCollector, []), (DistrAccount, []), (MintAccount, [Minter]), (BondedPool, [Burner, Staking]),
     (NotBondedPool, [Burner, Staking]), (GovAccount, [Burner]), (TokenfactoryAccount, [Minter, Burner])]"

text \<open>A copy, entry by entry.\<close>

definition GetMaccPerms :: "(module_account \<times> permission list) list" where
  "GetMaccPerms = map (\<lambda>(k, v). (k, v)) maccPerms"

text \<open>\<open>authtypes.NewModuleAddress(acc).String()\<close> is the argument.\<close>

definition ModuleAccountAddrs :: "(module_account \<Rightarrow> string) \<Rightarrow> string \<Rightarrow> bool option" where
  "ModuleAccountAddrs module_address = map_of (map (\<lambda>(acc, _). (module_address acc, True)) maccPerms)"

section \<open>Stores and parameter spaces\<close>

datatype store_key =
    AuthStore | BankStore | StakingStore | MintStore | DistrStore | SlashingStore | GovStore | ParamsStore
  | UpgradeStore | FeegrantStore | EvidenceStore | CapabilityStore | AuthzStore | TokenfactoryStore

definition app_keys :: "store_key list" where
  "app_keys = [AuthStore, BankStore, StakingStore, MintStore, DistrStore, SlashingStore, GovStore,
     ParamsStore, UpgradeStore, FeegrantStore, EvidenceStore, CapabilityStore, AuthzStore, TokenfactoryStore]"

text \<open>\<open>initParamsKeeper\<close>: the modules that get a parameter space.\<close>

definition initParamsKeeper :: "app_module list" where
  "initParamsKeeper = [AuthModule, BankModule, StakingModule, MintModule, DistrModule, SlashingModule,
     GovModule, CrisisModule, TokenfactoryModule]"

text \<open>\<open>app.GetSubspace\<close> drops the flag: a module without a space gets the zero value, \<open>None\<close> here.\<close>

definition GetSubspace :: "app_module \<Rightarrow> app_module option" where
  "GetSubspace m = (if m \<in> set initParamsKeeper then Some m else None)"

definition GetKey :: "store_key \<Rightarrow> store_key option" where
  "GetKey k = (if k \<in> set app_keys then Some k else None)"

text \<open>Which store and parameter space \<open>NewSimApp\<close> gives the keeper of each module, and the keepers it is built from;
  the keeper of the staking module is shared by reference.\<close>

record keeper_wiring =
  kw_Store :: "store_key option"
  kw_Subspace :: "app_module option"
  kw_Keepers :: "app_module list"

definition wiring :: "(app_module \<times> keeper_wiring) list" where
  "wiring = [
     (CapabilityModule, \<lparr>kw_Store = GetKey CapabilityStore, kw_Subspace = None, kw_Keepers = []\<rparr>),
     (AuthModule, \<lparr>kw_Store = GetKey AuthStore, kw_Subspace = GetSubspace AuthModule, kw_Keepers = []\<rparr>),
     (BankModule, \<lparr>kw_Store = GetKey BankStore, kw_Subspace = GetSubspace BankModule, kw_Keepers = [AuthModule]\<rparr>),
     (StakingModule, \<lparr>kw_Store = GetKey StakingStore, kw_Subspace = GetSubspace StakingModule,
        kw_Keepers = [AuthModule, BankModule]\<rparr>),
     (MintModule, \<lparr>kw_Store = GetKey MintStore, kw_Subspace = GetSubspace MintModule,
        kw_Keepers = [StakingModule, AuthModule, BankModule]\<rparr>),
     (DistrModule, \<lparr>kw_Store = GetKey DistrStore, kw_Subspace = GetSubspace DistrModule,
        kw_Keepers = [AuthModule, BankModule, StakingModule]\<rparr>),
     (SlashingModule, \<lparr>kw_Store = GetKey SlashingStore, kw_Subspace = GetSubspace SlashingModule,
        kw_Keepers = [StakingModule]\<rparr>),
     (CrisisModule, \<lparr>kw_Store = None, kw_Subspace = GetSubspace CrisisModule, kw_Keepers = [BankModule]\<rparr>),
     (FeegrantModule, \<lparr>kw_Store = GetKey FeegrantStore, kw_Subspace = None, kw_Keepers = [AuthModule]\<rparr>),
     (UpgradeModule, \<lparr>kw_Store = GetKey UpgradeStore, kw_Subspace = None, kw_Keepers = []\<rparr>),
     (AuthzModule, \<lparr>kw_Store = GetKey AuthzStore, kw_Subspace = None, kw_Keepers = []\<rparr>),
     (GovModule, \<lparr>kw_Store = GetKey GovStore, kw_Subspace = GetSubspace GovModule,
        kw_Keepers = [AuthModule, BankModule, StakingModule]\<rparr>),
     (EvidenceModule, \<lparr>kw_Store = GetKey EvidenceStore, kw_Subspace = None,
        kw_Keepers = [StakingModule, SlashingModule]\<rparr>),
     (TokenfactoryModule, \<lparr>kw_Store = GetKey TokenfactoryStore, kw_Subspace = GetSubspace TokenfactoryModule,
        kw_Keepers = [AuthModule, BankModule, DistrModule]\<rparr>)]"

section \<open>Running the modules\<close>

text \<open>The module manager's methods are the SDK's; the order is what the application set. \<open>json.Unmarshal\<close> of the request
  and the storing of the module versions come first.\<close>

definition InitChainer ::
  "('r, 'f, 'z) app_sdk_scheme \<Rightarrow> (app_module list \<Rightarrow> 's \<Rightarrow> 's) \<Rightarrow>
    (app_module list \<Rightarrow> 'r app_genesis \<Rightarrow> ('s, 'u) action) \<Rightarrow> 'r \<Rightarrow> ('s, 'u) action" where
  "InitChainer A SetModuleVersionMap mm_InitGenesis AppStateBytes =
    bindM (liftM (must (json_Unmarshal A AppStateBytes))) (\<lambda>genesisState.
    bindM (modifyM (SetModuleVersionMap module_manager)) (\<lambda>_.
      mm_InitGenesis OrderInitGenesis genesisState))"

definition BeginBlocker :: "(app_module list \<Rightarrow> 'q \<Rightarrow> ('s, 'u) action) \<Rightarrow> 'q \<Rightarrow> ('s, 'u) action" where
  "BeginBlocker mm_BeginBlock req = mm_BeginBlock OrderBeginBlockers req"

definition EndBlocker :: "(app_module list \<Rightarrow> 'q \<Rightarrow> ('s, 'u) action) \<Rightarrow> 'q \<Rightarrow> ('s, 'u) action" where
  "EndBlocker mm_EndBlock req = mm_EndBlock OrderEndBlockers req"

text \<open>\<open>ModuleBasics.DefaultGenesis(cdc)\<close>: each module's default under its name.\<close>

definition NewDefaultGenesis :: "(app_module \<Rightarrow> string) \<Rightarrow> (app_module \<Rightarrow> 'r) \<Rightarrow> 'r app_genesis" where
  "NewDefaultGenesis name DefaultGenesis_of = map_of (map (\<lambda>m. (name m, DefaultGenesis_of m)) ModuleBasics)"

text \<open>\<open>MakeTestEncodingConfig\<close>: the SDK's own types, then those of every module, with amino and with the registry.\<close>

definition MakeTestEncodingConfig ::
  "('a \<Rightarrow> 'a) \<Rightarrow> ('i \<Rightarrow> 'i) \<Rightarrow> (app_module \<Rightarrow> 'a \<Rightarrow> 'a) \<Rightarrow> (app_module \<Rightarrow> 'i \<Rightarrow> 'i) \<Rightarrow> 'a \<times> 'i \<Rightarrow> 'a \<times> 'i" where
  "MakeTestEncodingConfig std_RegisterLegacyAminoCodec std_RegisterInterfaces amino_of interfaces_of cfg =
    (fold amino_of ModuleBasics (std_RegisterLegacyAminoCodec (fst cfg)),
     fold interfaces_of ModuleBasics (std_RegisterInterfaces (snd cfg)))"

section \<open>What the wiring satisfies\<close>

text \<open>The orders name every module of the manager once (the SDK panics if one is forgotten).\<close>

definition complete_order :: "app_module list \<Rightarrow> bool" where
  "complete_order ms \<longleftrightarrow> distinct ms \<and> set ms = set module_manager"

fun before :: "'a list \<Rightarrow> 'a \<Rightarrow> 'a \<Rightarrow> bool" where
  "before [] x y = False"
| "before (z # zs) x y = (if z = x then y \<in> set zs else before zs x y)"

text \<open>A keeper's own keepers are built before it.\<close>

fun built_in_order :: "app_module list \<Rightarrow> (app_module \<times> keeper_wiring) list \<Rightarrow> bool" where
  "built_in_order ms [] = True"
| "built_in_order ms ((m, w) # ws) = (set (kw_Keepers w) \<subseteq> set ms \<and> built_in_order (m # ms) ws)"

lemma complete_orders:
  "complete_order ModuleBasics" "complete_order OrderBeginBlockers" "complete_order OrderEndBlockers"
  "complete_order OrderInitGenesis" "distinct module_manager"
  by (simp_all add: complete_order_def ModuleBasics_def OrderBeginBlockers_def OrderEndBlockers_def
      OrderInitGenesis_def module_manager_def) blast+

lemma wiring_complete:
  "distinct (map fst wiring)" "built_in_order [] wiring"
  "\<forall>(m, w)\<in>set wiring. set (kw_Keepers w) \<subseteq> set module_manager"
  "\<forall>(m, w)\<in>set wiring. kw_Subspace w \<noteq> None \<longrightarrow> kw_Subspace w = Some m"
  by (simp_all add: wiring_def GetSubspace_def initParamsKeeper_def module_manager_def)

lemma tokenfactory_wiring:
  "map_of wiring TokenfactoryModule = Some \<lparr>kw_Store = Some TokenfactoryStore,
     kw_Subspace = Some TokenfactoryModule, kw_Keepers = [AuthModule, BankModule, DistrModule]\<rparr>"
  "map_of maccPerms TokenfactoryAccount = Some [Minter, Burner]"
  by (simp_all add: wiring_def GetSubspace_def initParamsKeeper_def GetKey_def app_keys_def maccPerms_def)

end
