(* ===== verification/Restart.thy ===== *)
theory Restart
  imports Chain
begin

text \<open>
  A chain that starts again from its exported genesis. The text of a bech32 address has two spellings, in small letters and in
  capitals. The index of a running chain keeps the spelling that the sender of \<open>CreateDenom\<close> used; \<open>InitGenesis\<close>
  takes the creator from the denom, where \<open>DeconstructDenom\<close> returns the canonical text. So a restart keeps who
  administers what, and moves the denoms in the index.
\<close>

lemma created_by_creator_of:
  assumes "bech32_laws E" and "created_by E cr d" and "AccAddressFromBech32 E cr = Inr a"
  shows "creator_of E d = AccAddress_String E a"
proof -
  obtain c0 sub where c0: "AccAddressFromBech32 E c0 = Inr a" and d: "d = ''factory/'' @ c0 @ CHR ''/'' # sub"
    and "ValidateDenom E d = Inr ()"
    using assms(2,3) by (auto simp: created_by_def)
  moreover have "CHR ''/'' \<notin> set c0" using bech32_chars(1) [OF assms(1) c0] by simp
  ultimately have "DeconstructDenom E d = Inr (AccAddress_String E a, sub)"
    unfolding DeconstructDenom_eq_Inr by blast
  then show ?thesis by (simp add: creator_of_def)
qed

lemma created_by_address:
  assumes "bech32_laws E" and "denom_ok E d" and "creator_of E d = AccAddress_String E a"
    and "created_by E cr d" and "AccAddressFromBech32 E cr' = Inr a"
  shows "AccAddressFromBech32 E cr = Inr a"
proof -
  obtain b where b: "AccAddressFromBech32 E cr = Inr b" using assms(4) by (auto simp: created_by_def)
  have "AccAddress_String E b = AccAddress_String E a"
    using created_by_creator_of [OF assms(1,4) b] assms(3) by simp
  then show ?thesis
    using bech32_again [OF assms(1) b] bech32_again [OF assms(1,5)] b by (metis sum.inject(2))
qed

text \<open>The registry after a restart, and its index.\<close>

lemma restarted:
  assumes laws: "sdk_laws E" and inv: "Inv E c" and export: "ExportGenesis E c = (Inr gs, c1)"
    and denoms: "FactoryDenoms gs' = FactoryDenoms gs"
    and empty: "\<And>p k. store_Get E (store c0) p k = None" and import: "InitGenesis E gs' c0 = (Inr (), c')"
  shows "canonical E c'" and "admins E (store c') = admins E (store c)"
proof -
  note l = sdk_lawsD [OF laws]
  show "canonical E c'" by (rule InitGenesis_canonical(1) [OF l empty import])
  have "FactoryDenoms gs = map (export_denom E c) (exported_denoms E c)"
    using export unfolding ExportGenesis_eq_Inr [OF l(2) InvD(1) [OF inv]] by simp
  then show "admins E (store c') = admins E (store c)"
    using InitGenesis_canonical(2) [OF l empty import] exported_map [OF l(1,2) inv] denoms by simp
qed

lemma canonical_listed:
  assumes laws: "store_laws E" "bech32_laws E" and c: "canonical E c" and cr: "CHR ''|'' \<notin> set cr"
  shows "listed E (store c) cr d \<longleftrightarrow> admins E (store c) d \<noteq> None \<and> creator_of E d = cr"
proof
  assume li: "listed E (store c) cr d"
  have "created_by E cr d \<and> admins E (store c) d \<noteq> None"
    by (rule listed_entry [OF laws InvD(2) [OF canonical_Inv [OF laws(2) c]] li cr])
  moreover have "creator_of E d = cr" using c cr li unfolding canonical_def by metis
  ultimately show "admins E (store c) d \<noteq> None \<and> creator_of E d = cr" by simp
next
  assume "admins E (store c) d \<noteq> None \<and> creator_of E d = cr"
  then show "listed E (store c) cr d" using c unfolding canonical_def by auto
qed

lemma restart_index:
  assumes laws: "sdk_laws E" and inv: "Inv E c" and export: "ExportGenesis E c = (Inr gs, c1)"
    and denoms: "FactoryDenoms gs' = FactoryDenoms gs"
    and empty: "\<And>p k. store_Get E (store c0) p k = None" and import: "InitGenesis E gs' c0 = (Inr (), c')"
    and cr: "AccAddressFromBech32 E cr = Inr a"
  shows "listed E (store c') cr d \<longleftrightarrow>
    cr = AccAddress_String E a \<and> (\<exists>cr'. AccAddressFromBech32 E cr' = Inr a \<and> listed E (store c) cr' d)"
proof -
  note l = sdk_lawsD [OF laws]
  note new = restarted [OF laws inv export denoms empty import]
  have sep: "CHR ''|'' \<notin> set x" if "AccAddressFromBech32 E x = Inr b" for x b
    using bech32_chars(2) [OF l(2) that] by simp
  have "listed E (store c') cr d \<longleftrightarrow> admins E (store c) d \<noteq> None \<and> creator_of E d = cr"
    using canonical_listed [OF l(1,2) new(1) sep [OF cr]] new(2) by simp
  also have "\<dots> \<longleftrightarrow> cr = AccAddress_String E a \<and> (\<exists>cr'. AccAddressFromBech32 E cr' = Inr a \<and> listed E (store c) cr' d)"
  proof
    assume d: "admins E (store c) d \<noteq> None \<and> creator_of E d = cr"
    then have ok: "denom_ok E d" using Inv_denom_ok [OF l(2) inv] by auto
    have "created_by E cr d" using creator_of_created_by [OF l(2) ok] d by simp
    then have eq: "creator_of E d = AccAddress_String E a" by (rule created_by_creator_of [OF l(2) _ cr])
    obtain cr' where cr': "created_by E cr' d" "listed E (store c) cr' d" using InvD(4) [OF inv] d by auto
    have "AccAddressFromBech32 E cr' = Inr a" by (rule created_by_address [OF l(2) ok eq cr'(1) cr])
    with cr'(2) d eq show "cr = AccAddress_String E a \<and> (\<exists>cr'. AccAddressFromBech32 E cr' = Inr a \<and> listed E (store c) cr' d)"
      by auto
  next
    assume "cr = AccAddress_String E a \<and> (\<exists>cr'. AccAddressFromBech32 E cr' = Inr a \<and> listed E (store c) cr' d)"
    then obtain cr' where eq: "cr = AccAddress_String E a" and cr': "AccAddressFromBech32 E cr' = Inr a"
      and li: "listed E (store c) cr' d" by blast
    have "created_by E cr' d \<and> admins E (store c) d \<noteq> None"
      by (rule listed_entry [OF l(1,2) InvD(2) [OF inv] li sep [OF cr']])
    then show "admins E (store c) d \<noteq> None \<and> creator_of E d = cr"
      using created_by_creator_of [OF l(2) _ cr'] eq by simp
  qed
  finally show ?thesis .
qed

lemma restart_answers:
  assumes laws: "sdk_laws E" and inv: "Inv E c" and export: "ExportGenesis E c = (Inr gs, c1)"
    and denoms: "FactoryDenoms gs' = FactoryDenoms gs"
    and empty: "\<And>p k. store_Get E (store c0) p k = None" and import: "InitGenesis E gs' c0 = (Inr (), c')"
    and cr: "AccAddressFromBech32 E cr = Inr a"
  shows "\<exists>ds. Query_DenomsFromCreator E \<lparr>qdfc_Creator = cr\<rparr> c' = (Inr \<lparr>Denoms = ds\<rparr>, c') \<and>
    set ds = (if cr = AccAddress_String E a
      then \<Union>cr' \<in> {cr'. AccAddressFromBech32 E cr' = Inr a}. set (getDenomsFromCreator E cr' c) else {})"
proof -
  note l = sdk_lawsD [OF laws]
  have mem: "d \<in> set (getDenomsFromCreator E cr c') \<longleftrightarrow> cr = AccAddress_String E a \<and>
      (\<exists>cr'. AccAddressFromBech32 E cr' = Inr a \<and> d \<in> set (getDenomsFromCreator E cr' c))" for d
    using restart_index [OF laws inv export denoms empty import cr]
    unfolding set_getDenomsFromCreator [OF l(1)] by blast
  have "set (getDenomsFromCreator E cr c') = (if cr = AccAddress_String E a
      then \<Union>cr' \<in> {cr'. AccAddressFromBech32 E cr' = Inr a}. set (getDenomsFromCreator E cr' c) else {})"
    by (rule set_eqI) (auto simp: mem)
  then show ?thesis by (simp add: Query_DenomsFromCreator_def bindM_basic action_simps)
qed

text \<open>The exported state is valid if the parameters are, and importing a valid state makes its parameters readable.\<close>

lemma exported_valid:
  assumes laws: "store_laws E" "bech32_laws E" and inv: "Inv E c" and export: "ExportGenesis E c = (Inr gs, c1)"
    and params: "Params_Validate E (gs_Params gs) = Inr ()"
  shows "GenesisState_Validate E gs = Inr ()"
proof -
  have gs: "FactoryDenoms gs = map (export_denom E c) (exported_denoms E c)"
    using export unfolding ExportGenesis_eq_Inr [OF laws(2) InvD(1) [OF inv]] by simp
  note exact = exported_denoms_exact [OF laws inv]
  have "denom_ok E d \<and> admin_ok E (admin_or_none (admins E (store c) d))" if "d \<in> set (exported_denoms E c)" for d
    using that exact(2) Inv_denom_ok [OF laws(2) inv] Inv_admin_ok [OF laws(2) inv] by (auto simp: admin_or_none_def)
  then show ?thesis
    using params exact(1) by (simp add: GenesisState_Validate_eq_Inr Params_Validate_eq_Inr gs export_denom_def comp_def)
qed

lemma imported_params:
  assumes laws: "coins_laws E" "bech32_laws E" "param_laws E"
    and valid: "GenesisState_Validate E gs = Inr ()" and run: "InitGenesis E gs c = (Inr (), c')"
  shows "\<exists>p. GetParams E c' = (Inr p, c') \<and> same_params (gs_Params gs) p"
proof -
  obtain w where "GetModuleAccount E ModuleName (world c) = (Inr (), w)"
    using run unfolding InitGenesis_eq_Inr [OF laws(1,2)] by (auto simp: CreateModuleAccount_def worldM_eq)
  from InitGenesis_valid [OF laws valid this] run show ?thesis by (metis Pair_inject)
qed

lemma restarted_params:
  assumes laws: "store_laws E" "bech32_laws E" "metadata_laws E" "coins_laws E" "param_laws E" and inv: "Inv E c"
    and export: "ExportGenesis E c = (Inr gs, c1)" and denoms: "FactoryDenoms gs' = FactoryDenoms gs"
    and params: "same_params (gs_Params gs) (gs_Params gs')" and import: "InitGenesis E gs' c0 = (Inr (), c')"
    and valid: "Params_Validate E (gs_Params gs) = Inr ()"
  shows "\<exists>p. GetParams E c' = (Inr p, c') \<and> same_params (gs_Params gs) p"
proof -
  have "Coins_Validate E (DenomCreationFee (gs_Params gs')) = Coins_Validate E (DenomCreationFee (gs_Params gs))"
    using params laws(4) unfolding same_params_def coins_laws_def by blast
  then have "GenesisState_Validate E gs' = Inr ()"
    using exported_valid [OF laws(1,2) inv export valid] by (simp add: GenesisState_Validate_eq_Inr denoms)
  from imported_params [OF laws(4,2,5) this import] params show ?thesis by (auto simp: same_params_def)
qed

text \<open>A second restart changes nothing more: the index after one is that after two.\<close>

lemma restart_again:
  assumes laws: "sdk_laws E" and inv: "Inv E c" and cr: "CHR ''|'' \<notin> set cr"
    and first: "ExportGenesis E c = (Inr gs, c1)" "\<And>p k. store_Get E (store c0) p k = None" "InitGenesis E gs c0 = (Inr (), c')"
    and second: "ExportGenesis E c' = (Inr gs', c2)" "\<And>p k. store_Get E (store c0') p k = None"
      "InitGenesis E gs' c0' = (Inr (), c'')"
  shows "listed E (store c'') cr d \<longleftrightarrow> listed E (store c') cr d"
proof -
  note l = sdk_lawsD [OF laws]
  note r = restarted [OF laws inv first(1) refl first(2,3)]
  note r' = restarted [OF laws canonical_Inv [OF l(2) r(1)] second(1) refl second(2,3)]
  show ?thesis using canonical_listed [OF l(1,2) r(1) cr] canonical_listed [OF l(1,2) r'(1) cr] r'(2) by simp
qed

end
