(* ===== verification/AppStart.thy ===== *)
theory AppStart
  imports App Module Export Restart
begin

text \<open>
  The module inside the running application: how \<open>InitChainer\<close> of \<open>simapp/app.go\<close> brings the module to its first state, through the
  SDK's module manager and \<open>InitGenesis\<close> of \<open>module.go\<close>, and how \<open>ExportAppStateAndValidators\<close> of \<open>simapp/export.go\<close>
  takes its state out again, for the application to be started anew.
\<close>

section \<open>The module manager\<close>

text \<open>What the SDK contributes: the names of modules, the raw JSON of one module, the other modules' \<open>InitGenesis\<close>, the upgrade
  keeper and the manager.\<close>

record ('r, 's, 'u) manager =
  mgr_Name :: "app_module \<Rightarrow> string"
  mgr_Raw :: "'r \<Rightarrow> bytes"
  mgr_InitModule :: "app_module \<Rightarrow> 'r \<Rightarrow> ('s, unit) action"
  mgr_SetModuleVersionMap :: "app_module list \<Rightarrow> 's \<Rightarrow> 's"
  mgr_InitGenesis :: "app_module list \<Rightarrow> 'r app_genesis \<Rightarrow> ('s, 'u) action"

text \<open>The loop of \<open>module.Manager.InitGenesis\<close>: modules in the order given, those without an entry in the genesis left out.\<close>

definition run_genesis ::
  "('r, 's, 'u) manager \<Rightarrow> app_module list \<Rightarrow> 'r app_genesis \<Rightarrow> ('s, unit) action" where
  "run_genesis M order g =
    forM order (\<lambda>m. case g (mgr_Name M m) of None \<Rightarrow> retM () | Some r \<Rightarrow> mgr_InitModule M m r)"

text \<open>The manager runs that loop before it looks at the validator set; the token factory's entry goes to \<open>AppModule.InitGenesis\<close>; no
  other module writes to its store.\<close>

definition manager_laws ::
  "('k, 'w) sdk \<Rightarrow> genesis_json \<Rightarrow> ('r, ('k, 'w) ctx, 'u) manager \<Rightarrow> bool" where
  "manager_laws E cdc M \<longleftrightarrow> mgr_Name M TokenfactoryModule = AppModuleBasic_Name \<and>
    (\<forall>order g c u c'. mgr_InitGenesis M order g c = (Inr u, c') \<longrightarrow> run_genesis M order g c = (Inr (), c')) \<and>
    (\<forall>r. mgr_InitModule M TokenfactoryModule r =
       bindM (AppModule_InitGenesis E cdc (mgr_Raw M r)) (\<lambda>_. retM ())) \<and>
    (\<forall>m r c. m \<noteq> TokenfactoryModule \<longrightarrow> store (snd (mgr_InitModule M m r c)) = store c) \<and>
    (\<forall>ms c. store (mgr_SetModuleVersionMap M ms c) = store c)"

lemma manager_lawsD:
  assumes "manager_laws E cdc M"
  shows "mgr_Name M TokenfactoryModule = ModuleName"
    and "mgr_InitGenesis M order g c = (Inr u, c') \<Longrightarrow> run_genesis M order g c = (Inr (), c')"
    and "mgr_InitModule M TokenfactoryModule r = bindM (AppModule_InitGenesis E cdc (mgr_Raw M r)) (\<lambda>_. retM ())"
    and "m \<noteq> TokenfactoryModule \<Longrightarrow> store (snd (mgr_InitModule M m r c)) = store c"
    and "store (mgr_SetModuleVersionMap M ms c) = store c"
  using assms unfolding manager_laws_def AppModuleBasic_Name_def by blast+

lemma admins_empty: "(\<And>p k. store_Get E s p k = None) \<Longrightarrow> admins E s = Map.empty"
  by (simp add: fun_eq_iff admins_def metadata_entry_def)

lemma forM_append: "forM (xs @ ys) f = bindM (forM xs f) (\<lambda>_. forM ys f)"
  by (induction xs) (simp_all add: fun_eq_iff bindM_def action_simps split: prod.split sum.split)

lemma module_import:
  "bindM (AppModule_InitGenesis E cdc bz) (\<lambda>_. retM ()) c = (Inr (), c') \<longleftrightarrow>
    (\<exists>gs. UnmarshalJSON cdc bz = Inr gs \<and> InitGenesis E gs c = (Inr (), c'))"
  by (cases "UnmarshalJSON cdc bz")
    (auto simp: AppModule_InitGenesis_def orPanic_def bindM_def action_simps split: prod.splits sum.splits)

section \<open>Starting\<close>

text \<open>Whatever the other modules do, the token factory's turn is the last one, and comes with its store as it was.\<close>

lemma started:
  assumes laws: "manager_laws E cdc M"
    and run: "InitChainer A (mgr_SetModuleVersionMap M) (mgr_InitGenesis M) bz c0 = (Inr u, c)"
  obtains g c1 where "json_Unmarshal A bz = Inr g" and "store c1 = store c0"
    and "case g ModuleName of None \<Rightarrow> c = c1
      | Some r \<Rightarrow> \<exists>gs. UnmarshalJSON cdc (mgr_Raw M r) = Inr gs \<and> InitGenesis E gs c1 = (Inr (), c)"
proof -
  note l = manager_lawsD [OF laws]
  obtain others where order: "OrderInitGenesis = others @ [TokenfactoryModule]" and others: "TokenfactoryModule \<notin> set others"
    by (simp add: OrderInitGenesis_def)
  let ?one = "\<lambda>g m. case g (mgr_Name M m) of None \<Rightarrow> retM () | Some r \<Rightarrow> mgr_InitModule M m r"
  obtain g where g: "json_Unmarshal A bz = Inr g"
    and mm: "mgr_InitGenesis M OrderInitGenesis g (mgr_SetModuleVersionMap M module_manager c0) = (Inr u, c)"
    using run by (auto simp: InitChainer_def bindM_eq_Inr action_simps)
  obtain c1 where first: "forM others (?one g) (mgr_SetModuleVersionMap M module_manager c0) = (Inr (), c1)"
    and last: "?one g TokenfactoryModule c1 = (Inr (), c)"
    using l(2) [OF mm] unfolding run_genesis_def order forM_append by (auto simp: bindM_eq_Inr action_simps)
  have "store c1 = store c0"
  proof (rule forM_invariant [OF first, where P = "\<lambda>x. store x = store c0"])
    show "store (mgr_SetModuleVersionMap M module_manager c0) = store c0" by (rule l(5))
    fix m s t
    assume "m \<in> set others" and s: "store s = store c0" and run: "?one g m s = (Inr (), t)"
    then have "m \<noteq> TokenfactoryModule" using others by blast
    then show "store t = store c0"
      using run s l(4) [of m] by (auto simp: action_simps split: option.splits) (metis snd_conv)
  qed
  moreover have "case g ModuleName of None \<Rightarrow> c = c1
      | Some r \<Rightarrow> \<exists>gs. UnmarshalJSON cdc (mgr_Raw M r) = Inr gs \<and> InitGenesis E gs c1 = (Inr (), c)"
    using last unfolding l(1) by (auto simp: l(3) module_import action_simps split: option.splits)
  ultimately show thesis using that g by blast
qed

section \<open>Exporting\<close>

text \<open>The export asks the module for its genesis, and the JSON it writes is read back; genesis states survive their JSON, but for the
  distinction between a nil and an empty fee. The SDK's keepers, which prepare a restart at height zero, keep the module's store and
  do not delete denom metadata.\<close>

definition genesis_json_laws :: "genesis_json \<Rightarrow> bool" where
  "genesis_json_laws cdc \<longleftrightarrow> (\<forall>gs bz. MustMarshalJSON cdc gs = Inr bz \<longrightarrow>
    (\<exists>gs'. UnmarshalJSON cdc bz = Inr gs' \<and> FactoryDenoms gs' = FactoryDenoms gs \<and>
      same_params (gs_Params gs) (gs_Params gs')))"

definition export_laws :: "('k, 'w) sdk \<Rightarrow> genesis_json \<Rightarrow> ('r, ('k, 'w) ctx, 'u) manager \<Rightarrow>
    ('r, 'f, 'z) app_sdk_scheme \<Rightarrow> (('k, 'w) ctx, 'd, 'r) export_sdk \<Rightarrow> bool" where
  "export_laws E cdc M A X \<longleftrightarrow>
    (\<forall>c g. mm_ExportGenesis X c = Inr g \<longrightarrow> (\<exists>r c'. g ModuleName = Some r \<and>
       AppModule_ExportGenesis E cdc c = (Inr (mgr_Raw M r), c'))) \<and>
    (\<forall>g r. export_MarshalIndent X g = Inr r \<longrightarrow> json_Unmarshal A r = Inr g)"

definition export_keepers_laws :: "('k, 'w) sdk \<Rightarrow> (('k, 'w) ctx, 'd, 'r) export_sdk \<Rightarrow> bool" where
  "export_keepers_laws E X \<longleftrightarrow>
    (\<forall>a s. module_kept E s (snd (WithdrawValidatorCommission X a s))) \<and>
    (\<forall>a b s. module_kept E s (snd (WithdrawDelegationRewards X a b s))) \<and>
    (\<forall>s. module_kept E s (DeleteAllValidatorSlashEvents X s)) \<and>
    (\<forall>s. module_kept E s (DeleteAllValidatorHistoricalRewards X s)) \<and>
    (\<forall>p s. module_kept E s (SetCommunityPool X p s)) \<and>
    (\<forall>h a s. module_kept E s (AfterValidatorCreated X h a s)) \<and>
    (\<forall>h a b s. module_kept E s (BeforeDelegationCreated X h a b s)) \<and>
    (\<forall>h a b s. module_kept E s (AfterDelegationModified X h a b s)) \<and>
    (\<forall>u s. module_kept E s (SetRedelegation X u s)) \<and>
    (\<forall>u s. module_kept E s (SetUnbondingDelegation X u s)) \<and>
    (\<forall>a i s. module_kept E s (SetValidatorSigningInfo X a i s)) \<and>
    (\<forall>v s. module_kept E s (SetValidator X v s)) \<and>
    (\<forall>s. module_kept E s (snd (ApplyAndReturnValidatorSetUpdates X s)))"

interpretation exporting: whole_export_frame X "\<lambda>s t. export_keepers_laws E X \<longrightarrow> module_kept E s t"
  for E :: "('k, 'w) sdk" and X :: "(('k, 'w) ctx, 'd, 'r) export_sdk"
  by unfold_locales (auto simp: export_keepers_laws_def module_kept_refl intro: module_kept_trans)

lemma export_keeps_module:
  "export_keepers_laws E X \<Longrightarrow> ExportAppStateAndValidators X z allowed c = (r, c') \<Longrightarrow> module_kept E c c'"
  using keepsD [OF exporting.keeps_export] by blast

lemma exported:
  assumes "export_laws E cdc M A X" and "genesis_json_laws cdc"
    and "ExportAppStateAndValidators X z allowed c = (Inr app, c1)"
  obtains g r gs gs' c2 where "json_Unmarshal A (exp_AppState app) = Inr g" and "g ModuleName = Some r"
    and "ExportGenesis E c1 = (Inr gs, c2)" and "UnmarshalJSON cdc (mgr_Raw M r) = Inr gs'"
    and "FactoryDenoms gs' = FactoryDenoms gs" and "same_params (gs_Params gs) (gs_Params gs')"
proof -
  obtain g where g: "mm_ExportGenesis X c1 = Inr g" and app: "export_MarshalIndent X g = Inr (exp_AppState app)"
    using assms(3) by (auto simp: ExportAppStateAndValidators_def bindM_eq_Inr action_simps)
  obtain r c2 where r: "g ModuleName = Some r" and ex: "AppModule_ExportGenesis E cdc c1 = (Inr (mgr_Raw M r), c2)"
    using assms(1) g unfolding export_laws_def by blast
  obtain gs where gs: "ExportGenesis E c1 = (Inr gs, c2)" and bz: "MustMarshalJSON cdc gs = Inr (mgr_Raw M r)"
    using ex by (auto simp: AppModule_ExportGenesis_def bindM_eq_Inr action_simps)
  have "json_Unmarshal A (exp_AppState app) = Inr g" using assms(1) app unfolding export_laws_def by blast
  then show thesis using that r gs assms(2) bz unfolding genesis_json_laws_def by blast
qed

text \<open>From the state of a running application to the first state of the next.\<close>

lemma app_restarted:
  assumes laws: "sdk_laws E" "manager_laws E cdc M" "export_laws E cdc M A X" "genesis_json_laws cdc" "export_keepers_laws E X"
    and inv: "Inv E c" and export: "ExportAppStateAndValidators X z allowed c = (Inr app, c1)"
    and empty: "\<forall>p k. store_Get E (store c0) p k = None"
    and start: "InitChainer A (mgr_SetModuleVersionMap M) (mgr_InitGenesis M) (exp_AppState app) c0 = (Inr u, c')"
  obtains gs gs' c2 c3 where "store c1 = store c" and "Inv E c1" and "ExportGenesis E c1 = (Inr gs, c2)"
    and "FactoryDenoms gs' = FactoryDenoms gs" and "same_params (gs_Params gs) (gs_Params gs')"
    and "\<forall>p k. store_Get E (store c3) p k = None" and "InitGenesis E gs' c3 = (Inr (), c')"
proof -
  have kept: "module_kept E c c1" by (rule export_keeps_module [OF laws(5) export])
  obtain g r gs gs' c2 where g: "json_Unmarshal A (exp_AppState app) = Inr g" "g ModuleName = Some r"
    and gs: "ExportGenesis E c1 = (Inr gs, c2)" "UnmarshalJSON cdc (mgr_Raw M r) = Inr gs'"
      "FactoryDenoms gs' = FactoryDenoms gs" "same_params (gs_Params gs) (gs_Params gs')"
    by (rule exported [OF laws(3,4) export])
  obtain g' c3 where g': "json_Unmarshal A (exp_AppState app) = Inr g'" and c3: "store c3 = store c0"
    and run: "case g' ModuleName of None \<Rightarrow> c' = c3
      | Some r \<Rightarrow> \<exists>gs. UnmarshalJSON cdc (mgr_Raw M r) = Inr gs \<and> InitGenesis E gs c3 = (Inr (), c')"
    by (rule started [OF laws(2) start])
  have init: "InitGenesis E gs' c3 = (Inr (), c')" using run g g' gs(2) by auto
  have "store c1 = store c" using kept by (simp add: module_kept_def)
  moreover have "\<forall>p k. store_Get E (store c3) p k = None" using empty c3 by simp
  ultimately show thesis by (rule that [OF _ Inv_module_kept [OF inv kept] gs(1,3,4) _ init])
qed

end
