(* ===== verification/SampleStart.thy ===== *)
theory SampleStart
  imports SampleCaps SampleApp AppStart
begin

text \<open>
  A manager, a genesis codec and an export for the sample chain with two spellings, in which only the token factory has a state:
  its genesis is written with the generated protobuf code.
\<close>

definition sample_cdc :: genesis_json where
  "sample_cdc = \<lparr>
     UnmarshalJSON = GenesisState_Unmarshal coin_codec GenesisState_zero,
     MustMarshalJSON = (\<lambda>gs. if length (GenesisState_bytes coin_bytes gs) < 2 ^ 63 then GenesisState_Marshal coin_codec gs
       else Inl (GoPanic ''too long''))\<rparr>"

definition start_module :: "app_module \<Rightarrow> sample_json \<Rightarrow> ((chain_store, chain) ctx, unit) action" where
  "start_module m r = (if m = TokenfactoryModule
     then bindM (AppModule_InitGenesis caps_sdk sample_cdc (case r of JModule bz \<Rightarrow> bz | _ \<Rightarrow> [])) (\<lambda>_. retM ()) else retM ())"

definition sample_name :: "app_module \<Rightarrow> string" where
  "sample_name m = (if m = TokenfactoryModule then ModuleName else ''other'')"

definition sample_manager0 :: "(sample_json, (chain_store, chain) ctx, unit) manager" where
  "sample_manager0 = \<lparr>mgr_Name = sample_name, mgr_Raw = (\<lambda>r. case r of JModule bz \<Rightarrow> bz | _ \<Rightarrow> []),
     mgr_InitModule = start_module, mgr_SetModuleVersionMap = (\<lambda>ms c. c), mgr_InitGenesis = (\<lambda>order g. retM ())\<rparr>"

definition sample_manager :: "(sample_json, (chain_store, chain) ctx, unit) manager" where
  "sample_manager = sample_manager0\<lparr>mgr_InitGenesis := run_genesis sample_manager0\<rparr>"

definition caps_export :: "((chain_store, chain) ctx, unit, sample_json) export_sdk" where
  "caps_export = \<lparr>LastBlockHeight = (\<lambda>s. 41), AssertInvariants = (\<lambda>s. Inr ()),
     export_ValAddressFromBech32 = (\<lambda>a. Inr (bytes_of_string a)),
     export_AccAddressFromBech32 = caps_address, ValAddress_String = string_of_bytes,
     IterateValidators = (\<lambda>s. []), WithdrawValidatorCommission = (\<lambda>a s. (Inr (), s)),
     GetAllDelegations = (\<lambda>s. []), WithdrawDelegationRewards = (\<lambda>a b s. (Inr (), s)), DeleteAllValidatorSlashEvents = (\<lambda>s. s),
     DeleteAllValidatorHistoricalRewards = (\<lambda>s. s), GetValidatorOutstandingRewardsCoins = (\<lambda>s a. ()),
     GetCommunityPool = (\<lambda>s. ()), SetCommunityPool = (\<lambda>p s. s), DecCoins_Add = (\<lambda>a b. ()),
     AfterValidatorCreated = (\<lambda>h a s. s), BeforeDelegationCreated = (\<lambda>h a b s. s),
     AfterDelegationModified = (\<lambda>h a b s. s), IterateRedelegations = (\<lambda>s. []), SetRedelegation = (\<lambda>u s. s),
     IterateUnbondingDelegations = (\<lambda>s. []), SetUnbondingDelegation = (\<lambda>u s. s),
     validator_keys_reverse = (\<lambda>s. []), AddressFromValidatorsKey = drop 2, GetValidator = (\<lambda>s a. None), SetValidator = (\<lambda>v s. s),
     ApplyAndReturnValidatorSetUpdates = (\<lambda>s. (Inr (), s)), IterateValidatorSigningInfos = (\<lambda>s. []),
     SetValidatorSigningInfo = (\<lambda>a i s. s),
     mm_ExportGenesis = (\<lambda>s. case AppModule_ExportGenesis caps_sdk sample_cdc s of
        (Inl e, _) \<Rightarrow> Inl e | (Inr bz, _) \<Rightarrow> Inr [ModuleName \<mapsto> JModule bz]),
     export_MarshalIndent = (\<lambda>m. Inr (JState m)), WriteValidators = (\<lambda>s. Inr []), GetConsensusParams = (\<lambda>s. [])\<rparr>"

section \<open>The laws hold\<close>

lemma sample_manager_laws: "manager_laws caps_sdk sample_cdc sample_manager"
proof -
  have run: "run_genesis sample_manager = run_genesis sample_manager0"
    by (simp add: fun_eq_iff run_genesis_def sample_manager_def cong: option.case_cong)
  have "u = ()" for u :: unit by simp
  then show ?thesis
    unfolding manager_laws_def run
    by (auto simp: sample_manager_def sample_manager0_def start_module_def sample_name_def AppModuleBasic_Name_def action_simps)
qed

lemma sample_json_laws: "genesis_json_laws sample_cdc"
  unfolding genesis_json_laws_def
proof (intro allI impI)
  fix gs bz
  assume "MustMarshalJSON sample_cdc gs = Inr bz"
  then have len: "length (GenesisState_bytes coin_bytes gs) < 2 ^ 63" and bz: "GenesisState_Marshal coin_codec gs = Inr bz"
    by (simp_all add: sample_cdc_def split: if_splits)
  have "andThen (GenesisState_Marshal coin_codec gs) (GenesisState_Unmarshal coin_codec GenesisState_zero) = Inr (GenesisState_norm gs)"
    using proto_message.roundtrip [OF GenesisState_codec [OF coin_codec_ok] len] by (simp add: GenesisState_Marshal_def)
  with bz have "UnmarshalJSON sample_cdc bz = Inr (GenesisState_norm gs)" by (simp add: sample_cdc_def)
  then show "\<exists>gs'. UnmarshalJSON sample_cdc bz = Inr gs' \<and> FactoryDenoms gs' = FactoryDenoms gs \<and>
      same_params (gs_Params gs) (gs_Params gs')"
    by (simp add: GenesisState_norm_def same_params_def Params_norm_def)
qed

lemma sample_export_laws: "export_laws caps_sdk sample_cdc sample_manager sample_app caps_export"
  by (auto simp: export_laws_def caps_export_def sample_manager_def sample_manager0_def sample_app_def
      split: prod.splits sum.splits)

lemma caps_export_keepers_laws: "export_keepers_laws caps_sdk caps_export"
  by (simp add: export_keepers_laws_def caps_export_def module_kept_refl)

section \<open>Exporting the denom with the capital spelling, and starting again\<close>

lemma caps_state_bytes: "length (GenesisState_bytes coin_bytes caps_state) < 2 ^ 63"
proof -
  have "length (GenesisState_bytes coin_bytes caps_state) < 200" by code_simp
  then show ?thesis by simp
qed

lemma caps_state_written:
  obtains bz where "MustMarshalJSON sample_cdc caps_state = Inr bz" and "UnmarshalJSON sample_cdc bz = Inr caps_state"
proof -
  have "andThen (GenesisState_Marshal coin_codec caps_state) (GenesisState_Unmarshal coin_codec GenesisState_zero)
      = Inr (GenesisState_norm caps_state)"
    using proto_message.roundtrip [OF GenesisState_codec [OF coin_codec_ok] caps_state_bytes] by (simp add: GenesisState_Marshal_def)
  moreover have "GenesisState_norm caps_state = caps_state"
    by (simp add: GenesisState_norm_def Params_norm_def caps_state_def sample_params_def NewParams_def)
  ultimately show thesis using that caps_state_bytes by (auto simp: andThen_eq_Inr sample_cdc_def)
qed

lemma caps_app_exported:
  obtains app bz where "ExportAppStateAndValidators caps_export False [] caps_ctx = (Inr app, caps_ctx)"
    and "exp_AppState app = JState [ModuleName \<mapsto> JModule bz]" and "UnmarshalJSON sample_cdc bz = Inr caps_state"
proof -
  obtain bz where bz: "MustMarshalJSON sample_cdc caps_state = Inr bz" "UnmarshalJSON sample_cdc bz = Inr caps_state"
    by (rule caps_state_written)
  then have "AppModule_ExportGenesis caps_sdk sample_cdc caps_ctx = (Inr bz, caps_ctx)"
    using caps_exported by (simp add: AppModule_ExportGenesis_def bindM_def action_simps)
  then show thesis
    using that [OF _ _ bz(2)] by (simp add: ExportAppStateAndValidators_def bindM_def action_simps caps_export_def)
qed

lemma run_genesis_last:
  "m \<notin> set order \<Longrightarrow> g = [n \<mapsto> r] \<Longrightarrow> mgr_Name M m = n \<Longrightarrow> (\<forall>k. k \<noteq> m \<longrightarrow> mgr_Name M k \<noteq> n) \<Longrightarrow>
    run_genesis M (order @ [m]) g = bindM (mgr_InitModule M m r) (\<lambda>_. retM ())"
proof (induction order)
  case Nil
  then show ?case by (simp add: run_genesis_def)
next
  case (Cons k ks)
  then show ?case by (auto simp: run_genesis_def bindM_basic)
qed

lemma caps_app_started:
  assumes "UnmarshalJSON sample_cdc bz = Inr gs" and "InitGenesis caps_sdk gs c = (Inr (), c')"
  shows "InitChainer sample_app (mgr_SetModuleVersionMap sample_manager) (mgr_InitGenesis sample_manager)
    (JState [ModuleName \<mapsto> JModule bz]) c = (Inr (), c')"
proof -
  obtain others where order: "OrderInitGenesis = others @ [TokenfactoryModule]" "TokenfactoryModule \<notin> set others"
    by (simp add: OrderInitGenesis_def)
  have "mgr_Name sample_manager0 TokenfactoryModule = ModuleName"
    "\<forall>k. k \<noteq> TokenfactoryModule \<longrightarrow> mgr_Name sample_manager0 k \<noteq> ModuleName"
    by (auto simp: sample_manager0_def sample_name_def ModuleName_def)
  from run_genesis_last [OF order(2) refl this, of "JModule bz"]
  have run: "run_genesis sample_manager0 OrderInitGenesis [ModuleName \<mapsto> JModule bz] =
      bindM (start_module TokenfactoryModule (JModule bz)) (\<lambda>_. retM ())"
    unfolding order(1) by (simp add: sample_manager0_def)
  have "start_module TokenfactoryModule (JModule bz) c = (Inr (), c')"
    using assms by (simp add: start_module_def module_import)
  with run show ?thesis
    by (simp add: InitChainer_def sample_app_def sample_manager_def sample_manager0_def bindM_def action_simps)
qed

end
