(* ===== verification/AppModule.thy ===== *)
theory AppModule
  imports Clients Cli
begin

text \<open>
  The methods of \<open>module.go\<close> by which the SDK's module manager reaches the module (its services, commands, REST routes and
  registrations), and the legacy methods of the messages in \<open>types/msgs.go\<close>: the route, the type and the bytes that
  are signed. The JSON codec and \<open>sdk.MustSortJSON\<close> are parameters that may panic.
\<close>

section \<open>Legacy methods of the messages\<close>

definition RouterKey :: string where
  "RouterKey = ModuleName"

text \<open>\<open>sdk.MustSortJSON(ModuleCdc.MustMarshalJSON(&m))\<close>\<close>

definition sign_bytes :: "('m \<Rightarrow> bytes result) \<Rightarrow> (bytes \<Rightarrow> bytes result) \<Rightarrow> 'm \<Rightarrow> bytes result" where
  "sign_bytes marshal_json sort_json m = andThen (marshal_json m) sort_json"

definition MsgCreateDenom_Route :: "MsgCreateDenom \<Rightarrow> string" where
  "MsgCreateDenom_Route m = RouterKey"

definition MsgCreateDenom_Type :: "MsgCreateDenom \<Rightarrow> string" where
  "MsgCreateDenom_Type m = TypeMsgCreateDenom"

definition MsgCreateDenom_GetSignBytes ::
  "(MsgCreateDenom \<Rightarrow> bytes result) \<Rightarrow> (bytes \<Rightarrow> bytes result) \<Rightarrow> MsgCreateDenom \<Rightarrow> bytes result" where
  "MsgCreateDenom_GetSignBytes marshal_json sort_json m = sign_bytes marshal_json sort_json m"

definition MsgMint_Route :: "MsgMint \<Rightarrow> string" where
  "MsgMint_Route m = RouterKey"

definition MsgMint_Type :: "MsgMint \<Rightarrow> string" where
  "MsgMint_Type m = TypeMsgMint"

definition MsgMint_GetSignBytes ::
  "(MsgMint \<Rightarrow> bytes result) \<Rightarrow> (bytes \<Rightarrow> bytes result) \<Rightarrow> MsgMint \<Rightarrow> bytes result" where
  "MsgMint_GetSignBytes marshal_json sort_json m = sign_bytes marshal_json sort_json m"

definition MsgBurn_Route :: "MsgBurn \<Rightarrow> string" where
  "MsgBurn_Route m = RouterKey"

definition MsgBurn_Type :: "MsgBurn \<Rightarrow> string" where
  "MsgBurn_Type m = TypeMsgBurn"

definition MsgBurn_GetSignBytes ::
  "(MsgBurn \<Rightarrow> bytes result) \<Rightarrow> (bytes \<Rightarrow> bytes result) \<Rightarrow> MsgBurn \<Rightarrow> bytes result" where
  "MsgBurn_GetSignBytes marshal_json sort_json m = sign_bytes marshal_json sort_json m"

definition MsgForceTransfer_Route :: "MsgForceTransfer \<Rightarrow> string" where
  "MsgForceTransfer_Route m = RouterKey"

definition MsgForceTransfer_Type :: "MsgForceTransfer \<Rightarrow> string" where
  "MsgForceTransfer_Type m = TypeMsgForceTransfer"

definition MsgForceTransfer_GetSignBytes ::
  "(MsgForceTransfer \<Rightarrow> bytes result) \<Rightarrow> (bytes \<Rightarrow> bytes result) \<Rightarrow> MsgForceTransfer \<Rightarrow> bytes result" where
  "MsgForceTransfer_GetSignBytes marshal_json sort_json m = sign_bytes marshal_json sort_json m"

definition MsgChangeAdmin_Route :: "MsgChangeAdmin \<Rightarrow> string" where
  "MsgChangeAdmin_Route m = RouterKey"

definition MsgChangeAdmin_Type :: "MsgChangeAdmin \<Rightarrow> string" where
  "MsgChangeAdmin_Type m = TypeMsgChangeAdmin"

definition MsgChangeAdmin_GetSignBytes ::
  "(MsgChangeAdmin \<Rightarrow> bytes result) \<Rightarrow> (bytes \<Rightarrow> bytes result) \<Rightarrow> MsgChangeAdmin \<Rightarrow> bytes result" where
  "MsgChangeAdmin_GetSignBytes marshal_json sort_json m = sign_bytes marshal_json sort_json m"

definition MsgSetDenomMetadata_Route :: "MsgSetDenomMetadata \<Rightarrow> string" where
  "MsgSetDenomMetadata_Route m = RouterKey"

definition MsgSetDenomMetadata_Type :: "MsgSetDenomMetadata \<Rightarrow> string" where
  "MsgSetDenomMetadata_Type m = TypeMsgSetDenomMetadata"

definition MsgSetDenomMetadata_GetSignBytes ::
  "(MsgSetDenomMetadata \<Rightarrow> bytes result) \<Rightarrow> (bytes \<Rightarrow> bytes result) \<Rightarrow> MsgSetDenomMetadata \<Rightarrow> bytes result" where
  "MsgSetDenomMetadata_GetSignBytes marshal_json sort_json m = sign_bytes marshal_json sort_json m"

text \<open>The legacy route and type of a message.\<close>

fun Msg_legacy :: "Msg \<Rightarrow> string \<times> string" where
  "Msg_legacy (CreateDenomMsg m) = (MsgCreateDenom_Route m, MsgCreateDenom_Type m)"
| "Msg_legacy (MintMsg m) = (MsgMint_Route m, MsgMint_Type m)"
| "Msg_legacy (BurnMsg m) = (MsgBurn_Route m, MsgBurn_Type m)"
| "Msg_legacy (ForceTransferMsg m) = (MsgForceTransfer_Route m, MsgForceTransfer_Type m)"
| "Msg_legacy (ChangeAdminMsg m) = (MsgChangeAdmin_Route m, MsgChangeAdmin_Type m)"
| "Msg_legacy (SetDenomMetadataMsg m) = (MsgSetDenomMetadata_Route m, MsgSetDenomMetadata_Type m)"

lemmas legacy_defs = MsgCreateDenom_Type_def MsgMint_Type_def MsgBurn_Type_def MsgForceTransfer_Type_def
  MsgChangeAdmin_Type_def MsgSetDenomMetadata_Type_def TypeMsgCreateDenom_def TypeMsgMint_def TypeMsgBurn_def
  TypeMsgForceTransfer_def TypeMsgChangeAdmin_def TypeMsgSetDenomMetadata_def

text \<open>The legacy type tells the messages apart, as the type URL does.\<close>

lemma legacy_type_determines: "snd (Msg_legacy m) = snd (Msg_legacy m') \<longleftrightarrow> Msg_type m = Msg_type m'"
  by (cases m; cases m') (simp_all add: legacy_defs)

section \<open>The module\<close>

text \<open>The keepers of the module are the parameters \<open>E\<close> of the model; the value holds nothing else.\<close>

record ('k, 'w) app_module_value =
  am_keeper :: "('k, 'w) sdk"

definition NewAppModule :: "('k, 'w) sdk \<Rightarrow> ('k, 'w) app_module_value" where
  "NewAppModule E = \<lparr>am_keeper = E\<rparr>"

text \<open>\<open>AppModuleBasic{}\<close>, a structure without fields.\<close>

definition NewAppModuleBasic :: unit where
  "NewAppModuleBasic = ()"

definition AppModule_Name :: "('k, 'w) app_module_value \<Rightarrow> string" where
  "AppModule_Name am = AppModuleBasic_Name"

text \<open>\<open>sdk.Route{}\<close>: no path and no handler.\<close>

definition AppModule_Route :: "string \<times> (Msg \<Rightarrow> ('k, 'w, unit) keeper) option" where
  "AppModule_Route = ('''', None)"

definition AppModule_LegacyQuerierHandler :: "(string list \<Rightarrow> bytes \<Rightarrow> ('k, 'w, bytes) keeper) option" where
  "AppModule_LegacyQuerierHandler = None"

text \<open>The two services, registered with the servers of the configurator: the router of messages and that of queries.\<close>

definition AppModule_RegisterServices :: "('srv, 'k, 'w) grpc \<Rightarrow> ('k, 'w) app_module_value \<Rightarrow> coin codec \<Rightarrow> bank_metadata codec \<Rightarrow>
    'srv \<times> 'srv \<Rightarrow> 'srv \<times> 'srv" where
  "AppModule_RegisterServices G am CC MC cfg =
    (RegisterMsgServer G CC MC (fst cfg) (NewMsgServerImpl (am_keeper am)),
     RegisterQueryServer G CC (snd cfg) (Keeper_QueryServer (am_keeper am)))"

definition AppModule_RegisterInvariants :: "'i \<Rightarrow> 'i" where
  "AppModule_RegisterInvariants registry = registry"

definition AppModuleBasic_RegisterLegacyAminoCodec :: "(msg_type \<times> string) list \<Rightarrow> (msg_type \<times> string) list" where
  "AppModuleBasic_RegisterLegacyAminoCodec cdc = cdc @ RegisterCodec"

definition AppModuleBasic_RegisterInterfaces :: "msg_type list \<Rightarrow> msg_type list" where
  "AppModuleBasic_RegisterInterfaces reg = reg @ RegisterInterfaces"

text \<open>The package's own codecs, which sign bytes are written with: an amino codec that \<open>init\<close> fills with the
  messages and the interfaces of the SDK and then seals, and a proto codec with an empty registry. Both are made by the SDK.\<close>

definition types_init :: "'a \<Rightarrow> (msg_type \<times> string \<Rightarrow> 'a \<Rightarrow> 'a) \<Rightarrow> ('a \<Rightarrow> 'a) \<Rightarrow> ('a \<Rightarrow> 'a) \<Rightarrow> 'a" where
  "types_init NewLegacyAmino RegisterConcrete RegisterLegacyAminoCodec Seal =
    Seal (RegisterLegacyAminoCodec (fold RegisterConcrete RegisterCodec NewLegacyAmino))"

definition ModuleCdc :: "('i \<Rightarrow> 'c) \<Rightarrow> 'i \<Rightarrow> 'c" where
  "ModuleCdc NewProtoCodec NewInterfaceRegistry = NewProtoCodec NewInterfaceRegistry"

definition AppModuleBasic_RegisterRESTRoutes :: "'m \<Rightarrow> 'm" where
  "AppModuleBasic_RegisterRESTRoutes rtr = rtr"

text \<open>The client context is the connection of the queries; the error of the registration is dropped.\<close>

definition AppModuleBasic_RegisterGRPCGatewayRoutes ::
  "('srv, 'k, 'w) grpc \<Rightarrow> coin codec \<Rightarrow> gateway \<Rightarrow> 'srv \<Rightarrow> unit result \<Rightarrow>
    (string \<times> pattern \<times> (path_params \<Rightarrow> ('k, 'w) ctx \<Rightarrow> query_response http \<times> ('k, 'w) ctx)) list" where
  "AppModuleBasic_RegisterGRPCGatewayRoutes G CC W clientCtx annotate =
     RegisterQueryHandlerClient W (NewQueryClient G CC clientCtx) annotate"

definition AppModuleBasic_GetTxCmd :: "tx_cmd list" where
  "AppModuleBasic_GetTxCmd = GetTxCmd"

definition AppModuleBasic_GetQueryCmd :: "query_cmd list" where
  "AppModuleBasic_GetQueryCmd = GetQueryCmd"

text \<open>The registered query service answers as the query router of the transaction model does.\<close>

lemma registered_queries:
  assumes "grpc_laws G" and "path \<in> full_method ''tokenfactory.v1beta1.Query'' ` set Query_serviceDesc"
  shows "Invoke G (snd (AppModule_RegisterServices G (NewAppModule E) CC MC cfg)) path bz c =
    on_wire (status_error G) id (abci_query E CC path bz c)"
proof -
  obtain name where name: "name \<in> set Query_serviceDesc" and path: "path = full_method ''tokenfactory.v1beta1.Query'' name"
    using assms(2) by blast
  have run: "Invoke G (snd (AppModule_RegisterServices G (NewAppModule E) CC MC cfg)) path bz c = on_wire (status_error G) id (h bz c)"
    if "(name, h) \<in> set (Query_methods CC (Keeper_QueryServer E))" for h
    unfolding path AppModule_RegisterServices_def NewAppModule_def RegisterQueryServer_def app_module_value.simps snd_conv
    by (rule Invoke_registered [OF assms(1) _ that]) (simp add: Query_methods_def)
  consider "name = ''Params''" | "name = ''DenomAuthorityMetadata''" | "name = ''DenomsFromCreator''"
    using name by (auto simp: Query_serviceDesc_def)
  then show ?thesis
  proof cases
    case 1
    have "(name, served QueryParamsRequest_Unmarshal (QueryParamsResponse_Marshal CC) (Query_Params_Handler (Keeper_QueryServer E)))
        \<in> set (Query_methods CC (Keeper_QueryServer E))" by (simp add: 1 Query_methods_def)
    from run [OF this] show ?thesis by (simp add: 1 path full_method_def abci_query_def served_def)
  next
    case 2
    have "(name, served QueryDenomAuthorityMetadataRequest_Unmarshal QueryDenomAuthorityMetadataResponse_Marshal
        (Query_DenomAuthorityMetadata_Handler (Keeper_QueryServer E))) \<in> set (Query_methods CC (Keeper_QueryServer E))"
      by (simp add: 2 Query_methods_def)
    from run [OF this] show ?thesis by (simp add: 2 path full_method_def abci_query_def served_def)
  next
    case 3
    have "(name, served QueryDenomsFromCreatorRequest_Unmarshal QueryDenomsFromCreatorResponse_Marshal
        (Query_DenomsFromCreator_Handler (Keeper_QueryServer E))) \<in> set (Query_methods CC (Keeper_QueryServer E))"
      by (simp add: 3 Query_methods_def)
    from run [OF this] show ?thesis by (simp add: 3 path full_method_def abci_query_def served_def)
  qed
qed

section \<open>Types and signers of the messages of a transaction\<close>

fun Msg_GetSigners :: "('k, 'w) sdk \<Rightarrow> Msg \<Rightarrow> bytes list" where
  "Msg_GetSigners E (CreateDenomMsg m) = MsgCreateDenom_GetSigners E m"
| "Msg_GetSigners E (MintMsg m) = MsgMint_GetSigners E m"
| "Msg_GetSigners E (BurnMsg m) = MsgBurn_GetSigners E m"
| "Msg_GetSigners E (ForceTransferMsg m) = MsgForceTransfer_GetSigners E m"
| "Msg_GetSigners E (ChangeAdminMsg m) = MsgChangeAdmin_GetSigners E m"
| "Msg_GetSigners E (SetDenomMetadataMsg m) = MsgSetDenomMetadata_GetSigners E m"

text \<open>The registry decodes to a message of the type that the URL names.\<close>

lemma Msg_Unmarshal_type: "Msg_Unmarshal CC MC t bz = Inr m \<Longrightarrow> Msg_type m = t"
  by (cases t) (auto simp: andThen_eq_Inr)

lemma resolve_url_eq: "resolve_url url = Some t \<Longrightarrow> url = type_url t"
  by (auto simp: resolve_url_def type_url_def message_types_def split: if_splits)

lemma unpack_any_type:
  assumes "unpack_any CC MC a = Inr m"
  shows "fst a = type_url (Msg_type m)"
  using assms Msg_Unmarshal_type resolve_url_eq by (cases a) (auto split: option.splits)

lemma unpack_all_types:
  "unpack_all CC MC as = Inr ms \<Longrightarrow> list_all2 (\<lambda>a m. fst a = type_url (Msg_type m)) as ms"
  by (induction as arbitrary: ms) (auto simp: andThen_eq_Inr simp del: unpack_any.simps dest: unpack_any_type)

text \<open>A validated message has one signer, the address of its sender.\<close>

lemma validated_signer:
  assumes "Msg_ValidateBasic E m = Inr ()"
  shows "\<exists>a. AccAddressFromBech32 E (msg_sender m) = Inr a \<and> Msg_GetSigners E m = [a]"
  using assms
  by (cases m)
    (auto simp: MsgCreateDenom_ValidateBasic_def MsgMint_ValidateBasic_def MsgBurn_ValidateBasic_def
      MsgForceTransfer_ValidateBasic_def MsgChangeAdmin_ValidateBasic_def MsgSetDenomMetadata_ValidateBasic_def
      MsgCreateDenom_GetSigners_def MsgMint_GetSigners_def MsgBurn_GetSigners_def
      MsgForceTransfer_GetSigners_def MsgChangeAdmin_GetSigners_def MsgSetDenomMetadata_GetSigners_def
      signer_def andThen_eq_Inr orErr_def split: sum.splits)

lemma deliver_bytes_messages:
  assumes "deliver_bytes E CC MC anys c = (Inr (), c')"
  obtains ms where "unpack_all CC MC anys = Inr ms" and "validate_msgs E ms = Inr ()"
  using assms by (auto simp: deliver_bytes_def split: sum.splits prod.splits)

end
