(* ===== verification/Rights.thy ===== *)
theory Rights
  imports Chain Commands AppModule
begin

text \<open>
  What the holder of a denom can always do, and what anybody else can never do, in a reachable state; and who counts as the
  holder. A handler compares the sender with the stored admin as texts, while the signer of a message is the address that the
  text decodes to: of two spellings of one address, only the stored one is the admin.
\<close>

lemma stranger_refused:
  assumes "sdk_laws E" and "reachable E c" and "admins E (store c) d = Some a" and "s \<noteq> a"
  shows "mint_Sender mm = s \<Longrightarrow> coin_Denom (mint_Amount mm) = d \<Longrightarrow> MsgServer_Mint E mm c = (Inl ErrUnauthorized, c)"
    and "burn_Sender mb = s \<Longrightarrow> coin_Denom (burn_Amount mb) = d \<Longrightarrow> MsgServer_Burn E mb c = (Inl ErrUnauthorized, c)"
    and "ft_Sender mf = s \<Longrightarrow> coin_Denom (ft_Amount mf) = d \<Longrightarrow> MsgServer_ForceTransfer E mf c = (Inl ErrUnauthorized, c)"
    and "ca_Sender mc = s \<Longrightarrow> ca_Denom mc = d \<Longrightarrow> MsgServer_ChangeAdmin E mc c = (Inl ErrUnauthorized, c)"
    and "sdm_Sender ms = s \<Longrightarrow> meta_Base (sdm_Metadata ms) = d \<Longrightarrow> Metadata_Validate E (sdm_Metadata ms) = Inr () \<Longrightarrow>
      MsgServer_SetDenomMetadata E ms c = (Inl ErrUnauthorized, c)"
proof -
  have meta: "snd (GetDenomMetaData E (world c) d)"
    by (rule InvD(3) [OF reachable_Inv [OF assms(1,2)] assms(3)])
  have am: "GetAuthorityMetadata E d c = (Inr \<lparr>Admin = a\<rparr>, c)"
    using GetAuthorityMetadata_run [OF sdk_lawsD(2) [OF assms(1)] reachable_wf [OF assms(1,2)], of d] assms(3)
    by (simp add: admin_or_none_def)
  note defs = MsgServer_Mint_def MsgServer_Burn_def MsgServer_ForceTransfer_def MsgServer_ChangeAdmin_def
    MsgServer_SetDenomMetadata_def bindM_basic bindM_guardM bindM_liftM admin_check_refuses
  show "mint_Sender mm = s \<Longrightarrow> coin_Denom (mint_Amount mm) = d \<Longrightarrow> MsgServer_Mint E mm c = (Inl ErrUnauthorized, c)"
    using meta am assms(4) by (auto simp: defs)
  show "burn_Sender mb = s \<Longrightarrow> coin_Denom (burn_Amount mb) = d \<Longrightarrow> MsgServer_Burn E mb c = (Inl ErrUnauthorized, c)"
    using am assms(4) by (auto simp: defs)
  show "ft_Sender mf = s \<Longrightarrow> coin_Denom (ft_Amount mf) = d \<Longrightarrow> MsgServer_ForceTransfer E mf c = (Inl ErrUnauthorized, c)"
    using am assms(4) by (auto simp: defs)
  show "ca_Sender mc = s \<Longrightarrow> ca_Denom mc = d \<Longrightarrow> MsgServer_ChangeAdmin E mc c = (Inl ErrUnauthorized, c)"
    using am assms(4) by (auto simp: defs)
  show "sdm_Sender ms = s \<Longrightarrow> meta_Base (sdm_Metadata ms) = d \<Longrightarrow> Metadata_Validate E (sdm_Metadata ms) = Inr () \<Longrightarrow>
      MsgServer_SetDenomMetadata E ms c = (Inl ErrUnauthorized, c)"
    using am assms(4) by (auto simp: defs)
qed

lemma hand_over:
  assumes "sdk_laws E" and "reachable E c" and "admins E (store c) d = Some a" and "a \<noteq> ''''"
    and "AccAddressFromBech32 E b = Inr x"
  shows "\<exists>c'. deliver_tx E [ChangeAdminMsg (NewMsgChangeAdmin a d b)] c = (Inr (), c') \<and> reachable E c' \<and>
    admins E (store c') = (admins E (store c))(d \<mapsto> b)"
proof -
  note l = sdk_lawsD [OF assms(1)]
  let ?m = "NewMsgChangeAdmin a d b"
  have b: "b \<noteq> ''''" and ok: "admin_ok E b"
    using assms(5) bech32_empty [OF l(2)] by (auto simp: admin_ok_def)
  have a: "\<exists>y. AccAddressFromBech32 E a = Inr y"
    using Inv_admin_ok [OF l(2) reachable_Inv [OF assms(1,2)] assms(3)] assms(4) by (auto simp: admin_ok_def)
  have d: "denom_ok E d" using Inv_denom_ok [OF l(2) reachable_Inv [OF assms(1,2)] assms(3)] .
  have "validate_msgs E [ChangeAdminMsg ?m] = Inr ()"
    using a d assms(5) by (auto simp: MsgChangeAdmin_ValidateBasic_def NewMsgChangeAdmin_def orErr_def denom_ok_def andThen_eq_Inr)
  moreover obtain c' where run: "MsgServer_ChangeAdmin E ?m c = (Inr MsgChangeAdminResponse, c')"
    and c': "store c' = put_metadata E d \<lparr>Admin = b\<rparr> (store c)"
    using ChangeAdmin_handler_eq_Inr [OF l(2) reachable_wf [OF assms(1,2)], of ?m] assms(3) ok
    by (auto simp: NewMsgChangeAdmin_def admin_or_none_def)
  ultimately have tx: "deliver_tx E [ChangeAdminMsg ?m] c = (Inr (), c')"
    by (auto simp: deliver_tx_eq_Inr bindM_eq_Inr ignore_eq_Inr action_simps)
  moreover have "admins E (store c') = (admins E (store c))(d \<mapsto> b)"
    using admins_put_metadata [OF l(1,2), of "\<lparr>Admin = b\<rparr>"] ok c' by simp
  ultimately show ?thesis using reachable_tx [OF assms(2)] by blast
qed

section \<open>Commands\<close>

text \<open>The commands that act on a denom name the canonical spelling of the client's address.\<close>

lemma command_is_refused:
  assumes "sdk_laws E" and "reachable E c" and "delivers E broadcast" and "admins E (store c) (coin_Denom amount) = Some x"
    and "AccAddressFromBech32 E y = Inr a" and "AccAddress_String E a \<noteq> x"
    and "parse t = Inr amount" and "Coin_IsValid E amount" and "coin_Amount amount \<noteq> 0"
  shows "NewMintCmd_RunE E parse broadcast (Inr a) [t] c = (Inl ErrUnauthorized, c)"
    and "NewBurnCmd_RunE E parse broadcast (Inr a) [t] c = (Inl ErrUnauthorized, c)"
proof -
  have a: "AccAddressFromBech32 E (AccAddress_String E a) = Inr a"
    by (rule bech32_again [OF sdk_lawsD(2) [OF assms(1)] assms(5)])
  let ?m = "NewMsgMint (AccAddress_String E a) amount" and ?b = "NewMsgBurn (AccAddress_String E a) amount"
  note refused = stranger_refused [OF assms(1,2,4,6)]
  have "MsgServer_Mint E ?m c = (Inl ErrUnauthorized, c)" by (rule refused(1)) (simp_all add: NewMsgMint_def)
  then have "deliver_tx E [MintMsg ?m] c = (Inl ErrUnauthorized, c)"
    using a assms(8,9)
    by (simp add: deliver_tx_def MsgMint_ValidateBasic_def NewMsgMint_def orErr_def bindM_def ignore_def)
  then show "NewMintCmd_RunE E parse broadcast (Inr a) [t] c = (Inl ErrUnauthorized, c)"
    using assms(3,7) by (simp add: NewMintCmd_RunE_def NewMintCmd_def ExactArgs_def arg_def bindM_liftM delivers_def)
  have "MsgServer_Burn E ?b c = (Inl ErrUnauthorized, c)" by (rule refused(2)) (simp_all add: NewMsgBurn_def)
  then have "deliver_tx E [BurnMsg ?b] c = (Inl ErrUnauthorized, c)"
    using a assms(8,9)
    by (simp add: deliver_tx_def MsgBurn_ValidateBasic_def NewMsgBurn_def orErr_def bindM_def ignore_def)
  then show "NewBurnCmd_RunE E parse broadcast (Inr a) [t] c = (Inl ErrUnauthorized, c)"
    using assms(3,7) by (simp add: NewBurnCmd_RunE_def NewBurnCmd_def ExactArgs_def arg_def bindM_liftM delivers_def)
qed

end
