(* ===== verification/Encoding.thy ===== *)
theory Encoding
  imports Prelude
begin

text \<open>
  \<open>simapp/params\<close>: the encoding configuration, which collects the SDK's codecs, and the default weights of simulated
  messages of the SDK's modules. The codecs and their constructors are parameters.
\<close>

record ('i, 'm, 't, 'a) EncodingConfig =
  InterfaceRegistry :: 'i
  Marshaler :: 'm
  TxConfig :: 't
  Amino :: 'a

text \<open>Two files define \<open>MakeTestEncodingConfig\<close>; the build tag \<open>test_amino\<close> chooses.\<close>

definition proto_MakeTestEncodingConfig ::
  "'a \<Rightarrow> 'i \<Rightarrow> ('i \<Rightarrow> 'm) \<Rightarrow> ('m \<Rightarrow> 't) \<Rightarrow> ('i, 'm, 't, 'a) EncodingConfig" where
  "proto_MakeTestEncodingConfig NewLegacyAmino NewInterfaceRegistry NewProtoCodec NewTxConfig =
    (let marshaler = NewProtoCodec NewInterfaceRegistry in
     \<lparr>InterfaceRegistry = NewInterfaceRegistry, Marshaler = marshaler, TxConfig = NewTxConfig marshaler,
      Amino = NewLegacyAmino\<rparr>)"

definition amino_MakeTestEncodingConfig ::
  "'a \<Rightarrow> 'i \<Rightarrow> ('a \<Rightarrow> 'm) \<Rightarrow> ('a \<Rightarrow> 't) \<Rightarrow> ('i, 'm, 't, 'a) EncodingConfig" where
  "amino_MakeTestEncodingConfig NewLegacyAmino NewInterfaceRegistry NewAminoCodec StdTxConfig =
    \<lparr>InterfaceRegistry = NewInterfaceRegistry, Marshaler = NewAminoCodec NewLegacyAmino,
     TxConfig = StdTxConfig NewLegacyAmino, Amino = NewLegacyAmino\<rparr>"

definition default_weights :: "(string \<times> int) list" where
  "default_weights = [(''MsgSend'', 100), (''MsgMultiSend'', 10), (''MsgSetWithdrawAddress'', 50),
     (''MsgWithdrawDelegationReward'', 50), (''MsgWithdrawValidatorCommission'', 50), (''MsgFundCommunityPool'', 50),
     (''MsgDeposit'', 100), (''MsgVote'', 67), (''MsgVoteWeighted'', 33), (''MsgUnjail'', 100),
     (''MsgCreateValidator'', 100), (''MsgEditValidator'', 5), (''MsgDelegate'', 100), (''MsgUndelegate'', 100),
     (''MsgBeginRedelegate'', 100), (''CommunitySpendProposal'', 5), (''TextProposal'', 5),
     (''ParamChangeProposal'', 5), (''GrantAllowance'', 100), (''RevokeAllowance'', 100)]"

end
