(* ===== verification/NewApp.thy ===== *)
theory NewApp
  imports App GoLib ParamTypes Encoding
begin

text \<open>
  Construction: \<open>keeper/keeper.go\<close>'s \<open>NewKeeper\<close>, and \<open>NewSimApp\<close> of \<open>simapp/app.go\<close> with the parts that
  \<open>App\<close> describes, together with the application's getters and API routes. The base application of the SDK is a state \<open>'b\<close>
  that the constructor's calls change, in the order of the code.
\<close>

section \<open>The keeper\<close>

text \<open>The interface of the contract keeper, which no code of the module calls.\<close>

record 's ContractKeeper =
  Sudo :: "bytes \<Rightarrow> bytes \<Rightarrow> ('s, bytes) action"

record ('p, 'a, 'b, 'd, 's) Keeper =
  keeper_storeKey :: store_key
  keeper_paramSpace :: 'p
  keeper_accountKeeper :: 'a
  keeper_bankKeeper :: 'b
  keeper_contractKeeper :: "'s ContractKeeper option"
  keeper_distrKeeper :: 'd

text \<open>\<open>WithKeyTable\<close> panics if the space has a table. The contract keeper is nil at first.\<close>

definition NewKeeper ::
  "('k, 'w) sdk \<Rightarrow> ('p \<Rightarrow> bool) \<Rightarrow> ('p \<Rightarrow> param_pair list \<Rightarrow> 'p result) \<Rightarrow>
    store_key \<Rightarrow> 'p \<Rightarrow> 'a \<Rightarrow> 'b \<Rightarrow> 'd \<Rightarrow> ('p, 'a, 'b, 'd, 's) Keeper result" where
  "NewKeeper E HasKeyTable WithKeyTable storeKey paramSpace accountKeeper bankKeeper distrKeeper =
    andThen (if \<not> HasKeyTable paramSpace then WithKeyTable paramSpace (ParamKeyTable E) else Inr paramSpace)
      (\<lambda>paramSpace'.
        Inr \<lparr>keeper_storeKey = storeKey, keeper_paramSpace = paramSpace', keeper_accountKeeper = accountKeeper,
          keeper_bankKeeper = bankKeeper, keeper_contractKeeper = None, keeper_distrKeeper = distrKeeper\<rparr>)"

definition SetContractKeeper ::
  "'s ContractKeeper \<Rightarrow> ('p, 'a, 'b, 'd, 's) Keeper \<Rightarrow> ('p, 'a, 'b, 'd, 's) Keeper" where
  "SetContractKeeper contractKeeper k = k\<lparr>keeper_contractKeeper := Some contractKeeper\<rparr>"

text \<open>The logger of the module is the context's, with one more pair of key and value.\<close>

definition Keeper_Logger :: "('l \<Rightarrow> string \<Rightarrow> string \<Rightarrow> 'l) \<Rightarrow> 'l \<Rightarrow> 'l" where
  "Keeper_Logger With logger = With logger ''module'' (''x/'' @ ModuleName)"

text \<open>A space without a table gets one, a space with a table keeps it; a second keeper on the same space is built, too.\<close>

definition key_table_laws :: "('p \<Rightarrow> bool) \<Rightarrow> ('p \<Rightarrow> param_pair list \<Rightarrow> 'p result) \<Rightarrow> bool" where
  "key_table_laws HasKeyTable WithKeyTable \<longleftrightarrow>
    (\<forall>p t. if HasKeyTable p then \<exists>e. WithKeyTable p t = Inl (GoPanic e)
           else \<exists>p'. WithKeyTable p t = Inr p' \<and> HasKeyTable p')"

lemma NewKeeper_never_panics:
  assumes "key_table_laws has with_table"
  shows "\<exists>k. NewKeeper E has with_table key p a b d = Inr k \<and> has (keeper_paramSpace k) \<and>
    NewKeeper E has with_table key (keeper_paramSpace k) a b d = Inr k"
proof (cases "has p")
  case True
  then show ?thesis by (simp add: NewKeeper_def)
next
  case False
  then obtain p' where "with_table p (ParamKeyTable E) = Inr p'" "has p'"
    using assms unfolding key_table_laws_def by meson
  with False show ?thesis by (simp add: NewKeeper_def)
qed

section \<open>Parts of the constructor\<close>

definition appName :: string where "appName = ''SimApp''"

text \<open>The home directory of the user is found or the process panics.\<close>

definition DefaultNodeHome :: "string result \<Rightarrow> string result" where
  "DefaultNodeHome UserHomeDir =
    andThen (must UserHomeDir) (\<lambda>userHomeDir. Inr (filepath_Join [userHomeDir, ''.simapp'']))"

definition transient_keys :: "store_key list" where "transient_keys = [ParamsStore]"

text \<open>The memory store of the capability module, and one for tests.\<close>

definition memory_keys :: "store_key option list" where "memory_keys = [Some CapabilityStore, None]"

text \<open>The modules whose hooks the staking keeper calls, in this order, and the routes of the governance module's
  proposals with the module whose keeper handles them (\<open>None\<close>: text proposals).\<close>

definition staking_hooks :: "app_module list" where "staking_hooks = [DistrModule, SlashingModule]"

definition gov_routes :: "(app_module \<times> app_module option) list" where
  "gov_routes = [(GovModule, None), (ParamsModule, Some ParamsModule), (DistrModule, Some DistrModule),
     (UpgradeModule, Some UpgradeModule)]"

text \<open>The ante handler: its keepers; the sign mode handler and the gas consumer are the SDK's.\<close>

definition ante_keepers :: "app_module list" where "ante_keepers = [AuthModule, BankModule, FeegrantModule]"

section \<open>\<open>NewSimApp\<close>\<close>

text \<open>The SDK's methods of the base application and the module manager; \<open>NewKeepers\<close> runs the constructors of the
  keepers with their wiring, hooks and routes. \<open>os.Exit\<close> ends the process like a panic.\<close>

record ('i, 'm, 't, 'a, 'b, 'h) baseapp_sdk =
  NewBaseApp :: "string \<Rightarrow> 't \<Rightarrow> 'b \<Rightarrow> 'b"
  SetCommitMultiStoreTracer :: "'b \<Rightarrow> 'b"
  SetVersion :: "'b \<Rightarrow> 'b"
  SetInterfaceRegistry :: "'i \<Rightarrow> 'b \<Rightarrow> 'b"
  LoadStreamingServices :: "'m \<Rightarrow> store_key list \<Rightarrow> ('b, unit) action"
  SetParamStore :: "app_module list \<Rightarrow> 'b \<Rightarrow> 'b"
  NewKeepers :: "'m \<Rightarrow> 'a \<Rightarrow> (app_module \<times> keeper_wiring) list \<Rightarrow> app_module list \<Rightarrow> (app_module \<times> app_module option) list \<Rightarrow>
    ('b, unit) action"
  NewManager :: "'m \<Rightarrow> app_module list \<Rightarrow> bool \<Rightarrow> ('b, unit) action"
  SetOrders :: "app_module list \<Rightarrow> app_module list \<Rightarrow> app_module list \<Rightarrow> ('b, unit) action"
  RegisterInvariants :: "app_module list \<Rightarrow> ('b, unit) action"
  RegisterRoutes :: "app_module list \<Rightarrow> ('b, unit) action"
  RegisterServices :: "app_module list \<Rightarrow> ('b, unit) action"
  RegisterTestQueryServer :: "('b, unit) action"
  NewSimulationManager :: "'m \<Rightarrow> app_module list \<Rightarrow> app_module list \<Rightarrow> ('b, unit) action"
  RegisterStoreDecoders :: "('b, unit) action"
  MountKVStores :: "store_key list \<Rightarrow> ('b, unit) action"
  MountTransientStores :: "store_key list \<Rightarrow> ('b, unit) action"
  MountMemoryStores :: "store_key option list \<Rightarrow> ('b, unit) action"
  SetInitChainer :: "app_module list \<Rightarrow> ('b, unit) action"
  SetBeginBlocker :: "app_module list \<Rightarrow> ('b, unit) action"
  NewAnteHandler :: "app_module list \<Rightarrow> 't \<Rightarrow> 'h result"
  SetAnteHandler :: "'h \<Rightarrow> ('b, unit) action"
  SetEndBlocker :: "app_module list \<Rightarrow> ('b, unit) action"
  LoadLatestVersion :: "('b, unit) action"

definition fatal :: "('s, 'a) action \<Rightarrow> ('s, 'a) action" where
  "fatal m s = (case m s of (r, s') \<Rightarrow> (must r, s'))"

record ('i, 'm, 'a) sim_app =
  app_legacyAmino :: 'a
  app_appCodec :: 'm
  app_interfaceRegistry :: 'i
  app_invCheckPeriod :: u64
  app_kv_keys :: "store_key list"
  app_tkeys :: "store_key list"
  app_memKeys :: "store_key option list"
  app_ParamsKeeper :: "app_module list"
  app_keepers :: "(app_module \<times> keeper_wiring) list"
  app_mm :: "app_module list"
  app_sm :: "app_module list \<times> app_module list"

text \<open>\<open>NewBaseApp\<close> is given the name and, from the transaction configuration, the decoder; the state before it is the
  logger and the database. The block and genesis handlers run the modules in the orders given to the manager; the simulation manager runs the
  modules of the manager, with its own instance of the auth module.\<close>

definition register_modules ::
  "('i, 'm, 't, 'a, 'b, 'h) baseapp_sdk \<Rightarrow> ('i, 'm, 't, 'a) EncodingConfig \<Rightarrow> ('b, unit) action" where
  "register_modules B enc =
    bindM (RegisterInvariants B module_manager) (\<lambda>_.
    bindM (RegisterRoutes B module_manager) (\<lambda>_.
    bindM (RegisterServices B module_manager) (\<lambda>_.
    bindM (RegisterTestQueryServer B) (\<lambda>_.
    bindM (NewSimulationManager B (Marshaler enc) module_manager [AuthModule]) (\<lambda>_.
      RegisterStoreDecoders B)))))"

definition build_base ::
  "('i, 'm, 't, 'a, 'b, 'h) baseapp_sdk \<Rightarrow> bool \<Rightarrow> ('i, 'm, 't, 'a) EncodingConfig \<Rightarrow> ('b, unit) action" where
  "build_base B skipGenesisInvariants enc =
    bindM (modifyM (NewBaseApp B appName (TxConfig enc))) (\<lambda>_.
    bindM (modifyM (SetCommitMultiStoreTracer B)) (\<lambda>_.
    bindM (modifyM (SetVersion B)) (\<lambda>_.
    bindM (modifyM (SetInterfaceRegistry B (InterfaceRegistry enc))) (\<lambda>_.
    bindM (fatal (LoadStreamingServices B (Marshaler enc) app_keys)) (\<lambda>_.
    bindM (modifyM (SetParamStore B initParamsKeeper)) (\<lambda>_.
    bindM (NewKeepers B (Marshaler enc) (Amino enc) wiring staking_hooks gov_routes) (\<lambda>_.
    bindM (NewManager B (Marshaler enc) module_manager skipGenesisInvariants) (\<lambda>_.
    bindM (SetOrders B OrderBeginBlockers OrderEndBlockers OrderInitGenesis) (\<lambda>_.
      register_modules B enc)))))))))"

definition set_handlers ::
  "('i, 'm, 't, 'a, 'b, 'h) baseapp_sdk \<Rightarrow> ('i, 'm, 't, 'a) EncodingConfig \<Rightarrow> ('b, unit) action" where
  "set_handlers B enc =
    bindM (MountKVStores B app_keys) (\<lambda>_.
    bindM (MountTransientStores B transient_keys) (\<lambda>_.
    bindM (MountMemoryStores B memory_keys) (\<lambda>_.
    bindM (SetInitChainer B OrderInitGenesis) (\<lambda>_.
    bindM (SetBeginBlocker B OrderBeginBlockers) (\<lambda>_.
    bindM (liftM (must (NewAnteHandler B ante_keepers (TxConfig enc)))) (\<lambda>anteHandler.
    bindM (SetAnteHandler B anteHandler) (\<lambda>_.
      SetEndBlocker B OrderEndBlockers)))))))"

definition NewSimApp ::
  "('i, 'm, 't, 'a, 'b, 'h) baseapp_sdk \<Rightarrow> bool \<Rightarrow> u64 \<Rightarrow> bool \<Rightarrow> ('i, 'm, 't, 'a) EncodingConfig \<Rightarrow>
    ('b, ('i, 'm, 'a) sim_app) action" where
  "NewSimApp B loadLatest invCheckPeriod skipGenesisInvariants encodingConfig =
    bindM (build_base B skipGenesisInvariants encodingConfig) (\<lambda>_.
    bindM (set_handlers B encodingConfig) (\<lambda>_.
    bindM (if loadLatest then fatal (LoadLatestVersion B) else retM ()) (\<lambda>_.
      retM \<lparr>app_legacyAmino = Amino encodingConfig, app_appCodec = Marshaler encodingConfig,
        app_interfaceRegistry = InterfaceRegistry encodingConfig, app_invCheckPeriod = invCheckPeriod, app_kv_keys = app_keys, app_tkeys = transient_keys,
        app_memKeys = memory_keys, app_ParamsKeeper = initParamsKeeper, app_keepers = wiring,
        app_mm = module_manager, app_sm = (module_manager, [AuthModule])\<rparr>)))"

section \<open>Getters and routes\<close>

definition LoadHeight :: "(int \<Rightarrow> ('b, unit) action) \<Rightarrow> int \<Rightarrow> ('b, unit) action" where
  "LoadHeight LoadVersion height = LoadVersion height"

definition GetTKey :: "('i, 'm, 'a) sim_app \<Rightarrow> store_key \<Rightarrow> store_key option" where
  "GetTKey app k = (if k \<in> set (app_tkeys app) then Some k else None)"

definition GetMemKey :: "('i, 'm, 'a) sim_app \<Rightarrow> store_key option \<Rightarrow> store_key option option" where
  "GetMemKey app k = (if k \<in> set (app_memKeys app) then Some k else None)"

definition LegacyAmino :: "('i, 'm, 'a) sim_app \<Rightarrow> 'a" where "LegacyAmino app = app_legacyAmino app"

definition AppCodec :: "('i, 'm, 'a) sim_app \<Rightarrow> 'm" where "AppCodec app = app_appCodec app"

definition SimApp_InterfaceRegistry :: "('i, 'm, 'a) sim_app \<Rightarrow> 'i" where
  "SimApp_InterfaceRegistry app = app_interfaceRegistry app"

text \<open>The simulation manager: the modules of the manager and those that replace one of them.\<close>

definition SimulationManager :: "('i, 'm, 'a) sim_app \<Rightarrow> app_module list \<times> app_module list" where
  "SimulationManager app = app_sm app"

text \<open>Services of the SDK, registered with the query router of the base application: \<open>register\<close> is the SDK's function.\<close>

definition RegisterTxService ::
  "('q \<Rightarrow> 'c \<Rightarrow> 'sim \<Rightarrow> 'i \<Rightarrow> 'q) \<Rightarrow> ('b \<Rightarrow> 'q) \<Rightarrow> ('b \<Rightarrow> 'sim) \<Rightarrow> ('i, 'm, 'a) sim_app \<Rightarrow> 'b \<Rightarrow> 'c \<Rightarrow> 'q" where
  "RegisterTxService register GRPCQueryRouter Simulate app base clientCtx =
    register (GRPCQueryRouter base) clientCtx (Simulate base) (app_interfaceRegistry app)"

definition RegisterTendermintService ::
  "('q \<Rightarrow> 'c \<Rightarrow> 'i \<Rightarrow> 'q) \<Rightarrow> ('b \<Rightarrow> 'q) \<Rightarrow> ('i, 'm, 'a) sim_app \<Rightarrow> 'b \<Rightarrow> 'c \<Rightarrow> 'q" where
  "RegisterTendermintService register GRPCQueryRouter app base clientCtx =
    register (GRPCQueryRouter base) clientCtx (app_interfaceRegistry app)"

definition RegisterNodeService :: "('c \<Rightarrow> 'q \<Rightarrow> 'q) \<Rightarrow> ('b \<Rightarrow> 'q) \<Rightarrow> 'b \<Rightarrow> 'c \<Rightarrow> 'q" where
  "RegisterNodeService register GRPCQueryRouter base clientCtx = register clientCtx (GRPCQueryRouter base)"

datatype api_route =
    RpcRoutes | LegacyTxRoutes | TxGatewayRoutes | TendermintGatewayRoutes
  | ModuleRESTRoutes app_module | ModuleGatewayRoutes app_module | SwaggerRoutes

definition RegisterSwaggerAPI :: "unit result \<Rightarrow> api_route list result" where
  "RegisterSwaggerAPI fs_New = andThen (must fs_New) (\<lambda>_. Inr [SwaggerRoutes])"

definition RegisterAPIRoutes :: "unit result \<Rightarrow> bool \<Rightarrow> api_route list result" where
  "RegisterAPIRoutes fs_New swagger =
    andThen (if swagger then RegisterSwaggerAPI fs_New else Inr []) (\<lambda>swagger_routes.
      Inr ([RpcRoutes, LegacyTxRoutes, TxGatewayRoutes, TendermintGatewayRoutes] @
        map ModuleRESTRoutes ModuleBasics @ map ModuleGatewayRoutes ModuleBasics @ swagger_routes))"

section \<open>What an application has\<close>

text \<open>Every store that a keeper uses is mounted, and every mounted store is used by a keeper or holds the parameters.\<close>

lemma GetKey_eq: "GetKey k = Some k"
  by (cases k) (simp_all add: GetKey_def app_keys_def)

lemma wiring_stores:
  "map (\<lambda>(m, w). kw_Store w) wiring = [Some CapabilityStore, Some AuthStore, Some BankStore, Some StakingStore,
     Some MintStore, Some DistrStore, Some SlashingStore, None, Some FeegrantStore, Some UpgradeStore, Some AuthzStore,
     Some GovStore, Some EvidenceStore, Some TokenfactoryStore]"
  by (simp add: wiring_def GetKey_eq)

lemma mounted_stores: "k \<in> set app_keys \<longleftrightarrow> k = ParamsStore \<or> Some k \<in> set (map (\<lambda>(m, w). kw_Store w) wiring)"
  unfolding wiring_stores by (cases k) (simp_all add: app_keys_def)

text \<open>A keeper's modules, the ante handler's and the hooks' have keepers.\<close>

lemma wiring_has_keepers:
  "set ante_keepers \<union> set staking_hooks \<union> {m. \<exists>r. (r, Some m) \<in> set gov_routes} \<subseteq> insert ParamsModule (fst ` set wiring)"
  by (auto simp: ante_keepers_def staking_hooks_def gov_routes_def wiring_def)

lemma NewSimApp_result:
  assumes "NewSimApp B loadLatest period skip enc b = (Inr app, b')"
  shows "app_keepers app = wiring" and "app_kv_keys app = app_keys" and "app_mm app = module_manager"
    and "app_invCheckPeriod app = period" and "AppCodec app = Marshaler enc" and "LegacyAmino app = Amino enc"
    and "SimApp_InterfaceRegistry app = InterfaceRegistry enc"
  using assms by (auto simp: NewSimApp_def bindM_eq_Inr retM_def LegacyAmino_def AppCodec_def SimApp_InterfaceRegistry_def)

text \<open>Loading the latest version comes last: an application built without it differs by exactly that.\<close>

lemma NewSimApp_loads_last:
  assumes "NewSimApp B False period skip enc b = (Inr app, b')"
  shows "NewSimApp B True period skip enc b =
    (case LoadLatestVersion B b' of (r, b'') \<Rightarrow> (andThen (must r) (\<lambda>_. Inr app), b''))"
  using assms
  by (auto simp: NewSimApp_def bindM_def fatal_def retM_def must_def split: prod.splits sum.splits)

end
