(* ===== verification/AppInterface.thy ===== *)
theory AppInterface
  imports NewApp AppStart
begin

text \<open>
  \<open>simapp/types.go\<close>: the interface of an application, and the example application seen through it. The state \<open>'s\<close> is that of
  the chain; the base application, the module manager and the keepers that export are the SDK's.
\<close>

record ('s, 'q, 'r, 'u, 'a) App =
  App_Name :: string
  App_LegacyAmino :: 'a
  App_BeginBlocker :: "'q \<Rightarrow> ('s, 'u) action"
  App_EndBlocker :: "'q \<Rightarrow> ('s, 'u) action"
  App_InitChainer :: "'r \<Rightarrow> ('s, 'u) action"
  App_LoadHeight :: "int \<Rightarrow> ('s, unit) action"
  App_ExportAppStateAndValidators :: "bool \<Rightarrow> string list \<Rightarrow> ('s, 'r exported_app) action"
  App_ModuleAccountAddrs :: "string \<Rightarrow> bool option"
  App_SimulationManager :: "app_module list \<times> app_module list"

text \<open>\<open>app.BaseApp.Name()\<close> is the name that \<open>NewBaseApp\<close> was given.\<close>

definition SimApp_Name :: string where
  "SimApp_Name = appName"

text \<open>What \<open>SimApp\<close> embeds and holds of the SDK: \<open>LoadVersion\<close> of the base application, the text of a module account's address, and
  the manager's methods for blocks.\<close>

record ('s, 'q, 'u) base_methods =
  base_LoadVersion :: "int \<Rightarrow> ('s, unit) action"
  base_ModuleAddress :: "module_account \<Rightarrow> string"
  base_BeginBlock :: "app_module list \<Rightarrow> 'q \<Rightarrow> ('s, 'u) action"
  base_EndBlock :: "app_module list \<Rightarrow> 'q \<Rightarrow> ('s, 'u) action"

definition SimApp_App ::
  "('r, 'f, 'z) app_sdk_scheme \<Rightarrow> ('r, 's, 'u) manager \<Rightarrow> ('s, 'd, 'r) export_sdk \<Rightarrow> ('s, 'q, 'u) base_methods \<Rightarrow>
    ('i, 'm, 'a) sim_app \<Rightarrow> ('s, 'q, 'r, 'u, 'a) App" where
  "SimApp_App A M X B app = \<lparr>App_Name = SimApp_Name, App_LegacyAmino = LegacyAmino app,
     App_BeginBlocker = BeginBlocker (base_BeginBlock B), App_EndBlocker = EndBlocker (base_EndBlock B),
     App_InitChainer = InitChainer A (mgr_SetModuleVersionMap M) (mgr_InitGenesis M),
     App_LoadHeight = LoadHeight (base_LoadVersion B),
     App_ExportAppStateAndValidators = ExportAppStateAndValidators X,
     App_ModuleAccountAddrs = ModuleAccountAddrs (base_ModuleAddress B),
     App_SimulationManager = SimulationManager app\<rparr>"

text \<open>The accounts of the interface are those that may hold coins: minting and burning happen on one of them.\<close>

lemma SimApp_module_account:
  "App_ModuleAccountAddrs (SimApp_App A M X B app) (base_ModuleAddress B TokenfactoryAccount) = Some True"
  by (simp add: SimApp_App_def ModuleAccountAddrs_def maccPerms_def)

end
