(* ===== verification/AppState.thy ===== *)
theory AppState
  imports AppGenesis
begin

text \<open>
  \<open>simapp/state.go\<close>: the initial state of a simulation, from a genesis file, from a file of parameters, or
  random; \<open>simapp/config.go\<close>: the simulator's flags;
  \<open>simapp/utils.go\<close>: helpers of its tests. The state \<open>'g\<close> of the random generator is threaded through;
  files are only read. Every error is a panic.
\<close>

section \<open>Flags and configuration\<close>

record sim_config =
  cfg_GenesisFile :: string
  cfg_ParamsFile :: string
  cfg_ExportParamsPath :: string
  cfg_ExportParamsHeight :: int
  cfg_ExportStatePath :: string
  cfg_ExportStatsPath :: string
  cfg_Seed :: u64
  cfg_InitialBlockHeight :: int
  cfg_NumBlocks :: int
  cfg_BlockSize :: int
  cfg_ChainID :: string
  cfg_Lean :: bool
  cfg_Commit :: bool
  cfg_OnOperation :: bool
  cfg_AllInvariants :: bool

record sim_flags =
  FlagGenesisFileValue :: string
  FlagParamsFileValue :: string
  FlagExportParamsPathValue :: string
  FlagExportParamsHeightValue :: int
  FlagExportStatePathValue :: string
  FlagExportStatsPathValue :: string
  FlagSeedValue :: u64
  FlagInitialBlockHeightValue :: int
  FlagNumBlocksValue :: int
  FlagBlockSizeValue :: int
  FlagLeanValue :: bool
  FlagCommitValue :: bool
  FlagOnOperationValue :: bool
  FlagAllInvariantsValue :: bool
  FlagEnabledValue :: bool
  FlagVerboseValue :: bool
  FlagPeriodValue :: nat
  FlagGenesisTimeValue :: u64

text \<open>The values that \<open>GetSimulatorFlags\<close> declares for flags that are not given.\<close>

definition GetSimulatorFlags :: sim_flags where
  "GetSimulatorFlags = \<lparr>FlagGenesisFileValue = '''', FlagParamsFileValue = '''',
     FlagExportParamsPathValue = '''', FlagExportParamsHeightValue = 0, FlagExportStatePathValue = '''',
     FlagExportStatsPathValue = '''', FlagSeedValue = 42, FlagInitialBlockHeightValue = 1,
     FlagNumBlocksValue = 500, FlagBlockSizeValue = 200, FlagLeanValue = False, FlagCommitValue = False,
     FlagOnOperationValue = False, FlagAllInvariantsValue = False, FlagEnabledValue = False,
     FlagVerboseValue = False, FlagPeriodValue = 0, FlagGenesisTimeValue = 0\<rparr>"

definition NewConfigFromFlags :: "sim_flags \<Rightarrow> sim_config" where
  "NewConfigFromFlags f = \<lparr>cfg_GenesisFile = FlagGenesisFileValue f, cfg_ParamsFile = FlagParamsFileValue f,
     cfg_ExportParamsPath = FlagExportParamsPathValue f, cfg_ExportParamsHeight = FlagExportParamsHeightValue f,
     cfg_ExportStatePath = FlagExportStatePathValue f, cfg_ExportStatsPath = FlagExportStatsPathValue f,
     cfg_Seed = FlagSeedValue f, cfg_InitialBlockHeight = FlagInitialBlockHeightValue f,
     cfg_NumBlocks = FlagNumBlocksValue f, cfg_BlockSize = FlagBlockSizeValue f, cfg_ChainID = '''',
     cfg_Lean = FlagLeanValue f, cfg_Commit = FlagCommitValue f, cfg_OnOperation = FlagOnOperationValue f,
     cfg_AllInvariants = FlagAllInvariantsValue f\<rparr>"

section \<open>Parameters\<close>

record simulation_account =
  sim_PrivKey :: bytes
  sim_PubKey :: bytes
  sim_Address :: bytes

type_synonym app_params = "string \<Rightarrow> int option"

record 'r sim_state =
  ss_AppParams :: app_params
  ss_GenState :: "'r app_genesis"
  ss_Accounts :: "simulation_account list"
  ss_InitialStake :: int
  ss_NumBonded :: int
  ss_GenTimestamp :: int

text \<open>\<open>GenerateGenesisStates\<close> lets every module put its state into the genesis state; \<open>any_Account\<close> is the address of the
  account that a packed value holds, if it is one.\<close>

record ('r, 'f, 'g) state_sdk = "('r, 'f) app_sdk" +
  RandTimestamp :: "'g \<Rightarrow> int \<times> 'g"
  time_Unix :: "u64 \<Rightarrow> int"
  Int63n :: "int \<Rightarrow> 'g \<Rightarrow> int \<times> 'g"
  Intn31 :: "int \<Rightarrow> 'g \<Rightarrow> int \<times> 'g"
  rand_Read :: "nat \<Rightarrow> 'g \<Rightarrow> bytes result \<times> 'g"
  os_ReadFile :: "'f \<Rightarrow> string \<Rightarrow> bytes result"
  AppParams_Unmarshal :: "bytes \<Rightarrow> app_params result"
  tmjson_Unmarshal :: "bytes \<Rightarrow> 'r genesis_doc result"
  staking_UnmarshalJSON :: "'r \<Rightarrow> staking_genesis result"
  staking_MarshalJSON :: "staking_genesis \<Rightarrow> 'r result"
  state_DefaultGenesis :: "'r app_genesis result"
  GenerateGenesisStates :: "'r sim_state \<Rightarrow> ('g, 'r app_genesis) action"
  GenPrivKeyFromSecret :: "bytes \<Rightarrow> bytes"
  PrivKey_PubKey :: "bytes \<Rightarrow> bytes"
  any_Account :: "string \<times> bytes \<Rightarrow> bytes option"

definition StakePerAccount :: string where "StakePerAccount = ''stake_per_account''"
definition InitiallyBondedValidators :: string where "InitiallyBondedValidators = ''initially_bonded_validators''"
definition NotBondedPoolName :: string where "NotBondedPoolName = ''not_bonded_tokens_pool''"

definition drawM :: "('g \<Rightarrow> 'a \<times> 'g) \<Rightarrow> ('g, 'a) action" where
  "drawM f g = (case f g of (x, g') \<Rightarrow> (Inr x, g'))"

text \<open>\<open>appParams.GetOrGenerate\<close>: the configured value, or a generated one.\<close>

definition GetOrGenerateM :: "app_params \<Rightarrow> string \<Rightarrow> ('g, int) action \<Rightarrow> ('g, int) action" where
  "GetOrGenerateM ps key gen = (case ps key of Some v \<Rightarrow> retM v | None \<Rightarrow> gen)"

section \<open>Initial states\<close>

definition AppStateRandomizedFn ::
  "('r, 'f, 'g) state_sdk \<Rightarrow> simulation_account list \<Rightarrow> int \<Rightarrow> app_params \<Rightarrow>
    ('g, 'r \<times> simulation_account list) action" where
  "AppStateRandomizedFn T accs genesisTimestamp appParams =
    (let numAccs = int (length accs) in
    bindM (liftM (state_DefaultGenesis T)) (\<lambda>genesisState.
    bindM (GetOrGenerateM appParams StakePerAccount (drawM (Int63n T 1000000000000))) (\<lambda>initialStake.
    bindM (GetOrGenerateM appParams InitiallyBondedValidators (drawM (Intn31 T 300))) (\<lambda>drawn.
    let numInitiallyBonded = (if drawn > numAccs then numAccs else drawn) in
    bindM (GenerateGenesisStates T \<lparr>ss_AppParams = appParams, ss_GenState = genesisState,
       ss_Accounts = accs, ss_InitialStake = initialStake, ss_NumBonded = numInitiallyBonded,
       ss_GenTimestamp = genesisTimestamp\<rparr>) (\<lambda>genesisState'.
    bindM (liftM (must (json_Marshal T genesisState'))) (\<lambda>appState.
      retM (appState, accs)))))))"

text \<open>The accounts of a genesis file, with mock keys.\<close>

fun mock_accounts ::
  "('r, 'f, 'g) state_sdk \<Rightarrow> (string \<times> bytes) list \<Rightarrow> ('g, simulation_account list) action" where
  "mock_accounts T [] = retM []"
| "mock_accounts T (acc # accs) =
    bindM (\<lambda>g. case rand_Read T 15 g of (r, g') \<Rightarrow> (must r, g')) (\<lambda>privkeySeed.
    let privKey = GenPrivKeyFromSecret T privkeySeed in
    case any_Account T acc of
      None \<Rightarrow> failM (GoPanic ''expected account'')
    | Some a \<Rightarrow>
        bindM (mock_accounts T accs) (\<lambda>rest.
          retM (\<lparr>sim_PrivKey = privKey, sim_PubKey = PrivKey_PubKey T privKey, sim_Address = a\<rparr> # rest)))"

definition AppStateFromGenesisFileFn ::
  "('r, 'f, 'g) state_sdk \<Rightarrow> 'f \<Rightarrow> string \<Rightarrow> ('g, 'r genesis_doc \<times> simulation_account list) action" where
  "AppStateFromGenesisFileFn T fs genesisFile =
    bindM (liftM (must (os_ReadFile T fs genesisFile))) (\<lambda>bz.
    bindM (liftM (must (tmjson_Unmarshal T bz))) (\<lambda>genesis.
    bindM (liftM (must (json_Unmarshal T (doc_AppState genesis)))) (\<lambda>appState.
    bindM (liftM (case appState auth_ModuleName of
        None \<Rightarrow> Inr \<lparr>ag_Params = [], ag_Accounts = []\<rparr>
      | Some r \<Rightarrow> must (auth_UnmarshalJSON T r))) (\<lambda>authGenesis.
    bindM (mock_accounts T (ag_Accounts authGenesis)) (\<lambda>newAccs.
      retM (genesis, newAccs))))))"

section \<open>The pool of tokens that are not bonded\<close>

definition not_bonded_tokens :: "validator list \<Rightarrow> int" where
  "not_bonded_tokens vals =
    foldl (\<lambda>acc val. if val_Status val \<noteq> Unbonded then acc else acc + val_Tokens val) 0 vals"

text \<open>The second half of \<open>AppStateFn\<close>: the bank state gets the tokens of the pool, unless it has a balance for
  the pool already.\<close>

definition fund_pool ::
  "('k, 'w) sdk \<Rightarrow> ('r, 'f, 'g) state_sdk \<Rightarrow> 'r app_genesis \<Rightarrow> 'r app_genesis result" where
  "fund_pool E T rawState =
    (case rawState staking_ModuleName of None \<Rightarrow> Inl (GoPanic ''staking genesis state is missing'')
     | Some stakingStateBz \<Rightarrow>
    andThen (must (staking_UnmarshalJSON T stakingStateBz)) (\<lambda>stakingState.
    andThen (sdk_NewCoin T (sg_BondDenom stakingState) (not_bonded_tokens (sg_Validators stakingState))) (\<lambda>notBondedCoins.
    (case rawState bank_ModuleName of None \<Rightarrow> Inl (GoPanic ''bank genesis state is missing'')
     | Some bankStateBz \<Rightarrow>
    andThen (must (bank_UnmarshalJSON T bankStateBz)) (\<lambda>bankState.
    let stakingAddr = AccAddress_String E (NewModuleAddress T NotBondedPoolName);
        found = list_ex (\<lambda>balance. bal_Address balance = stakingAddr) (bg_Balances bankState) in
    andThen (if \<not> found then
        andThen (NewCoins E [notBondedCoins]) (\<lambda>cs.
          Inr (bankState\<lparr>bg_Balances := bg_Balances bankState @ [\<lparr>bal_Address = stakingAddr, bal_Coins = cs\<rparr>]\<rparr>))
      else Inr bankState) (\<lambda>bankState'.
    andThen (must (staking_MarshalJSON T stakingState)) (\<lambda>stakingBz.
    andThen (must (bank_MarshalJSON T bankState')) (\<lambda>bankBz.
      Inr (rawState(staking_ModuleName \<mapsto> stakingBz, bank_ModuleName \<mapsto> bankBz))))))))))"

definition AppStateFn ::
  "('k, 'w) sdk \<Rightarrow> ('r, 'f, 'g) state_sdk \<Rightarrow> sim_flags \<Rightarrow> 'f \<Rightarrow> simulation_account list \<Rightarrow> sim_config \<Rightarrow>
    ('g, 'r \<times> simulation_account list \<times> string \<times> int) action" where
  "AppStateFn E T fl fs accs config =
    bindM (if FlagGenesisTimeValue fl = 0 then drawM (RandTimestamp T)
           else retM (time_Unix T (FlagGenesisTimeValue fl))) (\<lambda>timestamp.
    bindM
      (if cfg_ParamsFile config \<noteq> '''' \<and> cfg_GenesisFile config \<noteq> ''''
       then failM (GoPanic ''cannot provide both a genesis file and a params file'')
       else if cfg_GenesisFile config \<noteq> '''' then
         bindM (AppStateFromGenesisFileFn T fs (cfg_GenesisFile config)) (\<lambda>(genesisDoc, accounts).
           retM (doc_AppState genesisDoc, accounts, doc_ChainID genesisDoc,
             (if FlagGenesisTimeValue fl = 0 then doc_GenesisTime genesisDoc else timestamp)))
       else
         bindM (if cfg_ParamsFile config \<noteq> '''' then
             bindM (liftM (must (os_ReadFile T fs (cfg_ParamsFile config)))) (\<lambda>bz.
               liftM (must (AppParams_Unmarshal T bz)))
           else retM Map.empty) (\<lambda>appParams.
         bindM (AppStateRandomizedFn T accs timestamp appParams) (\<lambda>(appState, simAccs).
           retM (appState, simAccs, cfg_ChainID config, timestamp))))
      (\<lambda>(appState, simAccs, chain, genesisTimestamp).
    bindM (liftM (must (json_Unmarshal T appState))) (\<lambda>rawState.
    bindM (liftM (fund_pool E T rawState)) (\<lambda>rawState'.
    bindM (liftM (must (json_Marshal T rawState'))) (\<lambda>appState'.
      retM (appState', simAccs, chain, genesisTimestamp))))))"

section \<open>Helpers of the simulation tests (\<open>simapp/utils.go\<close>)\<close>

text \<open>\<open>None\<close>: the simulation is not enabled and the test is skipped. Otherwise the configuration, the database, its
  directory, and whether the log is verbose.\<close>

definition SetupSimulation ::
  "(string \<Rightarrow> ('f, string) action) \<Rightarrow> (string \<Rightarrow> string \<Rightarrow> ('f, 'db) action) \<Rightarrow> string \<Rightarrow> sim_flags \<Rightarrow>
    string \<Rightarrow> string \<Rightarrow> ('f, (sim_config \<times> 'db \<times> string \<times> bool) option) action" where
  "SetupSimulation MkdirTemp NewLevelDB SimAppChainID fl dirPrefix dbName =
    (if \<not> FlagEnabledValue fl then retM None
     else
       (let config = (NewConfigFromFlags fl)\<lparr>cfg_ChainID := SimAppChainID\<rparr> in
        bindM (MkdirTemp dirPrefix) (\<lambda>dir.
        bindM (NewLevelDB dbName dir) (\<lambda>db.
          retM (Some (config, db, dir, FlagVerboseValue fl))))))"

text \<open>The simulation manager's functions are arguments; the result is the list of its weighted operations.\<close>

definition SimulationOperations ::
  "('r, 'f, 'g) state_sdk \<Rightarrow> (u64 \<Rightarrow> 'p) \<Rightarrow> (app_params \<Rightarrow> 'p \<Rightarrow> 'c) \<Rightarrow> (app_params \<Rightarrow> 'p \<Rightarrow> 'c \<Rightarrow> 'o list) \<Rightarrow>
    'f \<Rightarrow> sim_config \<Rightarrow> 'o list result" where
  "SimulationOperations T GenerateParamChanges GetProposalContents ManagerOperations fs config =
    andThen (if cfg_ParamsFile config \<noteq> '''' then
        andThen (must (os_ReadFile T fs (cfg_ParamsFile config))) (\<lambda>bz. must (AppParams_Unmarshal T bz))
      else Inr Map.empty) (\<lambda>appParams.
    let paramChanges = GenerateParamChanges (cfg_Seed config);
        contents = GetProposalContents appParams paramChanges in
      Inr (ManagerOperations appParams paramChanges contents))"

definition CheckExportSimulation ::
  "bytes result \<Rightarrow> bytes result \<Rightarrow> (string \<Rightarrow> bytes \<Rightarrow> ('f, unit) action) \<Rightarrow> sim_config \<Rightarrow> ('f, unit) action" where
  "CheckExportSimulation exported paramsJSON WriteFile config =
    bindM (if cfg_ExportStatePath config \<noteq> '''' then
        bindM (liftM exported) (\<lambda>bz. WriteFile (cfg_ExportStatePath config) bz) else retM ()) (\<lambda>_.
      if cfg_ExportParamsPath config \<noteq> '''' then
        bindM (liftM paramsJSON) (\<lambda>bz. WriteFile (cfg_ExportParamsPath config) bz) else retM ())"

record kv_pair =
  kv_Key :: bytes
  kv_Value :: bytes

text \<open>\<open>fmt.Sprintf("store A ...")\<close> is the parameter \<open>raw_log\<close>. The second list is indexed by the first.\<close>

fun GetSimulationLog ::
  "(string \<Rightarrow> (kv_pair \<Rightarrow> kv_pair \<Rightarrow> string) option) \<Rightarrow> (kv_pair \<Rightarrow> kv_pair \<Rightarrow> string) \<Rightarrow> string \<Rightarrow>
    kv_pair list \<Rightarrow> kv_pair list \<Rightarrow> string result" where
  "GetSimulationLog sdr raw_log storeName [] kvBs = Inr ''''"
| "GetSimulationLog sdr raw_log storeName (a # kvAs) kvBs = (case kvBs of
      [] \<Rightarrow> Inl (GoPanic ''index out of range'')
    | b # kvBs' \<Rightarrow>
        andThen (GetSimulationLog sdr raw_log storeName kvAs kvBs') (\<lambda>rest.
          Inr ((if kv_Value a = [] \<and> kv_Value b = [] then ''''
                else case sdr storeName of Some decoder \<Rightarrow> decoder a b | None \<Rightarrow> raw_log a b) @ rest)))"

text \<open>The lines that \<open>PrintStats\<close> prints; a statistic that the database does not have prints as empty. \<open>fmt.Println\<close>
  separates its arguments with a space.\<close>

definition PrintStats :: "(string \<rightharpoonup> string) \<Rightarrow> string list" where
  "PrintStats stats =
    (let at = (\<lambda>k. case stats k of Some v \<Rightarrow> v | None \<Rightarrow> '''') in
     ['''', ''LevelDB Stats'', at ''leveldb.stats'', ''LevelDB cached block size '' @ at ''leveldb.cachedblock''])"

section \<open>What the pool gets\<close>

lemma not_bonded_tokens_sum:
  "not_bonded_tokens vals = (\<Sum>v\<leftarrow>filter (\<lambda>v. val_Status v = Unbonded) vals. val_Tokens v)"
proof -
  have "foldl (\<lambda>acc val. if val_Status val \<noteq> Unbonded then acc else acc + val_Tokens val) a vals =
      a + (\<Sum>v\<leftarrow>filter (\<lambda>v. val_Status v = Unbonded) vals. val_Tokens v)" for a
    by (induction vals arbitrary: a) simp_all
  then show ?thesis by (simp add: not_bonded_tokens_def)
qed

text \<open>The supply stays as it is; the balances gain the unbonded tokens, once. So a supply that counts the validators' tokens
  but whose balances lack them, as the random genesis has it, becomes right, and running it again changes no balance.\<close>

definition pool_address :: "('k, 'w) sdk \<Rightarrow> ('r, 'f, 'z) app_sdk_scheme \<Rightarrow> string" where
  "pool_address E A = AccAddress_String E (NewModuleAddress A NotBondedPoolName)"

lemma fund_pool_bank:
  assumes laws: "app_coins_laws T" "app_codec_laws T" "coins_laws E" and run: "fund_pool E T m = Inr m'"
    and g: "GetBankGenesisStateFromAppState T m = Inr g"
    and st: "m staking_ModuleName = Some sr" "staking_UnmarshalJSON T sr = Inr st"
  shows "\<exists>g'. GetBankGenesisStateFromAppState T m' = Inr g' \<and>
    (\<forall>d. amount_of (bg_Supply g') d = amount_of (bg_Supply g) d) \<and>
    pool_address E T \<in> bal_Address ` set (bg_Balances g') \<and>
    (\<forall>d. balances_amount (bg_Balances g') d = balances_amount (bg_Balances g) d +
      (if pool_address E T \<notin> bal_Address ` set (bg_Balances g) \<and> d = sg_BondDenom st
       then not_bonded_tokens (sg_Validators st) else 0))"
proof -
  let ?addr = "pool_address E T"
  obtain r c gb where r: "m bank_ModuleName = Some r" and gb: "bank_UnmarshalJSON T r = Inr gb"
    and c: "sdk_NewCoin T (sg_BondDenom st) (not_bonded_tokens (sg_Validators st)) = Inr c"
    using run st by (auto simp: fund_pool_def andThen_eq_Inr split: option.splits)
  have "g = gb"
    using laws(2) r gb g unfolding app_codec_laws_def by (metis must_Inr sum.inject(2))
  have found: "list_ex (\<lambda>b. bal_Address b = ?addr) (bg_Balances g) \<longleftrightarrow> ?addr \<in> bal_Address ` set (bg_Balances g)"
    unfolding list_ex_iff image_iff by metis
  obtain g1 br r' where g1: "bank_MarshalJSON T g1 = Inr br" and m': "m' = m(staking_ModuleName \<mapsto> r', bank_ModuleName \<mapsto> br)"
    and case_g1: "if ?addr \<in> bal_Address ` set (bg_Balances g) then g1 = g
      else \<exists>cs. NewCoins E [c] = Inr cs \<and> g1 = g\<lparr>bg_Balances := bg_Balances g @ [\<lparr>bal_Address = ?addr, bal_Coins = cs\<rparr>]\<rparr>"
    using run st r gb c \<open>g = gb\<close> found
    by (auto simp: fund_pool_def pool_address_def Let_def andThen_eq_Inr split: if_splits)
  obtain g' where g': "GetBankGenesisStateFromAppState T m' = Inr g'" and same: "same_bank g1 g'"
    using bank_read_back [OF laws(2) g1, of m'] m' by auto
  have bal: "balances_amount (bg_Balances g') d = balances_amount (bg_Balances g1) d" for d
    using same same_balances_amount [of "bg_Balances g1" "bg_Balances g'"] by (simp add: same_bank_def)
  have "mset (map bal_Address (bg_Balances g1)) = mset (map bal_Address (bg_Balances g'))"
    using same same_balances_addresses by (simp add: same_bank_def)
  then have addrs: "bal_Address ` set (bg_Balances g') = bal_Address ` set (bg_Balances g1)"
    by (metis set_map set_mset_mset)
  have total: "amount_of (bg_Supply g') d = amount_of (bg_Supply g1) d" for d
    using same by (simp add: same_bank_def amount_of_def)
  show ?thesis
  proof (cases "?addr \<in> bal_Address ` set (bg_Balances g)")
    case True
    then have "g1 = g" using case_g1 by simp
    with True g' bal addrs total show ?thesis by auto
  next
    case False
    then obtain cs where cs: "NewCoins E [c] = Inr cs"
      and eq: "g1 = g\<lparr>bg_Balances := bg_Balances g @ [\<lparr>bal_Address = ?addr, bal_Coins = cs\<rparr>]\<rparr>"
      using case_g1 by auto
    have "amount_of cs d = (if coin_Denom c = d then coin_Amount c else 0)" for d
      using laws(3) cs unfolding coins_laws_def by blast
    then have "amount_of cs d = (if d = sg_BondDenom st then not_bonded_tokens (sg_Validators st) else 0)" for d
      using sdk_NewCoin_eq [OF laws(1) c] by simp
    with False g' bal addrs total eq show ?thesis by auto
  qed
qed

end
