(* ===== verification/NodeCmd.thy ===== *)
theory NodeCmd
  imports Export GenAccounts Testnet Encoding
begin

text \<open>
  \<open>simapp/simd/cmd/root.go\<close>: the commands of the example node and the creation of its application. The package
  \<open>simapp\<close> that this file imports is the Cosmos SDK's own (\<open>github.com/cosmos/cosmos-sdk/simapp\<close>), not the one of this repository:
  \<open>simapp.NewSimApp\<close>, \<open>simapp.ModuleBasics\<close> and \<open>simapp.DefaultNodeHome\<close> are parameters.
\<close>

section \<open>Commands\<close>

text \<open>A command of the SDK is the function that makes it; the token factory's commands come from \<open>Cli\<close>.\<close>

datatype command =
    SdkCommand string
  | AddGenesisAccount
  | Testnet
  | QueryRoot "command list"
  | TxRoot "command list"
  | TokenfactoryQuery "query_cmd list"
  | TokenfactoryTx "tx_cmd list"

definition queryCommand :: "command list \<Rightarrow> command" where
  "queryCommand ModuleBasics_QueryCommands = QueryRoot (
     map SdkCommand [''authcmd.GetAccountCmd'', ''rpc.ValidatorCommand'', ''rpc.BlockCommand'',
       ''authcmd.QueryTxsByEventsCmd'', ''authcmd.QueryTxCmd''] @
     [TokenfactoryQuery GetQueryCmd] @ ModuleBasics_QueryCommands)"

definition txCommand :: "command list \<Rightarrow> command" where
  "txCommand ModuleBasics_TxCommands = TxRoot (
     map SdkCommand [''authcmd.GetSignCommand'', ''authcmd.GetSignBatchCommand'', ''authcmd.GetMultiSignCommand'',
       ''authcmd.GetMultiSignBatchCmd'', ''authcmd.GetValidateSignaturesCommand'', ''authcmd.GetBroadcastCommand'',
       ''authcmd.GetEncodeCommand'', ''authcmd.GetDecodeCommand''] @
     ModuleBasics_TxCommands @ [TokenfactoryTx GetTxCmd])"

definition initRootCmd :: "command list \<Rightarrow> command list \<Rightarrow> command list \<Rightarrow> command list" where
  "initRootCmd server_Commands ModuleBasics_QueryCommands ModuleBasics_TxCommands =
     map SdkCommand [''genutilcli.InitCmd'', ''genutilcli.CollectGenTxsCmd'', ''genutilcli.MigrateGenesisCmd'',
       ''genutilcli.GenTxCmd'', ''genutilcli.ValidateGenesisCmd''] @
     [AddGenesisAccount, SdkCommand ''tmcli.NewCompletionCmd'', Testnet] @
     map SdkCommand [''debug.Cmd'', ''config.Cmd'', ''pruning.PruningCmd''] @
     server_Commands @
     [SdkCommand ''rpc.StatusCommand'', queryCommand ModuleBasics_QueryCommands, txCommand ModuleBasics_TxCommands,
      SdkCommand ''keys.Commands''] @
     [SdkCommand ''server.RosettaCommand'']"

text \<open>\<open>NewRootCmd\<close>: the client context that every command starts from, and the commands. Reading standard input and retrieving
  accounts are the SDK's.\<close>

record ('i, 'm, 't, 'a) client_context =
  cc_Codec :: 'm
  cc_InterfaceRegistry :: 'i
  cc_TxConfig :: 't
  cc_LegacyAmino :: 'a
  cc_HomeDir :: string
  cc_ViperPrefix :: string

definition NewRootCmd ::
  "('i, 'm, 't, 'a) EncodingConfig \<Rightarrow> string \<Rightarrow> command list \<Rightarrow> command list \<Rightarrow> command list \<Rightarrow>
    ('i, 'm, 't, 'a) client_context \<times> command list \<times> ('i, 'm, 't, 'a) EncodingConfig" where
  "NewRootCmd encodingConfig DefaultNodeHome server_Commands ModuleBasics_QueryCommands ModuleBasics_TxCommands =
    (\<lparr>cc_Codec = Marshaler encodingConfig, cc_InterfaceRegistry = InterfaceRegistry encodingConfig,
      cc_TxConfig = TxConfig encodingConfig, cc_LegacyAmino = Amino encodingConfig,
      cc_HomeDir = DefaultNodeHome, cc_ViperPrefix = ''''\<rparr>,
     initRootCmd server_Commands ModuleBasics_QueryCommands ModuleBasics_TxCommands,
     encodingConfig)"

text \<open>\<open>main\<close>: the exit code of the process; 0 if executing the root command returns no error.\<close>

datatype execute_error = ServerErrorCode int | OtherError error

fun main_exit_code :: "execute_error option \<Rightarrow> int" where
  "main_exit_code None = 0"
| "main_exit_code (Some (ServerErrorCode code)) = code"
| "main_exit_code (Some (OtherError e)) = 1"

section \<open>Flags of the commands\<close>

text \<open>The values that flags have when they are not given; \<open>DefaultKeyringBackend\<close> and \<open>Secp256k1Type\<close> are
  constants of the SDK. \<open>chain-id\<close> is left empty: \<open>InitTestnet\<close> makes one up.\<close>

definition testnet_flags :: "string \<Rightarrow> string \<Rightarrow> testnet_args" where
  "testnet_flags DefaultKeyringBackend Secp256k1Type =
    \<lparr>outputDir = ''./mytestnet'', chainID = '''', minGasPrices = ''0.000006'' @ DefaultBondDenom,
     nodeDirPrefix = ''node'', nodeDaemonHome = ''simd'', startingIPAddress = ''192.168.0.1'',
     keyringBackend = DefaultKeyringBackend, algoStr = Secp256k1Type, numValidators = 4\<rparr>"

definition testnetCmd ::
  "('r, 'f, 'k, 'm) testnet_sdk \<Rightarrow> unit result \<Rightarrow> node_config \<Rightarrow> testnet_args \<Rightarrow> ('f, unit) action" where
  "testnetCmd T clientCtx config args = bindM (liftM clientCtx) (\<lambda>_. InitTestnet T config args)"

definition add_genesis_account_flags :: "string \<Rightarrow> genacc_flags" where
  "add_genesis_account_flags DefaultKeyringBackend =
    \<lparr>flag_KeyringBackend = DefaultKeyringBackend, flag_VestingStart = 0, flag_VestingEnd = 0, flag_VestingAmt = ''''\<rparr>"

section \<open>Configuration of the node\<close>

record wasm_config =
  QueryGasLimit :: u64
  LruSize :: u64

text \<open>The custom configuration is the server's with a minimum gas price, and a wasm section; the
  template is the server's with text appended.\<close>

definition initAppConfig :: "(string \<Rightarrow> 'c) \<Rightarrow> string \<Rightarrow> string \<times> ('c \<times> wasm_config)" where
  "initAppConfig DefaultConfig_with_MinGasPrices DefaultConfigTemplate =
    (DefaultConfigTemplate @ [CHR 0x0A] @ ''[wasm]'' @ [CHR 0x0A] @
       ''# This is the maximum sdk gas (wasm and storage) that we allow for any x/wasm \"smart\" queries'' @ [CHR 0x0A] @
       ''query_gas_limit = 300000'' @ [CHR 0x0A] @
       ''# This is the number of wasm vm instances we keep cached in memory for speed-up'' @ [CHR 0x0A] @
       ''# Warning: this is currently unstable and may lead to crashes, best to keep for 0 unless testing locally'' @ [CHR 0x0A] @
       ''lru_size = 0'',
     (DefaultConfig_with_MinGasPrices ''0stake'', \<lparr>QueryGasLimit = 300000, LruSize = 1\<rparr>))"

text \<open>\<open>PersistentPreRunE\<close>: the first error ends it.\<close>

definition PersistentPreRunE ::
  "'x result \<Rightarrow> ('x \<Rightarrow> 'x result) \<Rightarrow> ('x \<Rightarrow> unit result) \<Rightarrow> unit result \<Rightarrow> unit result" where
  "PersistentPreRunE ReadPersistentCommandFlags ReadFromClientConfig SetCmdClientContextHandler InterceptConfigs =
    andThen ReadPersistentCommandFlags (\<lambda>ctx.
    andThen (ReadFromClientConfig ctx) (\<lambda>ctx'.
    andThen (SetCmdClientContextHandler ctx') (\<lambda>_. InterceptConfigs)))"

section \<open>Creating the application\<close>

datatype app_option =
    FlagHome | FlagInterBlockCache | FlagUnsafeSkipUpgrades | FlagInvCheckPeriod | FlagMinGasPrices
  | FlagHaltHeight | FlagHaltTime | FlagMinRetainBlocks | FlagTrace | FlagIndexEvents
  | FlagStateSyncSnapshotInterval | FlagStateSyncSnapshotKeepRecent | FlagIAVLCacheSize | FlagDisableIAVLFastNode

text \<open>An option's value is dynamic; \<open>spf13/cast\<close> converts it.\<close>

record 'o casts =
  ToBool :: "'o \<Rightarrow> bool"
  ToStr :: "'o \<Rightarrow> string"
  ToUint :: "'o \<Rightarrow> u64"
  ToUint64 :: "'o \<Rightarrow> u64"
  ToUint32 :: "'o \<Rightarrow> 32 word"
  ToInt :: "'o \<Rightarrow> int"
  ToIntSlice :: "'o \<Rightarrow> int list"
  ToStringSlice :: "'o \<Rightarrow> string list"
  as_string :: "'o \<Rightarrow> string option"

record ('p, 'st) base_options =
  opt_Pruning :: 'p
  opt_MinGasPrices :: string
  opt_HaltHeight :: u64
  opt_HaltTime :: u64
  opt_MinRetainBlocks :: u64
  opt_InterBlockCache :: bool
  opt_Trace :: bool
  opt_IndexEvents :: "string list"
  opt_SnapshotStore :: 'st
  opt_SnapshotInterval :: u64
  opt_SnapshotKeepRecent :: "32 word"
  opt_IAVLCacheSize :: int
  opt_IAVLDisableFastNode :: bool

text \<open>The receiver of \<open>newApp\<close> and \<open>appExport\<close>, and the flags that the crisis module adds to the start command.\<close>

record ('i, 'm, 't, 'a) appCreator =
  encCfg :: "('i, 'm, 't, 'a) EncodingConfig"

definition addModuleInitFlags :: "('c \<Rightarrow> 'c) \<Rightarrow> 'c \<Rightarrow> 'c" where
  "addModuleInitFlags crisis_AddModuleInitFlags startCmd = crisis_AddModuleInitFlags startCmd"

text \<open>\<open>skipUpgradeHeights[int64(h)] = true\<close> for every height of the list.\<close>

definition skip_heights :: "int list \<Rightarrow> int \<Rightarrow> bool" where
  "skip_heights hs h \<longleftrightarrow> h \<in> set hs"

text \<open>\<open>NewSimApp loadLatest skip home invCheckPeriod options\<close> may panic. The cache is \<open>nil\<close> unless the option is set.\<close>

definition newApp ::
  "'o casts \<Rightarrow> (app_option \<Rightarrow> 'o) \<Rightarrow> 'p result \<Rightarrow> (string \<Rightarrow> string \<Rightarrow> 'db result) \<Rightarrow> ('db \<Rightarrow> string \<Rightarrow> 'st result) \<Rightarrow>
    (bool \<Rightarrow> (int \<Rightarrow> bool) \<Rightarrow> string \<Rightarrow> u64 \<Rightarrow> ('p, 'st) base_options \<Rightarrow> 'app result) \<Rightarrow> 'app result" where
  "newApp C opts GetPruningOptionsFromFlags NewLevelDB snapshots_NewStore NewSimApp =
    (let cache = ToBool C (opts FlagInterBlockCache);
         skipUpgradeHeights = skip_heights (ToIntSlice C (opts FlagUnsafeSkipUpgrades)) in
    andThen (must GetPruningOptionsFromFlags) (\<lambda>pruningOpts.
    let snapshotDir = filepath_Join [ToStr C (opts FlagHome), ''data'', ''snapshots''] in
    andThen (must (NewLevelDB ''metadata'' snapshotDir)) (\<lambda>snapshotDB.
    andThen (must (snapshots_NewStore snapshotDB snapshotDir)) (\<lambda>snapshotStore.
      NewSimApp True skipUpgradeHeights (ToStr C (opts FlagHome)) (ToUint C (opts FlagInvCheckPeriod))
        \<lparr>opt_Pruning = pruningOpts, opt_MinGasPrices = ToStr C (opts FlagMinGasPrices),
         opt_HaltHeight = ToUint64 C (opts FlagHaltHeight), opt_HaltTime = ToUint64 C (opts FlagHaltTime),
         opt_MinRetainBlocks = ToUint64 C (opts FlagMinRetainBlocks), opt_InterBlockCache = cache,
         opt_Trace = ToBool C (opts FlagTrace), opt_IndexEvents = ToStringSlice C (opts FlagIndexEvents),
         opt_SnapshotStore = snapshotStore,
         opt_SnapshotInterval = ToUint64 C (opts FlagStateSyncSnapshotInterval),
         opt_SnapshotKeepRecent = ToUint32 C (opts FlagStateSyncSnapshotKeepRecent),
         opt_IAVLCacheSize = ToInt C (opts FlagIAVLCacheSize),
         opt_IAVLDisableFastNode = ToBool C (opts FlagDisableIAVLFastNode)\<rparr>))))"

text \<open>The application is its state; exporting runs on it. \<open>LoadHeight\<close> may return an error.\<close>

definition appExport ::
  "'o casts \<Rightarrow> (app_option \<Rightarrow> 'o) \<Rightarrow> (bool \<Rightarrow> (int \<Rightarrow> bool) \<Rightarrow> string \<Rightarrow> u64 \<Rightarrow> 's result) \<Rightarrow>
    (int \<Rightarrow> ('s, unit) action) \<Rightarrow> (bool \<Rightarrow> string list \<Rightarrow> ('s, 'e) action) \<Rightarrow>
    int \<Rightarrow> bool \<Rightarrow> string list \<Rightarrow> 'e result" where
  "appExport C opts NewSimApp LoadHeight ExportApp height forZeroHeight jailAllowedAddrs =
    (case as_string C (opts FlagHome) of
       None \<Rightarrow> Inl (ErrText ''application home not set'')
     | Some homePath \<Rightarrow>
        if homePath = '''' then Inl (ErrText ''application home not set'')
        else
        andThen
          (if height \<noteq> -1 then
             andThen (NewSimApp False (\<lambda>_. False) homePath 1) (\<lambda>simApp.
               case LoadHeight height simApp of (Inl e, _) \<Rightarrow> Inl e | (Inr _, simApp') \<Rightarrow> Inr simApp')
           else NewSimApp True (\<lambda>_. False) homePath 1) (\<lambda>simApp.
          fst (ExportApp forZeroHeight jailAllowedAddrs simApp)))"

end
