(* ===== verification/TestHelpers.thy ===== *)
theory TestHelpers
  imports AppGenesis GoLib
begin

text \<open>
  \<open>simapp/test_helpers.go\<close>: applications for tests with a given genesis, test accounts and keys, and funding of
  accounts. The application is a state \<open>'s\<close> with the ABCI
  methods as parameters. A failed \<open>require\<close> ends the test, here as a panic.
\<close>

section \<open>Genesis of a test application\<close>

text \<open>The consensus parameters of the tests: sizes in bytes, an age in blocks and one in nanoseconds, types of public keys.\<close>

record consensus_params =
  block_MaxBytes :: int
  block_MaxGas :: int
  evidence_MaxAgeNumBlocks :: int
  evidence_MaxAgeDuration :: int
  evidence_MaxBytes :: int
  PubKeyTypes :: "string list"

definition DefaultConsensusParams :: consensus_params where
  "DefaultConsensusParams = \<lparr>block_MaxBytes = 200000, block_MaxGas = 2000000, evidence_MaxAgeNumBlocks = 302400,
     evidence_MaxAgeDuration = 504 * 3600 * 1000000000, evidence_MaxBytes = 10000, PubKeyTypes = [''ed25519'']\<rparr>"

text \<open>\<open>abci.RequestInitChain\<close>; a validator update is a public key and a power.\<close>

record 'r init_request =
  ri_Validators :: "(bytes \<times> int) list"
  ri_ConsensusParams :: consensus_params
  ri_AppStateBytes :: 'r

record ('r, 'f, 's) helper_sdk = "('r, 'f) app_sdk" +
  NewDefaultGenesisState :: "'r app_genesis result"
  auth_DefaultParams :: bytes
  bank_DefaultParams :: bytes
  FromTmPubKeyInterface :: "bytes \<Rightarrow> bytes result"
  NewAnyWithValue :: "bytes \<Rightarrow> bytes result"
  helper_ValAddress_String :: "bytes \<Rightarrow> string"
  validator_rest :: "bytes \<Rightarrow> bytes"
  NewStakingGenesisState :: "validator list \<Rightarrow> (bytes \<times> bytes) list \<Rightarrow> staking_genesis"
  helper_staking_MarshalJSON :: "staking_genesis \<Rightarrow> 'r result"
  helper_NewSimApp :: "u64 \<Rightarrow> ('s, unit) action"
  InitChain :: "'r init_request \<Rightarrow> ('s, unit) action"
  Commit :: "('s, unit) action"
  BeginNextBlock :: "bytes \<Rightarrow> ('s, unit) action"
  ValSet_Hash :: "(bytes \<times> bytes) list \<Rightarrow> bytes"

definition helper_bond_denom :: string where "helper_bond_denom = ''stake''"
definition BondedPoolName :: string where "BondedPoolName = ''bonded_tokens_pool''"
definition bondAmt :: int where "bondAmt = 1000000"

text \<open>A validator is given by its address and its public key.\<close>

definition bonded_validator :: "('r, 'f, 's) helper_sdk \<Rightarrow> bytes \<times> bytes \<Rightarrow> validator result" where
  "bonded_validator T val =
    andThen (must (FromTmPubKeyInterface T (snd val))) (\<lambda>pk.
    andThen (must (NewAnyWithValue T pk)) (\<lambda>pkAny.
      Inr \<lparr>val_OperatorAddress = helper_ValAddress_String T (fst val), val_Status = Bonded,
        val_Tokens = bondAmt, val_Jailed = False, val_UnbondingHeight = 0, val_Rest = validator_rest T pkAny\<rparr>))"

fun valset_validators ::
  "('r, 'f, 's) helper_sdk \<Rightarrow> genesis_account list \<Rightarrow> (bytes \<times> bytes) list \<Rightarrow>
    (validator list \<times> (bytes \<times> bytes) list) result" where
  "valset_validators T genAccs [] = Inr ([], [])"
| "valset_validators T genAccs (val # vals) =
    andThen (bonded_validator T val) (\<lambda>validator.
    if genAccs = [] then Inl (GoPanic ''index out of range'')
    else
    andThen (valset_validators T genAccs vals) (\<lambda>(validators, delegations).
      Inr (validator # validators, (account_address (hd genAccs), fst val) # delegations)))"

text \<open>The loop over the balances: each adds its coins and one bonded amount to the supply.\<close>

fun valset_supply :: "('r, 'f, 'z) app_sdk_scheme \<Rightarrow> coin \<Rightarrow> Coins \<Rightarrow> balance list \<Rightarrow> Coins result" where
  "valset_supply T bond supply [] = Inr supply"
| "valset_supply T bond supply (b # bs) =
    andThen (Coins_Add T (bal_Coins b) (Some [bond])) (\<lambda>cs.
    andThen (Coins_Add T supply cs) (\<lambda>supply'. valset_supply T bond supply' bs))"

definition valset_bank ::
  "('k, 'w) sdk \<Rightarrow> ('r, 'f, 'z) app_sdk_scheme \<Rightarrow> bytes \<Rightarrow> balance list \<Rightarrow> bank_genesis result" where
  "valset_bank E T DefaultParams balances =
    andThen (NewCoins E []) (\<lambda>total.
    andThen (sdk_NewCoin T helper_bond_denom bondAmt) (\<lambda>bond.
    andThen (valset_supply T bond total balances) (\<lambda>totalSupply.
      Inr \<lparr>bg_Params = DefaultParams,
        bg_Balances = balances @ [\<lparr>bal_Address = AccAddress_String E (NewModuleAddress T BondedPoolName),
          bal_Coins = Some [bond]\<rparr>],
        bg_Supply = totalSupply, bg_DenomMetadata = []\<rparr>)))"

definition auth_state :: "('r, 'f, 's) helper_sdk \<Rightarrow> genesis_account list \<Rightarrow> 'r result" where
  "auth_state T genAccs =
    andThen (must (PackAccounts T genAccs)) (\<lambda>ps.
      must (auth_MarshalJSON T \<lparr>ag_Params = auth_DefaultParams T, ag_Accounts = ps\<rparr>))"

text \<open>A new application in memory, with its default genesis state or an empty one. The constructor is the one of \<open>NewApp\<close>, here
  as what it makes of the state.\<close>

definition test_setup :: "('r, 'f, 's) helper_sdk \<Rightarrow> bool \<Rightarrow> u64 \<Rightarrow> ('s, 'r app_genesis) action" where
  "test_setup T withGenesis invCheckPeriod =
    bindM (helper_NewSimApp T invCheckPeriod) (\<lambda>_.
      if withGenesis then liftM (NewDefaultGenesisState T) else retM Map.empty)"

definition first_request :: "'r \<Rightarrow> 'r init_request" where
  "first_request stateBytes =
    \<lparr>ri_Validators = [], ri_ConsensusParams = DefaultConsensusParams, ri_AppStateBytes = stateBytes\<rparr>"

definition SetupWithGenesisValSet ::
  "('k, 'w) sdk \<Rightarrow> ('r, 'f, 's) helper_sdk \<Rightarrow> (bytes \<times> bytes) list \<Rightarrow> genesis_account list \<Rightarrow> balance list \<Rightarrow>
    ('s, unit) action" where
  "SetupWithGenesisValSet E T valSet genAccs balances =
    bindM (test_setup T True 5) (\<lambda>genesisState.
    bindM (liftM (auth_state T genAccs)) (\<lambda>authBz.
    bindM (liftM (valset_validators T genAccs valSet)) (\<lambda>(validators, delegations).
    bindM (liftM (must (helper_staking_MarshalJSON T (NewStakingGenesisState T validators delegations)))) (\<lambda>stakingBz.
    bindM (liftM (valset_bank E T (bank_DefaultParams T) balances)) (\<lambda>bankGenesis.
    bindM (liftM (must (bank_MarshalJSON T bankGenesis))) (\<lambda>bankBz.
    bindM (liftM (must (json_Marshal T (genesisState(auth_ModuleName \<mapsto> authBz,
        staking_ModuleName \<mapsto> stakingBz, bank_ModuleName \<mapsto> bankBz))))) (\<lambda>stateBytes.
    bindM (InitChain T (first_request stateBytes)) (\<lambda>_.
    bindM (Commit T) (\<lambda>_.
      BeginNextBlock T (ValSet_Hash T valSet))))))))))"

definition SetupWithGenesisAccounts ::
  "('k, 'w) sdk \<Rightarrow> ('r, 'f, 's) helper_sdk \<Rightarrow> genesis_account list \<Rightarrow> balance list \<Rightarrow> ('s, unit) action" where
  "SetupWithGenesisAccounts E T genAccs balances =
    bindM (test_setup T True 0) (\<lambda>genesisState.
    bindM (liftM (auth_state T genAccs)) (\<lambda>authBz.
    bindM (liftM (NewCoins E [])) (\<lambda>total.
    bindM (liftM (add_supply T total balances)) (\<lambda>totalSupply.
    bindM (liftM (must (bank_MarshalJSON T \<lparr>bg_Params = bank_DefaultParams T, bg_Balances = balances,
        bg_Supply = totalSupply, bg_DenomMetadata = []\<rparr>))) (\<lambda>bankBz.
    bindM (liftM (must (json_Marshal T (genesisState(auth_ModuleName \<mapsto> authBz, bank_ModuleName \<mapsto> bankBz))))) (\<lambda>stateBytes.
    bindM (InitChain T (first_request stateBytes)) (\<lambda>_.
    bindM (Commit T) (\<lambda>_.
      BeginNextBlock T []))))))))"

definition Setup :: "('r, 'f, 's) helper_sdk \<Rightarrow> bool \<Rightarrow> ('s, unit) action" where
  "Setup T isCheckTx =
    bindM (test_setup T (\<not> isCheckTx) 5) (\<lambda>genesisState.
    if \<not> isCheckTx then
      bindM (liftM (must (json_Marshal T genesisState))) (\<lambda>stateBytes.
        InitChain T (first_request stateBytes))
    else retM ())"

text \<open>The options of the application are empty: every key has the nil value.\<close>

definition EmptyAppOptions_Get :: "string \<Rightarrow> 'v option" where
  "EmptyAppOptions_Get key = None"

section \<open>Accounts and funds\<close>

text \<open>\<open>AccAddressFromHex\<close> is the SDK's. A nil address is the empty one; the last branch returns it without an error,
  as the code returns the \<open>err\<close> that is nil there.\<close>

definition TestAddr :: "('k, 'w) sdk \<Rightarrow> (string \<Rightarrow> bytes result) \<Rightarrow> string \<Rightarrow> string \<Rightarrow> bytes result" where
  "TestAddr E AccAddressFromHex addr bech =
    andThen (AccAddressFromHex addr) (\<lambda>res.
    if bech \<noteq> AccAddress_String E res then Inl (ErrText ''bech encoding doesn't match reference'')
    else
    andThen (AccAddressFromBech32 E bech) (\<lambda>bechres.
      if bechres \<noteq> res then Inr [] else Inr res))"

text \<open>A balance check against the state of a check context; a failed requirement ends the test.\<close>

definition CheckBalance ::
  "(Coins \<Rightarrow> Coins \<Rightarrow> bool) \<Rightarrow> ('s \<Rightarrow> bytes \<Rightarrow> Coins) \<Rightarrow> bytes \<Rightarrow> Coins \<Rightarrow> ('s, unit) action" where
  "CheckBalance IsEqual GetAllBalances addr balances =
    bindM (getM (\<lambda>s. GetAllBalances s addr)) (\<lambda>all.
      guardM (IsEqual balances all) (GoPanic ''require.True''))"

definition base_address :: string where
  "base_address = ''A58856F0FD53BF058B4909A21AEC019107BA6''"

text \<open>The address of account \<open>i\<close>; errors are dropped and leave the nil address.\<close>

definition createIncrementalAccounts ::
  "('k, 'w) sdk \<Rightarrow> (string \<Rightarrow> bytes result) \<Rightarrow> nat \<Rightarrow> bytes list" where
  "createIncrementalAccounts E AccAddressFromHex accNum =
    map (\<lambda>i.
      let buffer = base_address @ Itoa i;
          res = (case AccAddressFromHex buffer of Inl e \<Rightarrow> [] | Inr a \<Rightarrow> a) in
      case TestAddr E AccAddressFromHex buffer (AccAddress_String E res) of
        Inl e \<Rightarrow> [] | Inr addr \<Rightarrow> addr) [100..<accNum + 100]"

text \<open>\<open>sdk.ValAddress(addr)\<close> is a conversion of byte slices.\<close>

definition ConvertAddrsToValAddrs :: "bytes list \<Rightarrow> bytes list" where
  "ConvertAddrsToValAddrs addrs = map (\<lambda>addr. addr) addrs"

definition FundAccount :: "('k, 'w) sdk \<Rightarrow> bytes \<Rightarrow> Coins \<Rightarrow> ('k, 'w, unit) keeper" where
  "FundAccount E addr amounts =
    bindM (worldM (MintCoins E mint_ModuleName amounts)) (\<lambda>_.
      worldM (SendCoinsFromModuleToAccount E mint_ModuleName addr amounts))"

definition FundModuleAccount ::
  "('k, 'w) sdk \<Rightarrow> (string \<Rightarrow> string \<Rightarrow> Coins \<Rightarrow> 'w \<Rightarrow> unit result \<times> 'w) \<Rightarrow> string \<Rightarrow> Coins \<Rightarrow> ('k, 'w, unit) keeper" where
  "FundModuleAccount E SendCoinsFromModuleToModule recipientMod amounts =
    bindM (worldM (MintCoins E mint_ModuleName amounts)) (\<lambda>_.
      worldM (SendCoinsFromModuleToModule mint_ModuleName recipientMod amounts))"

definition panicking :: "('k, 'w, 'a) keeper \<Rightarrow> ('k, 'w, 'a) keeper" where
  "panicking m c = (case m c of (r, c') \<Rightarrow> (must r, c'))"

definition initAccountWithCoins :: "('k, 'w) sdk \<Rightarrow> bytes \<Rightarrow> Coins \<Rightarrow> ('k, 'w, unit) keeper" where
  "initAccountWithCoins E addr coins =
    bindM (panicking (worldM (MintCoins E mint_ModuleName coins))) (\<lambda>_.
      panicking (worldM (SendCoinsFromModuleToAccount E mint_ModuleName addr coins)))"

definition addTestAddrs ::
  "('k, 'w) sdk \<Rightarrow> ('r, 'f, 's) helper_sdk \<Rightarrow> ('w \<Rightarrow> string) \<Rightarrow> nat \<Rightarrow> int \<Rightarrow> (nat \<Rightarrow> bytes list) \<Rightarrow>
    ('k, 'w, bytes list) keeper" where
  "addTestAddrs E T BondDenom accNum accAmt strategy =
    (let testAddrs = strategy accNum in
    bindM (getM (\<lambda>c. BondDenom (world c))) (\<lambda>d.
    bindM (liftM (sdk_NewCoin T d accAmt)) (\<lambda>coin.
    bindM (liftM (NewCoins E [coin])) (\<lambda>initCoins.
    bindM (forM testAddrs (\<lambda>addr. initAccountWithCoins E addr initCoins)) (\<lambda>_.
      retM testAddrs)))))"

text \<open>Random accounts: the address of a fresh key for each; \<open>GenPrivKey\<close> draws from a state \<open>'g\<close>.\<close>

fun createRandomAccounts :: "('g \<Rightarrow> bytes \<times> 'g) \<Rightarrow> nat \<Rightarrow> 'g \<Rightarrow> bytes list \<times> 'g" where
  "createRandomAccounts GenPrivKey_Address 0 g = ([], g)"
| "createRandomAccounts GenPrivKey_Address (Suc n) g = (case GenPrivKey_Address g of (a, g1) \<Rightarrow>
     (case createRandomAccounts GenPrivKey_Address n g1 of (as, g2) \<Rightarrow> (a # as, g2)))"

definition AddTestAddrs ::
  "('k, 'w) sdk \<Rightarrow> ('r, 'f, 's) helper_sdk \<Rightarrow> ('w \<Rightarrow> string) \<Rightarrow> ('g \<Rightarrow> bytes \<times> 'g) \<Rightarrow> 'g \<Rightarrow> nat \<Rightarrow> int \<Rightarrow>
    ('k, 'w, bytes list) keeper" where
  "AddTestAddrs E T BondDenom GenPrivKey_Address g accNum accAmt =
    addTestAddrs E T BondDenom accNum accAmt (\<lambda>n. fst (createRandomAccounts GenPrivKey_Address n g))"

definition AddTestAddrsIncremental ::
  "('k, 'w) sdk \<Rightarrow> ('r, 'f, 's) helper_sdk \<Rightarrow> ('w \<Rightarrow> string) \<Rightarrow> (string \<Rightarrow> bytes result) \<Rightarrow> nat \<Rightarrow> int \<Rightarrow>
    ('k, 'w, bytes list) keeper" where
  "AddTestAddrsIncremental E T BondDenom AccAddressFromHex accNum accAmt =
    addTestAddrs E T BondDenom accNum accAmt (createIncrementalAccounts E AccAddressFromHex)"

definition AddTestAddrsFromPubKeys ::
  "('k, 'w) sdk \<Rightarrow> ('r, 'f, 's) helper_sdk \<Rightarrow> ('w \<Rightarrow> string) \<Rightarrow> (bytes \<Rightarrow> bytes) \<Rightarrow> bytes list \<Rightarrow> int \<Rightarrow>
    ('k, 'w, unit) keeper" where
  "AddTestAddrsFromPubKeys E T BondDenom PubKey_Address pubKeys accAmt =
    bindM (getM (\<lambda>c. BondDenom (world c))) (\<lambda>d.
    bindM (liftM (sdk_NewCoin T d accAmt)) (\<lambda>coin.
    bindM (liftM (NewCoins E [coin])) (\<lambda>initCoins.
      forM pubKeys (\<lambda>pk. initAccountWithCoins E (PubKey_Address pk) initCoins))))"

definition incrementAllSequenceNumbers :: "u64 list \<Rightarrow> u64 list" where
  "incrementAllSequenceNumbers initSeqNums = map (\<lambda>n. n + 1) initSeqNums"

text \<open>The transactions differ only in their sequence numbers; the first error ends the loop. The slice keeps its length, with
  nil for what was not generated.\<close>

fun GenSequenceOfTxs :: "(u64 list \<Rightarrow> 't result) \<Rightarrow> u64 list \<Rightarrow> nat \<Rightarrow> 't option list \<times> error option \<times> u64 list" where
  "GenSequenceOfTxs gen seqs 0 = ([], None, seqs)"
| "GenSequenceOfTxs gen seqs (Suc n) = (case gen seqs of
      Inl e \<Rightarrow> (replicate (Suc n) None, Some e, seqs)
    | Inr tx \<Rightarrow> (case GenSequenceOfTxs gen (incrementAllSequenceNumbers seqs) n of
        (txs, err, seqs') \<Rightarrow> (Some tx # txs, err, seqs')))"

text \<open>\<open>require\<close> ends the test if its condition fails.\<close>

definition require :: "bool \<Rightarrow> ('s, unit) action" where
  "require b = guardM b (GoPanic ''FailNow'')"

text \<open>Simulating and delivering give gas information, a result and an error.\<close>

type_synonym ('i, 'x) outcome = "'i \<times> 'x option \<times> error option"

definition passes :: "('i, 'x) outcome \<Rightarrow> bool" where
  "passes out \<longleftrightarrow> (case out of (_, res, err) \<Rightarrow> err = None \<and> res \<noteq> None)"

definition fails :: "('i, 'x) outcome \<Rightarrow> bool" where
  "fails out \<longleftrightarrow> (case out of (_, res, err) \<Rightarrow> err \<noteq> None \<and> res = None)"

definition SignCheckDeliver ::
  "'t result \<Rightarrow> ('t \<Rightarrow> bytes result) \<Rightarrow> (bytes \<Rightarrow> 's \<Rightarrow> ('i, 'x) outcome \<times> 's) \<Rightarrow> ('s, unit) action \<Rightarrow>
    ('t \<Rightarrow> 's \<Rightarrow> ('i, 'x) outcome \<times> 's) \<Rightarrow> ('s, unit) action \<Rightarrow> ('s, unit) action \<Rightarrow> bool \<Rightarrow> bool \<Rightarrow>
    ('s, ('i, 'x) outcome) action" where
  "SignCheckDeliver GenSignedMockTx TxEncoder Simulate BeginBlock Deliver EndBlock Commit_block expSimPass expPass =
    bindM (liftM (must GenSignedMockTx)) (\<lambda>tx.
    bindM (liftM (must (TxEncoder tx))) (\<lambda>txBytes.
    bindM (\<lambda>s. case Simulate txBytes s of (out, s') \<Rightarrow> (Inr out, s')) (\<lambda>sim.
    bindM (require (if expSimPass then passes sim else fails sim)) (\<lambda>_.
    bindM BeginBlock (\<lambda>_.
    bindM (\<lambda>s. case Deliver tx s of (out, s') \<Rightarrow> (Inr out, s')) (\<lambda>out.
    bindM (require (if expPass then passes out else fails out)) (\<lambda>_.
    bindM EndBlock (\<lambda>_.
    bindM Commit_block (\<lambda>_.
      retM out)))))))))"

definition base_pubkey :: string where
  "base_pubkey = ''0B485CFC0EECC619440448436F8FC9DF40566F2369E72400281454CB552AF''"

definition NewPubKeyFromHex :: "(string \<Rightarrow> bytes result) \<Rightarrow> string \<Rightarrow> bytes result" where
  "NewPubKeyFromHex hex_DecodeString pk =
    andThen (must (hex_DecodeString pk)) (\<lambda>pkBytes.
      if length pkBytes \<noteq> 32 then Inl (GoPanic ''invalid pubkey size'') else Inr pkBytes)"

fun all_results :: "'a result list \<Rightarrow> 'a list result" where
  "all_results [] = Inr []"
| "all_results (r # rs) = andThen r (\<lambda>x. andThen (all_results rs) (\<lambda>xs. Inr (x # xs)))"

definition CreateTestPubKeys :: "(string \<Rightarrow> bytes result) \<Rightarrow> nat \<Rightarrow> bytes list result" where
  "CreateTestPubKeys hex_DecodeString numPubKeys =
    all_results (map (\<lambda>i. NewPubKeyFromHex hex_DecodeString (base_pubkey @ Itoa i)) [100..<numPubKeys + 100])"

section \<open>How many accounts and keys there can be\<close>

text \<open>The base address has 37 hexadecimal digits and the base key 61: with three digits of a number, from 100 to 999, they make
  20 and 32 bytes. With four they have an odd length, which is no hexadecimal text.\<close>

definition hex_laws :: "(string \<Rightarrow> bytes result) \<Rightarrow> bool" where
  "hex_laws H \<longleftrightarrow> (\<forall>s. odd (length s) \<longrightarrow> (\<exists>e. H s = Inl e))"

lemma length_Itoa_four:
  assumes "1000 \<le> n" and "n < 10000"
  shows "length (Itoa n) = 4"
proof -
  have step: "10 \<le> m \<Longrightarrow> length (Itoa m) = Suc (length (Itoa (m div 10)))" for m
    by (subst Itoa.simps) simp
  have "length (Itoa m) = 1" if "m < 10" for m using that by (subst Itoa.simps) simp
  then show ?thesis
    using assms step [of n] step [of "n div 10"] step [of "n div 10 div 10"] by simp
qed

lemma createIncrementalAccounts_nil:
  assumes "hex_laws H" and "900 \<le> i" and "i < 9900" and "i < n"
  shows "createIncrementalAccounts E H n ! i = []"
proof -
  have "odd (length (base_address @ Itoa (100 + i)))"
    using length_Itoa_four [of "100 + i"] assms(2,3) by (simp add: base_address_def)
  then obtain e where "H (base_address @ Itoa (100 + i)) = Inl e"
    using assms(1) unfolding hex_laws_def by blast
  then show ?thesis
    using assms(4) by (simp add: createIncrementalAccounts_def TestAddr_def del: upt_Suc)
qed

lemma all_results_Inr: "all_results rs = Inr xs \<Longrightarrow> r \<in> set rs \<Longrightarrow> \<exists>x. r = Inr x"
  by (induction rs arbitrary: xs) (auto simp: andThen_eq_Inr)

lemma CreateTestPubKeys_limit:
  assumes "hex_laws H" and "CreateTestPubKeys H n = Inr pks"
  shows "n \<le> 900"
proof (rule ccontr)
  assume "\<not> n \<le> 900"
  then have "1000 \<in> set [100..<n + 100]" by simp
  then have "NewPubKeyFromHex H (base_pubkey @ Itoa 1000) \<in>
      set (map (\<lambda>i. NewPubKeyFromHex H (base_pubkey @ Itoa i)) [100..<n + 100])"
    unfolding set_map by (rule imageI)
  then obtain x where "NewPubKeyFromHex H (base_pubkey @ Itoa 1000) = Inr x"
    using all_results_Inr [OF assms(2) [unfolded CreateTestPubKeys_def]] by blast
  moreover have "odd (length (base_pubkey @ Itoa 1000))"
    using length_Itoa_four [of 1000] by (simp add: base_pubkey_def)
  then obtain e where "H (base_pubkey @ Itoa 1000) = Inl e" using assms(1) unfolding hex_laws_def by blast
  ultimately show False by (simp add: NewPubKeyFromHex_def must_def)
qed

section \<open>The supply of a test genesis\<close>

lemma valset_supply_amount:
  assumes "app_coins_laws T"
  shows "valset_supply T bond s bs = Inr t \<Longrightarrow>
    amount_of t d = amount_of s d + balances_amount bs d + int (length bs) * amount_of (Some [bond]) d"
proof (induction bs arbitrary: s)
  case (Cons b bs)
  from Cons.prems obtain cs s1 where cs: "Coins_Add T (bal_Coins b) (Some [bond]) = Inr cs"
    and s1: "Coins_Add T s cs = Inr s1" and t: "valset_supply T bond s1 bs = Inr t"
    by (auto simp: andThen_eq_Inr)
  show ?case
    using Cons.IH [OF t] Coins_Add_amount [OF assms cs, of d] Coins_Add_amount [OF assms s1, of d]
    by (simp add: algebra_simps)
qed simp

lemma valset_bank_amount:
  assumes "app_coins_laws T" and "coins_laws E" and "valset_bank E T params bals = Inr g"
  shows "amount_of (bg_Supply g) d - balances_amount (bg_Balances g) d =
    (if d = helper_bond_denom then (int (length bals) - 1) * bondAmt else 0)"
proof -
  have "NewCoins E [] = Inr (Some [])" using assms(2) by (simp add: coins_laws_def)
  with assms(3) obtain bond total where bond: "sdk_NewCoin T helper_bond_denom bondAmt = Inr bond"
    and total: "valset_supply T bond (Some []) bals = Inr total"
    and g: "bg_Supply g = total" "balances_amount (bg_Balances g) d = balances_amount bals d + amount_of (Some [bond]) d"
    by (auto simp: valset_bank_def andThen_eq_Inr)
  have "amount_of (Some [bond]) d = (if d = helper_bond_denom then bondAmt else 0)"
    using sdk_NewCoin_eq [OF assms(1) bond] by (simp add: amount_of_def)
  then show ?thesis
    using valset_supply_amount [OF assms(1) total, of d] g by (simp add: amount_of_def algebra_simps)
qed

lemma valset_bank_supply:
  assumes "app_coins_laws T" and "coins_laws E" and "valset_bank E T params bals = Inr g"
  shows "supply_ok g \<longleftrightarrow> length bals = 1"
proof -
  have "supply_ok g \<longleftrightarrow> (\<forall>d. amount_of (bg_Supply g) d - balances_amount (bg_Balances g) d = 0)"
    by (simp add: supply_ok_def)
  also have "\<dots> \<longleftrightarrow> length bals = 1"
    unfolding valset_bank_amount [OF assms] by (auto simp: bondAmt_def)
  finally show ?thesis .
qed

lemma FundAccount_credits:
  assumes "bank_laws E modacc" and "FundAccount E addr cs c = (Inr (), c')"
  shows "bal E (world c') a d = bal E (world c) a d + credit addr cs a d"
proof -
  obtain c1 where "worldM (MintCoins E mint_ModuleName cs) c = (Inr (), c1)"
    and "worldM (SendCoinsFromModuleToAccount E mint_ModuleName addr cs) c1 = (Inr (), c')"
    using assms(2) by (auto simp: FundAccount_def bindM_eq_Inr)
  then have "bal E (world c1) a d = bal E (world c) a d + credit (modacc mint_ModuleName) cs a d"
    and "bal E (world c') a d =
      bal E (world c1) a d + (credit addr cs a d - credit (modacc mint_ModuleName) cs a d)"
    using movesD [OF bank_lawsD(1) [OF assms(1)]] movesD [OF bank_lawsD(4) [OF assms(1)]]
    unfolding worldM_eq by (metis ctx.select_convs(2) ctx.surjective ctx.update_convs(2))+
  then show ?thesis by simp
qed

end
