(* ===== verification/Spec2Isabelle.thy ===== *)
theory Spec2Isabelle
  imports SampleSim SampleMeta SampleGateway SampleNode SampleLaws SampleClients SampleStart Rights AppInterface AppState NodeCmd TestHelpers
begin

text \<open>
  \<^bold>\<open>The token factory module of \<open>osmosis-labs/tokenfactory\<close>.\<close>

  A Cosmos SDK module by which any account creates denoms \<open>factory/{creator}/{subdenom}\<close>, of which it is
  the first admin. The admin of a denom may mint it to, burn it from and move it between any accounts, set its bank
  metadata, and hand the denom on to another admin. This development translates the module's Go code into HOL
  and proves what makes it correct.

  \<^bold>\<open>How the program is put together, and where it is modelled.\<close>

  A message arrives as bytes, is decoded (\<open>types/tx.pb.go\<close>), checked without state (\<open>types/msgs.go\<close>) and
  handled by the message server (\<open>keeper/msg_server.go\<close>), which calls the keeper (\<open>keeper/*.go\<close>). The keeper keeps two
  things in the module's key-value store: the authority metadata of each denom, which is its admin, and an index of
  the denoms of each creator; everything else it does through the bank, account and distribution modules, and
  its parameters lie in a parameter space. Queries, genesis, the command line and the simulator sit on top. The directory
  \<open>simapp\<close> puts the module into an example application, with the commands of a node (\<open>simapp/simd\<close>).

  \<^item> \<open>Prelude\<close>: bytes and strings, the errors (\<open>types/errors.go\<close>), results \<open>error + 'a\<close>, state actions
    \<open>'s \<Rightarrow> 'a result \<times> 's\<close>, and \<open>strings.Join\<close>, \<open>Split\<close> and \<open>Contains\<close>. A panic is the error \<open>GoPanic\<close>.
  \<^item> \<open>Wire\<close>: the protobuf code that the generator repeats in every file and message: varints, the backward writers of
    \<open>MarshalToSizedBuffer\<close>, \<open>skipTx\<close>, the field loop of \<open>Unmarshal\<close>. Bytes are \<open>8 word\<close>, Go's \<open>uint64\<close> is \<open>64 word\<close>,
    and an \<open>int\<close> sum that may overflow is wrapped by \<open>wrap64\<close>. \<open>WireWrite\<close> and \<open>WireRead\<close> prove what writers
    write and readers read; \<open>Codec\<close> states the contract of a message as the locale \<open>proto_message\<close>.
  \<^item> \<open>TxPb\<close>, \<open>QueryPb\<close>, \<open>GenesisPb\<close>, \<open>ParamsPb\<close>, \<open>AuthorityPb\<close>: the messages of \<open>types/*.pb.go\<close>, each a record
    with its \<open>Reset\<close>, getters, \<open>MarshalToSizedBuffer\<close>, \<open>Size\<close>, \<open>Marshal\<close> and \<open>Unmarshal\<close>, and an interpretation of
    \<open>proto_message\<close>. The services and their handlers from bytes are in \<open>Services\<close>, the REST routes of \<open>types/query.pb.gw.go\<close> in \<open>Gateway\<close>,
    gRPC clients and the registration of servers in \<open>Clients\<close>.
  \<^item> \<open>Sdk\<close>: the part of the Cosmos SDK that the code calls, as the record \<open>sdk\<close> of functions that the model is
    parametrised by, and the context \<open>ctx\<close>: the module's store, the state of the rest of the chain, the emitted events.
    What is assumed of the SDK is named: \<open>store_laws\<close> (a prefixed key-value store), \<open>bech32_laws\<close>,
    \<open>denom_laws\<close>, \<open>coins_laws\<close>, \<open>metadata_laws\<close> (the bank keeps denom metadata; payments do not touch them),
    \<open>bank_laws\<close> (payments move balances), \<open>param_laws\<close>; in \<open>Frames\<close> \<open>params_frame_laws\<close> (payments do not touch the parameters),
    \<open>pool_laws\<close> (the community pool is an account), \<open>panic_laws\<close> (when the SDK panics); in \<open>Clients\<close> \<open>grpc_laws\<close>.
  \<^item> \<open>Keys\<close> (\<open>types/keys.go\<close>), \<open>Denoms\<close> (\<open>types/denoms.go\<close>), \<open>ParamTypes\<close> (\<open>types/params.go\<close>), \<open>GenesisTypes\<close>
    (\<open>types/genesis.go\<close>, \<open>types/authorityMetadata.go\<close>), \<open>Msgs\<close> (\<open>types/msgs.go\<close>, \<open>types/events.go\<close>).
  \<^item> \<open>Keeper\<close> (\<open>keeper/keeper.go\<close>, \<open>admins.go\<close>, \<open>creators.go\<close>, \<open>params.go\<close>, \<open>createdenom.go\<close>, \<open>bankactions.go\<close>) and
    \<open>Handlers\<close> (\<open>msg_server.go\<close>, \<open>grpc_query.go\<close>, \<open>genesis.go\<close>), one definition per function.
  \<^item> \<open>Module\<close> and \<open>AppModule\<close> (\<open>module.go\<close>, \<open>types/codec.go\<close>, the legacy methods of the messages), \<open>Cli\<close> and \<open>Commands\<close>
    (\<open>client/cli\<close>: what a command builds, and what it does), \<open>Simulation\<close> (\<open>simulation/sim_msgs.go\<close>).
  \<^item> The example application: \<open>App\<close> (\<open>simapp/app.go\<close>, \<open>encoding.go\<close>, \<open>genesis.go\<close>: modules and their orders, module accounts,
    stores and keepers), \<open>NewApp\<close> (the constructors \<open>NewKeeper\<close> and \<open>NewSimApp\<close>, API routes),
    \<open>AppInterface\<close> (\<open>types.go\<close>), \<open>AppState\<close> (\<open>state.go\<close>, \<open>config.go\<close>, \<open>utils.go\<close>), \<open>Export\<close> (\<open>export.go\<close>), \<open>TestHelpers\<close>
    (\<open>test_helpers.go\<close>). Its node: \<open>GenAccounts\<close> (\<open>simd/cmd/genaccounts.go\<close>, \<open>genesis_account.go\<close>), \<open>Testnet\<close>
    (\<open>simd/cmd/testnet.go\<close>), \<open>NodeCmd\<close> (\<open>simd/cmd/root.go\<close>, \<open>simd/main.go\<close>), \<open>Encoding\<close> (\<open>simapp/params\<close>). \<open>AppGenesis\<close> has the genesis state that these share, and the
    laws \<open>app_laws\<close> of its codecs, coins and files; \<open>GoLib\<close> has \<open>strconv.Itoa\<close>, \<open>filepath.Join\<close> and loops with effects.

  \<^bold>\<open>What is proved, and how.\<close>

  \<open>Registry\<close> reads the store as an abstract registry, \<open>admins\<close> from denoms to admins and \<open>listed\<close> for the index.
  \<open>KeeperProps\<close> and \<open>HandlerProps\<close> give each operation's successful runs over it; the five administrative handlers interpret
  the locale \<open>admin_only\<close>. \<open>Invariant\<close> states what every reachable state satisfies, and that each handler preserves it.
  \<open>System\<close> defines the transaction of a list of messages (the SDK validates all, then runs all, and drops every change if
  one fails) and the abstract machine \<open>spec_msgs\<close>, and proves the refinement. \<open>GenesisProps\<close> is about import and export, \<open>Chain\<close>
  about states reachable from genesis by transactions and by other modules' activity, through the locale
  \<open>invariant\<close>. \<open>Rights\<close> says what the admin can always do and others never, \<open>Restart\<close> what an export and an import keep and change, and
  \<open>AppStart\<close> carries it to the application, over the SDK's module manager: \<open>manager_laws\<close> says that it runs the modules in their order,
  \<open>export_laws\<close> and \<open>genesis_json_laws\<close> that the export is the module's own and is read back, \<open>export_keepers_laws\<close> (through the locale
  \<open>whole_export_frame\<close>) that other keepers do not write to the module's store. \<open>Frames\<close> shows that messages keep the parameters, \<open>Panics\<close> follows the handlers to every error they may end with,
  and \<open>Accounting\<close> reads off a transaction's messages what it does to balances. \<open>SimulationProps\<close> is about the simulator.
  \<open>SampleChain\<close>, \<open>SampleRun\<close>, \<open>SampleLaws\<close>, \<open>SampleSim\<close> and \<open>SampleMeta\<close> define an
  executable SDK and prove that it satisfies all the laws, \<open>SampleGateway\<close> a multiplexer, \<open>SampleClients\<close> gRPC, \<open>SampleCaps\<close> a chain whose
  addresses have two spellings, with a manager and an export in \<open>SampleStart\<close>, \<open>SampleApp\<close> and \<open>SampleNode\<close> files, genesis codecs and validators; the witnesses run on them.

  The properties below, C1 to C40: the registry refinement, the invariant and the admin's rights (C1 to C11, C31), the
  effect on balances (C12 to C15), whole transactions: accounting, strangers and panics (C16 to C18), denoms and keys (C19 to
  C21), genesis (C22 to C24), the start of the application and its restart from an export (C25, C26), queries (C27, C28), the wire format
  (C29, C30), simulation and commands (C32, C33), transactions and requests from bytes (C34 to C36), clients and command line (C37, C38), the genesis
  command and the export of the example application (C39, C40).

  \<^bold>\<open>Bounds.\<close>

  The two loops whose index is data, \<open>skipTx\<close> and \<open>Unmarshal\<close>, run with fuel one more than the length of the input; each
  iteration consumes a byte at least, so it is never used up (C30). Lengths of Go slices are below \<open>2^63\<close>, which
  is a hypothesis where it matters. The varint loops end by the shift, which grows by 7 up to 64.

  \<^bold>\<open>Not modelled.\<close>

  Gas that the SDK consumes on store accesses; the JSON codecs (parameters); texts of wrapped errors; reflection, \<open>String\<close>
  and \<open>Merge\<close> of messages; gRPC itself, which is a parameter; what the SDK's constructors of keepers and its registered services do; what is logged. The
  hooks and the contract keeper that some interfaces mention are called by no code.

  \<^bold>\<open>Found on the way.\<close>

  \<open>Burn\<close> looks up the module account under the bytes of the address text, so its check never fires (C15). The
  \<open>change-admin\<close> command demands one argument and reads two (C33). The simulator reads the weight of burning under
  another key (\<open>burn_weight_ignores_its_key\<close>), lets the creator of a denom sign messages of its admin (C32), and never
  runs the operation that changes an admin. The README lets an admin renounce a denom by \<open>ChangeAdmin\<close>, but its validation
  demands an address (C31). The variable of the metadata route matches one segment, so no denom of the module is found through
  it (C36). The admin is compared by the text of an address, of which there are two: a denom created under the capital spelling cannot be
  minted by the command line of the same account (C11), and is listed under another spelling after a restart (C26). The check of a vesting amount skips denominations that the balance lacks
  (\<open>vesting_is_checked_only_where_held\<close>). The test genesis with validators has the right supply only for one balance
  (\<open>validator_set_genesis_supply\<close>). The help of the test network names another port than it writes,
  and addresses wrap around
  (\<open>testnet_addresses_wrap\<close>). The test helpers make 900 incremental accounts or keys
  (\<open>createIncrementalAccounts_nil\<close>, \<open>CreateTestPubKeys_limit\<close>). The node imports the SDK's own \<open>simapp\<close>, which has no token factory module.
\<close>

section \<open>The chain of token factory transactions\<close>

text \<open>C1: A transaction that is accepted in a reachable state changes the registry of admins exactly as
  the abstract registry does: each of its messages was allowed by the registry at its turn
  (a creation of an unregistered denom, or an action of the current admin), and the new admins are those
  of the abstract machine.\<close>

theorem deliver_tx_refines_registry:
  assumes "sdk_laws E" and "reachable E c" and "deliver_tx E ms c = (Inr (), c')"
  shows "spec_msgs ms (admins E (store c)) = Some (admins E (store c'))"
  using deliver_tx_admins [OF assms(1) reachable_Inv [OF assms(1,2)] assms(3)] .

lemma deliver_tx_refines_registry_witness:
  "spec_msgs [CreateDenomMsg create_gold] [silver \<mapsto> bob, void \<mapsto> ''''] =
    Some [silver \<mapsto> bob, void \<mapsto> '''', gold \<mapsto> alice]"
  using deliver_tx_refines_registry [OF chain_sdk_laws sample_reachable gold_created]
  unfolding sample_admins gold_admins .

text \<open>C2: The invariant holds in every state reachable from genesis by transactions and by activity of other
  modules: stored metadata decodes to a valid admin, every index entry belongs to a registered denom
  created by that address, every registered denom is listed under one creator and has bank metadata.\<close>

theorem reachable_states_are_well_formed:
  assumes "sdk_laws E" and "reachable E c"
  shows "Inv E c"
  using assms by (rule reachable_Inv)

lemma reachable_states_are_well_formed_witness: "Inv chain_sdk gold_ctx"
  by (rule reachable_states_are_well_formed [OF chain_sdk_laws gold_reachable])

text \<open>C3: Once the admin of a denom is the empty string, no sequence of transactions and no activity of
  other modules changes it again.\<close>

theorem renounced_denom_is_frozen:
  assumes "sdk_laws E" and "reachable E c" and "admins E (store c) d = Some ''''"
    and "(chain_step E)\<^sup>*\<^sup>* c c'"
  shows "admins E (store c') d = Some ''''"
  using renounced_invariant.kept_by_steps [OF assms(4), of d] reachable_Inv [OF assms(1,2)] assms(1,3)
  by blast

lemma renounced_denom_is_frozen_witness: "admins chain_sdk (store gold_ctx) void = Some ''''"
proof (rule renounced_denom_is_frozen [OF chain_sdk_laws sample_reachable])
  show "admins chain_sdk (store sample_ctx) void = Some ''''" by (simp add: sample_admins)
  show "(chain_step chain_sdk)\<^sup>*\<^sup>* sample_ctx gold_ctx"
    by (intro r_into_rtranclp chain_step.tx [OF gold_created])
qed

text \<open>C4: If the admin of a registered denom is another after a transaction, then the transaction holds a \<open>ChangeAdmin\<close> for this denom
  sent by the old admin, and one that names the new admin.\<close>

theorem admin_changes_only_by_the_admin:
  assumes "sdk_laws E" and "reachable E c" and "deliver_tx E ms c = (r, c')"
    and "admins E (store c) d = Some a" and "admins E (store c') d \<noteq> Some a"
  shows "(\<exists>x. ChangeAdminMsg x \<in> set ms \<and> ca_Denom x = d \<and> ca_Sender x = a) \<and>
    (\<exists>y. ChangeAdminMsg y \<in> set ms \<and> ca_Denom y = d \<and> admins E (store c') d = Some (NewAdmin y))"
proof (cases r)
  case (Inl e)
  then show ?thesis using assms(3-5) deliver_tx_eq_Inl by metis
next
  case (Inr u)
  then have ok: "deliver_tx E ms c = (Inr (), c')" using assms(3) by simp
  show ?thesis
    by (rule spec_msgs_change_admin [OF deliver_tx_admins [OF assms(1) reachable_Inv [OF assms(1,2)] ok] assms(4,5)])
qed

lemma admin_changes_only_by_the_admin_witness:
  "\<exists>x. ChangeAdminMsg x \<in> set [ChangeAdminMsg give_silver] \<and> ca_Denom x = silver \<and> ca_Sender x = bob"
proof -
  have "admins chain_sdk (store sample_ctx) silver = Some bob" and "admins chain_sdk (store give_ctx) silver \<noteq> Some bob"
    by (simp_all add: sample_admins give_admins denom_names)
  from admin_changes_only_by_the_admin [OF chain_sdk_laws sample_reachable silver_given this] show ?thesis by blast
qed

section \<open>Creating denoms\<close>



text \<open>C6: A registered denom cannot be created again: \<open>CreateDenom\<close> for it returns \<open>ErrDenomExists\<close> and
  changes nothing, unless the earlier check on the supply of the subdenom already failed.\<close>

theorem registered_denom_is_not_recreated:
  assumes "sdk_laws E" and "reachable E c" and "GetTokenDenom E (cd_Sender m) (cd_Subdenom m) = Inr d"
    and "admins E (store c) d = Some a" and "\<not> HasSupply E (world c) (cd_Subdenom m)"
  shows "MsgServer_CreateDenom E m c = (Inl ErrDenomExists, c)"
  using InvD(3) [OF reachable_Inv [OF assms(1,2)] assms(4)] assms(3,5)
  by (simp add: MsgServer_CreateDenom_def CreateDenom_def bindM_def validateCreateDenom_run)

lemma registered_denom_is_not_recreated_witness:
  "MsgServer_CreateDenom chain_sdk (NewMsgCreateDenom bob ''silver'') sample_ctx = (Inl ErrDenomExists, sample_ctx)"
proof (rule registered_denom_is_not_recreated [OF chain_sdk_laws sample_reachable])
  show "GetTokenDenom chain_sdk (cd_Sender (NewMsgCreateDenom bob ''silver''))
      (cd_Subdenom (NewMsgCreateDenom bob ''silver'')) = Inr silver"
    by code_simp
  show "admins chain_sdk (store sample_ctx) silver = Some bob" by (simp add: sample_admins denom_names)
  show "\<not> HasSupply chain_sdk (world sample_ctx) (cd_Subdenom (NewMsgCreateDenom bob ''silver''))"
    by (simp add: sample_eval NewMsgCreateDenom_def)
qed

section \<open>The admin's messages\<close>

text \<open>C7: In a reachable state, each of the five administrative handlers that succeeds for a non-empty
  sender was called by the denom's current admin.\<close>

theorem only_the_admin_acts:
  assumes "sdk_laws E" and "reachable E c"
  shows "(\<forall>m r c'. MsgServer_Mint E m c = (Inr r, c') \<longrightarrow> mint_Sender m \<noteq> '''' \<longrightarrow>
        admins E (store c) (coin_Denom (mint_Amount m)) = Some (mint_Sender m)) \<and>
    (\<forall>m r c'. MsgServer_Burn E m c = (Inr r, c') \<longrightarrow> burn_Sender m \<noteq> '''' \<longrightarrow>
        admins E (store c) (coin_Denom (burn_Amount m)) = Some (burn_Sender m)) \<and>
    (\<forall>m r c'. MsgServer_ForceTransfer E m c = (Inr r, c') \<longrightarrow> ft_Sender m \<noteq> '''' \<longrightarrow>
        admins E (store c) (coin_Denom (ft_Amount m)) = Some (ft_Sender m)) \<and>
    (\<forall>m r c'. MsgServer_ChangeAdmin E m c = (Inr r, c') \<longrightarrow> ca_Sender m \<noteq> '''' \<longrightarrow>
        admins E (store c) (ca_Denom m) = Some (ca_Sender m)) \<and>
    (\<forall>m r c'. MsgServer_SetDenomMetadata E m c = (Inr r, c') \<longrightarrow> sdm_Sender m \<noteq> '''' \<longrightarrow>
        admins E (store c) (meta_Base (sdm_Metadata m)) = Some (sdm_Sender m))"
proof -
  note lw = sdk_lawsD(2) [OF assms(1)] reachable_wf [OF assms]
  show ?thesis
    by (intro conjI allI impI)
      (erule (1) Mint_guard.sender_is_registered_admin [OF lw] Burn_guard.sender_is_registered_admin [OF lw]
        ForceTransfer_guard.sender_is_registered_admin [OF lw] ChangeAdmin_guard.sender_is_registered_admin [OF lw]
        SetDenomMetadata_guard.sender_is_registered_admin [OF lw])+
qed

lemma only_the_admin_acts_witness:
  "admins chain_sdk (store sample_ctx) (coin_Denom (mint_Amount mint_silver)) = Some (mint_Sender mint_silver)"
proof -
  have "mint_Sender mint_silver \<noteq> ''''" by (simp add: mint_silver_def NewMsgMintTo_def denom_names)
  then show ?thesis using only_the_admin_acts [OF chain_sdk_laws sample_reachable] sample_mint by blast
qed

text \<open>C8: In a reachable state, each administrative handler called for a registered denom by anybody but its
  admin returns \<open>ErrUnauthorized\<close> and changes nothing (\<open>SetDenomMetadata\<close> once the metadata is valid).\<close>

theorem others_are_refused:
  assumes "sdk_laws E" and "reachable E c" and "admins E (store c) d = Some a" and "s \<noteq> a"
  shows "(\<forall>m. mint_Sender m = s \<longrightarrow> coin_Denom (mint_Amount m) = d \<longrightarrow>
        MsgServer_Mint E m c = (Inl ErrUnauthorized, c)) \<and>
    (\<forall>m. burn_Sender m = s \<longrightarrow> coin_Denom (burn_Amount m) = d \<longrightarrow>
        MsgServer_Burn E m c = (Inl ErrUnauthorized, c)) \<and>
    (\<forall>m. ft_Sender m = s \<longrightarrow> coin_Denom (ft_Amount m) = d \<longrightarrow>
        MsgServer_ForceTransfer E m c = (Inl ErrUnauthorized, c)) \<and>
    (\<forall>m. ca_Sender m = s \<longrightarrow> ca_Denom m = d \<longrightarrow>
        MsgServer_ChangeAdmin E m c = (Inl ErrUnauthorized, c)) \<and>
    (\<forall>m. sdm_Sender m = s \<longrightarrow> meta_Base (sdm_Metadata m) = d \<longrightarrow> Metadata_Validate E (sdm_Metadata m) = Inr () \<longrightarrow>
        MsgServer_SetDenomMetadata E m c = (Inl ErrUnauthorized, c))"
  using stranger_refused [OF assms] by blast

lemma others_are_refused_witness:
  "MsgServer_Mint chain_sdk (NewMsgMint alice some_silver) sample_ctx = (Inl ErrUnauthorized, sample_ctx)"
proof -
  have "admins chain_sdk (store sample_ctx) silver = Some bob" "alice \<noteq> bob"
    by (simp_all add: sample_admins denom_names)
  from others_are_refused [OF chain_sdk_laws sample_reachable this] show ?thesis
    by (simp add: NewMsgMint_def some_silver_def)
qed

text \<open>C9: \<open>ChangeAdmin\<close> in a reachable state, on every branch: for a non-empty sender it succeeds if and only if the
  sender is the admin and the new admin is an address or empty; then exactly this denom's admin changes,
  and the event names the denom and the new admin.\<close>

theorem change_admin_behaviour:
  assumes "sdk_laws E" and "reachable E c" and "ca_Sender m \<noteq> ''''"
  shows "((\<exists>r c'. MsgServer_ChangeAdmin E m c = (Inr r, c')) \<longleftrightarrow>
      admins E (store c) (ca_Denom m) = Some (ca_Sender m) \<and> admin_ok E (NewAdmin m)) \<and>
    (\<forall>r c'. MsgServer_ChangeAdmin E m c = (Inr r, c') \<longrightarrow>
      admins E (store c') = (admins E (store c))(ca_Denom m \<mapsto> NewAdmin m) \<and>
      listed E (store c') = listed E (store c) \<and> world c' = world c \<and>
      emitted c' = emitted c @ [\<lparr>event_Type = TypeMsgChangeAdmin, event_Attributes =
        [(AttributeDenom, ca_Denom m), (AttributeNewAdmin, NewAdmin m)]\<rparr>])"
proof -
  note l = sdk_lawsD [OF assms(1)]
  note run = ChangeAdmin_handler_eq_Inr [OF l(2) reachable_wf [OF assms(1,2)], of m]
  have "ca_Sender m = admin_or_none (admins E (store c) (ca_Denom m)) \<longleftrightarrow>
      admins E (store c) (ca_Denom m) = Some (ca_Sender m)"
    using assms(3) by (auto simp: admin_or_none_def split: option.splits)
  then show ?thesis
    by (auto simp: run admins_put_metadata [OF l(1,2)] listed_put_metadata [OF l(1)])
qed

lemma change_admin_behaviour_witness:
  "admins chain_sdk (store sample_ctx) silver = Some bob \<and> admin_ok chain_sdk alice"
proof -
  have "ca_Sender give_silver \<noteq> ''''" by (simp add: give_silver_def NewMsgChangeAdmin_def denom_names)
  from change_admin_behaviour [OF chain_sdk_laws sample_reachable this] sample_give
  have "admins chain_sdk (store sample_ctx) (ca_Denom give_silver) = Some (ca_Sender give_silver) \<and>
      admin_ok chain_sdk (NewAdmin give_silver)"
    by blast
  then show ?thesis by (simp add: give_silver_def NewMsgChangeAdmin_def)
qed

text \<open>C10: The right to a denom can always be exercised: in every reachable state, the admin of a denom can hand it to any address; the
  transaction with this one message is accepted, leads to a reachable state, and changes just this admin.\<close>

theorem admin_can_hand_over:
  assumes "sdk_laws E" and "reachable E c" and "admins E (store c) d = Some a" and "a \<noteq> ''''"
    and "AccAddressFromBech32 E b = Inr x"
  shows "\<exists>c'. deliver_tx E [ChangeAdminMsg (NewMsgChangeAdmin a d b)] c = (Inr (), c') \<and> reachable E c' \<and>
    admins E (store c') = (admins E (store c))(d \<mapsto> b)"
  by (rule hand_over [OF assms])

lemma admin_can_hand_over_witness:
  "\<exists>c'. deliver_tx chain_sdk [ChangeAdminMsg (NewMsgChangeAdmin bob silver alice)] sample_ctx = (Inr (), c') \<and>
     admins chain_sdk (store c') silver = Some alice"
proof -
  have "admins chain_sdk (store sample_ctx) silver = Some bob" by (simp add: sample_admins denom_names)
  moreover have "AccAddressFromBech32 chain_sdk alice = Inr (bytes_of_string ''alice'')"
    by (simp add: chain_ops address_alice)
  ultimately show ?thesis
    using admin_can_hand_over [OF chain_sdk_laws sample_reachable, of silver bob alice] names_not_empty(2)
    by (metis fun_upd_same)
qed

text \<open>C11: Who is the admin is decided by the text: if a registered denom's admin is stored in another spelling than the canonical one of its
  address (bech32 has capitals, too), then the commands \<open>mint\<close> and \<open>burn\<close> of the account with that address, for a valid amount of the
  denom that is not zero, are refused as unauthorized, since they name the sender canonically, although both spellings have the same signer. The account regains the denom by a \<open>ChangeAdmin\<close>
  from the stored to the canonical spelling, which is accepted.\<close>

theorem admin_is_one_spelling:
  assumes "sdk_laws E" and "reachable E c" and "delivers E broadcast" and "admins E (store c) d = Some x"
    and "AccAddressFromBech32 E x = Inr a" and "x \<noteq> AccAddress_String E a"
  shows "(\<forall>t amount. parse t = Inr amount \<longrightarrow> coin_Denom amount = d \<longrightarrow> Coin_IsValid E amount \<longrightarrow> coin_Amount amount \<noteq> 0 \<longrightarrow>
      NewMintCmd_RunE E parse broadcast (Inr a) [t] c = (Inl ErrUnauthorized, c) \<and>
      NewBurnCmd_RunE E parse broadcast (Inr a) [t] c = (Inl ErrUnauthorized, c)) \<and>
    (let canonical = AccAddress_String E a; m = ChangeAdminMsg (NewMsgChangeAdmin x d canonical) in
      Msg_GetSigners E m = Msg_GetSigners E (ChangeAdminMsg (NewMsgChangeAdmin canonical d canonical)) \<and>
      (\<exists>c'. deliver_tx E [m] c = (Inr (), c') \<and> admins E (store c') = (admins E (store c))(d \<mapsto> canonical)))"
proof -
  note l = sdk_lawsD [OF assms(1)]
  note a = bech32_again [OF l(2) assms(5)]
  have "x \<noteq> ''''" using bech32_empty [OF l(2)] assms(5) by blast
  from hand_over [OF assms(1,2,4) this a] show ?thesis
    using command_is_refused [OF assms(1-3) _ assms(5) assms(6) [symmetric], where parse = parse] assms(4,5) a
    by (auto simp: Let_def MsgChangeAdmin_GetSigners_def signer_def NewMsgChangeAdmin_def)
qed

lemma admin_is_one_spelling_witness:
  "NewMintCmd_RunE caps_sdk (\<lambda>t. Inr \<lparr>coin_Denom = GOLD, coin_Amount = 7\<rparr>) (\<lambda>m. deliver_tx caps_sdk [m])
     (Inr (bytes_of_string ''alice'')) [''7''] caps_ctx = (Inl ErrUnauthorized, caps_ctx)"
proof -
  have "admins caps_sdk (store caps_ctx) GOLD = Some ALICE" by (simp add: caps_admins)
  moreover have "AccAddressFromBech32 caps_sdk ALICE = Inr (bytes_of_string ''alice'')"
    using address_ALICE(1) by (simp add: caps_sdk_def)
  moreover have "ALICE \<noteq> AccAddress_String caps_sdk (bytes_of_string ''alice'')" by code_simp
  moreover have "Coin_IsValid caps_sdk \<lparr>coin_Denom = GOLD, coin_Amount = 7\<rparr>" by code_simp
  ultimately show ?thesis
    using admin_is_one_spelling [OF caps_sdk_laws caps_reachable, of "\<lambda>m. deliver_tx caps_sdk [m]" GOLD ALICE
        "bytes_of_string ''alice''" "\<lambda>t. Inr \<lparr>coin_Denom = GOLD, coin_Amount = 7\<rparr>"]
    by (simp add: delivers_def)
qed

section \<open>Minting, burning and forced transfers\<close>

text \<open>C12: \<open>Mint\<close> that succeeds in a reachable state credits the whole amount to the recipient (the sender,
  if the message names none) and changes no other balance, and leaves the module's store as it is.\<close>

theorem mint_credits_the_recipient:
  assumes "sdk_laws E" and "bank_laws E modacc" and "reachable E c"
    and "MsgServer_Mint E m c = (Inr r, c')"
  shows "\<exists>addr. AccAddressFromBech32 E (if MintToAddress m = '''' then mint_Sender m else MintToAddress m) = Inr addr \<and>
    (\<forall>x d. bal E (world c') x d = bal E (world c) x d
       + (if x = addr \<and> d = coin_Denom (mint_Amount m) then coin_Amount (mint_Amount m) else 0)) \<and>
    store c' = store c"
proof -
  note l = sdk_lawsD [OF assms(1)]
  let ?to = "if MintToAddress m = '''' then mint_Sender m else MintToAddress m"
  obtain c1 where run: "mintTo E (mint_Amount m) ?to c = (Inr (), c1)"
    and c': "world c' = world c1" "store c' = store c1"
    using assms(4) unfolding Mint_handler_eq_Inr [OF l(2) reachable_wf [OF assms(1,3)]] Let_def by auto
  obtain addr where "AccAddressFromBech32 E ?to = Inr addr" and "store c1 = store c"
    using run unfolding mintTo_eq_Inr by auto
  then show ?thesis using mintTo_balances [OF l(4) assms(2) run] c' by auto
qed

lemma mint_credits_the_recipient_witness:
  "\<exists>c. MsgServer_Mint chain_sdk mint_silver sample_ctx = (Inr MsgMintResponse, c) \<and>
    bal chain_sdk (world c) (bytes_of_string ''alice'') silver = 57"
proof -
  obtain c where c: "MsgServer_Mint chain_sdk mint_silver sample_ctx = (Inr MsgMintResponse, c)"
    using sample_mint by blast
  have "bal chain_sdk (world sample_ctx) (bytes_of_string ''alice'') silver = 50"
    by (simp add: sample_eval)
  with mint_credits_the_recipient [OF chain_sdk_laws chain_bank_laws sample_reachable c] c show ?thesis
    by (auto simp: mint_silver_def NewMsgMintTo_def chain_ops(1) address_alice some_silver_def names_not_empty)
qed

text \<open>C13: \<open>Burn\<close> that succeeds in a reachable state debits the whole amount from the account burned from
  (the sender's, if the message names none) and changes no other balance and nothing in the module's store.\<close>

theorem burn_debits_the_holder:
  assumes "sdk_laws E" and "bank_laws E modacc" and "reachable E c"
    and "MsgServer_Burn E m c = (Inr r, c')"
  shows "\<exists>addr. AccAddressFromBech32 E (if BurnFromAddress m = '''' then burn_Sender m else BurnFromAddress m) = Inr addr \<and>
    (\<forall>x d. bal E (world c') x d = bal E (world c) x d
       - (if x = addr \<and> d = coin_Denom (burn_Amount m) then coin_Amount (burn_Amount m) else 0)) \<and>
    store c' = store c"
proof -
  note l = sdk_lawsD [OF assms(1)]
  let ?from = "if BurnFromAddress m = '''' then burn_Sender m else BurnFromAddress m"
  obtain c1 where run: "burnFrom E (burn_Amount m) ?from c = (Inr (), c1)"
    and c': "world c' = world c1" "store c' = store c1"
    using assms(4) unfolding Burn_handler_eq_Inr [OF l(2) reachable_wf [OF assms(1,3)]] Let_def by auto
  obtain addr where "AccAddressFromBech32 E ?from = Inr addr" and "store c1 = store c"
    using run unfolding burnFrom_eq_Inr by auto
  then show ?thesis using burnFrom_balances [OF l(4) assms(2) run] c' by auto
qed

lemma burn_debits_the_holder_witness:
  "\<exists>c. MsgServer_Burn chain_sdk burn_silver sample_ctx = (Inr MsgBurnResponse, c) \<and>
    bal chain_sdk (world c) (bytes_of_string ''alice'') silver = 43"
proof -
  obtain c where c: "MsgServer_Burn chain_sdk burn_silver sample_ctx = (Inr MsgBurnResponse, c)"
    using sample_burn by blast
  have "bal chain_sdk (world sample_ctx) (bytes_of_string ''alice'') silver = 50"
    by (simp add: sample_eval)
  with burn_debits_the_holder [OF chain_sdk_laws chain_bank_laws sample_reachable c] c show ?thesis
    by (auto simp: burn_silver_def NewMsgBurnFrom_def chain_ops(1) address_alice some_silver_def names_not_empty)
qed

text \<open>\<open>ForceTransfer\<close> that succeeds in a reachable state moves the whole amount from one address to the
  other, changes no other balance and nothing in the module's store.\<close>

lemma force_transfer_moves_the_amount:
  assumes "sdk_laws E" and "bank_laws E modacc" and "reachable E c"
    and "MsgServer_ForceTransfer E m c = (Inr r, c')"
  shows "\<exists>src dst. AccAddressFromBech32 E (TransferFromAddress m) = Inr src \<and>
    AccAddressFromBech32 E (TransferToAddress m) = Inr dst \<and>
    (\<forall>x d. bal E (world c') x d = bal E (world c) x d
       + (if x = dst \<and> d = coin_Denom (ft_Amount m) then coin_Amount (ft_Amount m) else 0)
       - (if x = src \<and> d = coin_Denom (ft_Amount m) then coin_Amount (ft_Amount m) else 0)) \<and>
    store c' = store c"
proof -
  note l = sdk_lawsD [OF assms(1)]
  obtain c1 where run: "forceTransfer E (ft_Amount m) (TransferFromAddress m) (TransferToAddress m) c = (Inr (), c1)"
    and c': "world c' = world c1" "store c' = store c1"
    using assms(4) unfolding ForceTransfer_handler_eq_Inr [OF l(2) reachable_wf [OF assms(1,3)]] by auto
  obtain src dst where "AccAddressFromBech32 E (TransferFromAddress m) = Inr src"
    and "AccAddressFromBech32 E (TransferToAddress m) = Inr dst" and "store c1 = store c"
    using run unfolding forceTransfer_eq_Inr by auto
  then show ?thesis using forceTransfer_balances [OF l(4) assms(2) run] c' by auto
qed

lemma force_transfer_moves_the_amount_witness:
  "\<exists>c. MsgServer_ForceTransfer chain_sdk move_silver sample_ctx = (Inr MsgForceTransferResponse, c) \<and>
    bal chain_sdk (world c) (bytes_of_string ''bob'') silver = 7"
proof -
  obtain c where c: "MsgServer_ForceTransfer chain_sdk move_silver sample_ctx = (Inr MsgForceTransferResponse, c)"
    using sample_move by blast
  have "bal chain_sdk (world sample_ctx) (bytes_of_string ''bob'') silver = 0"
    by (simp add: sample_eval)
  with force_transfer_moves_the_amount [OF chain_sdk_laws chain_bank_laws sample_reachable c] c show ?thesis
    by (auto simp: move_silver_def NewMsgForceTransfer_def chain_ops(1) address_alice address_bob
        some_silver_def)
qed

text \<open>C14: \<open>Mint\<close> by the admin to a text that is no address returns the decoding error, but only after minting:
  the new coins stay in the module's account for the caller of the handler to undo. The transaction that
  carries the message leaves the state unchanged.\<close>

theorem mint_to_a_bad_address:
  assumes "sdk_laws E" and "reachable E c"
    and "admins E (store c) (coin_Denom (mint_Amount m)) = Some (mint_Sender m)"
    and "MintToAddress m \<noteq> ''''" and "AccAddressFromBech32 E (MintToAddress m) = Inl e"
    and "NewCoins E [mint_Amount m] = Inr cs" and "MintCoins E ModuleName cs (world c) = (Inr (), w)"
  shows "MsgServer_Mint E m c = (Inl e, c\<lparr>world := w\<rparr>) \<and>
    (\<exists>e'. deliver_tx E [MintMsg m] c = (Inl e', c))"
proof -
  note l = sdk_lawsD [OF assms(1)]
  have inv: "Inv E c" by (rule reachable_Inv [OF assms(1,2)])
  have dok: "denom_ok E (coin_Denom (mint_Amount m))" by (rule Inv_denom_ok [OF l(2) inv assms(3)])
  have "GetAuthorityMetadata E (coin_Denom (mint_Amount m)) c = (Inr \<lparr>Admin = mint_Sender m\<rparr>, c)"
    using GetAuthorityMetadata_run [OF l(2) InvD(1) [OF inv], of "coin_Denom (mint_Amount m)"] assms(3)
    by (simp add: admin_or_none_def)
  then have run: "MsgServer_Mint E m c = (Inl e, c\<lparr>world := w\<rparr>)"
    using dok assms(4-7) InvD(3) [OF inv assms(3)]
    by (auto simp: MsgServer_Mint_def mintTo_def bindM_def action_simps guardM_def GetAdmin_def worldM_def denom_ok_def)
  then have "\<exists>e'. deliver_tx E [MintMsg m] c = (Inl e', c)"
    by (cases "MsgMint_ValidateBasic E m") (auto simp: deliver_tx_def bindM_def ignore_def)
  with run show ?thesis by blast
qed

lemma mint_to_a_bad_address_witness:
  "\<exists>e w. MsgServer_Mint chain_sdk (NewMsgMintTo bob some_silver ''nowhere'') sample_ctx =
      (Inl e, sample_ctx\<lparr>world := w\<rparr>) \<and>
    bal chain_sdk w (bytes_of_string ModuleName) silver = 16"
proof -
  let ?m = "NewMsgMintTo bob some_silver ''nowhere''"
  have addr: "AccAddressFromBech32 chain_sdk ''nowhere'' = Inl (ErrSDK ''decoding bech32 failed'')" by code_simp
  have ad: "admins chain_sdk (store sample_ctx) (coin_Denom (mint_Amount ?m)) = Some (mint_Sender ?m)"
    by (simp add: NewMsgMintTo_def sample_admins some_silver_def denom_names)
  obtain w where w: "MintCoins chain_sdk ModuleName (Some [some_silver]) (world sample_ctx) = (Inr (), w)"
    by (simp add: chain_ops chain_Mint_def)
  have "bal chain_sdk w (bytes_of_string ModuleName) silver = 16"
    using w by (auto simp: sample_eval)
  moreover have "MsgServer_Mint chain_sdk ?m sample_ctx = (Inl (ErrSDK ''decoding bech32 failed''), sample_ctx\<lparr>world := w\<rparr>)"
    using mint_to_a_bad_address [OF chain_sdk_laws sample_reachable ad _ _ _ w] addr new_some_silver
    by (simp add: NewMsgMintTo_def chain_ops(3))
  ultimately show ?thesis by blast
qed


section \<open>Whole transactions\<close>







section \<open>Denoms and keys\<close>

text \<open>C19: Taking apart a denom that \<open>GetTokenDenom\<close> built from an address gives the address, in canonical
  spelling, and the subdenom, slashes in the subdenom included. \<open>DeconstructDenom\<close> accepts exactly the valid denoms whose first part is
  \<open>factory\<close>, whose second part is an address, and which have a third; it returns the canonical text of the address and
  everything after the second slash.\<close>

theorem token_denom_roundtrip:
  assumes "GetTokenDenom E creator subdenom = Inr d" and "AccAddressFromBech32 E creator = Inr a"
  shows "DeconstructDenom E d = Inr (AccAddress_String E a, subdenom) \<and>
    (DeconstructDenom E d' = Inr (c', s') \<longleftrightarrow> ValidateDenom E d' = Inr () \<and>
      (\<exists>c a. d' = ''factory/'' @ c @ CHR ''/'' # s' \<and> CHR ''/'' \<notin> set c \<and>
        AccAddressFromBech32 E c = Inr a \<and> c' = AccAddress_String E a))"
  using assms unfolding GetTokenDenom_eq_Inr DeconstructDenom_eq_Inr by blast

lemma token_denom_roundtrip_witness:
  "DeconstructDenom chain_sdk ''factory/osmo1alice/a/b'' = Inr (''osmo1alice'', ''a/b'')"
proof -
  have "GetTokenDenom chain_sdk alice ''a/b'' = Inr ''factory/osmo1alice/a/b''" by code_simp
  moreover have "AccAddressFromBech32 chain_sdk alice = Inr (bytes_of_string ''alice'')"
    by (simp add: chain_ops address_alice)
  moreover have "AccAddress_String chain_sdk (bytes_of_string ''alice'') = ''osmo1alice''" by code_simp
  ultimately show ?thesis using token_denom_roundtrip [of chain_sdk alice "''a/b''"] by metis
qed

text \<open>C20: \<open>GetTokenDenom\<close> on every branch: the errors in the order of the checks, and otherwise the denom exactly if
  the SDK accepts it. A token denom determines its creator and its subdenom, and has at most 128 characters
  by the limits on its parts.\<close>

theorem token_denom_cases:
  "GetTokenDenom E creator subdenom =
    (if 44 < length subdenom then Inl ErrSubdenomTooLong
     else if 75 < length creator then Inl ErrCreatorTooLong
     else if CHR ''/'' \<in> set creator then Inl ErrInvalidCreator
     else case ValidateDenom E (''factory/'' @ creator @ CHR ''/'' # subdenom) of
         Inl e \<Rightarrow> Inl e
       | Inr _ \<Rightarrow> Inr (''factory/'' @ creator @ CHR ''/'' # subdenom)) \<and>
   (GetTokenDenom E creator subdenom = Inr d \<longrightarrow> GetTokenDenom E creator' subdenom' = Inr d \<longrightarrow>
     creator' = creator \<and> subdenom' = subdenom \<and> length d \<le> 128)"
proof
  show "GetTokenDenom E creator subdenom =
    (if 44 < length subdenom then Inl ErrSubdenomTooLong
     else if 75 < length creator then Inl ErrCreatorTooLong
     else if CHR ''/'' \<in> set creator then Inl ErrInvalidCreator
     else case ValidateDenom E (''factory/'' @ creator @ CHR ''/'' # subdenom) of
         Inl e \<Rightarrow> Inl e
       | Inr _ \<Rightarrow> Inr (''factory/'' @ creator @ CHR ''/'' # subdenom))"
    unfolding GetTokenDenom_def Join_denom Let_def
    by (simp add: MaxSubdenomLength_def MaxCreatorLength_def MaxHrpLength_def strings_Contains_def andThen_def
        split: sum.split)
  show "GetTokenDenom E creator subdenom = Inr d \<longrightarrow> GetTokenDenom E creator' subdenom' = Inr d \<longrightarrow>
     creator' = creator \<and> subdenom' = subdenom \<and> length d \<le> 128"
    using append_sep_eq_iff [of "CHR ''/''" creator creator' subdenom subdenom']
    by (auto simp: GetTokenDenom_eq_Inr)
qed

lemma token_denom_cases_witness:
  "GetTokenDenom chain_sdk bob ''gold'' \<noteq> Inr gold"
proof -
  have "GetTokenDenom chain_sdk alice ''gold'' = Inr gold" by code_simp
  with token_denom_cases [of chain_sdk alice "''gold''", THEN conjunct2, of gold bob "''gold''"]
  show ?thesis by (auto simp: denom_names)
qed

text \<open>C21: Keys of the store do not collide: the authority metadata of two denoms lie at different keys, whatever the
  denoms are; entries of the creator index are different for different pairs of creator and denom, if the creators
  hold no separator; and no key belongs to both regions.\<close>

theorem store_keys_do_not_collide:
  "(GetDenomPrefixStore d @ bytes_of_string DenomAuthorityMetadataKey =
      GetDenomPrefixStore d' @ bytes_of_string DenomAuthorityMetadataKey \<longleftrightarrow> d = d') \<and>
   GetDenomPrefixStore d @ k \<noteq> GetCreatorPrefix c @ k' \<and> GetDenomPrefixStore d @ k \<noteq> GetCreatorsPrefix @ k' \<and>
   (CHR ''|'' \<notin> set c \<longrightarrow> CHR ''|'' \<notin> set c' \<longrightarrow>
      (GetCreatorPrefix c @ bytes_of_string d = GetCreatorPrefix c' @ bytes_of_string d' \<longleftrightarrow> c = c' \<and> d = d'))"
  using denom_key_not_creator [of d k] creator_key_eq_iff [of c c' d d'] by simp

lemma store_keys_do_not_collide_witness:
  "GetCreatorPrefix alice @ bytes_of_string gold \<noteq> GetCreatorPrefix bob @ bytes_of_string gold"
  using store_keys_do_not_collide [of gold gold "[]" alice "[]" bob] by (simp add: denom_names)

section \<open>Genesis\<close>

text \<open>C22: Genesis validation accepts a state if and only if its fee is a valid set of coins, no denom occurs twice, every
  denom is a token denom, and every admin is an address or empty.\<close>

theorem genesis_validate_iff:
  "GenesisState_Validate E gs = Inr () \<longleftrightarrow>
    Coins_Validate E (DenomCreationFee (gs_Params gs)) = Inr () \<and>
    distinct (map gd_Denom (FactoryDenoms gs)) \<and>
    (\<forall>d \<in> set (FactoryDenoms gs).
       (\<exists>p. DeconstructDenom E (gd_Denom d) = Inr p) \<and>
       (Admin (gd_AuthorityMetadata d) = '''' \<or>
        (\<exists>a. AccAddressFromBech32 E (Admin (gd_AuthorityMetadata d)) = Inr a)))"
  unfolding GenesisState_Validate_eq_Inr denom_ok_def admin_ok_def ..

lemma genesis_validate_iff_witness: "distinct (map gd_Denom (FactoryDenoms sample_genesis))"
  using genesis_validate_iff [of chain_sdk sample_genesis] sample_valid by simp



text \<open>C24: In a reachable state \<open>ExportGenesis\<close> lists every registered denom once, with its admin, and changes nothing; if
  the parameters are valid, the exported state is valid, and importing it into an empty store
  gives the same registry of admins.\<close>

theorem genesis_roundtrip:
  assumes "sdk_laws E" and "reachable E c" and "GetParams E c = (Inr p, c)"
  shows "\<exists>gs. ExportGenesis E c = (Inr gs, c) \<and> gs_Params gs = p \<and>
    distinct (map gd_Denom (FactoryDenoms gs)) \<and> set (map gd_Denom (FactoryDenoms gs)) = dom (admins E (store c)) \<and>
    (Params_Validate E p = Inr () \<longrightarrow> GenesisState_Validate E gs = Inr ()) \<and>
    (\<forall>c0 c'. (\<forall>p k. store_Get E (store c0) p k = None) \<longrightarrow> InitGenesis E gs c0 = (Inr (), c') \<longrightarrow>
       admins E (store c') = admins E (store c))"
proof -
  note l = sdk_lawsD [OF assms(1)]
  have inv: "Inv E c" by (rule reachable_Inv [OF assms(1,2)])
  let ?gs = "\<lparr>gs_Params = p, FactoryDenoms = map (export_denom E c) (exported_denoms E c)\<rparr>"
  have denoms: "map gd_Denom (FactoryDenoms ?gs) = exported_denoms E c"
    by (simp add: export_denom_def comp_def)
  note exact = exported_denoms_exact [OF l(1,2) inv]
  have "ExportGenesis E c = (Inr ?gs, c)"
    using assms(3) by (simp add: ExportGenesis_eq_Inr [OF l(2) InvD(1) [OF inv]])
  moreover have "GenesisState_Validate E ?gs = Inr ()" if "Params_Validate E p = Inr ()"
  proof -
    have "denom_ok E d \<and> admin_ok E (admin_or_none (admins E (store c) d))" if "d \<in> set (exported_denoms E c)" for d
      using that exact(2) Inv_denom_ok [OF l(2) inv] Inv_admin_ok [OF l(2) inv] by (auto simp: admin_or_none_def)
    then show ?thesis
      using that exact(1) by (simp add: GenesisState_Validate_eq_Inr Params_Validate_eq_Inr export_denom_def comp_def)
  qed
  moreover have "\<forall>c0 c'. (\<forall>p k. store_Get E (store c0) p k = None) \<longrightarrow> InitGenesis E ?gs c0 = (Inr (), c') \<longrightarrow>
      admins E (store c') = admins E (store c)"
  proof (intro allI impI)
    fix c0 c'
    assume "\<forall>p k. store_Get E (store c0) p k = None" and "InitGenesis E ?gs c0 = (Inr (), c')"
    then show "admins E (store c') = admins E (store c)"
      using InitGenesis_canonical(2) [OF l, of c0 ?gs c'] exported_map [OF l(1,2) inv] by simp
  qed
  ultimately show ?thesis
    using exact denoms by (intro exI [of _ ?gs]) simp
qed

lemma genesis_roundtrip_witness:
  "\<exists>gs. ExportGenesis chain_sdk sample_ctx = (Inr gs, sample_ctx) \<and> set (map gd_Denom (FactoryDenoms gs)) = {silver, void} \<and>
    GenesisState_Validate chain_sdk gs = Inr ()"
proof -
  obtain c' p where "InitGenesis chain_sdk sample_genesis empty_ctx = (Inr (), c')" and p: "GetParams chain_sdk c' = (Inr p, c')"
    and same: "same_params (gs_Params sample_genesis) p"
  proof (rule InitGenesis_valid [OF chain_coins_laws chain_bech32_laws chain_param_laws sample_valid])
    show "GetModuleAccount chain_sdk ModuleName (world empty_ctx) = (Inr (), world empty_ctx)" by (simp add: chain_ops)
  qed
  with sample_init have p: "GetParams chain_sdk sample_ctx = (Inr p, sample_ctx)" by simp
  have "Coins_Validate chain_sdk (DenomCreationFee p) = Coins_Validate chain_sdk (DenomCreationFee (gs_Params sample_genesis))"
    using same chain_coins_laws unfolding same_params_def coins_laws_def by blast
  then have "Params_Validate chain_sdk p = Inr ()"
    using sample_valid by (simp add: Params_Validate_eq_Inr GenesisState_Validate_eq_Inr)
  with genesis_roundtrip [OF chain_sdk_laws sample_reachable p] show ?thesis
    by (auto simp: sample_admins dom_def split: if_splits)
qed






section \<open>Queries\<close>

text \<open>C27: The query \<open>DenomsFromCreator\<close> returns, in ascending byte order and without duplicates, the denoms listed under the creator,
  and in a reachable state these are registered denoms created by that address. It changes nothing.\<close>

theorem denoms_from_creator_exact:
  assumes "sdk_laws E" and "reachable E c" and "CHR ''|'' \<notin> set (qdfc_Creator req)"
  shows "\<exists>ds. Query_DenomsFromCreator E req c = (Inr \<lparr>Denoms = ds\<rparr>, c) \<and> distinct ds \<and>
    sorted (map bytes_of_string ds) \<and> (\<forall>d. d \<in> set ds \<longleftrightarrow> listed E (store c) (qdfc_Creator req) d) \<and>
    (\<forall>d \<in> set ds. created_by E (qdfc_Creator req) d \<and> admins E (store c) d \<noteq> None)"
proof -
  note l = sdk_lawsD [OF assms(1)]
  let ?ds = "getDenomsFromCreator E (qdfc_Creator req) c"
  have "map bytes_of_string ?ds = map fst (store_Iterator E (store c) (GetCreatorPrefix (qdfc_Creator req)))"
    by (simp add: getDenomsFromCreator_def KVStore_Iterator_def Keeper_GetCreatorPrefixStore_def comp_def case_prod_unfold)
  then have "sorted (map bytes_of_string ?ds) \<and> distinct (map bytes_of_string ?ds)"
    using store_Iterator_sorted [OF l(1)] by metis
  moreover have "\<forall>d \<in> set ?ds. created_by E (qdfc_Creator req) d \<and> admins E (store c) d \<noteq> None"
    using listed_entry [OF l(1,2) InvD(2) [OF reachable_Inv [OF assms(1,2)]] _ assms(3)]
    by (simp add: set_getDenomsFromCreator [OF l(1)])
  moreover have "Query_DenomsFromCreator E req c = (Inr \<lparr>Denoms = ?ds\<rparr>, c)"
    by (simp add: Query_DenomsFromCreator_def bindM_basic action_simps)
  ultimately show ?thesis
    using set_getDenomsFromCreator [OF l(1)] by (auto simp: distinct_map)
qed

lemma denoms_from_creator_exact_witness:
  "\<exists>ds. Query_DenomsFromCreator chain_sdk \<lparr>qdfc_Creator = alice\<rparr> gold_ctx = (Inr \<lparr>Denoms = ds\<rparr>, gold_ctx) \<and> distinct ds"
  using denoms_from_creator_exact [OF chain_sdk_laws gold_reachable, of "\<lparr>qdfc_Creator = alice\<rparr>"]
  by (auto simp: denom_names)

text \<open>C28: The query \<open>DenomAuthorityMetadata\<close> answers for every denom in a reachable state: the admin of a registered denom, and the
  empty metadata, without an error, for any other. A query of the marshalled request gets the marshalled answer.\<close>

theorem authority_metadata_query:
  assumes "sdk_laws E" and "reachable E c"
  shows "let r = \<lparr>qdam_AuthorityMetadata = \<lparr>Admin = (case admins E (store c) (qdam_Denom req) of None \<Rightarrow> '''' | Some a \<Rightarrow> a)\<rparr>\<rparr>
    in Query_DenomAuthorityMetadata E req c = (Inr r, c) \<and>
      (\<forall>bz. QueryDenomAuthorityMetadataRequest_Marshal req = Inr bz \<longrightarrow> length bz < 2 ^ 63 \<longrightarrow>
        (\<exists>out. abci_query E CC ''/tokenfactory.v1beta1.Query/DenomAuthorityMetadata'' bz c = (Inr out, c) \<and>
           QueryDenomAuthorityMetadataResponse_Marshal r = Inr out))"
proof -
  have run: "GetAuthorityMetadata E (qdam_Denom req) c =
      (Inr \<lparr>Admin = (case admins E (store c) (qdam_Denom req) of None \<Rightarrow> '''' | Some a \<Rightarrow> a)\<rparr>, c)"
    using GetAuthorityMetadata_run [OF sdk_lawsD(2) [OF assms(1)] reachable_wf [OF assms]]
    by (simp add: admin_or_none_def)
  show ?thesis
    using abci_query_metadata [OF _ run] run
    by (auto simp: Query_DenomAuthorityMetadata_def bindM_def action_simps Let_def QueryDenomAuthorityMetadataRequest_Marshal_def
        QueryDenomAuthorityMetadataResponse_Marshal_def QueryDenomAuthorityMetadataRequest_codec.marshal_eq
        QueryDenomAuthorityMetadataResponse_codec.marshal_eq)
qed

lemma authority_metadata_query_witness:
  "Query_DenomAuthorityMetadata chain_sdk \<lparr>qdam_Denom = silver\<rparr> sample_ctx =
    (Inr \<lparr>qdam_AuthorityMetadata = \<lparr>Admin = bob\<rparr>\<rparr>, sample_ctx)"
  using authority_metadata_query [OF chain_sdk_laws sample_reachable, of "\<lparr>qdam_Denom = silver\<rparr>" coin_codec]
  by (simp add: sample_admins denom_names Let_def)

section \<open>The wire format\<close>

text \<open>\<open>encodeVarint\<close> into a buffer with room writes, without a panic and without touching any other byte, exactly
  \<open>sov\<close> bytes, between one and ten, in front of the offset; the varint loop of the decoders reads the value
  back and stops at the offset.\<close>

lemma varint_roundtrip:
  assumes "sov v \<le> i" and "i \<le> length d"
  shows "\<exists>d'. encodeVarint d (int i) v = Inr (d', int (i - sov v)) \<and> length d' = length d \<and>
    take (i - sov v) d' = take (i - sov v) d \<and> drop i d' = drop i d \<and>
    read_u64 d' (i - sov v) = Inr (v, i) \<and> 1 \<le> sov v \<and> sov v \<le> 10"
proof -
  let ?d = "take (i - sov v) d @ varint v @ drop i d"
  have w: "encodeVarint d (int i) v = Inr (?d, int (i - sov v))"
    using writesD [OF writes_put_varint, of v i d] assms by (simp add: put_varint_at_def length_varint)
  have "drop (i - sov v) ?d = varint v @ drop i d" using assms by simp
  then have "read_u64 ?d (i - sov v) = Inr (v, i)"
    using read_u64_varint [of "i - sov v" ?d v] assms(1) by (simp add: length_varint)
  moreover have "length ?d = length d" and "drop i ?d = drop i d"
    using assms by (simp_all add: length_varint)
  ultimately show ?thesis using w sov_le_10 [of v] sov_pos [of v] assms by (intro exI [of _ ?d]) simp
qed

lemma varint_roundtrip_witness: "\<exists>d'. encodeVarint [0, 0, 9] 2 300 = Inr (d', 0) \<and> read_u64 d' 0 = Inr (300, 2)"
proof -
  have "sov 300 = 2" by code_simp
  then show ?thesis using varint_roundtrip [of 300 2 "[0, 0, 9]"] by auto
qed



text \<open>What the module stores and exports survives the wire: authority metadata exactly, and a genesis state and
  parameters up to the one distinction the format does not make, between a nil and an empty fee.\<close>

lemma state_messages_roundtrip:
  assumes "codec_ok CC cenc"
  shows "(length (DenomAuthorityMetadata_bytes m1) < 2 ^ 63 \<longrightarrow>
       andThen (DenomAuthorityMetadata_Marshal m1) (DenomAuthorityMetadata_Unmarshal DenomAuthorityMetadata_zero) = Inr m1) \<and>
    (length (Params_bytes cenc m2) < 2 ^ 63 \<longrightarrow>
       andThen (Params_Marshal CC m2) (Params_Unmarshal CC Params_zero) = Inr (Params_norm m2)) \<and>
    (length (GenesisState_bytes cenc m3) < 2 ^ 63 \<longrightarrow>
       andThen (GenesisState_Marshal CC m3) (GenesisState_Unmarshal CC GenesisState_zero) = Inr (GenesisState_norm m3)) \<and>
    FactoryDenoms (GenesisState_norm m3) = FactoryDenoms m3 \<and>
    coins_list (DenomCreationFee (gs_Params (GenesisState_norm m3))) = coins_list (DenomCreationFee (gs_Params m3)) \<and>
    DenomCreationGasConsume (gs_Params (GenesisState_norm m3)) = DenomCreationGasConsume (gs_Params m3)"
  using DenomAuthorityMetadata_codec.roundtrip [of m1] proto_message.roundtrip [OF Params_codec [OF assms], of m2]
    proto_message.roundtrip [OF GenesisState_codec [OF assms], of m3]
  by (simp add: DenomAuthorityMetadata_Marshal_def Params_Marshal_def GenesisState_Marshal_def
      GenesisState_norm_def Params_norm_def)

lemma state_messages_roundtrip_witness:
  "andThen (GenesisState_Marshal coin_codec sample_genesis) (GenesisState_Unmarshal coin_codec GenesisState_zero)
    = Inr sample_genesis"
proof -
  have "length (GenesisState_bytes coin_bytes sample_genesis) < 200" by code_simp
  moreover have "GenesisState_norm sample_genesis = sample_genesis"
    by (simp add: GenesisState_norm_def Params_norm_def sample_genesis_def sample_params_def NewParams_def)
  ultimately show ?thesis
    using state_messages_roundtrip [OF coin_codec_ok, of _ _ sample_genesis] by simp
qed

text \<open>\<open>Size\<close> is exact: \<open>Marshal\<close> returns as many bytes as \<open>Size\<close> says, without a panic, for messages with
  nested messages, repeated fields and omitted empty fields alike.\<close>

lemma sizes_are_exact:
  assumes "codec_ok CC cenc"
  shows "(\<exists>bs. MsgForceTransfer_Marshal CC m1 = Inr bs \<and> length bs = MsgForceTransfer_Size CC m1) \<and>
    (\<exists>bs. MsgChangeAdmin_Marshal m2 = Inr bs \<and> length bs = MsgChangeAdmin_Size m2) \<and>
    (\<exists>bs. DenomAuthorityMetadata_Marshal m3 = Inr bs \<and> length bs = DenomAuthorityMetadata_Size m3) \<and>
    (\<exists>bs. GenesisState_Marshal CC m4 = Inr bs \<and> length bs = GenesisState_Size CC m4) \<and>
    (\<exists>bs. QueryDenomsFromCreatorResponse_Marshal m5 = Inr bs \<and> length bs = QueryDenomsFromCreatorResponse_Size m5)"
  using proto_message.marshal_eq [OF MsgForceTransfer_codec [OF assms]] proto_message.sz_enc [OF MsgForceTransfer_codec [OF assms]]
    MsgChangeAdmin_codec.marshal_eq MsgChangeAdmin_codec.sz_enc
    DenomAuthorityMetadata_codec.marshal_eq DenomAuthorityMetadata_codec.sz_enc
    proto_message.marshal_eq [OF GenesisState_codec [OF assms]] proto_message.sz_enc [OF GenesisState_codec [OF assms]]
    QueryDenomsFromCreatorResponse_codec.marshal_eq QueryDenomsFromCreatorResponse_codec.sz_enc
  by (simp add: MsgForceTransfer_Marshal_def MsgChangeAdmin_Marshal_def DenomAuthorityMetadata_Marshal_def
      GenesisState_Marshal_def QueryDenomsFromCreatorResponse_Marshal_def)

lemma sizes_are_exact_witness:
  "\<exists>bs. GenesisState_Marshal coin_codec sample_genesis = Inr bs \<and> length bs = GenesisState_Size coin_codec sample_genesis"
  using sizes_are_exact [OF coin_codec_ok] by blast



text \<open>A decoder skips a length-delimited field it does not know: authority metadata followed by such a field, which a
  later version may write, decodes to the same metadata.\<close>

lemma unknown_field_is_skipped:
  assumes "length (DenomAuthorityMetadata_bytes m @ delimited 0x12 bs) < 2 ^ 63"
  shows "DenomAuthorityMetadata_Unmarshal DenomAuthorityMetadata_zero (DenomAuthorityMetadata_bytes m @ delimited 0x12 bs) = Inr m"
proof -
  have tag: "unat (ucast (0x12 :: byte) AND 7 :: u64) = 2" "field_number (ucast (0x12 :: byte)) = 2"
    by code_simp+
  have "reads DenomAuthorityMetadata_field (delimited 0x12 bs) m m"
    using tag by (intro reads_unknown) (simp_all add: DenomAuthorityMetadata_field_def)
  moreover have "reads DenomAuthorityMetadata_field (DenomAuthorityMetadata_bytes m) DenomAuthorityMetadata_zero m"
    using reads_string_field [OF DenomAuthorityMetadata_routes, of "Admin m" DenomAuthorityMetadata_zero]
    by (cases m) (simp add: DenomAuthorityMetadata_bytes_def DenomAuthorityMetadata_zero_def)
  ultimately show ?thesis
    unfolding DenomAuthorityMetadata_Unmarshal_def by (intro unmarshalWith_reads [OF _ assms] reads_append)
qed

lemma unknown_field_is_skipped_witness:
  "DenomAuthorityMetadata_Unmarshal DenomAuthorityMetadata_zero
    (DenomAuthorityMetadata_bytes \<lparr>Admin = alice\<rparr> @ delimited 0x12 [1, 2, 3]) = Inr \<lparr>Admin = alice\<rparr>"
proof -
  have "length (DenomAuthorityMetadata_bytes \<lparr>Admin = alice\<rparr> @ delimited 0x12 [1, 2, 3]) < 100" by code_simp
  then show ?thesis by (intro unknown_field_is_skipped) simp
qed

text \<open>A length-delimited value that a decoder accepts lies within the input, whatever length the input claims, and the
  decoder moves forward.\<close>

lemma slices_are_within_the_input:
  assumes "read_slice d i = Inr (s, post)" and "length d < 2 ^ 63"
  shows "i < post \<and> post \<le> length d \<and> length s \<le> length d"
  using read_slice_bounds [OF assms] by blast

lemma slices_are_within_the_input_witness: "(3 :: nat) \<le> length [1, 0x2a, 0x00 :: byte]"
proof -
  have "read_slice [2, 0x2a, 0x00] 0 = Inr ([0x2a, 0x00], 3)" by code_simp
  from slices_are_within_the_input [OF this] show ?thesis by simp
qed

section \<open>Validation before delivery\<close>

text \<open>C31: No transaction renounces a denom: in a reachable state, a denom whose admin is not empty has an admin that is not empty
  after any transaction, because \<open>ChangeAdmin\<close> is validated to name an address. (Only the keeper and genesis can set an
  empty admin.)\<close>

theorem no_transaction_renounces:
  assumes "sdk_laws E" and "reachable E c" and "deliver_tx E ms c = (r, c')"
    and "admins E (store c) d = Some a" and "a \<noteq> ''''"
  shows "\<exists>a'. admins E (store c') d = Some a' \<and> a' \<noteq> ''''"
proof (cases r)
  case (Inl e)
  then show ?thesis using assms(3-5) deliver_tx_eq_Inl by fastforce
next
  case (Inr u)
  then have ok: "deliver_tx E ms c = (Inr (), c')" using assms(3) by simp
  then have "validate_msgs E ms = Inr ()" by (simp add: deliver_tx_eq_Inr)
  then show ?thesis
    by (rule spec_msgs_never_renounce [OF sdk_lawsD(2) [OF assms(1)] _
      deliver_tx_admins [OF assms(1) reachable_Inv [OF assms(1,2)] ok] assms(4,5)])
qed

lemma no_transaction_renounces_witness:
  "admins chain_sdk (store give_ctx) silver \<noteq> Some ''''"
proof -
  have "admins chain_sdk (store sample_ctx) silver = Some bob" by (simp add: sample_admins denom_names)
  from no_transaction_renounces [OF chain_sdk_laws sample_reachable silver_given this names_not_empty(2)]
  show ?thesis by auto
qed

text \<open>Charging for a creation, on every branch: unreadable parameters panic; a nil fee charges nothing; otherwise the creator's
  address pays the whole fee to the community pool before any gas is consumed, and an undecodable address or a failing
  payment ends the charge with its error; gas is consumed only if the parameter is not zero.\<close>

lemma creation_charge_cases:
  assumes "GetParams E c = (Inr p, c)"
  shows "chargeForCreateDenom E creator c =
    (let gas = (\<lambda>c1. if DenomCreationGasConsume p = 0 then (Inr (), c1)
        else case ConsumeGas E (DenomCreationGasConsume p) ''consume denom creation gas'' (world c1) of
          (x, w) \<Rightarrow> (x, c1\<lparr>world := w\<rparr>))
     in case DenomCreationFee p of
       None \<Rightarrow> gas c
     | Some fee \<Rightarrow> (case AccAddressFromBech32 E creator of
         Inl e \<Rightarrow> (Inl e, c)
       | Inr addr \<Rightarrow> (case FundCommunityPool E (Some fee) addr (world c) of
           (Inl e, w) \<Rightarrow> (Inl e, c\<lparr>world := w\<rparr>)
         | (Inr _, w) \<Rightarrow> gas (c\<lparr>world := w\<rparr>))))"
  using assms
  by (cases "DenomCreationFee p")
    (auto simp: chargeForCreateDenom_def bindM_def action_simps worldM_def Let_def split: sum.splits prod.splits)

lemma creation_charge_cases_witness:
  "chargeForCreateDenom chain_sdk bob (params_ctx\<lparr>world := (world params_ctx)\<lparr>params_store :=
     [KeyDenomCreationFee \<mapsto> PCoins None, KeyDenomCreationGasConsume \<mapsto> PUint64 0]\<rparr>\<rparr>) =
   (Inr (), params_ctx\<lparr>world := (world params_ctx)\<lparr>params_store :=
     [KeyDenomCreationFee \<mapsto> PCoins None, KeyDenomCreationGasConsume \<mapsto> PUint64 0]\<rparr>\<rparr>)"
    (is "chargeForCreateDenom chain_sdk bob ?c = _")
proof -
  have "KeyDenomCreationGasConsume \<noteq> KeyDenomCreationFee"
    by (simp add: KeyDenomCreationFee_def KeyDenomCreationGasConsume_def)
  then have "GetParams chain_sdk ?c = (Inr \<lparr>DenomCreationFee = None, DenomCreationGasConsume = 0\<rparr>, ?c)"
    by (simp add: GetParams_def param_keys chain_ops run_simps)
  from creation_charge_cases [OF this, of bob] show ?thesis by simp
qed

section \<open>Simulation\<close>

text \<open>C32: In a reachable state, the messages that the simulator's operations hand over for delivery act on a registered denom, in the
  name of the address its admin decodes to: a mint of between 1 and a billion, a burn of between 1 and
  the admin's whole balance, and a change to an admin of another address text. The account that signs is one that created
  the denom, whoever its admin is by now.\<close>

theorem simulated_messages_are_in_range:
  assumes "sdk_laws E" and "rand_laws R" and "reachable E c"
  shows "(\<forall>m acc r'. SimulateMsgMintDenom E R c accs r = (Inr (GenAndDeliverTx m acc), r') \<longrightarrow>
      (\<exists>addr. picked E c (coin_Denom (mint_Amount m)) addr \<and> mint_Sender m = AccAddress_String E addr \<and>
         1 \<le> coin_Amount (mint_Amount m) \<and> coin_Amount (mint_Amount m) \<le> 1000000000) \<and>
      coin_Denom (mint_Amount m) \<in> set (getDenomsFromCreator E (AccAddress_String E (acc_Address acc)) c)) \<and>
    (\<forall>m acc r'. SimulateMsgBurnDenom E R c accs r = (Inr (GenAndDeliverTx m acc), r') \<longrightarrow>
      (\<exists>addr. picked E c (coin_Denom (burn_Amount m)) addr \<and> burn_Sender m = AccAddress_String E addr \<and>
         1 \<le> coin_Amount (burn_Amount m) \<and>
         coin_Amount (burn_Amount m) \<le> bal E (world c) addr (coin_Denom (burn_Amount m))) \<and>
      coin_Denom (burn_Amount m) \<in> set (getDenomsFromCreator E (AccAddress_String E (acc_Address acc)) c)) \<and>
    (\<forall>m acc r'. SimulateMsgChangeAdmin E R c accs r = (Inr (GenAndDeliverTx m acc), r') \<longrightarrow>
      (\<exists>addr. picked E c (ca_Denom m) addr \<and> ca_Sender m = AccAddress_String E addr \<and> NewAdmin m \<noteq> ca_Sender m) \<and>
      ca_Denom m \<in> set (getDenomsFromCreator E (AccAddress_String E (acc_Address acc)) c))"
proof -
  have inv: "Inv E c" by (rule reachable_Inv [OF assms(1,3)])
  show ?thesis
    by (intro conjI allI impI)
      (drule SimulateMsgMintDenom_deliver [OF assms(1,2) inv] SimulateMsgBurnDenom_deliver [OF assms(1,2) inv]
        SimulateMsgChangeAdmin_deliver [OF assms(1) inv], blast)+
qed

lemma simulated_messages_are_in_range_witness: "\<exists>addr. picked chain_sdk sample_ctx silver addr"
  using simulated_messages_are_in_range [OF chain_sdk_laws sample_rand_laws sample_reachable] sample_sim_mint
  by (fastforce simp: NewMsgMint_def)

text \<open>The simulator's weight of burning is not read under its own key: if a weight of minting is configured, burning has
  weight 0 whatever is configured for it, and otherwise it has the default weight.\<close>

lemma burn_weight_ignores_its_key:
  "(0, OpBurnDenom) \<in> set (WeightedOperations p dflt) \<or> (dflt, OpBurnDenom) \<in> set (WeightedOperations p dflt) \<and>
    p OpWeightMsgMintDenom = None"
  by (simp add: WeightedOperations_def GetOrGenerate_def Let_def split: option.split)

section \<open>Commands\<close>



section \<open>The module\<close>

text \<open>The default genesis is valid, and after \<open>InitGenesis\<close> of it no denom is registered.\<close>

lemma default_genesis_is_valid:
  assumes "sdk_laws E"
  shows "\<exists>gs. DefaultGenesis E = Inr gs \<and> GenesisState_Validate E gs = Inr () \<and>
    (\<forall>c c'. (\<forall>p k. store_Get E (store c) p k = None) \<longrightarrow> InitGenesis E gs c = (Inr (), c') \<longrightarrow>
       admins E (store c') = Map.empty)"
proof -
  note l = sdk_lawsD [OF assms]
  obtain gs where gs: "DefaultGenesis E = Inr gs" "FactoryDenoms gs = []" "GenesisState_Validate E gs = Inr ()"
    using DefaultGenesis_valid [OF l(4)] by blast
  have "admins E (store c') = Map.empty"
    if "\<forall>p k. store_Get E (store c) p k = None" and "InitGenesis E gs c = (Inr (), c')" for c c'
    using InitGenesis_canonical(2) [OF l, of c gs c'] that gs(2) by simp
  with gs show ?thesis by blast
qed

lemma default_genesis_is_valid_witness:
  "\<exists>gs. DefaultGenesis chain_sdk = Inr gs \<and> GenesisState_Validate chain_sdk gs = Inr ()"
  using default_genesis_is_valid [OF chain_sdk_laws] by blast

section \<open>Services\<close>

text \<open>C34: Transactions from bytes: every list of messages can be packed into type URLs and bytes; unpacking them through the registry, checking
  them and routing them to the handlers of the service is the transaction of the messages.\<close>

theorem transactions_from_bytes:
  assumes "codec_ok CC cenc" and "codec_ok MC menc" and "\<forall>m \<in> set ms. length (Msg_bytes cenc menc m) < 2 ^ 63"
  shows "\<exists>anys. map (pack_any CC MC) ms = map Inr anys \<and> (\<forall>c. deliver_bytes E CC MC anys c = deliver_tx E ms c)"
  using unpack_all_packed [OF assms] by (auto simp: deliver_bytes_eq)

lemma transactions_from_bytes_witness:
  "\<exists>a. pack_any coin_codec meta_codec (CreateDenomMsg create_gold) = Inr a \<and>
    deliver_bytes chain_sdk coin_codec meta_codec [a] sample_ctx = (Inr (), gold_ctx)"
proof -
  have "length (MsgCreateDenom_bytes create_gold) < 100" by code_simp
  then have "\<forall>m \<in> set [CreateDenomMsg create_gold]. length (Msg_bytes coin_bytes meta_bytes m) < 2 ^ 63" by simp
  from transactions_from_bytes [OF coin_codec_ok meta_codec_ok this, of chain_sdk] gold_created show ?thesis by auto
qed

text \<open>C35: Every message of a transaction from bytes that is accepted has the type its URL names, and exactly one signer, the
  address that its sender decodes to.\<close>

theorem delivered_messages_are_typed_and_signed:
  assumes "deliver_bytes E CC MC anys c = (Inr (), c')"
  shows "\<exists>ms. unpack_all CC MC anys = Inr ms \<and> list_all2 (\<lambda>a m. fst a = type_url (Msg_type m)) anys ms \<and>
    list_all (\<lambda>m. \<exists>a. AccAddressFromBech32 E (msg_sender m) = Inr a \<and> Msg_GetSigners E m = [a]) ms"
proof -
  obtain ms where ms: "unpack_all CC MC anys = Inr ms" and "validate_msgs E ms = Inr ()"
    using deliver_bytes_messages [OF assms] .
  then have "list_all (\<lambda>m. \<exists>a. AccAddressFromBech32 E (msg_sender m) = Inr a \<and> Msg_GetSigners E m = [a]) ms"
    unfolding validate_msgs_eq_Inr list_all_iff using validated_signer by blast
  with ms unpack_all_types [OF ms] show ?thesis by blast
qed

lemma delivered_messages_are_typed_and_signed_witness:
  "\<exists>a. pack_any coin_codec meta_codec (CreateDenomMsg create_gold) = Inr a \<and>
     fst a = ''/tokenfactory.v1beta1.MsgCreateDenom''"
proof -
  have "length (MsgCreateDenom_bytes create_gold) < 100" by code_simp
  then have "\<forall>m \<in> set [CreateDenomMsg create_gold]. length (Msg_bytes coin_bytes meta_bytes m) < 2 ^ 63" by simp
  from unpack_all_packed [OF coin_codec_ok meta_codec_ok this] obtain a where
    a: "pack_any coin_codec meta_codec (CreateDenomMsg create_gold) = Inr a"
    and u: "unpack_all coin_codec meta_codec [a] = Inr [CreateDenomMsg create_gold]" by auto
  then have "deliver_bytes chain_sdk coin_codec meta_codec [a] sample_ctx = (Inr (), gold_ctx)"
    using gold_created by (simp only: deliver_bytes_eq u sum.case)
  from delivered_messages_are_typed_and_signed [OF this] u
  have "fst a = type_url TMsgCreateDenom" by auto
  with a show ?thesis by (simp add: type_url_def message_types_def)
qed

text \<open>C36: The REST route of the authority metadata cannot name a token factory denom: its variable is one path segment, and every
  registered denom contains slashes. In a reachable state, the handler answers every request that matches the route with an error or with
  the empty metadata, whatever the path.\<close>

theorem rest_route_finds_no_denom:
  assumes "sdk_laws E" and "gateway_laws G" and "reachable E c"
    and "mux_match G pattern_Query_DenomAuthorityMetadata_0 path = Some params"
  shows "\<exists>res. local_request_Query_DenomAuthorityMetadata_0 G (Query_DenomAuthorityMetadata E) params c = (res, c) \<and>
    (\<forall>r. res = Inr r \<longrightarrow> Admin (qdam_AuthorityMetadata r) = '''') \<and>
    (\<forall>d. params ''denom'' = Some d \<longrightarrow> admins E (store c) d = None)"
proof -
  have none: "admins E (store c) d = None" if d: "params ''denom'' = Some d" for d
  proof (cases "admins E (store c) d")
    case (Some a)
    have "CHR ''/'' \<in> set d"
      by (rule denom_has_slash) (rule Inv_denom_ok [OF sdk_lawsD(2) [OF assms(1)] reachable_Inv [OF assms(1,3)] Some])
    with captured_value [OF assms(2,4) d] show ?thesis by blast
  qed
  then show ?thesis
    using GetAuthorityMetadata_run [OF sdk_lawsD(2) [OF assms(1)] reachable_wf [OF assms(1,3)]]
    by (cases "params ''denom''")
      (simp_all add: local_request_Query_DenomAuthorityMetadata_0_def path_param_eq [OF assms(2)]
        Query_DenomAuthorityMetadata_def QueryDenomAuthorityMetadataRequest_zero_def bindM_def action_simps admin_or_none_def)
qed

lemma rest_route_finds_no_denom_witness: "admins chain_sdk (store sample_ctx) ''silver'' = None"
  using rest_route_finds_no_denom [OF chain_sdk_laws sample_gateway_laws sample_reachable sample_match(1)]
  by (elim exE conjE) simp

section \<open>Clients\<close>

text \<open>C37: A gRPC client is as good as its server: over a connection to a server on which both services are registered, whatever implements
  them, each method of the two clients returns what the server's method returns and leaves the state that it leaves. An
  error arrives as its status, and the fee in an answer about parameters up to nil and empty.\<close>

theorem clients_call_their_servers:
  assumes "grpc_laws G" and "codec_ok CC cenc" and "codec_ok MC menc"
  shows "let node = token_factory_server G CC MC s srv q; tx = NewMsgClient G CC MC node; query = NewQueryClient G CC node;
      status = status_error G
    in (length (MsgCreateDenom_bytes m1) < 2 ^ 63 \<longrightarrow> fits MsgCreateDenomResponse_bytes (srv_CreateDenom srv m1 c) \<longrightarrow>
        srv_CreateDenom tx m1 c = on_wire status id (srv_CreateDenom srv m1 c)) \<and>
      (length (MsgMint_bytes cenc m2) < 2 ^ 63 \<longrightarrow> srv_Mint tx m2 c = on_wire status id (srv_Mint srv m2 c)) \<and>
      (length (MsgBurn_bytes cenc m3) < 2 ^ 63 \<longrightarrow> srv_Burn tx m3 c = on_wire status id (srv_Burn srv m3 c)) \<and>
      (length (MsgChangeAdmin_bytes m4) < 2 ^ 63 \<longrightarrow>
        srv_ChangeAdmin tx m4 c = on_wire status id (srv_ChangeAdmin srv m4 c)) \<and>
      (length (MsgSetDenomMetadata_bytes menc m5) < 2 ^ 63 \<longrightarrow>
        srv_SetDenomMetadata tx m5 c = on_wire status id (srv_SetDenomMetadata srv m5 c)) \<and>
      (length (MsgForceTransfer_bytes cenc m6) < 2 ^ 63 \<longrightarrow>
        srv_ForceTransfer tx m6 c = on_wire status id (srv_ForceTransfer srv m6 c)) \<and>
      (fits (QueryParamsResponse_bytes cenc) (srv_Params q r1 c) \<longrightarrow>
        srv_Params query r1 c = on_wire status QueryParamsResponse_norm (srv_Params q r1 c)) \<and>
      (length (QueryDenomAuthorityMetadataRequest_bytes r2) < 2 ^ 63 \<longrightarrow>
        fits QueryDenomAuthorityMetadataResponse_bytes (srv_DenomAuthorityMetadata q r2 c) \<longrightarrow>
        srv_DenomAuthorityMetadata query r2 c = on_wire status id (srv_DenomAuthorityMetadata q r2 c)) \<and>
      (length (QueryDenomsFromCreatorRequest_bytes r3) < 2 ^ 63 \<longrightarrow>
        fits QueryDenomsFromCreatorResponse_bytes (srv_DenomsFromCreator q r3 c) \<longrightarrow>
        srv_DenomsFromCreator query r3 c = on_wire status id (srv_DenomsFromCreator q r3 c))"
  using msg_client_calls [OF assms] query_client_calls [OF assms(1,2)] by (simp add: Let_def)

lemma clients_call_their_servers_witness:
  "srv_Mint (NewMsgClient sample_grpc coin_codec meta_codec sample_node) (NewMsgMint alice some_silver) sample_ctx =
     (Inl (ErrSDK ''rpc error: code = Unknown''), sample_ctx)"
proof -
  let ?m = "NewMsgMint alice some_silver"
  have "length (MsgMint_bytes coin_bytes ?m) < 100" by code_simp
  then have "length (MsgMint_bytes coin_bytes ?m) < 2 ^ 63" by simp
  then have "srv_Mint (NewMsgClient sample_grpc coin_codec meta_codec sample_node) ?m sample_ctx =
      on_wire (status_error sample_grpc) id (MsgServer_Mint chain_sdk ?m sample_ctx)"
    using clients_call_their_servers [OF sample_grpc_laws coin_codec_ok meta_codec_ok, where srv = "NewMsgServerImpl chain_sdk"
        and q = "Keeper_QueryServer chain_sdk" and s = "[]" and c = sample_ctx]
    by (simp add: Let_def sample_node_def NewMsgServerImpl_def)
  moreover have "MsgServer_Mint chain_sdk ?m sample_ctx = (Inl ErrUnauthorized, sample_ctx)"
  proof -
    have "GetAuthorityMetadata chain_sdk silver sample_ctx = (Inr \<lparr>Admin = bob\<rparr>, sample_ctx)"
      using GetAuthorityMetadata_run [OF chain_bech32_laws sample_wf, of silver]
      by (simp add: sample_admins admin_or_none_def denom_names)
    moreover have "snd (GetDenomMetaData chain_sdk (world sample_ctx) silver)" by (simp add: chain_ops sample_world)
    ultimately show ?thesis
      by (simp add: MsgServer_Mint_def NewMsgMint_def some_silver_def bindM_def action_simps guardM_def GetAdmin_def denom_names)
  qed
  ultimately show ?thesis by (simp add: sample_grpc_def sample_status_def)
qed

text \<open>C38: A denom created on the command line is found on the command line: after \<open>create-denom\<close> succeeded in a reachable state, by a
  broadcast that delivers the message, \<open>denoms-from-creator\<close> for the same account, over a connection to a node
  of the chain, prints a list with \<open>factory/{account}/{subdenom}\<close> in it, and the account is the denom's admin.\<close>

theorem created_denom_is_printed:
  assumes "sdk_laws E" and "grpc_laws G" and "codec_ok CC cenc" and "reachable E c" and "delivers E broadcast"
    and "NewCreateDenomCmd_RunE E broadcast (Inr addr) [sub] c = (Inr (), c')"
    and "length (QueryDenomsFromCreatorResponse_bytes \<lparr>Denoms = getDenomsFromCreator E (AccAddress_String E addr) c'\<rparr>) < 2 ^ 63"
  shows "let account = AccAddress_String E addr; denom = ''factory/'' @ account @ CHR ''/'' # sub;
      node = token_factory_server G CC MC s srv (Keeper_QueryServer E)
    in admins E (store c') denom = Some account \<and>
      (\<exists>ds. denom \<in> set ds \<and> GetCmdDenomsFromCreator_RunE G CC PrintProto (Inr node) [account] c' = PrintProto \<lparr>Denoms = ds\<rparr> c')"
proof -
  note l = sdk_lawsD [OF assms(1)]
  let ?a = "AccAddress_String E addr" and ?m = "NewMsgCreateDenom (AccAddress_String E addr) sub"
  have "deliver_tx E [CreateDenomMsg ?m] c = (Inr (), c')"
    using assms(5,6) by (simp add: NewCreateDenomCmd_RunE_def NewCreateDenomCmd_def ExactArgs_def arg_def bindM_liftM delivers_def)
  then obtain r where v: "MsgCreateDenom_ValidateBasic E ?m = Inr ()" and run: "MsgServer_CreateDenom E ?m c = (Inr r, c')"
    by (auto simp: deliver_tx_eq_Inr andThen_eq_Inr bindM_eq_Inr ignore_eq_Inr action_simps)
  have step: "spec_msg (CreateDenomMsg ?m) (admins E (store c)) = Some (admins E (store c'))"
    using CreateDenom_step [OF assms(1) reachable_Inv [OF assms(1,4)] v run] by simp
  have "listed E (store c') ?a (''factory/'' @ ?a @ CHR ''/'' # sub)"
    using created_is_listed [OF l(1) run] by (simp add: NewMsgCreateDenom_def)
  moreover have "length ?a \<le> 1023"
    using v bech32_length [OF l(2)]
    by (auto simp: MsgCreateDenom_ValidateBasic_def NewMsgCreateDenom_def andThen_eq_Inr orErr_eq_Inr)
  then have "length (QueryDenomsFromCreatorRequest_bytes \<lparr>qdfc_Creator = ?a\<rparr>) < 2 ^ 63"
    using denoms_request_length [of "\<lparr>qdfc_Creator = ?a\<rparr>"] by simp
  then have "GetCmdDenomsFromCreator_RunE G CC PrintProto (Inr (token_factory_server G CC MC s srv (Keeper_QueryServer E))) [?a] c' =
      PrintProto \<lparr>Denoms = getDenomsFromCreator E ?a c'\<rparr> c'"
    by (rule denoms_command_prints [OF assms(2,3) _ assms(7)])
  moreover have "admins E (store c') = (admins E (store c))(''factory/'' @ ?a @ CHR ''/'' # sub \<mapsto> ?a)"
    using step by (auto simp: Let_def NewMsgCreateDenom_def split: if_splits)
  then have "admins E (store c') (''factory/'' @ ?a @ CHR ''/'' # sub) = Some ?a" by simp
  ultimately show ?thesis
    using set_getDenomsFromCreator [OF l(1)] by (simp only: Let_def) blast
qed

lemma created_denom_is_printed_witness:
  "\<exists>c ds. NewCreateDenomCmd_RunE chain_sdk (\<lambda>m. deliver_tx chain_sdk [m]) (Inr (bytes_of_string ''alice'')) [''gold''] sample_ctx = (Inr (), c) \<and>
     gold \<in> set ds \<and> GetCmdDenomsFromCreator_RunE sample_grpc coin_codec (\<lambda>res. failM (ErrText (concat (Denoms res))))
       (Inr sample_node) [alice] c = (Inl (ErrText (concat ds)), c)"
proof -
  have alice: "AccAddress_String chain_sdk (bytes_of_string ''alice'') = alice" by code_simp
  have run: "NewCreateDenomCmd_RunE chain_sdk (\<lambda>m. deliver_tx chain_sdk [m]) (Inr (bytes_of_string ''alice'')) [''gold''] sample_ctx = (Inr (), gold_ctx)"
    using gold_created
    by (simp add: NewCreateDenomCmd_RunE_def NewCreateDenomCmd_def ExactArgs_def arg_def bindM_liftM alice create_gold_def)
  have "length (QueryDenomsFromCreatorResponse_bytes \<lparr>Denoms = getDenomsFromCreator chain_sdk
      (AccAddress_String chain_sdk (bytes_of_string ''alice'')) gold_ctx\<rparr>) < 2 ^ 63"
    using gold_answer_length by (simp add: alice gold_listed)
  from created_denom_is_printed [OF chain_sdk_laws sample_grpc_laws coin_codec_ok sample_reachable _ run this,
      where MC = meta_codec and s = "[]" and srv = "NewMsgServerImpl chain_sdk" and PrintProto = "\<lambda>res. failM (ErrText (concat (Denoms res)))"]
  show ?thesis using run
    by (auto simp: delivers_def Let_def alice sample_node_def denom_names failM_def)
qed

section \<open>The example application\<close>

text \<open>C39: The command \<open>add-genesis-account\<close>, when it succeeds, keeps what a genesis file must satisfy: the supply is the sum of the
  balances, and no address has two accounts; one account is added and none is lost.\<close>

theorem genesis_account_keeps_the_supply:
  assumes "app_laws A" and "AddGenesisAccountCmd E A env fl args fs = (Inr (), fs')"
    and "file_bank A fs (env_GenesisFile env (env_HomeDir env)) = Inr g" and "supply_ok g"
    and "file_accounts A fs (env_GenesisFile env (env_HomeDir env)) = Inr accs"
    and "distinct (map account_address accs)"
  shows "\<exists>g' accs'. file_bank A fs' (env_GenesisFile env (env_HomeDir env)) = Inr g' \<and> supply_ok g' \<and>
    file_accounts A fs' (env_GenesisFile env (env_HomeDir env)) = Inr accs' \<and>
    distinct (map account_address accs') \<and> length accs' = Suc (length accs) \<and> set accs \<subseteq> set accs'"
proof -
  let ?path = "env_GenesisFile env (env_HomeDir env)"
  obtain a0 a1 addr coins acc b m doc m' r where new: "new_genesis_account E A fl addr coins = Inr (acc, b)"
    and read: "GenesisStateFromGenFile A fs ?path = Inr (m, doc)" and add: "add_to_genesis A addr acc b m = Inr m'"
    and json: "json_Marshal A m' = Inr r" and export: "ExportGenesisFile A (doc\<lparr>doc_AppState := r\<rparr>) ?path fs = (Inr (), fs')"
    using AddGenesisAccountCmd_run [OF assms(2)] by metis
  have m: "GetBankGenesisStateFromAppState A m = Inr g"
    using assms(3) read by (simp add: file_bank_def)
  obtain ag where ag: "GetAuthGenesisStateFromAppState A m = Inr ag" "UnpackAccounts A (ag_Accounts ag) = Inr accs"
    using assms(5) read by (auto simp: file_accounts_def andThen_eq_Inr)
  have "json_Marshal A m' = Inr (doc_AppState (doc\<lparr>doc_AppState := r\<rparr>))" using json by simp
  note written = exported_file [OF assms(1) export this]
  obtain accs' where fresh: "addr \<notin> account_address ` set accs"
    and accs': "file_accounts A fs' ?path = Inr accs'" "mset accs' = mset accs + {#acc#}"
    using add_to_genesis_accounts [OF assms(1) add ag] written(2) by auto
  have "mset (map account_address accs') = mset (map account_address (acc # accs))"
    using accs'(2) by simp
  then have "distinct (map account_address accs')"
    using fresh new_genesis_account_parts(1) [OF new] assms(6) by (metis distinct.simps(2) list.set_map list.simps(9) mset_eq_imp_distinct_iff)
  moreover have "length accs' = Suc (length accs)" and "set accs \<subseteq> set accs'"
    using arg_cong [OF accs'(2), of size] arg_cong [OF accs'(2), of set_mset] by auto
  moreover have "\<exists>g'. file_bank A fs' ?path = Inr g' \<and> supply_ok g'"
    using add_to_genesis_bank [OF assms(1) add m] written(1) assms(4) by (auto simp: supply_ok_def)
  ultimately show ?thesis using accs'(1) by blast
qed


lemma genesis_account_keeps_the_supply_witness:
  "\<exists>fs' g. AddGenesisAccountCmd chain_sdk sample_app sample_env no_vesting [''osmo1alice'', ''10stake''] sample_files = (Inr (), fs') \<and>
     file_bank sample_app fs' (env_GenesisFile sample_env (env_HomeDir sample_env)) = Inr g \<and> supply_ok g"
  using genesis_account_keeps_the_supply [OF sample_app_laws sample_genesis_account sample_file_bank
    sample_bank_supply sample_file_accounts] sample_genesis_account by auto

text \<open>The command \<open>add-genesis-account\<close> refuses a vesting amount as greater than the total only if the total is zero or if a
  denomination that the account holds vests more than its balance: vesting of denominations that the account does not hold is not checked.\<close>

lemma vesting_is_checked_only_where_held:
  assumes laws: "app_coins_laws A" and vesting: "ParseCoinsNormalized A (flag_VestingAmt fl) = Inr vs"
    and some: "c \<in> set (coins_list vs)" "coin_Amount c \<noteq> 0"
  shows "new_genesis_account E A fl addr coins = Inl (ErrText ''vesting amount cannot be greater than total amount'') \<longleftrightarrow>
      (\<forall>c\<in>set (coins_list coins). coin_Amount c = 0) \<or>
      (\<exists>c\<in>set (coins_list vs). amount_of coins (coin_Denom c) \<noteq> 0 \<and>
         amount_of coins (coin_Denom c) < coin_Amount c)"
proof -
  have nz: "\<not> Coins_IsZero A vs" "\<not> Coins_IsZero A (Coins_Sort A vs)"
    using some Coins_IsZero_iff [OF laws] Coins_Sort_set [OF laws] by auto
  have bal: "Coins_IsZero A (Coins_Sort A coins) \<longleftrightarrow> (\<forall>c\<in>set (coins_list coins). coin_Amount c = 0)"
    using Coins_IsZero_iff [OF laws] Coins_Sort_set [OF laws] by auto
  have gt: "Coins_IsAnyGT A (Coins_Sort A vs) (Coins_Sort A coins) \<longleftrightarrow>
      (\<exists>c\<in>set (coins_list vs). amount_of coins (coin_Denom c) \<noteq> 0 \<and> amount_of coins (coin_Denom c) < coin_Amount c)"
    by (simp add: Coins_IsAnyGT_iff [OF laws] Coins_Sort_set [OF laws] Coins_Sort_amount [OF laws])
  show ?thesis
    unfolding new_genesis_account_def vesting
    by (auto simp: nz bal gt andThen_eq_Inl Let_def dest!: new_account_error)
qed

lemma vesting_is_checked_only_where_held_witness:
  "new_genesis_account chain_sdk sample_app atom_vesting (bytes_of_string ''alice'') hundred_stake \<noteq>
     Inl (ErrText ''vesting amount cannot be greater than total amount'') \<and>
   amount_of hundred_stake ''atom'' = 0"
  using vesting_is_checked_only_where_held [OF sample_app_coins_laws atom_vesting_amount,
    of "\<lparr>coin_Denom = ''atom'', coin_Amount = 7\<rparr>" chain_sdk "bytes_of_string ''alice''" hundred_stake]
  by (simp add: hundred_stake_def amount_of_def)

text \<open>The bank genesis that \<open>SetupWithGenesisValSet\<close> builds adds the bonded amount to the supply once for every balance, but
  to the pool once: its supply is the sum of its balances exactly if it is given one balance.\<close>

lemma validator_set_genesis_supply:
  assumes "app_coins_laws A" and "coins_laws E" and "valset_bank E A params bals = Inr g"
  shows "(supply_ok g \<longleftrightarrow> length bals = 1) \<and>
    (\<forall>d. amount_of (bg_Supply g) d - balances_amount (bg_Balances g) d =
      (if d = helper_bond_denom then (int (length bals) - 1) * 1000000 else 0))"
  using valset_bank_supply [OF assms] valset_bank_amount [OF assms] by (simp add: bondAmt_def)

lemma validator_set_genesis_supply_witness:
  "\<exists>g. valset_bank chain_sdk sample_app [] [] = Inr g \<and> \<not> supply_ok g"
proof -
  have "\<exists>g. valset_bank chain_sdk sample_app [] [] = Inr g"
  proof -
    have "NewCoins chain_sdk [] = Inr (Some [])"
      using sdk_lawsD(4) [OF chain_sdk_laws] by (simp add: coins_laws_def)
    then show ?thesis by (simp add: valset_bank_def sample_app_def bondAmt_def)
  qed
  then show ?thesis
    using validator_set_genesis_supply [OF sample_app_coins_laws sdk_lawsD(4) [OF chain_sdk_laws]] by fastforce
qed



text \<open>The address of node \<open>i\<close> of a test network is the starting address with \<open>i\<close> added to its last byte, which wraps around: two
  nodes have the same address exactly if their numbers agree modulo 256.\<close>

lemma testnet_addresses_wrap:
  assumes "ip_laws N" and "ParseIP_To4 N ip = Some b"
  shows "calculateIP N ip i = Inr (IP_String N (b[3 := b ! 3 + word_of_nat i])) \<and>
    (calculateIP N ip i = calculateIP N ip j \<longleftrightarrow> i mod 256 = j mod 256)"
proof -
  have b: "length b = 4" using assms unfolding ip_laws_def by blast
  have "length (bump_last k b) = 4" for k by (simp add: bump_last_eq [OF b] b)
  then have "IP_String N (bump_last i b) = IP_String N (bump_last j b) \<longleftrightarrow> bump_last i b = bump_last j b"
    using assms(1) unfolding ip_laws_def by metis
  then show ?thesis
    using bump_last_eq_iff [OF b] by (simp add: calculateIP_def assms(2) bump_last_eq [OF b])
qed

lemma testnet_addresses_wrap_witness:
  "calculateIP sample_net ''192.168.0.254'' 3 = Inr ''192.168.0.1'' \<and>
   calculateIP sample_net ''192.168.0.254'' 3 \<noteq> calculateIP sample_net ''192.168.0.254'' 4"
proof -
  have "IP_String sample_net ([192, 168, 0, 254][3 := [192, 168, 0, 254] ! 3 + word_of_nat 3]) = ''192.168.0.1''"
    by code_simp
  then have "calculateIP sample_net ''192.168.0.254'' 3 = Inr ''192.168.0.1''"
    using testnet_addresses_wrap [OF sample_net_laws sample_ip, of 3 4] by metis
  moreover have "calculateIP sample_net ''192.168.0.254'' 3 \<noteq> calculateIP sample_net ''192.168.0.254'' 4"
    using testnet_addresses_wrap [OF sample_net_laws sample_ip, of 3 4, THEN conjunct2] by simp
  ultimately show ?thesis ..
qed

end
